(* ===== verification/Prelude.thy ===== *)
theory Prelude
  imports Main "HOL-Library.Word" "HOL-Library.List_Lexorder"
begin

text \<open>
  Shared vocabulary of the development: Python bytes and text as lists, the
  exceptions of \<^verbatim>\<open>src/decent_wallet\<close> as one datatype, computations that may
  raise as a sum type with its combinators, stateful computations that may
  raise as functions on a state, and the generic list, option and map lemmas
  that the component theories use.
\<close>

section \<open>Bytes and text\<close>

text \<open>
  A Python \<^verbatim>\<open>bytes\<close> or \<^verbatim>\<open>bytearray\<close> value is a list of 8-bit words.  A Python
  \<^verbatim>\<open>str\<close> is a list of code points; lone surrogates are legal in a \<^verbatim>\<open>str\<close> and are
  rejected only when it is encoded.  \<open>str_of\<close> reads an ASCII literal.  Both
  types are ordered lexicographically, as Python compares them.
\<close>

type_synonym byte = "8 word"
type_synonym bytes = "byte list"
type_synonym pystr = "nat list"

definition str_of :: "string \<Rightarrow> pystr" where
  "str_of s = map of_char s"

lemma str_of_inject [simp]: "str_of s = str_of t \<longleftrightarrow> s = t"
  by (simp add: str_of_def inj_map_eq_map inj_def)

lemma str_of_Nil_iff [simp]: "str_of s = [] \<longleftrightarrow> s = []"
  by (simp add: str_of_def)

lemma length_str_of [simp]: "length (str_of s) = length s"
  by (simp add: str_of_def)

definition zero_bytes :: "nat \<Rightarrow> bytes" where
  "zero_bytes n = replicate n 0"

lemma length_zero_bytes [simp]: "length (zero_bytes n) = n"
  by (simp add: zero_bytes_def)

section \<open>Exceptions\<close>

text \<open>
  One constructor per exception class that the modelled code raises or lets
  through; the constructors \<open>Py\<dots>\<close> are classes of the Python standard library,
  and the two that follow \<open>DispatchUnknown\<close> are classes of the Registry package.
  \<open>ReceiptValidationError\<close> belongs to the acceptance script, which the package does not import.
\<close>

datatype exn =
    WalletError | WalletLockedError | PasswordPolicyError | UnlockFailed
  | InvalidContainer | UnsupportedFormat | StorageFailure | StorageOutcomeUnknown
  | RotationInProgress
  | SignerError | KeyGenerationError | SignerUnavailable | InvalidSigningInput
  | InvalidIdentityState | InvalidIdentityRequest | TransportFailure
  | StalePublication | ExpiredPublication | DispatchUnknown
  | IdentityStatePreconditionFailed | IdentityPublicationExpired
  | CliInputError string | ReceiptValidationError string
  | PyTypeError | PyValueError | PyKeyError | PyAttributeError | PyOSError
  | PyFileNotFoundError | PyFileExistsError | PyUnicodeError | PyRecursionError
  | PyJSONDecodeError | PyConnectionError | PyImportError | PyException

section \<open>Computations that may raise\<close>

type_synonym 'a res = "exn + 'a"

named_theorems res_simps "introduction and elimination of successful computations"

definition bindE :: "'a res \<Rightarrow> ('a \<Rightarrow> 'b res) \<Rightarrow> 'b res" where
  "bindE m f = (case m of Inl e \<Rightarrow> Inl e | Inr x \<Rightarrow> f x)"

text \<open>\<open>raise_if c e k\<close> is \<^verbatim>\<open>if c: raise e\<close> followed by \<open>k\<close>.\<close>

definition raise_if :: "bool \<Rightarrow> exn \<Rightarrow> 'a res \<Rightarrow> 'a res" where
  "raise_if c e k = (if c then Inl e else k)"

text \<open>\<open>exceptE m h\<close> is \<^verbatim>\<open>try: m except: h\<close>; a handler that does not apply
  re-raises its argument.\<close>

definition exceptE :: "'a res \<Rightarrow> (exn \<Rightarrow> 'a res) \<Rightarrow> 'a res" where
  "exceptE m h = (case m of Inl e \<Rightarrow> h e | Inr x \<Rightarrow> Inr x)"

fun mapE :: "('a \<Rightarrow> 'b res) \<Rightarrow> 'a list \<Rightarrow> 'b list res" where
  "mapE f [] = Inr []"
| "mapE f (x # xs) = bindE (f x) (\<lambda>y. bindE (mapE f xs) (\<lambda>ys. Inr (y # ys)))"

definition is_ok :: "'a res \<Rightarrow> bool" where
  "is_ok m = (case m of Inl e \<Rightarrow> False | Inr x \<Rightarrow> True)"

lemma bindE_simps [simp]: "bindE (Inl e) f = Inl e" "bindE (Inr x) f = f x"
  by (simp_all add: bindE_def)

lemma raise_if_simps [simp]: "raise_if True e k = Inl e" "raise_if False e k = k"
  by (simp_all add: raise_if_def)

lemma exceptE_simps [simp]: "exceptE (Inl e) h = h e" "exceptE (Inr x) h = Inr x"
  by (simp_all add: exceptE_def)

lemma is_ok_simps [simp]: "is_ok (Inr x)" "\<not> is_ok (Inl e)"
  by (simp_all add: is_ok_def)

declare Let_def [res_simps]

lemma is_ok_iff: "is_ok m \<longleftrightarrow> (\<exists>x. m = Inr x)"
  by (cases m) simp_all

lemma bindE_Inr_iff [res_simps]:
  "bindE m f = Inr y \<longleftrightarrow> (\<exists>x. m = Inr x \<and> f x = Inr y)"
  by (cases m) simp_all

lemma raise_if_Inr_iff [res_simps]: "raise_if c e k = Inr y \<longleftrightarrow> \<not> c \<and> k = Inr y"
  by (simp add: raise_if_def)

lemma bindE_Inl_iff: "bindE m f = Inl e \<longleftrightarrow> m = Inl e \<or> (\<exists>x. m = Inr x \<and> f x = Inl e)"
  by (cases m) simp_all

lemma raise_if_Inl_iff: "raise_if c e k = Inl e' \<longleftrightarrow> (c \<and> e = e') \<or> (\<not> c \<and> k = Inl e')"
  by (auto simp: raise_if_def)

lemma exceptE_Inr_iff [res_simps]:
  "exceptE m h = Inr y \<longleftrightarrow> m = Inr y \<or> (\<exists>e. m = Inl e \<and> h e = Inr y)"
  by (cases m) auto

lemma mapE_Inr_iff: "mapE f xs = Inr ys \<longleftrightarrow> list_all2 (\<lambda>x y. f x = Inr y) xs ys"
  by (induction xs arbitrary: ys) (auto simp: res_simps list_all2_Cons1)

lemma mapE_all_Inr:
  assumes "\<And>x. x \<in> set xs \<Longrightarrow> f x = Inr (h x)"
  shows "mapE f xs = Inr (map h xs)"
  using assms by (induction xs) auto

lemma mapE_result: "mapE f xs = Inr ys \<Longrightarrow> y \<in> set ys \<Longrightarrow> \<exists>x \<in> set xs. f x = Inr y"
  by (induction xs arbitrary: ys) (auto simp: res_simps)

lemma mapE_length: "mapE f xs = Inr ys \<Longrightarrow> length ys = length xs"
  by (induction xs arbitrary: ys) (auto simp: res_simps)

lemma mapE_map: "mapE f (map g xs) = mapE (\<lambda>x. f (g x)) xs"
  by (induction xs) simp_all

lemma bindE_cong [fundef_cong]:
  assumes "m = m'" and "\<And>x. m' = Inr x \<Longrightarrow> f x = f' x"
  shows "bindE m f = bindE m' f'"
  using assms by (cases m') auto

lemma mapE_cong [fundef_cong]:
  assumes "xs = ys" and "\<And>x. x \<in> set ys \<Longrightarrow> f x = g x"
  shows "mapE f xs = mapE g ys"
  using assms(2) unfolding assms(1) by (induction ys) auto

section \<open>Lists\<close>

lemma sort_key_eq_self_iff: "sort_key f xs = xs \<longleftrightarrow> sorted (map f xs)"
  by (metis sort_key_id_if_sorted sorted_sort_key)

lemma insort_key_map: "insort_key f (g x) (map g xs) = map g (insort_key (\<lambda>y. f (g y)) x xs)"
  by (induction xs) auto

lemma sort_key_map: "sort_key f (map g xs) = map g (sort_key (\<lambda>y. f (g y)) xs)"
  by (induction xs) (auto simp: insort_key_map)

lemma insort_key_cong:
  "\<forall>y \<in> insert x (set xs). f y = g y \<Longrightarrow> insort_key f x xs = insort_key g x xs"
  by (induction xs) auto

lemma sort_key_cong: "(\<And>x. x \<in> set xs \<Longrightarrow> f x = g x) \<Longrightarrow> sort_key f xs = sort_key g xs"
  by (induction xs) (auto intro: insort_key_cong)

lemma list_all2_eq_map: "list_all2 (\<lambda>x y. y = f x) xs ys \<longleftrightarrow> ys = map f xs"
  by (induction xs arbitrary: ys) (auto simp: list_all2_Cons1)

lemma sorted_distinct_strict:
  fixes xs :: "'a::linorder list"
  shows "sorted_wrt (<) xs \<longleftrightarrow> sorted xs \<and> distinct xs"
  by (simp add: strict_sorted_iff)

end
