(* ===== verification/Py_Values.thy ===== *)
theory Py_Values
  imports Prelude
begin

text \<open>
  Python values as the package handles them: the results of \<^verbatim>\<open>json.loads\<close> and
  \<^verbatim>\<open>cbor2.loads\<close>, wallet payloads, and arguments whose run-time type the code
  checks.  A \<^verbatim>\<open>dict\<close> is an association list in insertion order, looked up by its
  first matching key.  A \<^verbatim>\<open>float\<close> is kept as the text it was read from, and
  \<open>PyOther\<close> stands for an object of any other class.
\<close>

datatype pyval =
    PyNone
  | PyBool bool
  | PyInt int
  | PyFloat pystr
  | PyStr pystr
  | PyBytes bytes
  | PyList "pyval list"
  | PyDict "(pyval \<times> pyval) list"
  | PyOther nat

type_synonym pydict = "(pyval \<times> pyval) list"

text \<open>A dictionary key written as an ASCII literal.\<close>

abbreviation pykey :: "string \<Rightarrow> pyval" where
  "pykey s \<equiv> PyStr (str_of s)"

section \<open>Dictionary operations\<close>

definition dget :: "pydict \<Rightarrow> pyval \<Rightarrow> pyval option" where
  "dget d k = map_of d k"

text \<open>\<^verbatim>\<open>d.get(k)\<close> with the default \<^verbatim>\<open>None\<close>.\<close>

definition dget_none :: "pydict \<Rightarrow> pyval \<Rightarrow> pyval" where
  "dget_none d k = (case dget d k of None \<Rightarrow> PyNone | Some v \<Rightarrow> v)"

text \<open>\<^verbatim>\<open>d[k]\<close>, which raises \<^verbatim>\<open>KeyError\<close>.\<close>

definition dindex :: "pydict \<Rightarrow> pyval \<Rightarrow> pyval res" where
  "dindex d k = (case dget d k of None \<Rightarrow> Inl PyKeyError | Some v \<Rightarrow> Inr v)"

definition dkeys :: "pydict \<Rightarrow> pyval set" where
  "dkeys d = set (map fst d)"

text \<open>\<^verbatim>\<open>d[k] = v\<close> keeps the position of an existing key and appends a new one.\<close>

fun dset :: "pydict \<Rightarrow> pyval \<Rightarrow> pyval \<Rightarrow> pydict" where
  "dset [] k v = [(k, v)]"
| "dset ((k', v') # d) k v = (if k' = k then (k, v) # d else (k', v') # dset d k v)"

text \<open>\<^verbatim>\<open>d.pop(k, None)\<close>, the dictionary part.\<close>

definition dpop :: "pydict \<Rightarrow> pyval \<Rightarrow> pydict" where
  "dpop d k = filter (\<lambda>p. fst p \<noteq> k) d"

lemma dget_Nil [simp]: "dget [] k = None"
  by (simp add: dget_def)

lemma dget_Cons [simp]: "dget ((k', v) # d) k = (if k' = k then Some v else dget d k)"
  by (simp add: dget_def)

lemma dget_dset: "dget (dset d k v) j = (if j = k then Some v else dget d j)"
  by (induction d k v rule: dset.induct) auto

lemma dget_dset_same [simp]: "dget (dset d k v) k = Some v"
  by (simp add: dget_dset)

lemma dget_dset_other [simp]: "j \<noteq> k \<Longrightarrow> dget (dset d k v) j = dget d j"
  by (simp add: dget_dset)

lemma dget_dpop: "dget (dpop d k) j = (if j = k then None else dget d j)"
  by (induction d) (auto simp: dpop_def)

lemma dget_dpop_same [simp]: "dget (dpop d k) k = None"
  by (simp add: dget_dpop)

lemma dget_dpop_other [simp]: "j \<noteq> k \<Longrightarrow> dget (dpop d k) j = dget d j"
  by (simp add: dget_dpop)

lemma dkeys_dset [simp]: "dkeys (dset d k v) = insert k (dkeys d)"
  by (induction d k v rule: dset.induct) (auto simp: dkeys_def)

lemma dkeys_dpop [simp]: "dkeys (dpop d k) = dkeys d - {k}"
  by (auto simp: dkeys_def dpop_def)

lemma dkeys_iff_dget: "k \<in> dkeys d \<longleftrightarrow> dget d k \<noteq> None"
  by (simp add: dkeys_def dget_def map_of_eq_None_iff)

lemma dget_Some_dkeys: "dget d k = Some v \<Longrightarrow> k \<in> dkeys d"
  by (simp add: dkeys_iff_dget)

lemma dget_Some_mem: "dget d k = Some v \<Longrightarrow> (k, v) \<in> set d"
  by (simp add: dget_def map_of_SomeD)

lemma distinct_keys_dset: "distinct (map fst d) \<Longrightarrow> distinct (map fst (dset d k v))"
proof (induction d k v rule: dset.induct)
  case (2 k' v' d k v)
  moreover have "k' \<in> set (map fst (dset d k v)) \<longleftrightarrow> k' = k \<or> k' \<in> set (map fst d)"
    using dkeys_dset [of d k v] by (auto simp: dkeys_def)
  ultimately show ?case by auto
qed simp

lemma distinct_keys_dpop: "distinct (map fst d) \<Longrightarrow> distinct (map fst (dpop d k))"
  by (simp add: dpop_def distinct_map_filter)

section \<open>Run-time type tests\<close>

fun is_PyStr :: "pyval \<Rightarrow> bool" where
  "is_PyStr (PyStr s) = True"
| "is_PyStr _ = False"

fun is_PyBytes :: "pyval \<Rightarrow> bool" where
  "is_PyBytes (PyBytes b) = True"
| "is_PyBytes _ = False"

text \<open>\<^verbatim>\<open>type(v) is int\<close>: a \<^verbatim>\<open>bool\<close> has the class \<^verbatim>\<open>bool\<close> and does not count.\<close>

fun is_PyInt :: "pyval \<Rightarrow> bool" where
  "is_PyInt (PyInt i) = True"
| "is_PyInt _ = False"

fun is_PyDict :: "pyval \<Rightarrow> bool" where
  "is_PyDict (PyDict d) = True"
| "is_PyDict _ = False"

text \<open>Membership in a Python \<^verbatim>\<open>set\<close> hashes its operand; lists and dictionaries
  have no hash.\<close>

fun hashable :: "pyval \<Rightarrow> bool" where
  "hashable (PyList xs) = False"
| "hashable (PyDict d) = False"
| "hashable _ = True"

lemma is_PyInt_iff: "is_PyInt v \<longleftrightarrow> (\<exists>i. v = PyInt i)"
  by (cases v) auto

lemma is_PyStr_iff: "is_PyStr v \<longleftrightarrow> (\<exists>s. v = PyStr s)"
  by (cases v) auto

lemma is_PyBytes_iff: "is_PyBytes v \<longleftrightarrow> (\<exists>b. v = PyBytes b)"
  by (cases v) auto

lemma is_PyDict_iff: "is_PyDict v \<longleftrightarrow> (\<exists>d. v = PyDict d)"
  by (cases v) auto

text \<open>A successful computation took the branch of the expected type.\<close>

named_theorems case_res_simps "successful computations by the type of a value"

lemma case_PyStr_Inr [case_res_simps]:
  "(case v of PyStr s \<Rightarrow> f s | _ \<Rightarrow> Inl e) = Inr y \<longleftrightarrow> (\<exists>s. v = PyStr s \<and> f s = Inr y)"
  by (cases v) auto

lemma case_PyBytes_Inr [case_res_simps]:
  "(case v of PyBytes b \<Rightarrow> f b | _ \<Rightarrow> Inl e) = Inr y \<longleftrightarrow> (\<exists>b. v = PyBytes b \<and> f b = Inr y)"
  by (cases v) auto

lemma case_PyList_Inr [case_res_simps]:
  "(case v of PyList xs \<Rightarrow> f xs | _ \<Rightarrow> Inl e) = Inr y \<longleftrightarrow> (\<exists>xs. v = PyList xs \<and> f xs = Inr y)"
  by (cases v) auto

lemma case_PyDict_Inr [case_res_simps]:
  "(case v of PyDict d \<Rightarrow> f d | _ \<Rightarrow> Inl e) = Inr y \<longleftrightarrow> (\<exists>d. v = PyDict d \<and> f d = Inr y)"
  by (cases v) auto

lemma case_option_Inr [case_res_simps]:
  "(case x of None \<Rightarrow> Inl e | Some a \<Rightarrow> f a) = Inr y \<longleftrightarrow> (\<exists>a. x = Some a \<and> f a = Inr y)"
  by (cases x) auto

end
