(* ===== verification/Py_Text.thy ===== *)
theory Py_Text
  imports Prelude
begin

text \<open>
  The text codecs of the Python standard library that the package calls:
  strict UTF-8 (\<^verbatim>\<open>str.encode\<close>, \<^verbatim>\<open>bytes.decode\<close>), the UTF-16 length used for
  registry environments, and base64 (\<^verbatim>\<open>base64.b64encode\<close>, \<^verbatim>\<open>base64.b64decode\<close>
  with \<^verbatim>\<open>validate=True\<close>).  \<open>None\<close> is \<^verbatim>\<open>UnicodeEncodeError\<close>,
  \<^verbatim>\<open>UnicodeDecodeError\<close> or \<^verbatim>\<open>binascii.Error\<close>.  The lemmas are the round trips.
\<close>

section \<open>UTF-8\<close>

definition is_surrogate :: "nat \<Rightarrow> bool" where
  "is_surrogate c \<longleftrightarrow> 0xD800 \<le> c \<and> c < 0xE000"

definition utf8_encode_char :: "nat \<Rightarrow> bytes option" where
  "utf8_encode_char c =
     (if c < 0x80 then Some [of_nat c]
      else if c < 0x800 then Some [of_nat (0xC0 + c div 64), of_nat (0x80 + c mod 64)]
      else if is_surrogate c then None
      else if c < 0x10000 then
        Some [of_nat (0xE0 + c div 4096), of_nat (0x80 + c div 64 mod 64),
              of_nat (0x80 + c mod 64)]
      else if c < 0x110000 then
        Some [of_nat (0xF0 + c div 262144), of_nat (0x80 + c div 4096 mod 64),
              of_nat (0x80 + c div 64 mod 64), of_nat (0x80 + c mod 64)]
      else None)"

fun utf8_encode :: "pystr \<Rightarrow> bytes option" where
  "utf8_encode [] = Some []"
| "utf8_encode (c # cs) =
     (case utf8_encode_char c of
        None \<Rightarrow> None
      | Some b \<Rightarrow> map_option (append b) (utf8_encode cs))"

definition utf8_cont :: "byte \<Rightarrow> bool" where
  "utf8_cont b \<longleftrightarrow> 0x80 \<le> unat b \<and> unat b < 0xC0"

definition utf8_low :: "byte \<Rightarrow> nat" where
  "utf8_low b = unat b - 0x80"

text \<open>Overlong forms, surrogates and code points beyond U+10FFFF are rejected.\<close>

fun utf8_decode :: "bytes \<Rightarrow> pystr option" where
  "utf8_decode [] = Some []"
| "utf8_decode (b # bs) =
     (let x = unat b in
      if x < 0x80 then map_option ((#) x) (utf8_decode bs)
      else if x < 0xC2 then None
      else if x < 0xE0 then
        (case bs of
           c1 # cs \<Rightarrow>
             if utf8_cont c1
             then map_option ((#) ((x - 0xC0) * 64 + utf8_low c1)) (utf8_decode cs)
             else None
         | _ \<Rightarrow> None)
      else if x < 0xF0 then
        (case bs of
           c1 # c2 # cs \<Rightarrow>
             (let c = (x - 0xE0) * 4096 + utf8_low c1 * 64 + utf8_low c2 in
              if utf8_cont c1 \<and> utf8_cont c2 \<and> 0x800 \<le> c \<and> \<not> is_surrogate c
              then map_option ((#) c) (utf8_decode cs) else None)
         | _ \<Rightarrow> None)
      else if x < 0xF5 then
        (case bs of
           c1 # c2 # c3 # cs \<Rightarrow>
             (let c = (x - 0xF0) * 262144 + utf8_low c1 * 4096 + utf8_low c2 * 64 + utf8_low c3 in
              if utf8_cont c1 \<and> utf8_cont c2 \<and> utf8_cont c3 \<and> 0x10000 \<le> c \<and> c < 0x110000
              then map_option ((#) c) (utf8_decode cs) else None)
         | _ \<Rightarrow> None)
      else None)"

declare utf8_decode.simps(2) [simp del]

lemma unat_of_nat_byte: "n < 256 \<Longrightarrow> unat (of_nat n :: byte) = n"
  by (simp add: unat_of_nat)

lemma utf8_cont_of_nat [simp]: "n < 64 \<Longrightarrow> utf8_cont (of_nat (0x80 + n))"
  by (simp add: utf8_cont_def unat_of_nat_byte del: of_nat_add)

lemma utf8_low_of_nat [simp]: "n < 64 \<Longrightarrow> utf8_low (of_nat (0x80 + n)) = n"
  by (simp add: utf8_low_def unat_of_nat_byte del: of_nat_add)

lemma nat_split64: "c div 64 * 64 + c mod 64 = (c::nat)"
  by simp

lemma nat_split4096: "c div 4096 * 4096 + c div 64 mod 64 * 64 = (c::nat) div 64 * 64"
proof -
  have "c div 4096 = c div 64 div 64" by (simp add: div_mult2_eq [symmetric])
  then have "c div 4096 * 4096 + c div 64 mod 64 * 64 = (c div 64 div 64 * 64 + c div 64 mod 64) * 64"
    by (simp only: distrib_right mult.assoc)
  then show ?thesis by simp
qed

lemma nat_split262144:
  "c div 262144 * 262144 + c div 4096 mod 64 * 4096 = (c::nat) div 4096 * 4096"
proof -
  have "c div 262144 = c div 4096 div 64" by (simp add: div_mult2_eq [symmetric])
  then have "c div 262144 * 262144 + c div 4096 mod 64 * 4096
      = (c div 4096 div 64 * 64 + c div 4096 mod 64) * 4096"
    by (simp only: distrib_right mult.assoc)
  then show ?thesis by simp
qed

text \<open>Decoding the bytes of one code point yields it and goes on with the rest.\<close>

lemma utf8_decode_char:
  assumes "utf8_encode_char c = Some b"
  shows "utf8_decode (b @ bs) = map_option ((#) c) (utf8_decode bs)"
proof -
  consider (one) "c < 0x80" | (two) "0x80 \<le> c" "c < 0x800"
    | (three) "0x800 \<le> c" "c < 0x10000" "\<not> is_surrogate c"
    | (four) "0x10000 \<le> c" "c < 0x110000" "\<not> is_surrogate c"
    using assms by (fastforce simp: utf8_encode_char_def is_surrogate_def split: if_splits)
  then show ?thesis
  proof cases
    case one
    with assms have "b = [of_nat c]" by (simp add: utf8_encode_char_def)
    with one show ?thesis by (simp add: utf8_decode.simps(2) unat_of_nat_byte)
  next
    case two
    with assms have b: "b = [of_nat (0xC0 + c div 64), of_nat (0x80 + c mod 64)]"
      by (simp add: utf8_encode_char_def del: of_nat_add)
    have bounds: "2 \<le> c div 64" "c div 64 < 32"
      using two by (simp_all add: less_eq_div_iff_mult_less_eq less_mult_imp_div_less)
    then have "unat (of_nat (0xC0 + c div 64) :: byte) = 0xC0 + c div 64"
      by (simp add: unat_of_nat_byte del: of_nat_add)
    with bounds show ?thesis
      unfolding b by (simp add: utf8_decode.simps(2) Let_def del: of_nat_add)
  next
    case three
    with assms have b: "b = [of_nat (0xE0 + c div 4096), of_nat (0x80 + c div 64 mod 64),
        of_nat (0x80 + c mod 64)]"
      by (simp add: utf8_encode_char_def del: of_nat_add)
    have bound: "c div 4096 < 16" using three by (simp add: less_mult_imp_div_less)
    then have "unat (of_nat (0xE0 + c div 4096) :: byte) = 0xE0 + c div 4096"
      by (simp add: unat_of_nat_byte del: of_nat_add)
    moreover have "c div 4096 * 4096 + c div 64 mod 64 * 64 + c mod 64 = c"
      by (simp only: nat_split64 nat_split4096)
    ultimately show ?thesis
      unfolding b using three bound by (simp add: utf8_decode.simps(2) Let_def del: of_nat_add)
  next
    case four
    with assms have b: "b = [of_nat (0xF0 + c div 262144), of_nat (0x80 + c div 4096 mod 64),
        of_nat (0x80 + c div 64 mod 64), of_nat (0x80 + c mod 64)]"
      by (simp add: utf8_encode_char_def del: of_nat_add)
    have bound: "c div 262144 < 5" using four by (simp add: less_mult_imp_div_less)
    then have "unat (of_nat (0xF0 + c div 262144) :: byte) = 0xF0 + c div 262144"
      by (simp add: unat_of_nat_byte del: of_nat_add)
    moreover have "c div 262144 * 262144 + c div 4096 mod 64 * 4096
        + c div 64 mod 64 * 64 + c mod 64 = c"
      by (simp only: nat_split64 nat_split4096 nat_split262144)
    ultimately show ?thesis
      unfolding b using four bound by (simp add: utf8_decode.simps(2) Let_def del: of_nat_add)
  qed
qed

lemma utf8_decode_encode: "utf8_encode s = Some b \<Longrightarrow> utf8_decode b = Some s"
proof (induction s arbitrary: b)
  case (Cons c s)
  then show ?case by (auto simp: utf8_decode_char split: option.splits)
qed simp

lemma utf8_encode_inj: "utf8_encode s = Some b \<Longrightarrow> utf8_encode t = Some b \<Longrightarrow> s = t"
  by (drule utf8_decode_encode)+ simp

lemma utf8_encode_char_not_Nil: "utf8_encode_char c \<noteq> Some []"
  by (auto simp: utf8_encode_char_def)

lemma utf8_encode_Nil_iff: "utf8_encode s = Some [] \<longleftrightarrow> s = []"
  by (cases s) (auto simp: utf8_encode_char_not_Nil split: option.splits)

lemma map_option_append:
  "map_option ((@) []) m = m" "map_option ((@) (x @ y)) m = map_option (\<lambda>z. x @ y @ z) m"
  by (cases m; simp)+

lemma utf8_encode_append:
  "utf8_encode (s @ t) =
     (case utf8_encode s of
        None \<Rightarrow> None
      | Some b \<Rightarrow> map_option (append b) (utf8_encode t))"
  by (induction s)
    (auto split: option.splits simp: option.map_comp comp_def option.map_ident map_option_append)

text \<open>A \<^verbatim>\<open>str\<close> without surrogates encodes.\<close>

lemma utf8_encode_total:
  "(\<forall>c \<in> set s. c < 0x110000 \<and> \<not> is_surrogate c) \<Longrightarrow> \<exists>b. utf8_encode s = Some b"
  by (induction s) (auto simp: utf8_encode_char_def split: option.splits)

section \<open>UTF-16 length\<close>

text \<open>\<^verbatim>\<open>len(s.encode("utf-16-le")) // 2\<close>.\<close>

fun utf16_length :: "pystr \<Rightarrow> nat option" where
  "utf16_length [] = Some 0"
| "utf16_length (c # cs) =
     (if is_surrogate c then None
      else map_option (\<lambda>n. (if c < 0x10000 then 1 else 2) + n) (utf16_length cs))"

section \<open>Base64\<close>

definition b64_char :: "nat \<Rightarrow> nat" where
  "b64_char v =
     (if v < 26 then 65 + v else if v < 52 then 71 + v else if v < 62 then v - 4
      else if v = 62 then 43 else 47)"

definition b64_value :: "nat \<Rightarrow> nat option" where
  "b64_value c =
     (if 65 \<le> c \<and> c < 91 then Some (c - 65)
      else if 97 \<le> c \<and> c < 123 then Some (c - 71)
      else if 48 \<le> c \<and> c < 58 then Some (c + 4)
      else if c = 43 then Some 62 else if c = 47 then Some 63 else None)"

fun b64_encode :: "bytes \<Rightarrow> pystr" where
  "b64_encode [] = []"
| "b64_encode [x] =
     [b64_char (unat x div 4), b64_char (unat x mod 4 * 16), 61, 61]"
| "b64_encode [x, y] =
     [b64_char (unat x div 4), b64_char (unat x mod 4 * 16 + unat y div 16),
      b64_char (unat y mod 16 * 4), 61]"
| "b64_encode (x # y # z # bs) =
     b64_char (unat x div 4) # b64_char (unat x mod 4 * 16 + unat y div 16)
     # b64_char (unat y mod 16 * 4 + unat z div 64) # b64_char (unat z mod 64)
     # b64_encode bs"

text \<open>
  The strict decoder: quanta of four alphabet characters, where only the last
  quantum may end in one or two padding characters.  The unused low bits of a
  padded quantum are not checked.
\<close>

fun b64_decode_raw :: "pystr \<Rightarrow> bytes option" where
  "b64_decode_raw [] = Some []"
| "b64_decode_raw (a # b # c # d # cs) =
     (if cs = [] \<and> c = 61 \<and> d = 61 then
        (case (b64_value a, b64_value b) of
           (Some p, Some q) \<Rightarrow> Some [of_nat (p * 4 + q div 16)]
         | _ \<Rightarrow> None)
      else if cs = [] \<and> d = 61 then
        (case (b64_value a, b64_value b, b64_value c) of
           (Some p, Some q, Some r) \<Rightarrow>
             Some [of_nat (p * 4 + q div 16), of_nat (q mod 16 * 16 + r div 4)]
         | _ \<Rightarrow> None)
      else
        (case (b64_value a, b64_value b, b64_value c, b64_value d, b64_decode_raw cs) of
           (Some p, Some q, Some r, Some t, Some bs) \<Rightarrow>
             Some (of_nat (p * 4 + q div 16) # of_nat (q mod 16 * 16 + r div 4)
                   # of_nat (r mod 4 * 64 + t) # bs)
         | _ \<Rightarrow> None))"
| "b64_decode_raw _ = None"

lemma b64_value_char [simp]: "v < 64 \<Longrightarrow> b64_value (b64_char v) = Some v"
  by (auto simp: b64_value_def b64_char_def)

lemma b64_char_neq_pad [simp]: "v < 64 \<Longrightarrow> b64_char v \<noteq> 61"
  by (auto simp: b64_char_def)

lemma unat_byte_lt [simp]: "unat (x :: byte) < 256"
  using unsigned_less [where w = x and 'a = nat] by simp

lemma of_nat_unat_byte: "n = unat x \<Longrightarrow> (of_nat n :: byte) = x"
  by simp

lemma byte_div_bounds [simp]: "unat (x :: byte) div 4 < 64" "unat x div 16 < 16" "unat x div 64 < 4"
  using unat_byte_lt [of x] by linarith+

lemma b64_sextets [simp]:
  fixes x y z :: byte
  shows "unat x mod 4 * 16 < 64" "unat x mod 4 * 16 + unat y div 16 < 64"
    "unat y mod 16 * 4 < 64" "unat y mod 16 * 4 + unat z div 64 < 64"
proof -
  have "unat x mod 4 < 4" "unat y mod 16 < 16" by simp_all
  then show "unat x mod 4 * 16 < 64" "unat x mod 4 * 16 + unat y div 16 < 64"
    "unat y mod 16 * 4 < 64" "unat y mod 16 * 4 + unat z div 64 < 64"
    using byte_div_bounds(2) [of y] byte_div_bounds(3) [of z]
    by linarith+
qed

lemma b64_decode_encode: "b64_decode_raw (b64_encode bs) = Some bs"
  by (induction bs rule: b64_encode.induct) (simp_all del: of_nat_add of_nat_mult)

lemma b64_encode_inj: "b64_encode x = b64_encode y \<longleftrightarrow> x = y"
  by (metis b64_decode_encode option.inject)

lemma b64_char_ascii [simp]: "b64_char v < 128"
  by (auto simp: b64_char_def)

lemma b64_encode_ascii: "\<forall>c \<in> set (b64_encode bs). c < 128"
  by (induction bs rule: b64_encode.induct) simp_all

end
