(* ===== verification/Py_Hash.thy ===== *)
theory Py_Hash
  imports Prelude
begin

text \<open>
  \<^verbatim>\<open>hashlib.sha256(data).digest()\<close>: the SHA-256 function of FIPS 180-4, on
  lists of bytes and 32-bit words.
\<close>

unbundle bit_operations_syntax

type_synonym w32 = "32 word"

text \<open>
  The constants of the standard are the first 32 bits of the fractional parts of
  the cube roots and square roots of the first primes.  They are computed here:
  \<open>kth_root k n\<close> is the integer part of the \<open>k\<close>-th root, found bit by bit.
\<close>

fun root_bits :: "nat \<Rightarrow> nat \<Rightarrow> nat \<Rightarrow> nat \<Rightarrow> nat" where
  "root_bits k 0 n r = r"
| "root_bits k (Suc b) n r =
     root_bits k b n (if (r + 2 ^ b) ^ k \<le> n then r + 2 ^ b else r)"

definition kth_root :: "nat \<Rightarrow> nat \<Rightarrow> nat" where
  "kth_root k n = root_bits k 40 n 0"

definition first_primes :: "nat list" where
  "first_primes =
     filter (\<lambda>n. \<forall>d \<in> set [2..<n]. n mod d \<noteq> 0) [2..<312]"

definition sha256_k :: "w32 list" where
  "sha256_k = map (\<lambda>p. word_of_nat (kth_root 3 (p * 2 ^ 96))) first_primes"

type_synonym sha256_state = "w32 \<times> w32 \<times> w32 \<times> w32 \<times> w32 \<times> w32 \<times> w32 \<times> w32"

definition sha256_init :: sha256_state where
  "sha256_init =
     (case map (\<lambda>p. word_of_nat (kth_root 2 (p * 2 ^ 64))) (take 8 first_primes) of
        [a, b, c, d, e, f, g, h] \<Rightarrow> (a, b, c, d, e, f, g, h)
      | _ \<Rightarrow> (0, 0, 0, 0, 0, 0, 0, 0))"

lemma root_bits_bounds:
  assumes "0 < k" and "r ^ k \<le> n" and "n < (r + 2 ^ b) ^ k"
  shows "root_bits k b n r ^ k \<le> n \<and> n < (root_bits k b n r + 1) ^ k"
  using assms(2, 3)
proof (induction b arbitrary: r)
  case (Suc b)
  show ?case
  proof (cases "(r + 2 ^ b) ^ k \<le> n")
    case True
    with Suc.IH [of "r + 2 ^ b"] Suc.prems(2) show ?thesis by (simp add: algebra_simps mult_2)
  next
    case False
    with Suc.IH [of r] Suc.prems(1) show ?thesis by simp
  qed
qed simp

lemma kth_root_bounds:
  assumes "0 < k" and "n < (2 ^ 40) ^ k"
  shows "kth_root k n ^ k \<le> n \<and> n < (kth_root k n + 1) ^ k"
  unfolding kth_root_def
proof (rule root_bits_bounds)
  show "(0::nat) ^ k \<le> n" using assms(1) by (simp add: zero_power)
  show "n < (0 + 2 ^ 40) ^ k" using assms(2) by simp
qed (rule assms(1))

definition ror32 :: "nat \<Rightarrow> w32 \<Rightarrow> w32" where
  "ror32 n x = drop_bit n x OR push_bit (32 - n) x"

text \<open>The message schedule, kept newest word first: \<open>n\<close> more words.\<close>

fun sha256_extend :: "nat \<Rightarrow> w32 list \<Rightarrow> w32 list" where
  "sha256_extend 0 ws = ws"
| "sha256_extend (Suc n) ws =
     (let x = ws ! 14; y = ws ! 1;
          s0 = ror32 7 x XOR ror32 18 x XOR drop_bit 3 x;
          s1 = ror32 17 y XOR ror32 19 y XOR drop_bit 10 y
      in sha256_extend n ((ws ! 15 + s0 + ws ! 6 + s1) # ws))"

fun sha256_round :: "w32 \<times> w32 \<Rightarrow> sha256_state \<Rightarrow> sha256_state" where
  "sha256_round (k, w) (a, b, c, d, e, f, g, h) =
     (let S1 = ror32 6 e XOR ror32 11 e XOR ror32 25 e;
          ch = (e AND f) XOR (NOT e AND g);
          t1 = h + S1 + ch + k + w;
          S0 = ror32 2 a XOR ror32 13 a XOR ror32 22 a;
          maj = (a AND b) XOR (a AND c) XOR (b AND c);
          t2 = S0 + maj
      in (t1 + t2, a, b, c, d + t1, e, f, g))"

fun sha256_add :: "sha256_state \<Rightarrow> sha256_state \<Rightarrow> sha256_state" where
  "sha256_add (a, b, c, d, e, f, g, h) (a', b', c', d', e', f', g', h') =
     (a + a', b + b', c + c', d + d', e + e', f + f', g + g', h + h')"

definition sha256_block :: "sha256_state \<Rightarrow> w32 list \<Rightarrow> sha256_state" where
  "sha256_block st block =
     sha256_add st (fold sha256_round (zip sha256_k (rev (sha256_extend 48 (rev block)))) st)"

fun be32 :: "bytes \<Rightarrow> w32 list" where
  "be32 (a # b # c # d # rest) =
     (push_bit 24 (ucast a) OR push_bit 16 (ucast b) OR push_bit 8 (ucast c) OR ucast d) # be32 rest"
| "be32 _ = []"

definition be32_bytes :: "w32 \<Rightarrow> bytes" where
  "be32_bytes w = [ucast (drop_bit 24 w), ucast (drop_bit 16 w), ucast (drop_bit 8 w), ucast w]"

text \<open>Padding: one bit, zeros up to 56 bytes modulo 64, the bit length as 64 bits.\<close>

definition sha256_pad :: "bytes \<Rightarrow> bytes" where
  "sha256_pad msg =
     (let n = length msg; z = (119 - n mod 64) mod 64 in
      msg @ [0x80] @ zero_bytes z
        @ map (\<lambda>i. word_of_nat (8 * n div 256 ^ i)) (rev [0..<8]))"

fun sha256_blocks :: "nat \<Rightarrow> w32 list \<Rightarrow> sha256_state \<Rightarrow> sha256_state" where
  "sha256_blocks 0 ws st = st"
| "sha256_blocks (Suc n) ws st = sha256_blocks n (drop 16 ws) (sha256_block st (take 16 ws))"

definition sha256 :: "bytes \<Rightarrow> bytes" where
  "sha256 msg =
     (let ws = be32 (sha256_pad msg);
          (a, b, c, d, e, f, g, h) = sha256_blocks (length ws div 16) ws sha256_init
      in concat (map be32_bytes [a, b, c, d, e, f, g, h]))"

lemma length_sha256 [simp]: "length (sha256 msg) = 32"
  by (simp add: sha256_def be32_bytes_def Let_def split: prod.split)

text \<open>Padding fills whole blocks, so no byte of the message is left out of the digest.\<close>

lemma pad_mod: "(n + (9 + (119 - n mod 64) mod 64)) mod 64 = 0" for n :: nat
proof -
  have "(n + (9 + (119 - n mod 64) mod 64)) mod 64 = (n mod 64 + (9 + (119 - n mod 64))) mod 64"
    unfolding mod_add_left_eq
    by (metis (no_types) add.assoc mod_add_right_eq)
  also have "n mod 64 + (9 + (119 - n mod 64)) = 128"
    using mod_less_divisor [of 64 n] by linarith
  finally show ?thesis by simp
qed

lemma length_sha256_pad: "length (sha256_pad msg) mod 64 = 0"
  using pad_mod [of "length msg"] by (simp add: sha256_pad_def Let_def ac_simps)

end
