(* ===== verification/Primitives.thy ===== *)
theory Primitives
  imports Py_Values Py_Text Py_Hash
begin

text \<open>
  The functions that the package calls and does not implement, as one record
  that is a parameter of the model: the CBOR codec of \<^verbatim>\<open>cbor2\<close>,
  Ed25519 of \<^verbatim>\<open>cryptography\<close>, Argon2id of \<^verbatim>\<open>argon2-cffi\<close> and XChaCha20-Poly1305 of \<^verbatim>\<open>pycryptodome\<close>.  \<open>None\<close> is an exception of the
  library.  The predicates below name the documented behaviour that theorems
  rely on; nothing is assumed of a primitive beyond the predicate a theorem
  states as a hypothesis.
\<close>

record prims =
  cbor_loads :: "bytes \<Rightarrow> pyval option"
  cbor_dumps :: "pyval \<Rightarrow> bytes option"
  ed25519_public :: "bytes \<Rightarrow> bytes option"
  ed25519_sign :: "bytes \<Rightarrow> bytes \<Rightarrow> bytes option"
  ed25519_verify :: "bytes \<Rightarrow> bytes \<Rightarrow> bytes \<Rightarrow> bool"
  argon2id :: "bytes \<Rightarrow> bytes \<Rightarrow> bytes option"
  aead_encrypt :: "bytes \<Rightarrow> bytes \<Rightarrow> bytes \<Rightarrow> bytes \<Rightarrow> (bytes \<times> bytes) option"
  aead_decrypt :: "bytes \<Rightarrow> bytes \<Rightarrow> bytes \<Rightarrow> bytes \<Rightarrow> bytes \<Rightarrow> bytes option"

section \<open>Documented behaviour\<close>

text \<open>
  The CBOR values that canonical encoding carries over unchanged: unsigned
  64-bit integers, byte strings, text, null, lists, and maps whose keys are
  unsigned integers in ascending order.
\<close>

fun cbor_plain :: "pyval \<Rightarrow> bool" where
  "cbor_plain PyNone = True"
| "cbor_plain (PyInt i) = (0 \<le> i \<and> i < 2 ^ 64)"
| "cbor_plain (PyBytes b) = (length b < 2 ^ 64)"
| "cbor_plain (PyStr s) =
     (case utf8_encode s of None \<Rightarrow> False | Some b \<Rightarrow> length b < 2 ^ 64)"
| "cbor_plain (PyList xs) = (length xs < 2 ^ 64 \<and> list_all cbor_plain xs)"
| "cbor_plain (PyDict d) =
     (length d < 2 ^ 64
      \<and> list_all (\<lambda>kv. (case fst kv of PyInt i \<Rightarrow> 0 \<le> i \<and> i < 2 ^ 64 | _ \<Rightarrow> False)
                       \<and> cbor_plain (snd kv)) d
      \<and> sorted_wrt (\<lambda>p q. (case (fst p, fst q) of (PyInt i, PyInt j) \<Rightarrow> i < j | _ \<Rightarrow> False)) d)"
| "cbor_plain _ = False"

definition cbor_ok :: "prims \<Rightarrow> bool" where
  "cbor_ok P \<longleftrightarrow>
     (\<forall>v. cbor_plain v \<longrightarrow>
        (\<exists>b. cbor_dumps P v = Some b \<and> b \<noteq> [] \<and> cbor_loads P b = Some v))"

definition ed25519_ok :: "prims \<Rightarrow> bool" where
  "ed25519_ok P \<longleftrightarrow>
     (\<forall>seed. length seed = 32 \<longrightarrow>
        (\<exists>pk. ed25519_public P seed = Some pk \<and> length pk = 32
          \<and> (\<forall>msg. \<exists>sig. ed25519_sign P seed msg = Some sig \<and> length sig = 64
               \<and> ed25519_verify P pk msg sig)))"

definition aead_ok :: "prims \<Rightarrow> bool" where
  "aead_ok P \<longleftrightarrow>
     (\<forall>key nonce aad plaintext. length key = 32 \<and> length nonce = 24 \<longrightarrow>
        (\<exists>ciphertext tag. aead_encrypt P key nonce aad plaintext = Some (ciphertext, tag)
          \<and> length tag = 16
          \<and> aead_decrypt P key nonce aad ciphertext tag = Some plaintext))"

definition argon2_ok :: "prims \<Rightarrow> bool" where
  "argon2_ok P \<longleftrightarrow>
     (\<forall>password salt. length salt = 16 \<longrightarrow>
        (\<exists>kek. argon2id P password salt = Some kek \<and> length kek = 32))"

lemma cbor_okD:
  assumes "cbor_ok P" and "cbor_plain v"
  obtains b where "cbor_dumps P v = Some b" and "b \<noteq> []" and "cbor_loads P b = Some v"
  using assms unfolding cbor_ok_def by blast

lemma cbor_dumps_inj:
  assumes "cbor_ok P" and "cbor_plain v" and "cbor_plain w" and "cbor_dumps P v = cbor_dumps P w"
  shows "v = w"
  using assms by (metis cbor_okD option.inject)

lemma ed25519_publicD:
  assumes "ed25519_ok P" and "length seed = 32"
  obtains pk where "ed25519_public P seed = Some pk" and "length pk = 32"
  using assms unfolding ed25519_ok_def by blast

end
