(* ===== verification/Identity_State.thy ===== *)
theory Identity_State
  imports Primitives
begin

text \<open>
  The public Identity state of \<^verbatim>\<open>identity.py\<close>: validation of SignedUpdate bytes
  and their authorization maps, the transition rules of the five operations,
  verification of proofs, and the parser of finalized envelopes and of the
  predecessor chain behind one.
\<close>

section \<open>Checks on decoded values\<close>

definition require_uint :: "pyval \<Rightarrow> int res" where
  "require_uint v =
     (case v of
        PyInt i \<Rightarrow> raise_if (i < 0) InvalidIdentityRequest (Inr i)
      | _ \<Rightarrow> Inl InvalidIdentityRequest)"

definition require_bytes :: "pyval \<Rightarrow> nat option \<Rightarrow> bool \<Rightarrow> bytes res" where
  "require_bytes v len nonempty =
     (case v of
        PyBytes b \<Rightarrow>
          raise_if (case len of None \<Rightarrow> False | Some n \<Rightarrow> length b \<noteq> n) InvalidIdentityRequest
            (raise_if (nonempty \<and> b = []) InvalidIdentityRequest (Inr b))
      | _ \<Rightarrow> Inl InvalidIdentityRequest)"

definition require_exact_keys :: "pyval \<Rightarrow> int list \<Rightarrow> pydict res" where
  "require_exact_keys v expected =
     (case v of
        PyDict d \<Rightarrow>
          raise_if (\<not> list_all (\<lambda>kv. is_PyInt (fst kv)) d \<or> dkeys d \<noteq> set (map PyInt expected))
            InvalidIdentityState (Inr d)
      | _ \<Rightarrow> Inl InvalidIdentityState)"

text \<open>\<^verbatim>\<open>d[i]\<close> for a key that an earlier check has found in \<open>d\<close>.\<close>

abbreviation ditem :: "pydict \<Rightarrow> int \<Rightarrow> pyval" where
  "ditem d i \<equiv> dget_none d (PyInt i)"

definition validate_owner_name :: "pyval \<Rightarrow> bytes res" where
  "validate_owner_name v =
     (case v of
        PyBytes b \<Rightarrow> raise_if (b = [] \<or> utf8_decode b = None) InvalidIdentityRequest (Inr b)
      | _ \<Rightarrow> Inl InvalidIdentityRequest)"

text \<open>\<^verbatim>\<open>_canonical\<close>: an exception of the codec passes through.\<close>

definition canonical :: "prims \<Rightarrow> pyval \<Rightarrow> bytes res" where
  "canonical P v = (case cbor_dumps P v of None \<Rightarrow> Inl PyException | Some b \<Rightarrow> Inr b)"

definition require_canonical :: "prims \<Rightarrow> pyval \<Rightarrow> pyval res" where
  "require_canonical P data =
     (case data of
        PyBytes b \<Rightarrow>
          raise_if (b = []) InvalidIdentityState
            (case cbor_loads P b of
               None \<Rightarrow> Inl InvalidIdentityState
             | Some decoded \<Rightarrow>
                 raise_if (cbor_dumps P decoded \<noteq> Some b) InvalidIdentityState (Inr decoded))
      | _ \<Rightarrow> Inl InvalidIdentityState)"

section \<open>Authorization maps\<close>

type_synonym signer_list = "(pystr \<times> bytes) list"

text \<open>The normalized map of \<^verbatim>\<open>_validate_authorization\<close>, by its keys 3 to 7;
  keys 1 and 2 are the constant 1.\<close>

record authorization =
  au_operation :: int
  au_epoch :: int
  au_threshold :: int
  au_signers :: signer_list
  au_predecessor :: bytes

abbreviation signer_entry :: "pystr \<times> bytes \<Rightarrow> pyval" where
  "signer_entry e \<equiv> PyDict [(PyInt 1, PyStr (fst e)), (PyInt 2, PyBytes (snd e))]"

definition auth_dict :: "authorization \<Rightarrow> pydict" where
  "auth_dict a =
     [(PyInt 1, PyInt 1), (PyInt 2, PyInt 1), (PyInt 3, PyInt (au_operation a)),
      (PyInt 4, PyInt (au_epoch a)), (PyInt 5, PyInt (au_threshold a)),
      (PyInt 6, PyList (map signer_entry (au_signers a))),
      (PyInt 7, PyBytes (au_predecessor a))]"

definition OPERATION_VALUES :: "int list" where
  "OPERATION_VALUES = [1, 2, 3, 4, 5]"

text \<open>The UTF-8 bytes of an identifier that is known to encode.\<close>

definition id_bytes :: "pystr \<Rightarrow> bytes" where
  "id_bytes s = (case utf8_encode s of None \<Rightarrow> [] | Some b \<Rightarrow> b)"

text \<open>The loop over the signer entries, with the identifiers and keys seen so far.\<close>

fun normalize_signers :: "pyval list \<Rightarrow> pystr list \<Rightarrow> bytes list \<Rightarrow> signer_list res" where
  "normalize_signers [] seen_ids seen_keys = Inr []"
| "normalize_signers (entry # rest) seen_ids seen_keys =
     bindE (require_exact_keys entry [1, 2]) (\<lambda>e.
     bindE (require_bytes (ditem e 2) (Some 32) False) (\<lambda>public_key.
     (case ditem e 1 of
        PyStr signer_id \<Rightarrow>
          raise_if (signer_id = []) InvalidIdentityState
          (case utf8_encode signer_id of
             None \<Rightarrow> Inl InvalidIdentityState
           | Some signer_id_bytes \<Rightarrow>
               raise_if (length signer_id_bytes > 256) InvalidIdentityState
               (raise_if (signer_id \<in> set seen_ids \<or> public_key \<in> set seen_keys)
                  InvalidIdentityState
               (bindE (normalize_signers rest (signer_id # seen_ids) (public_key # seen_keys))
                  (\<lambda>normalized. Inr ((signer_id, public_key) # normalized)))))
      | _ \<Rightarrow> Inl InvalidIdentityState)))"

definition validate_authorization :: "pyval \<Rightarrow> authorization res" where
  "validate_authorization v =
     bindE (require_exact_keys v [1, 2, 3, 4, 5, 6, 7]) (\<lambda>auth.
     bindE (require_uint (ditem auth 1)) (\<lambda>version.
     raise_if (version \<noteq> 1) InvalidIdentityState
     (bindE (require_uint (ditem auth 2)) (\<lambda>kind.
     raise_if (kind \<noteq> 1) InvalidIdentityState
     (bindE (require_uint (ditem auth 3)) (\<lambda>operation.
     raise_if (operation \<notin> set OPERATION_VALUES) InvalidIdentityState
     (bindE (require_uint (ditem auth 4)) (\<lambda>epoch.
     bindE (require_uint (ditem auth 5)) (\<lambda>threshold.
     (case ditem auth 6 of
        PyList signer_set \<Rightarrow>
          raise_if (signer_set = []) InvalidIdentityState
          (bindE (normalize_signers signer_set [] []) (\<lambda>normalized.
           raise_if (normalized \<noteq> sort_key (\<lambda>e. id_bytes (fst e)) normalized
                     \<or> \<not> (1 \<le> threshold \<and> threshold \<le> int (length normalized)))
             InvalidIdentityState
           (bindE (require_bytes (ditem auth 7) (Some 32) False) (\<lambda>predecessor.
            Inr \<lparr>au_operation = operation, au_epoch = epoch, au_threshold = threshold,
                 au_signers = normalized, au_predecessor = predecessor\<rparr>))))
      | _ \<Rightarrow> Inl InvalidIdentityState))))))))))"

text \<open>\<^verbatim>\<open>_decode_signed_update\<close>: record map, payload map, sequence, authorization.\<close>

definition decode_signed_update ::
    "prims \<Rightarrow> pyval \<Rightarrow> (pydict \<times> pydict \<times> int \<times> authorization option) res" where
  "decode_signed_update P signed_update_bytes =
     bindE (require_canonical P signed_update_bytes) (\<lambda>v.
     (case v of
        PyDict decoded \<Rightarrow>
          raise_if (\<not> list_all (\<lambda>kv. is_PyInt (fst kv)) decoded) InvalidIdentityState
          (raise_if (dkeys decoded \<noteq> set (map PyInt [1, 2, 3])
                     \<and> dkeys decoded \<noteq> set (map PyInt [1, 2, 3, 4])) InvalidIdentityState
          (bindE (require_exact_keys (ditem decoded 1) [1, 2]) (\<lambda>rec.
           bindE (require_exact_keys (ditem decoded 2) []) (\<lambda>payload.
           bindE (require_uint (ditem decoded 3)) (\<lambda>sequence.
           (case dget decoded (PyInt 4) of
              None \<Rightarrow> Inr (rec, payload, sequence, None)
            | Some a \<Rightarrow>
                bindE (validate_authorization a) (\<lambda>authorization.
                Inr (rec, payload, sequence, Some authorization))))))))
      | _ \<Rightarrow> Inl InvalidIdentityState))"

definition build_identity_update ::
    "prims \<Rightarrow> pyval \<Rightarrow> pyval \<Rightarrow> pyval \<Rightarrow> pydict option \<Rightarrow> bytes res" where
  "build_identity_update P owner_name owner_public_key sequence authorization =
     bindE (validate_owner_name owner_name) (\<lambda>name.
     bindE (require_bytes owner_public_key (Some 32) False) (\<lambda>key.
     bindE (require_uint sequence) (\<lambda>seq.
     let base = [(PyInt 1, PyDict [(PyInt 1, PyBytes name), (PyInt 2, PyBytes key)]),
                 (PyInt 2, PyDict []), (PyInt 3, PyInt seq)] in
     (case authorization of
        None \<Rightarrow> canonical P (PyDict base)
      | Some a \<Rightarrow>
          bindE (validate_authorization (PyDict a)) (\<lambda>auth.
          canonical P (PyDict (base @ [(PyInt 4, PyDict (auth_dict auth))])))))))"

definition verify_signature :: "prims \<Rightarrow> bytes \<Rightarrow> bytes \<Rightarrow> bytes \<Rightarrow> unit res" where
  "verify_signature P public_key update sig =
     raise_if (\<not> ed25519_verify P public_key (sha256 update) sig) InvalidIdentityState (Inr ())"

section \<open>Envelopes\<close>

record identity_state =
  st_owner_name :: bytes
  st_owner_public_key :: bytes
  st_sequence :: int
  st_signed_update_bytes :: bytes
  st_envelope_bytes :: bytes
  st_state_hash :: bytes
  st_generation :: "int option"
  st_threshold :: "int option"
  st_signer_set :: signer_list
  st_predecessor_envelopes :: "bytes list"

text \<open>A proof entry of an envelope: the signer identifier, or null, and the signature.\<close>

type_synonym proof_entry = "pystr option \<times> bytes"

definition optional_id :: "pyval \<Rightarrow> pystr option res" where
  "optional_id v =
     (case v of
        PyNone \<Rightarrow> Inr None
      | PyStr s \<Rightarrow> raise_if (s = []) InvalidIdentityState (Inr (Some s))
      | _ \<Rightarrow> Inl InvalidIdentityState)"

definition proof_id_bytes :: "pystr option \<Rightarrow> bytes" where
  "proof_id_bytes i = (case i of None \<Rightarrow> [] | Some s \<Rightarrow> id_bytes s)"

fun normalize_proofs :: "pyval list \<Rightarrow> pystr option list \<Rightarrow> proof_entry list res" where
  "normalize_proofs [] seen = Inr []"
| "normalize_proofs (entry # rest) seen =
     bindE (require_exact_keys entry [1, 2]) (\<lambda>e.
     bindE (optional_id (ditem e 1)) (\<lambda>signer_id.
     bindE (require_bytes (ditem e 2) (Some 64) False) (\<lambda>sig.
     raise_if (case signer_id of None \<Rightarrow> False | Some s \<Rightarrow> utf8_encode s = None) InvalidIdentityState
     (raise_if (signer_id \<in> set seen) InvalidIdentityState
     (bindE (normalize_proofs rest (signer_id # seen)) (\<lambda>normalized.
      Inr ((signer_id, sig) # normalized)))))))"

definition validate_proof_list :: "pyval \<Rightarrow> proof_entry list res" where
  "validate_proof_list v =
     (case v of
        PyList proofs \<Rightarrow>
          bindE (normalize_proofs proofs []) (\<lambda>normalized.
          raise_if (normalized \<noteq> sort_key (\<lambda>p. proof_id_bytes (fst p)) normalized)
            InvalidIdentityState (Inr normalized))
      | _ \<Rightarrow> Inl InvalidIdentityState)"

text \<open>A Python \<^verbatim>\<open>dict\<close> of pairs: the last pair with a key wins.\<close>

definition dict_of :: "('k \<times> 'v) list \<Rightarrow> 'k \<rightharpoonup> 'v" where
  "dict_of ps = map_of (rev ps)"

abbreviation or_zero :: "int option \<Rightarrow> int" where
  "or_zero g \<equiv> (case g of None \<Rightarrow> 0 | Some n \<Rightarrow> n)"

text \<open>The transition rules of a version-1 envelope that precede its proofs.  \<open>key\<close> is
  the candidate owner key as decoded, of any type.\<close>

definition check_transition ::
    "bytes \<Rightarrow> pyval \<Rightarrow> int \<Rightarrow> authorization \<Rightarrow> identity_state option \<Rightarrow> unit res" where
  "check_transition owner_name key sequence auth previous =
     (if au_operation auth = 1 then
        raise_if (previous \<noteq> None \<or> sequence \<noteq> 1 \<or> au_epoch auth \<noteq> 1
                  \<or> au_predecessor auth \<noteq> zero_bytes 32) InvalidIdentityState
        (raise_if (au_threshold auth \<noteq> 2 \<or> length (au_signers auth) \<noteq> 3) InvalidIdentityState
         (Inr ()))
      else if au_operation auth = 4 then
        raise_if (au_epoch auth \<noteq> 1 \<or> au_threshold auth \<noteq> 2 \<or> length (au_signers auth) \<noteq> 3)
          InvalidIdentityState (Inr ())
      else if au_operation auth = 2 then
        (case previous of
           None \<Rightarrow> Inl InvalidIdentityState
         | Some prev \<Rightarrow>
             raise_if (st_signer_set prev = [] \<or> st_owner_name prev \<noteq> owner_name
               \<or> PyBytes (st_owner_public_key prev) \<noteq> key
               \<or> st_state_hash prev \<noteq> au_predecessor auth
               \<or> sequence \<noteq> st_sequence prev + 1
               \<or> Some (au_epoch auth) \<noteq> st_generation prev
               \<or> Some (au_threshold auth) \<noteq> st_threshold prev
               \<or> au_signers auth \<noteq> st_signer_set prev) InvalidIdentityState (Inr ()))
      else if au_operation auth = 3 then
        raise_if (au_threshold auth \<noteq> 2 \<or> length (au_signers auth) \<noteq> 3) InvalidIdentityState
        (case previous of
           None \<Rightarrow> Inl InvalidIdentityState
         | Some prev \<Rightarrow>
             raise_if (st_signer_set prev = [] \<or> st_owner_name prev \<noteq> owner_name
               \<or> PyBytes (st_owner_public_key prev) \<noteq> key
               \<or> st_state_hash prev \<noteq> au_predecessor auth
               \<or> sequence \<noteq> st_sequence prev + 1
               \<or> au_epoch auth \<le> or_zero (st_generation prev)
               \<or> au_signers auth = st_signer_set prev) InvalidIdentityState (Inr ()))
      else if au_operation auth = 5 then
        (case previous of
           None \<Rightarrow> Inl InvalidIdentityState
         | Some prev \<Rightarrow>
             raise_if (st_owner_name prev \<noteq> owner_name
               \<or> PyBytes (st_owner_public_key prev) = key
               \<or> st_state_hash prev \<noteq> au_predecessor auth
               \<or> sequence \<noteq> st_sequence prev + 1) InvalidIdentityState
             (if st_signer_set prev \<noteq> [] then
                raise_if (Some (au_epoch auth) \<noteq> st_generation prev
                  \<or> Some (au_threshold auth) \<noteq> st_threshold prev
                  \<or> au_signers auth \<noteq> st_signer_set prev) InvalidIdentityState (Inr ())
              else
                raise_if (au_epoch auth \<noteq> 1 \<or> au_threshold auth \<noteq> 2
                  \<or> length (au_signers auth) \<noteq> 3) InvalidIdentityState
                (raise_if (\<not> hashable key) PyTypeError
                (raise_if (key \<notin> PyBytes ` snd ` set (au_signers auth)) InvalidIdentityState
                 (Inr ())))))
      else Inl InvalidIdentityState)"

text \<open>Every proof must come from a known signer and verify; the result is the
  identifiers of the signers.\<close>

fun verify_proofs ::
    "prims \<Rightarrow> (pystr \<rightharpoonup> bytes) \<Rightarrow> bytes \<Rightarrow> proof_entry list \<Rightarrow> pystr list res" where
  "verify_proofs P keys update [] = Inr []"
| "verify_proofs P keys update ((signer_id, sig) # rest) =
     (case signer_id of
        None \<Rightarrow> Inl InvalidIdentityState
      | Some i \<Rightarrow>
          (case keys i of
             None \<Rightarrow> Inl InvalidIdentityState
           | Some public_key \<Rightarrow>
               bindE (verify_signature P public_key update sig) (\<lambda>_.
               bindE (verify_proofs P keys update rest) (\<lambda>ids. Inr (i # ids)))))"

text \<open>The condition under which an upgrade is refused before its proof is verified.
  \<^verbatim>\<open>candidate_keys.get(\<dots>)\<close> is \<^verbatim>\<open>None\<close> for an unknown signer and for a null one.\<close>

definition upgrade_refused ::
    "pyval \<Rightarrow> int \<Rightarrow> authorization \<Rightarrow> identity_state option \<Rightarrow> proof_entry list \<Rightarrow> bool" where
  "upgrade_refused key sequence auth previous proofs \<longleftrightarrow>
     length proofs \<noteq> 1
     \<or> (case fst (hd proofs) of
          None \<Rightarrow> PyNone \<noteq> key
        | Some i \<Rightarrow> (case dict_of (au_signers auth) i of
                       None \<Rightarrow> PyNone \<noteq> key | Some k \<Rightarrow> PyBytes k \<noteq> key))
     \<or> (case previous of
          None \<Rightarrow> True
        | Some prev \<Rightarrow> st_signer_set prev \<noteq> [] \<or> PyBytes (st_owner_public_key prev) \<noteq> key
            \<or> st_state_hash prev \<noteq> au_predecessor auth \<or> sequence \<noteq> st_sequence prev + 1)"

text \<open>The proofs of an operation other than a rotation from a legacy state: signers of
  the predecessor for operations 2, 3 and 5, of the candidate set otherwise.\<close>

definition check_signer_proofs ::
    "prims \<Rightarrow> bytes \<Rightarrow> authorization \<Rightarrow> identity_state option \<Rightarrow> proof_entry list \<Rightarrow> unit res" where
  "check_signer_proofs P update auth previous proofs =
     (let previous_keys = (case previous of None \<Rightarrow> Map.empty
                           | Some prev \<Rightarrow> dict_of (st_signer_set prev));
          verification_keys = (if au_operation auth \<in> {2, 3, 5} then previous_keys
                               else dict_of (au_signers auth)) in
      bindE (verify_proofs P verification_keys update proofs) (\<lambda>valid_signers.
      raise_if (if au_operation auth = 4 then card (set valid_signers) \<noteq> 1
                else int (card (set valid_signers)) < au_threshold auth)
        InvalidIdentityState (Inr ())))"

definition check_proofs ::
    "prims \<Rightarrow> bytes \<Rightarrow> pyval \<Rightarrow> int \<Rightarrow> authorization \<Rightarrow> identity_state option
      \<Rightarrow> proof_entry list \<Rightarrow> unit res" where
  "check_proofs P update key sequence auth previous proofs =
     raise_if (au_operation auth = 4 \<and> upgrade_refused key sequence auth previous proofs)
       InvalidIdentityState
     (case previous of
        None \<Rightarrow> check_signer_proofs P update auth previous proofs
      | Some prev \<Rightarrow>
          if au_operation auth = 5 \<and> st_signer_set prev = [] then
            raise_if (length proofs \<noteq> 1 \<or> fst (hd proofs) \<noteq> None) InvalidIdentityState
            (verify_signature P (st_owner_public_key prev) update (snd (hd proofs)))
          else check_signer_proofs P update auth previous proofs)"

text \<open>A legacy envelope \<^verbatim>\<open>{1: update, 2: signature}\<close>, signed by the key it names.\<close>

definition parse_legacy_envelope ::
    "prims \<Rightarrow> bytes \<Rightarrow> pydict \<Rightarrow> bytes \<Rightarrow> identity_state res" where
  "parse_legacy_envelope P owner_name outer envelope_bytes =
     bindE (require_bytes (ditem outer 1) None False) (\<lambda>update.
     bindE (require_bytes (ditem outer 2) (Some 64) False) (\<lambda>sig.
     bindE (decode_signed_update P (PyBytes update)) (\<lambda>(rec, payload, sequence, auth).
     raise_if (auth \<noteq> None \<or> payload \<noteq> [] \<or> ditem rec 1 \<noteq> PyBytes owner_name)
       InvalidIdentityState
     (bindE (require_bytes (ditem rec 2) (Some 32) False) (\<lambda>public_key.
      bindE (verify_signature P public_key update sig) (\<lambda>_.
      Inr \<lparr>st_owner_name = owner_name, st_owner_public_key = public_key,
           st_sequence = sequence, st_signed_update_bytes = update,
           st_envelope_bytes = envelope_bytes, st_state_hash = sha256 update,
           st_generation = None, st_threshold = None, st_signer_set = [],
           st_predecessor_envelopes = []\<rparr>))))))"

text \<open>A version-1 envelope \<^verbatim>\<open>{1: 1, 2: update, 3: proofs}\<close>.\<close>

definition parse_v1_envelope ::
    "prims \<Rightarrow> bytes \<Rightarrow> pydict \<Rightarrow> bytes \<Rightarrow> identity_state option \<Rightarrow> identity_state res" where
  "parse_v1_envelope P owner_name outer envelope_bytes previous =
     raise_if (dkeys outer \<noteq> set (map PyInt [1, 2, 3]) \<or> ditem outer 1 \<noteq> PyInt 1)
       InvalidIdentityState
     (bindE (require_bytes (ditem outer 2) None False) (\<lambda>update.
      bindE (decode_signed_update P (PyBytes update)) (\<lambda>(rec, payload, sequence, authorization).
      (case authorization of
         None \<Rightarrow> Inl InvalidIdentityState
       | Some auth \<Rightarrow>
           raise_if (payload \<noteq> [] \<or> ditem rec 1 \<noteq> PyBytes owner_name) InvalidIdentityState
           (bindE (check_transition owner_name (ditem rec 2) sequence auth previous) (\<lambda>_.
            bindE (validate_proof_list (ditem outer 3)) (\<lambda>proofs.
            bindE (check_proofs P update (ditem rec 2) sequence auth previous proofs) (\<lambda>_.
            bindE (require_bytes (ditem rec 2) (Some 32) False) (\<lambda>public_key.
            Inr \<lparr>st_owner_name = owner_name, st_owner_public_key = public_key,
                 st_sequence = sequence, st_signed_update_bytes = update,
                 st_envelope_bytes = envelope_bytes, st_state_hash = sha256 update,
                 st_generation = Some (au_epoch auth),
                 st_threshold = Some (au_threshold auth),
                 st_signer_set = au_signers auth,
                 st_predecessor_envelopes =
                   (case previous of
                      None \<Rightarrow> []
                    | Some prev \<Rightarrow>
                        if au_operation auth \<in> {2, 3, 4, 5}
                        then st_envelope_bytes prev # st_predecessor_envelopes prev
                        else [])\<rparr>)))))))))"

definition parse_identity_envelope ::
    "prims \<Rightarrow> bytes \<Rightarrow> pyval \<Rightarrow> identity_state option \<Rightarrow> identity_state res" where
  "parse_identity_envelope P owner_name envelope previous =
     bindE (require_canonical P envelope) (\<lambda>v.
     (case v of
        PyDict outer \<Rightarrow>
          raise_if (\<not> list_all (\<lambda>kv. is_PyInt (fst kv)) outer) InvalidIdentityState
          (bindE (require_bytes envelope None False) (\<lambda>envelope_bytes.
           if dkeys outer = set (map PyInt [1, 2])
           then parse_legacy_envelope P owner_name outer envelope_bytes
           else parse_v1_envelope P owner_name outer envelope_bytes previous))
      | _ \<Rightarrow> Inl InvalidIdentityState))"

text \<open>The loop of \<^verbatim>\<open>_parse_previous_state_chain\<close>: \<open>history\<close> lists the predecessors
  from the newest to the oldest, so its last element is parsed first.\<close>

fun parse_history ::
    "prims \<Rightarrow> bytes \<Rightarrow> pyval list \<Rightarrow> identity_state option res" where
  "parse_history P owner_name [] = Inr None"
| "parse_history P owner_name (e # older) =
     bindE (parse_history P owner_name older) (\<lambda>previous.
     bindE (parse_identity_envelope P owner_name e previous) (\<lambda>st. Inr (Some st)))"

definition parse_previous_state_chain ::
    "prims \<Rightarrow> bytes \<Rightarrow> pyval \<Rightarrow> pyval list \<Rightarrow> identity_state option res" where
  "parse_previous_state_chain P owner_name envelope history =
     (if envelope = PyNone then
        raise_if (history \<noteq> []) InvalidIdentityRequest (Inr None)
      else
        bindE (parse_history P owner_name history) (\<lambda>previous.
        bindE (parse_identity_envelope P owner_name envelope previous) (\<lambda>st. Inr (Some st))))"

section \<open>Facts about the checks\<close>

lemma require_uint_Inr [res_simps]: "require_uint v = Inr i \<longleftrightarrow> v = PyInt i \<and> 0 \<le> i"
  by (cases v) (auto simp: require_uint_def raise_if_def)

lemma require_bytes_Inr [res_simps]:
  "require_bytes v len nonempty = Inr b \<longleftrightarrow>
     v = PyBytes b \<and> (\<forall>n. len = Some n \<longrightarrow> length b = n) \<and> (nonempty \<longrightarrow> b \<noteq> [])"
  by (cases v) (auto simp: require_bytes_def raise_if_def split: option.splits)

lemma require_exact_keys_Inr [res_simps]:
  "require_exact_keys v ks = Inr d \<longleftrightarrow>
     v = PyDict d \<and> list_all (\<lambda>kv. is_PyInt (fst kv)) d \<and> dkeys d = PyInt ` set ks"
  by (cases v) (auto simp: require_exact_keys_def raise_if_def)

lemma validate_owner_name_Inr [res_simps]:
  "validate_owner_name v = Inr b \<longleftrightarrow> v = PyBytes b \<and> b \<noteq> [] \<and> utf8_decode b \<noteq> None"
  by (cases v) (auto simp: validate_owner_name_def raise_if_def)

lemma canonical_Inr [res_simps]: "canonical P v = Inr b \<longleftrightarrow> cbor_dumps P v = Some b"
  by (auto simp: canonical_def split: option.splits)

lemma require_canonical_Inr [res_simps]:
  "require_canonical P data = Inr v \<longleftrightarrow>
     (\<exists>b. data = PyBytes b \<and> b \<noteq> [] \<and> cbor_loads P b = Some v \<and> cbor_dumps P v = Some b)"
  by (cases data) (auto simp: require_canonical_def raise_if_def split: option.splits)

lemma verify_signature_Inr [res_simps]:
  "verify_signature P k u s = Inr x \<longleftrightarrow> ed25519_verify P k (sha256 u) s"
  by (simp add: verify_signature_def raise_if_def)

lemma optional_id_Inr [res_simps]:
  "optional_id v = Inr i \<longleftrightarrow>
     (case i of None \<Rightarrow> v = PyNone | Some s \<Rightarrow> v = PyStr s \<and> s \<noteq> [])"
  by (cases v) (auto simp: optional_id_def raise_if_def split: option.splits)

text \<open>A codec value that round-trips is canonical.\<close>

lemma require_canonical_dumps:
  assumes "cbor_ok P" and "cbor_plain v" and "cbor_dumps P v = Some b"
  shows "require_canonical P (PyBytes b) = Inr v"
  using assms by (auto simp: require_canonical_Inr elim: cbor_okD)

section \<open>Authorization maps are normal forms\<close>

definition signer_ok :: "pystr \<times> bytes \<Rightarrow> bool" where
  "signer_ok e \<longleftrightarrow> fst e \<noteq> [] \<and> utf8_encode (fst e) \<noteq> None
     \<and> length (id_bytes (fst e)) \<le> 256 \<and> length (snd e) = 32"

definition signers_ok :: "signer_list \<Rightarrow> bool" where
  "signers_ok ss \<longleftrightarrow> ss \<noteq> [] \<and> (\<forall>e \<in> set ss. signer_ok e)
     \<and> distinct (map fst ss) \<and> distinct (map snd ss) \<and> sorted (map (\<lambda>e. id_bytes (fst e)) ss)"

definition auth_ok :: "authorization \<Rightarrow> bool" where
  "auth_ok a \<longleftrightarrow> au_operation a \<in> set OPERATION_VALUES \<and> 0 \<le> au_epoch a
     \<and> 1 \<le> au_threshold a \<and> au_threshold a \<le> int (length (au_signers a))
     \<and> signers_ok (au_signers a) \<and> length (au_predecessor a) = 32"

lemma normalize_signers_sound:
  assumes "normalize_signers vs ids keys = Inr ns"
  shows "(\<forall>e \<in> set ns. signer_ok e) \<and> distinct (map fst ns) \<and> distinct (map snd ns)
     \<and> fst ` set ns \<inter> set ids = {} \<and> snd ` set ns \<inter> set keys = {} \<and> length ns = length vs"
  using assms
proof (induction vs arbitrary: ids keys ns)
  case (Cons v vs)
  from Cons.prems obtain e key i b ms where
      e: "require_exact_keys v [1, 2] = Inr e" "require_bytes (ditem e 2) (Some 32) False = Inr key"
      "ditem e 1 = PyStr i" "i \<noteq> []" "utf8_encode i = Some b" "length b \<le> 256"
      "i \<notin> set ids" "key \<notin> set keys"
    and ms: "normalize_signers vs (i # ids) (key # keys) = Inr ms" and ns: "ns = (i, key) # ms"
    by (auto simp: bindE_Inr_iff raise_if_Inr_iff case_PyStr_Inr case_option_Inr not_less)
  have "signer_ok (i, key)"
    using e by (auto simp: signer_ok_def id_bytes_def res_simps)
  then show ?case using Cons.IH [OF ms] e unfolding ns by force
qed simp

lemma normalize_signers_entries:
  assumes "\<forall>e \<in> set ns. signer_ok e" "distinct (map fst ns)" "distinct (map snd ns)"
    "fst ` set ns \<inter> set ids = {}" "snd ` set ns \<inter> set keys = {}"
  shows "normalize_signers (map signer_entry ns) ids keys = Inr ns"
  using assms
proof (induction ns arbitrary: ids keys)
  case (Cons e ns)
  have IH: "normalize_signers (map signer_entry ns) (fst e # ids) (snd e # keys) = Inr ns"
    using Cons.prems by (intro Cons.IH) (auto simp: image_iff)
  have "require_exact_keys (signer_entry e) [1, 2]
      = Inr [(PyInt 1, PyStr (fst e)), (PyInt 2, PyBytes (snd e))]"
    by (auto simp: res_simps dkeys_def)
  with Cons.prems IH show ?case
    by (auto simp: signer_ok_def id_bytes_def dget_none_def require_bytes_def split: option.splits)
qed simp

lemma validate_authorization_sound:
  assumes "validate_authorization v = Inr a"
  shows "auth_ok a"
proof -
  from assms obtain auth ss where
      ss: "normalize_signers ss [] [] = Inr (au_signers a)" "ss \<noteq> []"
    and a: "au_operation a \<in> set OPERATION_VALUES" "0 \<le> au_epoch a" "1 \<le> au_threshold a"
      "au_threshold a \<le> int (length (au_signers a))" "length (au_predecessor a) = 32"
      "sorted (map (\<lambda>e. id_bytes (fst e)) (au_signers a))"
    unfolding validate_authorization_def
    by (auto simp: res_simps case_res_simps sort_key_eq_self_iff [symmetric])
  moreover from ss have "length (au_signers a) = length ss"
    using normalize_signers_sound by blast
  ultimately show ?thesis
    using normalize_signers_sound [OF ss(1)] by (auto simp: auth_ok_def signers_ok_def)
qed

lemma validate_authorization_dict:
  assumes "auth_ok a"
  shows "validate_authorization (PyDict (auth_dict a)) = Inr a"
proof -
  have "normalize_signers (map signer_entry (au_signers a)) [] [] = Inr (au_signers a)"
    using assms by (intro normalize_signers_entries) (auto simp: auth_ok_def signers_ok_def)
  moreover have "require_exact_keys (PyDict (auth_dict a)) [1, 2, 3, 4, 5, 6, 7] = Inr (auth_dict a)"
    by (auto simp: res_simps auth_dict_def dkeys_def)
  moreover have "sort_key (\<lambda>e. id_bytes (fst e)) (au_signers a) = au_signers a"
    using assms by (simp add: sort_key_eq_self_iff auth_ok_def signers_ok_def)
  moreover have "0 \<le> au_operation a"
    using assms by (auto simp: auth_ok_def OPERATION_VALUES_def)
  ultimately show ?thesis
    using assms
    by (simp add: validate_authorization_def auth_ok_def signers_ok_def auth_dict_def dget_none_def
        require_uint_def require_bytes_def)
qed

section \<open>Building and decoding an update\<close>

definition update_value :: "bytes \<Rightarrow> bytes \<Rightarrow> int \<Rightarrow> authorization option \<Rightarrow> pyval" where
  "update_value name key sequence authorization =
     PyDict ([(PyInt 1, PyDict [(PyInt 1, PyBytes name), (PyInt 2, PyBytes key)]),
              (PyInt 2, PyDict []), (PyInt 3, PyInt sequence)]
             @ (case authorization of None \<Rightarrow> [] | Some a \<Rightarrow> [(PyInt 4, PyDict (auth_dict a))]))"

lemma auth_ok_plain:
  assumes "auth_ok a" and "au_epoch a < 2 ^ 64" and "length (au_signers a) < 2 ^ 64"
  shows "cbor_plain (PyDict (auth_dict a))"
proof -
  have "cbor_plain (signer_entry e)" if "e \<in> set (au_signers a)" for e
    using that assms(1)
    by (auto simp: auth_ok_def signers_ok_def signer_ok_def id_bytes_def split: option.splits
        dest!: bspec)
  then show ?thesis
    using assms by (auto simp: auth_dict_def auth_ok_def OPERATION_VALUES_def list_all_iff)
qed

lemma build_identity_update_Inr:
  "build_identity_update P (PyBytes name) (PyBytes key) (PyInt sequence) d = Inr b \<longleftrightarrow>
     name \<noteq> [] \<and> utf8_decode name \<noteq> None \<and> length key = 32 \<and> 0 \<le> sequence
     \<and> (\<exists>authorization.
          (case d of None \<Rightarrow> authorization = None
           | Some m \<Rightarrow> \<exists>a. validate_authorization (PyDict m) = Inr a \<and> authorization = Some a)
          \<and> cbor_dumps P (update_value name key sequence authorization) = Some b)"
  by (auto simp: build_identity_update_def update_value_def res_simps split: option.splits)

lemma decode_update_value:
  assumes "cbor_ok P" and "cbor_plain (update_value name key sequence authorization)"
    and "cbor_dumps P (update_value name key sequence authorization) = Some b"
    and "0 \<le> sequence" and "\<forall>a. authorization = Some a \<longrightarrow> auth_ok a"
  shows "decode_signed_update P (PyBytes b) =
    Inr ([(PyInt 1, PyBytes name), (PyInt 2, PyBytes key)], [], sequence, authorization)"
proof -
  have k: "dkeys [(PyInt 1, x), (PyInt 2, y), (PyInt 3, z)] = {PyInt 1, PyInt 2, PyInt 3}"
    "dkeys [(PyInt 1, x), (PyInt 2, y), (PyInt 3, z), (PyInt 4, w)]
      = {PyInt 1, PyInt 2, PyInt 3, PyInt 4}"
    "dkeys [(PyInt 1, x), (PyInt 2, y)] = {PyInt 1, PyInt 2}" "dkeys [] = {}" for x y z w
    by (auto simp: dkeys_def)
  have e: "require_exact_keys (PyDict [(PyInt 1, x), (PyInt 2, y)]) [1, 2]
      = Inr [(PyInt 1, x), (PyInt 2, y)]" "require_exact_keys (PyDict []) [] = Inr []" for x y
    by (simp_all add: require_exact_keys_def k)
  from require_canonical_dumps [OF assms(1-3)] show ?thesis
    unfolding update_value_def
    using assms(4, 5) validate_authorization_dict
    by (auto simp: decode_signed_update_def k e dget_none_def require_uint_def split: option.splits)
qed

end
