(* ===== verification/Identity_Lineage.thy ===== *)
theory Identity_Lineage
  imports Identity_State
begin

text \<open>
  What an Identity history promises, stated without the wire format: a state is
  an anchor (a self-signed legacy record or a two-of-three genesis) or follows
  from its predecessor by one of four authorized steps.  The envelope parser of
  \<^verbatim>\<open>identity.py\<close> refines this specification.
\<close>

section \<open>Abstract specification\<close>

definition signed_by :: "prims \<Rightarrow> bytes \<Rightarrow> bytes \<Rightarrow> bool" where
  "signed_by P key update \<longleftrightarrow>
     (\<exists>sig. length sig = 64 \<and> ed25519_verify P key (sha256 update) sig)"

text \<open>At least \<open>n\<close> distinct signers of the set signed the update.\<close>

definition quorum :: "prims \<Rightarrow> signer_list \<Rightarrow> nat \<Rightarrow> bytes \<Rightarrow> bool" where
  "quorum P signers n update \<longleftrightarrow>
     (\<exists>ids \<subseteq> fst ` set signers. n \<le> card ids
        \<and> (\<forall>i \<in> ids. \<exists>k. (i, k) \<in> set signers \<and> signed_by P k update))"

definition two_of_three :: "identity_state \<Rightarrow> bool" where
  "two_of_three st \<longleftrightarrow> st_threshold st = Some 2 \<and> length (st_signer_set st) = 3
     \<and> signers_ok (st_signer_set st)"

definition same_governance :: "identity_state \<Rightarrow> identity_state \<Rightarrow> bool" where
  "same_governance prev st \<longleftrightarrow> st_generation st = st_generation prev
     \<and> st_threshold st = st_threshold prev \<and> st_signer_set st = st_signer_set prev"

text \<open>The fields of a version-1 state are those of its signed bytes.\<close>

definition governed :: "prims \<Rightarrow> identity_state \<Rightarrow> authorization \<Rightarrow> bool" where
  "governed P st a \<longleftrightarrow> auth_ok a
     \<and> (\<exists>rec. decode_signed_update P (PyBytes (st_signed_update_bytes st))
               = Inr (rec, [], st_sequence st, Some a)
          \<and> ditem rec 1 = PyBytes (st_owner_name st)
          \<and> ditem rec 2 = PyBytes (st_owner_public_key st))
     \<and> length (st_owner_public_key st) = 32
     \<and> st_generation st = Some (au_epoch a) \<and> st_threshold st = Some (au_threshold a)
     \<and> st_signer_set st = au_signers a
     \<and> st_state_hash st = sha256 (st_signed_update_bytes st)"

definition legacy_anchor :: "prims \<Rightarrow> identity_state \<Rightarrow> bool" where
  "legacy_anchor P st \<longleftrightarrow> st_signer_set st = [] \<and> st_generation st = None
     \<and> st_threshold st = None
     \<and> (\<exists>rec. decode_signed_update P (PyBytes (st_signed_update_bytes st))
               = Inr (rec, [], st_sequence st, None)
          \<and> ditem rec 1 = PyBytes (st_owner_name st)
          \<and> ditem rec 2 = PyBytes (st_owner_public_key st))
     \<and> length (st_owner_public_key st) = 32
     \<and> signed_by P (st_owner_public_key st) (st_signed_update_bytes st)
     \<and> st_state_hash st = sha256 (st_signed_update_bytes st)
     \<and> st_predecessor_envelopes st = []"

definition genesis_anchor :: "prims \<Rightarrow> identity_state \<Rightarrow> bool" where
  "genesis_anchor P st \<longleftrightarrow>
     (\<exists>a. governed P st a \<and> au_operation a = 1 \<and> au_predecessor a = zero_bytes 32)
     \<and> st_sequence st = 1 \<and> st_generation st = Some 1 \<and> two_of_three st
     \<and> quorum P (st_signer_set st) 2 (st_signed_update_bytes st)
     \<and> st_predecessor_envelopes st = []"

text \<open>\<open>a\<close> commits to the signed bytes of the predecessor.\<close>

definition extends :: "identity_state \<Rightarrow> identity_state \<Rightarrow> authorization \<Rightarrow> bool" where
  "extends prev st a \<longleftrightarrow> st_owner_name st = st_owner_name prev
     \<and> st_sequence st = st_sequence prev + 1 \<and> au_predecessor a = st_state_hash prev
     \<and> st_predecessor_envelopes st = st_envelope_bytes prev # st_predecessor_envelopes prev"

inductive identity_step :: "prims \<Rightarrow> identity_state \<Rightarrow> identity_state \<Rightarrow> bool" for P where
  ordinary_update:
    "\<lbrakk>governed P st a; au_operation a = 2; extends prev st a; st_signer_set prev \<noteq> [];
      st_owner_public_key st = st_owner_public_key prev; same_governance prev st;
      quorum P (st_signer_set prev) (nat (au_threshold a)) (st_signed_update_bytes st)\<rbrakk>
     \<Longrightarrow> identity_step P prev st"
| signer_replacement:
    "\<lbrakk>governed P st a; au_operation a = 3; extends prev st a; st_signer_set prev \<noteq> [];
      st_owner_public_key st = st_owner_public_key prev; two_of_three st;
      or_zero (st_generation prev) < au_epoch a; st_signer_set st \<noteq> st_signer_set prev;
      quorum P (st_signer_set prev) 2 (st_signed_update_bytes st)\<rbrakk>
     \<Longrightarrow> identity_step P prev st"
| upgrade:
    "\<lbrakk>governed P st a; au_operation a = 4; extends prev st a; st_signer_set prev = [];
      st_owner_public_key st = st_owner_public_key prev; two_of_three st; au_epoch a = 1;
      st_owner_public_key prev \<in> snd ` set (st_signer_set st);
      signed_by P (st_owner_public_key prev) (st_signed_update_bytes st)\<rbrakk>
     \<Longrightarrow> identity_step P prev st"
| owner_rotation:
    "\<lbrakk>governed P st a; au_operation a = 5; extends prev st a; st_signer_set prev \<noteq> [];
      st_owner_public_key st \<noteq> st_owner_public_key prev; same_governance prev st;
      quorum P (st_signer_set prev) (nat (au_threshold a)) (st_signed_update_bytes st)\<rbrakk>
     \<Longrightarrow> identity_step P prev st"
| legacy_rotation:
    "\<lbrakk>governed P st a; au_operation a = 5; extends prev st a; st_signer_set prev = [];
      st_owner_public_key st \<noteq> st_owner_public_key prev; two_of_three st; au_epoch a = 1;
      st_owner_public_key st \<in> snd ` set (st_signer_set st);
      signed_by P (st_owner_public_key prev) (st_signed_update_bytes st)\<rbrakk>
     \<Longrightarrow> identity_step P prev st"

inductive lineage :: "prims \<Rightarrow> identity_state \<Rightarrow> bool" for P where
  legacy: "legacy_anchor P st \<Longrightarrow> lineage P st"
| genesis: "genesis_anchor P st \<Longrightarrow> lineage P st"
| step: "lineage P prev \<Longrightarrow> identity_step P prev st \<Longrightarrow> lineage P st"

section \<open>Proof lists\<close>

lemma quorum_mono: "quorum P ss n u \<Longrightarrow> m \<le> n \<Longrightarrow> quorum P ss m u"
  unfolding quorum_def by (meson le_trans)

lemma dict_of_mem: "dict_of ss i = Some k \<Longrightarrow> (i, k) \<in> set ss"
  by (simp add: dict_of_def map_of_SomeD [of "rev ss", simplified])

lemma normalize_proofs_lengths:
  "normalize_proofs vs seen = Inr ps \<Longrightarrow> list_all (\<lambda>p. length (snd p) = 64) ps"
  by (induction vs arbitrary: seen ps) (auto simp: res_simps)

lemma validate_proof_list_lengths:
  "validate_proof_list v = Inr ps \<Longrightarrow> list_all (\<lambda>p. length (snd p) = 64) ps"
  by (auto simp: validate_proof_list_def res_simps case_res_simps dest: normalize_proofs_lengths)

lemma verify_proofs_sound:
  assumes "verify_proofs P keys u ps = Inr ids" and "list_all (\<lambda>p. length (snd p) = 64) ps"
  shows "list_all (\<lambda>i. \<exists>k. keys i = Some k \<and> signed_by P k u) ids"
  using assms
proof (induction ps arbitrary: ids)
  case (Cons p ps)
  then show ?case
    by (cases p) (auto simp: res_simps case_res_simps signed_by_def)
qed simp

lemma verify_proofs_quorum:
  assumes "verify_proofs P (dict_of ss) u ps = Inr ids"
    and "list_all (\<lambda>p. length (snd p) = 64) ps" and "n \<le> int (card (set ids))"
  shows "quorum P ss (nat n) u"
proof -
  have *: "\<exists>k. (i, k) \<in> set ss \<and> signed_by P k u" if "i \<in> set ids" for i
    using verify_proofs_sound [OF assms(1, 2)] that
    by (auto simp: list_all_iff dest!: bspec dict_of_mem)
  then have "set ids \<subseteq> fst ` set ss" by force
  with * assms(3) show ?thesis unfolding quorum_def by (intro exI [of _ "set ids"]) auto
qed

section \<open>The parser refines the specification\<close>

lemma decode_signed_update_sound:
  assumes "decode_signed_update P v = Inr (rec, payload, sequence, auth)"
  shows "payload = []" and "auth = Some a \<Longrightarrow> auth_ok a"
  using assms
  by (auto simp: decode_signed_update_def res_simps case_res_simps dkeys_def
      split: option.splits dest: validate_authorization_sound)

text \<open>What the parser has established of a version-1 envelope when it returns.\<close>

definition checked_envelope ::
    "prims \<Rightarrow> bytes \<Rightarrow> identity_state option \<Rightarrow> identity_state \<Rightarrow> authorization
      \<Rightarrow> proof_entry list \<Rightarrow> bool" where
  "checked_envelope P name previous st a proofs \<longleftrightarrow>
     governed P st a \<and> st_owner_name st = name
     \<and> check_transition name (PyBytes (st_owner_public_key st)) (st_sequence st) a previous = Inr ()
     \<and> check_proofs P (st_signed_update_bytes st) (PyBytes (st_owner_public_key st))
         (st_sequence st) a previous proofs = Inr ()
     \<and> list_all (\<lambda>p. length (snd p) = 64) proofs
     \<and> st_predecessor_envelopes st =
         (case previous of None \<Rightarrow> []
          | Some prev \<Rightarrow> if au_operation a \<in> {2, 3, 4, 5}
                         then st_envelope_bytes prev # st_predecessor_envelopes prev else [])"

lemma parse_legacy_envelope_sound:
  assumes "parse_legacy_envelope P name outer e = Inr st"
  shows "legacy_anchor P st \<and> st_owner_name st = name \<and> st_envelope_bytes st = e"
proof -
  from assms obtain update sig rec payload sequence key where
      d: "decode_signed_update P (PyBytes update) = Inr (rec, payload, sequence, None)"
    and "ditem rec 1 = PyBytes name" "ditem rec 2 = PyBytes key" "length key = 32"
      "length sig = 64" "ed25519_verify P key (sha256 update) sig" "payload = []"
    and st: "st = \<lparr>st_owner_name = name, st_owner_public_key = key,
           st_sequence = sequence, st_signed_update_bytes = update,
           st_envelope_bytes = e, st_state_hash = sha256 update,
           st_generation = None, st_threshold = None, st_signer_set = [],
           st_predecessor_envelopes = []\<rparr>"
    unfolding parse_legacy_envelope_def by (fastforce simp: res_simps split: prod.splits)
  then show ?thesis
    unfolding st by (auto simp: legacy_anchor_def signed_by_def)
qed

lemma parse_v1_envelope_sound:
  assumes "parse_v1_envelope P name outer e previous = Inr st"
  shows "(\<exists>a proofs. checked_envelope P name previous st a proofs)
    \<and> st_owner_name st = name \<and> st_envelope_bytes st = e"
  using assms unfolding parse_v1_envelope_def
  apply (simp only: bindE_Inr_iff raise_if_Inr_iff case_option_Inr require_bytes_Inr
      split_paired_Ex prod.case sum.inject)
  apply (elim exE conjE)
  subgoal premises prems for update rec payload sequence authorization a _ proofs _ key
  proof -
    have d: "decode_signed_update P (PyBytes update) = Inr (rec, payload, sequence, Some a)"
      using prems by simp
    have "checked_envelope P name previous st a proofs"
      unfolding checked_envelope_def governed_def prems(11) [symmetric]
      using prems(7-10,12,13) d decode_signed_update_sound [OF d]
        validate_proof_list_lengths [of "ditem outer 3" proofs]
      by simp
    then show ?thesis unfolding prems(11) [symmetric] by auto
  qed
  done

lemma parse_identity_envelope_cases:
  assumes "parse_identity_envelope P name e previous = Inr st"
  shows "(legacy_anchor P st \<or> (\<exists>a proofs. checked_envelope P name previous st a proofs))
    \<and> st_owner_name st = name \<and> e = PyBytes (st_envelope_bytes st)"
  using assms unfolding parse_identity_envelope_def
  by (auto simp: bindE_Inr_iff raise_if_Inr_iff case_PyDict_Inr require_bytes_Inr split: if_splits
      dest!: parse_legacy_envelope_sound parse_v1_envelope_sound)

lemma governed_threshold: "governed P st a \<Longrightarrow> 1 \<le> au_threshold a"
  by (simp add: governed_def auth_ok_def)

lemma governed_two_of_three:
  "governed P st a \<Longrightarrow> au_threshold a = 2 \<Longrightarrow> length (au_signers a) = 3 \<Longrightarrow> two_of_three st"
  by (simp add: governed_def auth_ok_def two_of_three_def)

lemma governed_fields:
  assumes "governed P st a"
  shows "st_generation st = Some (au_epoch a)" "st_threshold st = Some (au_threshold a)"
    "st_signer_set st = au_signers a" "au_operation a \<in> {1, 2, 3, 4, 5}" "au_signers a \<noteq> []"
  using assms by (auto simp: governed_def auth_ok_def OPERATION_VALUES_def signers_ok_def)

lemma check_signer_proofs_quorum:
  assumes "check_signer_proofs P u a previous proofs = Inr ()"
    and "list_all (\<lambda>p. length (snd p) = 64) proofs" and "au_operation a \<noteq> 4"
  shows "au_operation a \<in> {2, 3, 5} \<Longrightarrow> previous = Some prev
      \<Longrightarrow> quorum P (st_signer_set prev) (nat (au_threshold a)) u"
    and "au_operation a \<notin> {2, 3, 5} \<Longrightarrow> quorum P (au_signers a) (nat (au_threshold a)) u"
  using assms
  by (auto simp: check_signer_proofs_def res_simps not_less intro!: verify_proofs_quorum)

lemma checked_genesis:
  assumes "checked_envelope P name previous st a proofs" and "au_operation a = 1"
  shows "previous = None \<and> genesis_anchor P st"
proof -
  from assms have t: "previous = None" "st_sequence st = 1" "au_epoch a = 1"
      "au_predecessor a = zero_bytes 32" "au_threshold a = 2" "length (au_signers a) = 3"
    by (auto simp: checked_envelope_def check_transition_def res_simps)
  then have "quorum P (au_signers a) (nat 2) (st_signed_update_bytes st)"
    using assms check_signer_proofs_quorum(2) [of P _ a previous proofs]
    by (auto simp: checked_envelope_def check_proofs_def)
  moreover have g: "governed P st a" using assms(1) by (simp add: checked_envelope_def)
  ultimately show ?thesis
    using t assms governed_two_of_three [OF g] governed_fields [OF g]
    by (auto simp: genesis_anchor_def checked_envelope_def)
qed

lemma checked_quorum:
  assumes "checked_envelope P name (Some prev) st a proofs" and "au_operation a \<in> {2, 3, 5}"
    and "st_signer_set prev \<noteq> []"
  shows "quorum P (st_signer_set prev) (nat (au_threshold a)) (st_signed_update_bytes st)"
  using assms check_signer_proofs_quorum(1) [of P _ a "Some prev" proofs]
  by (auto simp: checked_envelope_def check_proofs_def)

lemma upgrade_accepted:
  assumes "\<not> upgrade_refused (PyBytes key) sequence a (Some prev) proofs"
  obtains i sig where "proofs = [(Some i, sig)]" "dict_of (au_signers a) i = Some key"
    "st_signer_set prev = []" "st_owner_public_key prev = key"
    "au_predecessor a = st_state_hash prev" "sequence = st_sequence prev + 1"
  using assms
  by (cases proofs; cases "hd proofs") (auto simp: upgrade_refused_def split: option.splits)

lemma checked_upgrade:
  assumes "checked_envelope P name (Some prev) st a proofs" and "au_operation a = 4"
  shows "signed_by P (st_owner_public_key prev) (st_signed_update_bytes st)
    \<and> st_owner_public_key prev \<in> snd ` set (au_signers a)
    \<and> st_signer_set prev = [] \<and> st_owner_public_key st = st_owner_public_key prev
    \<and> au_predecessor a = st_state_hash prev \<and> st_sequence st = st_sequence prev + 1"
proof -
  from assms have "\<not> upgrade_refused (PyBytes (st_owner_public_key st)) (st_sequence st) a (Some prev)
      proofs"
    and v: "check_signer_proofs P (st_signed_update_bytes st) a (Some prev) proofs = Inr ()"
    by (auto simp: checked_envelope_def check_proofs_def raise_if_Inr_iff)
  from upgrade_accepted [OF this(1)] obtain i sig where ps: "proofs = [(Some i, sig)]"
    and k: "dict_of (au_signers a) i = Some (st_owner_public_key st)"
    and r: "st_signer_set prev = []" "st_owner_public_key prev = st_owner_public_key st"
      "au_predecessor a = st_state_hash prev" "st_sequence st = st_sequence prev + 1"
    by metis
  have "signed_by P (st_owner_public_key st) (st_signed_update_bytes st)"
    using v k ps assms
    by (auto simp: signed_by_def checked_envelope_def check_signer_proofs_def res_simps)
  with r dict_of_mem [OF k] show ?thesis by force
qed

lemma checked_legacy_rotation:
  assumes "checked_envelope P name (Some prev) st a proofs" and "au_operation a = 5"
    and "st_signer_set prev = []"
  shows "signed_by P (st_owner_public_key prev) (st_signed_update_bytes st)"
  using assms
  by (cases proofs) (auto simp: checked_envelope_def check_proofs_def res_simps signed_by_def)

text \<open>Every version-1 envelope that the parser accepts on a predecessor of the same
  owner is one of the steps.\<close>

lemma checked_step:
  assumes c: "checked_envelope P name (Some prev) st a proofs" and n: "st_owner_name prev = name"
  shows "identity_step P prev st"
proof -
  have g: "governed P st a" and nm: "st_owner_name st = name"
    and t: "check_transition name (PyBytes (st_owner_public_key st)) (st_sequence st) a (Some prev)
      = Inr ()"
    and pe: "au_operation a \<in> {2, 3, 4, 5} \<Longrightarrow> st_predecessor_envelopes st
      = st_envelope_bytes prev # st_predecessor_envelopes prev"
    using c by (auto simp: checked_envelope_def)
  note f = governed_fields [OF g]
  consider "au_operation a = 1" | "au_operation a = 2" | "au_operation a = 3"
    | "au_operation a = 4" | "au_operation a = 5" using f(4) by blast
  then show ?thesis
  proof cases
    case 1 with checked_genesis [OF c] show ?thesis by simp
  next
    case 2
    with t have "extends prev st a" "st_signer_set prev \<noteq> []" "same_governance prev st"
        "st_owner_public_key st = st_owner_public_key prev"
      using n nm pe f by (auto simp: check_transition_def res_simps extends_def same_governance_def)
    with 2 show ?thesis using g checked_quorum [OF c] by (intro ordinary_update) auto
  next
    case 3
    with t have "extends prev st a" and p: "st_signer_set prev \<noteq> []" and two: "two_of_three st"
        "au_threshold a = 2" and "st_owner_public_key st = st_owner_public_key prev"
        "or_zero (st_generation prev) < au_epoch a" "st_signer_set st \<noteq> st_signer_set prev"
      using n nm pe f governed_two_of_three [OF g]
      by (auto simp: check_transition_def res_simps extends_def)
    moreover have "quorum P (st_signer_set prev) 2 (st_signed_update_bytes st)"
      using checked_quorum [OF c _ p] 3 two by simp
    ultimately show ?thesis using g 3 by (intro signer_replacement) auto
  next
    case 4
    with t have "two_of_three st" "au_epoch a = 1"
      using governed_two_of_three [OF g] by (auto simp: check_transition_def res_simps)
    moreover have "extends prev st a" using checked_upgrade [OF c] n nm pe 4 by (simp add: extends_def)
    ultimately show ?thesis using checked_upgrade [OF c] g 4 f by (intro upgrade) auto
  next
    case 5
    with t have ex: "extends prev st a" "st_owner_public_key st \<noteq> st_owner_public_key prev"
      using n nm pe by (auto simp: check_transition_def res_simps extends_def split: if_splits)
    show ?thesis
    proof (cases "st_signer_set prev = []")
      case True
      with 5 t have "two_of_three st" "au_epoch a = 1"
          "st_owner_public_key st \<in> snd ` set (st_signer_set st)"
        using governed_two_of_three [OF g] f by (auto simp: check_transition_def res_simps)
      with ex True show ?thesis
        using checked_legacy_rotation [OF c 5] g 5 by (intro legacy_rotation) auto
    next
      case False
      with 5 t have "same_governance prev st"
        using f by (auto simp: check_transition_def res_simps same_governance_def)
      with ex False show ?thesis using checked_quorum [OF c] g 5 by (intro owner_rotation) auto
    qed
  qed
qed

lemma checked_first:
  assumes "checked_envelope P name None st a proofs"
  shows "genesis_anchor P st"
proof -
  have "au_operation a \<in> {1, 2, 3, 4, 5}"
    using assms governed_fields(4) by (auto simp: checked_envelope_def)
  with assms have "au_operation a = 1"
    by (auto simp: checked_envelope_def check_transition_def check_proofs_def upgrade_refused_def
        raise_if_Inr_iff)
  with checked_genesis [OF assms] show ?thesis by simp
qed

lemma parse_identity_envelope_lineage:
  assumes "parse_identity_envelope P name e previous = Inr st"
    and "\<forall>prev. previous = Some prev \<longrightarrow> lineage P prev \<and> st_owner_name prev = name"
  shows "lineage P st"
proof -
  from parse_identity_envelope_cases [OF assms(1)]
  consider "legacy_anchor P st" | a proofs where "checked_envelope P name previous st a proofs"
    by blast
  then show ?thesis
  proof cases
    case 1 then show ?thesis by (rule lineage.legacy)
  next
    case 2
    then show ?thesis
      using assms(2)
      by (cases previous) (auto intro: lineage.genesis lineage.step checked_first checked_step)
  qed
qed

text \<open>The predecessors a state records are the newest part of the history it was read with.\<close>

definition recorded_history :: "identity_state \<Rightarrow> pyval list \<Rightarrow> bool" where
  "recorded_history st history \<longleftrightarrow>
     (\<exists>older. history = map PyBytes (st_predecessor_envelopes st) @ older)"

lemma parse_identity_envelope_history:
  assumes "parse_identity_envelope P name e previous = Inr st"
    and "case previous of None \<Rightarrow> history = []
         | Some prev \<Rightarrow> \<exists>older. history = PyBytes (st_envelope_bytes prev) # older
                        \<and> recorded_history prev older"
  shows "recorded_history st history"
  using parse_identity_envelope_cases [OF assms(1)] assms(2)
  by (auto simp: recorded_history_def legacy_anchor_def checked_envelope_def
      split: option.splits)

lemma parse_history_lineage:
  assumes "parse_history P name history = Inr previous"
  shows "case previous of None \<Rightarrow> history = []
    | Some prev \<Rightarrow> lineage P prev \<and> st_owner_name prev = name
        \<and> (\<exists>older. history = PyBytes (st_envelope_bytes prev) # older \<and> recorded_history prev older)"
  using assms
proof (induction history arbitrary: previous)
  case (Cons e older)
  from Cons.prems obtain pp st where p: "parse_history P name older = Inr pp"
    and st: "parse_identity_envelope P name e pp = Inr st" and pr: "previous = Some st"
    by (auto simp: res_simps)
  have "lineage P st"
    using Cons.IH [OF p] by (intro parse_identity_envelope_lineage [OF st]) auto
  moreover have "recorded_history st older"
    using Cons.IH [OF p] by (intro parse_identity_envelope_history [OF st]) (auto split: option.splits)
  ultimately show ?case
    using parse_identity_envelope_cases [OF st] by (simp add: pr)
qed simp

lemma parse_previous_state_chain_lineage:
  assumes "parse_previous_state_chain P name e history = Inr (Some st)"
  shows "lineage P st \<and> st_owner_name st = name \<and> e = PyBytes (st_envelope_bytes st)
    \<and> recorded_history st history"
proof -
  from assms obtain previous where p: "parse_history P name history = Inr previous"
    and st: "parse_identity_envelope P name e previous = Inr st"
    by (auto simp: parse_previous_state_chain_def res_simps split: if_splits)
  have "lineage P st"
    using parse_history_lineage [OF p] by (intro parse_identity_envelope_lineage [OF st]) auto
  moreover have "recorded_history st history"
    using parse_history_lineage [OF p]
    by (intro parse_identity_envelope_history [OF st]) (auto split: option.splits)
  ultimately show ?thesis using parse_identity_envelope_cases [OF st] by simp
qed

section \<open>Consequences for every accepted state\<close>

lemma lineage_two_of_three: "lineage P st \<Longrightarrow> st_signer_set st \<noteq> [] \<Longrightarrow> two_of_three st"
proof (induction rule: lineage.induct)
  case (step prev st)
  from step.hyps(2) show ?case
    by cases (use step.IH in \<open>auto simp: same_governance_def two_of_three_def\<close>)
qed (simp_all add: legacy_anchor_def genesis_anchor_def)

lemma step_needs_quorum:
  assumes "lineage P prev" and "identity_step P prev st" and "st_signer_set prev \<noteq> []"
  shows "quorum P (st_signer_set prev) 2 (st_signed_update_bytes st)"
  using assms(2)
proof cases
  case (ordinary_update a)
  then show ?thesis
    using lineage_two_of_three [OF assms(1, 3)]
    by (auto simp: two_of_three_def same_governance_def governed_def)
next
  case (owner_rotation a)
  then show ?thesis
    using lineage_two_of_three [OF assms(1, 3)]
    by (auto simp: two_of_three_def same_governance_def governed_def)
qed (use assms(3) in auto)

lemma step_sequence: "identity_step P prev st \<Longrightarrow> st_sequence st = st_sequence prev + 1"
  by (auto elim!: identity_step.cases simp: extends_def)

lemma step_owner_key:
  assumes "identity_step P prev st" and "st_owner_public_key st \<noteq> st_owner_public_key prev"
  shows "\<exists>a. governed P st a \<and> au_operation a = 5"
  using assms by (auto elim!: identity_step.cases)

end
