(* ===== verification/Identity_Draft.thy ===== *)
theory Identity_Draft
  imports Identity_Lineage "HOL-Library.Multiset"
begin

text \<open>
  Drafts, detached proofs and bundles of \<^verbatim>\<open>identity.py\<close>: the transition rules a
  draft is checked against when it is constructed, its exchange format, and the
  merging and finalization of bundles.
\<close>

section \<open>Transition rules of a draft\<close>

definition require_complete_2_of_3 :: "authorization \<Rightarrow> unit res" where
  "require_complete_2_of_3 auth =
     raise_if (au_threshold auth \<noteq> 2 \<or> length (au_signers auth) \<noteq> 3) InvalidIdentityRequest (Inr ())"

definition signer_map :: "signer_list \<Rightarrow> pystr \<rightharpoonup> bytes" where
  "signer_map entries = dict_of entries"

definition signer_map_values :: "signer_list \<Rightarrow> bytes set" where
  "signer_map_values entries = (\<lambda>i. the (signer_map entries i)) ` fst ` set entries"

text \<open>The three parts of \<^verbatim>\<open>_validate_draft_transition\<close> on an existing predecessor:
  an owner-key rotation, a successor of a legacy state, a successor of a
  version-1 state.\<close>

definition validate_draft_rotation :: "bytes \<Rightarrow> authorization \<Rightarrow> identity_state \<Rightarrow> unit res" where
  "validate_draft_rotation owner_public_key auth prev =
     raise_if (owner_public_key = st_owner_public_key prev) InvalidIdentityRequest
     (if st_signer_set prev = [] then
        raise_if (au_epoch auth \<noteq> 1 \<or> au_threshold auth \<noteq> 2 \<or> length (au_signers auth) \<noteq> 3
                  \<or> owner_public_key \<notin> snd ` set (au_signers auth)) InvalidIdentityRequest (Inr ())
      else
        raise_if (Some (au_epoch auth) \<noteq> st_generation prev
                  \<or> Some (au_threshold auth) \<noteq> st_threshold prev
                  \<or> au_signers auth \<noteq> st_signer_set prev) InvalidIdentityRequest (Inr ()))"

definition validate_draft_upgrade :: "authorization \<Rightarrow> identity_state \<Rightarrow> unit res" where
  "validate_draft_upgrade auth prev =
     raise_if (au_operation auth \<noteq> 4 \<or> au_epoch auth \<noteq> 1) InvalidIdentityRequest
     (bindE (require_complete_2_of_3 auth) (\<lambda>_.
      raise_if (st_owner_public_key prev \<notin> signer_map_values (au_signers auth))
        InvalidIdentityRequest (Inr ())))"

definition validate_draft_update :: "authorization \<Rightarrow> identity_state \<Rightarrow> unit res" where
  "validate_draft_update auth prev =
     (if au_operation auth = 2 then
        raise_if (Some (au_epoch auth) \<noteq> st_generation prev
                  \<or> Some (au_threshold auth) \<noteq> st_threshold prev
                  \<or> au_signers auth \<noteq> st_signer_set prev) InvalidIdentityRequest (Inr ())
      else if au_operation auth = 3 then
        raise_if (au_epoch auth \<le> or_zero (st_generation prev)) InvalidIdentityRequest
        (bindE (require_complete_2_of_3 auth) (\<lambda>_.
         raise_if (au_signers auth = st_signer_set prev) InvalidIdentityRequest (Inr ())))
      else Inl InvalidIdentityRequest)"

definition validate_draft_transition ::
    "bytes \<Rightarrow> bytes \<Rightarrow> int \<Rightarrow> authorization option \<Rightarrow> identity_state option \<Rightarrow> unit res" where
  "validate_draft_transition owner_name owner_public_key sequence authorization previous =
     (case previous of
        None \<Rightarrow>
          raise_if (sequence \<noteq> 1) InvalidIdentityRequest
          (case authorization of
             None \<Rightarrow> Inr ()
           | Some auth \<Rightarrow>
               raise_if (au_operation auth \<noteq> 1 \<or> au_epoch auth \<noteq> 1
                         \<or> au_predecessor auth \<noteq> zero_bytes 32) InvalidIdentityRequest
               (require_complete_2_of_3 auth))
      | Some prev \<Rightarrow>
          raise_if (owner_name \<noteq> st_owner_name prev \<or> sequence \<noteq> st_sequence prev + 1)
            InvalidIdentityRequest
          (case authorization of
             None \<Rightarrow>
               raise_if (st_signer_set prev \<noteq> [] \<or> owner_public_key \<noteq> st_owner_public_key prev)
                 InvalidIdentityRequest (Inr ())
           | Some auth \<Rightarrow>
               raise_if (au_predecessor auth \<noteq> st_state_hash prev) InvalidIdentityRequest
               (if au_operation auth = 5 then validate_draft_rotation owner_public_key auth prev
                else
                  raise_if (owner_public_key \<noteq> st_owner_public_key prev) InvalidIdentityRequest
                  (if st_signer_set prev = [] then validate_draft_upgrade auth prev
                   else validate_draft_update auth prev))))"

section \<open>Drafts\<close>

record identity_draft =
  dr_signed_update_bytes :: bytes
  dr_previous_state_envelope :: "bytes option"
  dr_previous_state_history :: "bytes list"

definition bytes_of :: "pyval \<Rightarrow> bytes" where
  "bytes_of v = (case v of PyBytes b \<Rightarrow> b | _ \<Rightarrow> [])"

definition optional_bytes :: "bytes option \<Rightarrow> pyval" where
  "optional_bytes b = (case b of None \<Rightarrow> PyNone | Some x \<Rightarrow> PyBytes x)"

definition MAX_PREDECESSOR_DEPTH :: nat where
  "MAX_PREDECESSOR_DEPTH = 1024"

text \<open>\<^verbatim>\<open>IdentityDraft(...)\<close>: \<open>history\<close> lists the elements of the tuple.\<close>

definition make_draft :: "prims \<Rightarrow> pyval \<Rightarrow> pyval \<Rightarrow> pyval list \<Rightarrow> identity_draft res" where
  "make_draft P update envelope history =
     bindE (decode_signed_update P update) (\<lambda>(rec, payload, sequence, authorization).
     raise_if (payload \<noteq> [] \<or> length history > MAX_PREDECESSOR_DEPTH) InvalidIdentityRequest
     (raise_if (\<not> list_all is_PyBytes history) InvalidIdentityRequest
     (bindE (validate_owner_name (ditem rec 1)) (\<lambda>owner_name.
      bindE (require_bytes (ditem rec 2) (Some 32) False) (\<lambda>owner_public_key.
      bindE (parse_previous_state_chain P owner_name envelope history) (\<lambda>previous.
      bindE (validate_draft_transition owner_name owner_public_key sequence authorization previous)
        (\<lambda>_.
      Inr \<lparr>dr_signed_update_bytes = bytes_of update,
           dr_previous_state_envelope =
             (case envelope of PyBytes b \<Rightarrow> Some b | _ \<Rightarrow> None),
           dr_previous_state_history = map bytes_of history\<rparr>)))))))"

definition create_draft ::
    "prims \<Rightarrow> pyval \<Rightarrow> pyval \<Rightarrow> pyval \<Rightarrow> pydict option \<Rightarrow> pyval \<Rightarrow> pyval list
      \<Rightarrow> identity_draft res" where
  "create_draft P owner_name owner_public_key sequence authorization envelope history =
     bindE (build_identity_update P owner_name owner_public_key sequence authorization) (\<lambda>update.
     make_draft P (PyBytes update) envelope history)"

text \<open>The properties decode the update again.\<close>

definition draft_owner_name :: "prims \<Rightarrow> identity_draft \<Rightarrow> pyval res" where
  "draft_owner_name P d =
     bindE (decode_signed_update P (PyBytes (dr_signed_update_bytes d))) (\<lambda>(rec, _, _, _).
     Inr (ditem rec 1))"

definition draft_owner_public_key :: "prims \<Rightarrow> identity_draft \<Rightarrow> pyval res" where
  "draft_owner_public_key P d =
     bindE (decode_signed_update P (PyBytes (dr_signed_update_bytes d))) (\<lambda>(rec, _, _, _).
     Inr (ditem rec 2))"

definition draft_sequence :: "prims \<Rightarrow> identity_draft \<Rightarrow> int res" where
  "draft_sequence P d =
     bindE (decode_signed_update P (PyBytes (dr_signed_update_bytes d))) (\<lambda>(_, _, sequence, _).
     Inr sequence)"

definition draft_authorization :: "prims \<Rightarrow> identity_draft \<Rightarrow> authorization option res" where
  "draft_authorization P d =
     bindE (decode_signed_update P (PyBytes (dr_signed_update_bytes d))) (\<lambda>(_, _, _, authorization).
     Inr authorization)"

definition draft_previous_state :: "prims \<Rightarrow> identity_draft \<Rightarrow> identity_state option res" where
  "draft_previous_state P d =
     bindE (draft_owner_name P d) (\<lambda>owner_name.
     parse_previous_state_chain P (bytes_of owner_name)
       (optional_bytes (dr_previous_state_envelope d))
       (map PyBytes (dr_previous_state_history d)))"

definition validate_owner_key_rotation_binding ::
    "prims \<Rightarrow> identity_draft \<Rightarrow> pyval \<Rightarrow> pyval \<Rightarrow> unit res" where
  "validate_owner_key_rotation_binding P d predecessor successor =
     raise_if (\<not> is_PyBytes predecessor \<or> length (bytes_of predecessor) \<noteq> 32
               \<or> \<not> is_PyBytes successor \<or> length (bytes_of successor) \<noteq> 32) InvalidIdentityRequest
     (bindE (draft_authorization P d) (\<lambda>authorization.
      bindE (draft_previous_state P d) (\<lambda>previous.
      (case (authorization, previous) of
         (Some auth, Some prev) \<Rightarrow>
           raise_if (au_operation auth \<noteq> 5
                     \<or> PyBytes (st_owner_public_key prev) \<noteq> predecessor) InvalidIdentityRequest
           (bindE (draft_owner_public_key P d) (\<lambda>owner_public_key.
            raise_if (owner_public_key \<noteq> successor) InvalidIdentityRequest (Inr ())))
       | _ \<Rightarrow> Inl InvalidIdentityRequest))))"

definition draft_value :: "identity_draft \<Rightarrow> pyval" where
  "draft_value d =
     PyDict [(PyInt 1, PyInt 2), (PyInt 2, PyBytes (dr_signed_update_bytes d)),
             (PyInt 3, optional_bytes (dr_previous_state_envelope d)),
             (PyInt 4, PyList (map PyBytes (dr_previous_state_history d)))]"

definition draft_to_cbor :: "prims \<Rightarrow> identity_draft \<Rightarrow> bytes res" where
  "draft_to_cbor P d = canonical P (draft_value d)"

text \<open>\<^verbatim>\<open>except Exception: raise InvalidIdentityRequest()\<close>\<close>

definition as_request :: "'a res \<Rightarrow> 'a res" where
  "as_request m = exceptE m (\<lambda>_. Inl InvalidIdentityRequest)"

definition draft_from_cbor :: "prims \<Rightarrow> pyval \<Rightarrow> identity_draft res" where
  "draft_from_cbor P data =
     as_request
       (bindE (require_canonical P data) (\<lambda>decoded.
        bindE (require_exact_keys decoded [1, 2, 3, 4]) (\<lambda>v.
        raise_if (ditem v 1 \<noteq> PyInt 1 \<and> ditem v 1 \<noteq> PyInt 2) InvalidIdentityRequest
        (raise_if (ditem v 3 \<noteq> PyNone \<and> \<not> is_PyBytes (ditem v 3)) InvalidIdentityRequest
        (bindE
           (if ditem v 1 = PyInt 1 then
              (case ditem v 4 of
                 PyNone \<Rightarrow> Inr []
               | PyBytes b \<Rightarrow> Inr [PyBytes b]
               | _ \<Rightarrow> Inl InvalidIdentityRequest)
            else
              (case ditem v 4 of
                 PyList items \<Rightarrow>
                   raise_if (\<not> list_all is_PyBytes items) InvalidIdentityRequest (Inr items)
               | _ \<Rightarrow> Inl InvalidIdentityRequest)) (\<lambda>history.
         make_draft P (ditem v 2) (ditem v 3) history))))))"

section \<open>Proofs and bundles\<close>

record identity_proof =
  pf_signer_id :: "pystr option"
  pf_signer_public_key :: bytes
  pf_signature :: bytes

definition make_proof :: "pyval \<Rightarrow> pyval \<Rightarrow> pyval \<Rightarrow> identity_proof res" where
  "make_proof signer_id signer_public_key sig =
     bindE (case signer_id of
              PyNone \<Rightarrow> Inr None
            | PyStr s \<Rightarrow>
                raise_if (s = []) InvalidIdentityRequest
                (case utf8_encode s of
                   None \<Rightarrow> Inl InvalidIdentityRequest
                 | Some b \<Rightarrow> raise_if (length b > 256) InvalidIdentityRequest (Inr (Some s)))
            | _ \<Rightarrow> Inl InvalidIdentityRequest) (\<lambda>i.
     bindE (require_bytes signer_public_key (Some 32) False) (\<lambda>key.
     bindE (require_bytes sig (Some 64) False) (\<lambda>sg.
     Inr \<lparr>pf_signer_id = i, pf_signer_public_key = key, pf_signature = sg\<rparr>)))"

definition proof_order :: "identity_proof \<Rightarrow> bytes" where
  "proof_order p = proof_id_bytes (pf_signer_id p)"

record identity_bundle =
  bd_draft :: identity_draft
  bd_proofs :: "identity_proof list"

definition make_bundle :: "identity_draft \<Rightarrow> identity_proof list \<Rightarrow> identity_bundle res" where
  "make_bundle draft proofs =
     raise_if (proofs \<noteq> sort_key proof_order proofs) InvalidIdentityRequest
     (raise_if (\<not> distinct (map pf_signer_id proofs)) InvalidIdentityRequest
      (Inr \<lparr>bd_draft = draft, bd_proofs = proofs\<rparr>))"

definition bundle_merge :: "identity_bundle \<Rightarrow> identity_bundle \<Rightarrow> identity_bundle res" where
  "bundle_merge b other =
     raise_if (bd_draft b \<noteq> bd_draft other) InvalidIdentityRequest
     (let combined = bd_proofs b @ bd_proofs other in
      raise_if (\<not> distinct (map pf_signer_id combined)) InvalidIdentityRequest
      (make_bundle (bd_draft b) (sort_key proof_order combined)))"

definition optional_str :: "pystr option \<Rightarrow> pyval" where
  "optional_str s = (case s of None \<Rightarrow> PyNone | Some x \<Rightarrow> PyStr x)"

definition proof_value :: "identity_proof \<Rightarrow> pyval" where
  "proof_value p =
     PyDict [(PyInt 1, optional_str (pf_signer_id p)), (PyInt 2, PyBytes (pf_signer_public_key p)),
             (PyInt 3, PyBytes (pf_signature p))]"

definition bundle_to_cbor :: "prims \<Rightarrow> identity_bundle \<Rightarrow> bytes res" where
  "bundle_to_cbor P b =
     bindE (draft_to_cbor P (bd_draft b)) (\<lambda>draft.
     canonical P (PyDict [(PyInt 1, PyInt 2), (PyInt 2, PyBytes draft),
                          (PyInt 3, PyList (map proof_value (bd_proofs b)))]))"

definition proof_from_item :: "pyval \<Rightarrow> identity_proof res" where
  "proof_from_item item =
     bindE (require_exact_keys item [1, 2, 3]) (\<lambda>v. make_proof (ditem v 1) (ditem v 2) (ditem v 3))"

definition bundle_from_cbor :: "prims \<Rightarrow> pyval \<Rightarrow> identity_bundle res" where
  "bundle_from_cbor P data =
     as_request
       (bindE (require_canonical P data) (\<lambda>decoded.
        bindE (require_exact_keys decoded [1, 2, 3]) (\<lambda>v.
        raise_if (ditem v 1 \<noteq> PyInt 1 \<and> ditem v 1 \<noteq> PyInt 2 \<or> \<not> is_PyBytes (ditem v 2))
          InvalidIdentityRequest
        (case ditem v 3 of
           PyList items \<Rightarrow>
             bindE (mapE proof_from_item items) (\<lambda>proofs.
             raise_if (proofs \<noteq> sort_key proof_order proofs) InvalidIdentityRequest
             (bindE (draft_from_cbor P (ditem v 2)) (\<lambda>draft. make_bundle draft proofs)))
         | _ \<Rightarrow> Inl InvalidIdentityRequest))))"

section \<open>Finalization\<close>

definition verify_bundle_signature :: "prims \<Rightarrow> bytes \<Rightarrow> bytes \<Rightarrow> bytes \<Rightarrow> unit res" where
  "verify_bundle_signature P public_key update sig =
     exceptE (verify_signature P public_key update sig)
       (\<lambda>e. Inl (if e = InvalidIdentityState then InvalidIdentityRequest else e))"

definition legacy_envelope :: "prims \<Rightarrow> bytes \<Rightarrow> bytes \<Rightarrow> bytes res" where
  "legacy_envelope P update sig =
     canonical P (PyDict [(PyInt 1, PyBytes update), (PyInt 2, PyBytes sig)])"

definition proof_item :: "pystr option \<times> bytes \<Rightarrow> pyval" where
  "proof_item p = PyDict [(PyInt 1, optional_str (fst p)), (PyInt 2, PyBytes (snd p))]"

text \<open>The loop over the proofs of a bundle: \<open>Some key\<close> is the owner key of a legacy
  predecessor that is rotated, \<open>None\<close> any other operation, whose signers are \<open>keys\<close>.\<close>

fun collect_proofs ::
    "prims \<Rightarrow> bytes option \<Rightarrow> (pystr \<rightharpoonup> bytes) \<Rightarrow> bytes \<Rightarrow> identity_proof list
      \<Rightarrow> proof_entry list res" where
  "collect_proofs P rotated keys update [] = Inr []"
| "collect_proofs P rotated keys update (p # rest) =
     (case rotated of
        Some owner_key \<Rightarrow>
          raise_if (pf_signer_id p \<noteq> None \<or> pf_signer_public_key p \<noteq> owner_key)
            InvalidIdentityRequest
          (bindE (verify_bundle_signature P (pf_signer_public_key p) update (pf_signature p)) (\<lambda>_.
           bindE (collect_proofs P rotated keys update rest) (\<lambda>ps.
           Inr ((None, pf_signature p) # ps))))
      | None \<Rightarrow>
          (case pf_signer_id p of
             None \<Rightarrow> Inl InvalidIdentityRequest
           | Some signer_id \<Rightarrow>
               (case keys signer_id of
                  None \<Rightarrow> Inl InvalidIdentityRequest
                | Some expected_key \<Rightarrow>
                    raise_if (expected_key \<noteq> pf_signer_public_key p) InvalidIdentityRequest
                    (bindE (verify_bundle_signature P expected_key update (pf_signature p)) (\<lambda>_.
                     bindE (collect_proofs P rotated keys update rest) (\<lambda>ps.
                     Inr ((Some signer_id, pf_signature p) # ps)))))))"

definition rotation_predecessor_owner_key :: "authorization \<Rightarrow> identity_state option \<Rightarrow> bytes option" where
  "rotation_predecessor_owner_key auth previous =
     (case previous of
        None \<Rightarrow> None
      | Some prev \<Rightarrow>
          if au_operation auth = 5 \<and> st_signer_set prev = [] then Some (st_owner_public_key prev)
          else None)"

definition authorized_keys :: "authorization \<Rightarrow> identity_state option \<Rightarrow> (pystr \<rightharpoonup> bytes) res" where
  "authorized_keys auth previous =
     (let from_legacy = rotation_predecessor_owner_key auth previous \<noteq> None in
      if au_operation auth = 3 \<or> (au_operation auth = 5 \<and> \<not> from_legacy) then
        (case previous of
           None \<Rightarrow> Inl InvalidIdentityRequest
         | Some prev \<Rightarrow>
             raise_if (st_signer_set prev = []) InvalidIdentityRequest
             (Inr (dict_of (st_signer_set prev))))
      else if from_legacy then Inr Map.empty
      else Inr (signer_map (au_signers auth)))"

text \<open>The two branches of \<^verbatim>\<open>finalize\<close>: the bytes of the envelope.\<close>

definition finalize_legacy :: "prims \<Rightarrow> bytes \<Rightarrow> pydict \<Rightarrow> identity_proof list \<Rightarrow> bytes res" where
  "finalize_legacy P update rec proofs =
     raise_if (length proofs \<noteq> 1) InvalidIdentityRequest
     (let p = hd proofs in
      raise_if (pf_signer_id p \<noteq> None \<or> PyBytes (pf_signer_public_key p) \<noteq> ditem rec 2)
        InvalidIdentityRequest
      (bindE (verify_bundle_signature P (pf_signer_public_key p) update (pf_signature p)) (\<lambda>_.
       legacy_envelope P update (pf_signature p))))"

definition finalize_v1 ::
    "prims \<Rightarrow> bytes \<Rightarrow> pydict \<Rightarrow> authorization \<Rightarrow> identity_state option \<Rightarrow> identity_proof list
      \<Rightarrow> bytes res" where
  "finalize_v1 P update rec auth previous proofs =
     (let rotated = rotation_predecessor_owner_key auth previous in
      bindE (authorized_keys auth previous) (\<lambda>keys.
      bindE (collect_proofs P rotated keys update proofs) (\<lambda>proof_values.
      let valid_signers = (if rotated = None then fst ` set proof_values else {}) in
      raise_if
        (if au_operation auth = 4 then
           length proofs \<noteq> 1 \<or> card valid_signers \<noteq> 1
           \<or> PyBytes (pf_signer_public_key (hd proofs)) \<noteq> ditem rec 2
         else if rotated \<noteq> None then length proofs \<noteq> 1
         else int (card valid_signers) < au_threshold auth) InvalidIdentityRequest
      (canonical P (PyDict [(PyInt 1, PyInt 1), (PyInt 2, PyBytes update),
                            (PyInt 3, PyList (map proof_item proof_values))])))))"

definition bundle_finalize :: "prims \<Rightarrow> identity_bundle \<Rightarrow> bytes res" where
  "bundle_finalize P b =
     bindE (draft_previous_state P (bd_draft b)) (\<lambda>previous.
     raise_if (bd_proofs b = []) InvalidIdentityRequest
     (let update = dr_signed_update_bytes (bd_draft b) in
      bindE (decode_signed_update P (PyBytes update)) (\<lambda>(rec, payload, sequence, authorization).
      raise_if (payload \<noteq> []) InvalidIdentityRequest
      (bindE (case authorization of
                None \<Rightarrow> finalize_legacy P update rec (bd_proofs b)
              | Some auth \<Rightarrow> finalize_v1 P update rec auth previous (bd_proofs b)) (\<lambda>envelope.
       bindE (draft_owner_name P (bd_draft b)) (\<lambda>owner_name.
       exceptE
         (bindE (parse_identity_envelope P (bytes_of owner_name) (PyBytes envelope) previous)
            (\<lambda>_. Inr envelope))
         (\<lambda>e. Inl (if e = InvalidIdentityState then InvalidIdentityRequest else e))))))))"

section \<open>Well-formed drafts and bundles\<close>

text \<open>A draft is valid when its constructor accepts its own fields.\<close>

definition valid_draft :: "prims \<Rightarrow> identity_draft \<Rightarrow> bool" where
  "valid_draft P d \<longleftrightarrow>
     make_draft P (PyBytes (dr_signed_update_bytes d))
       (optional_bytes (dr_previous_state_envelope d))
       (map PyBytes (dr_previous_state_history d)) = Inr d"

definition proof_ok :: "identity_proof \<Rightarrow> bool" where
  "proof_ok p \<longleftrightarrow>
     (case pf_signer_id p of
        None \<Rightarrow> True
      | Some s \<Rightarrow> s \<noteq> [] \<and> utf8_encode s \<noteq> None \<and> length (id_bytes s) \<le> 256)
     \<and> length (pf_signer_public_key p) = 32 \<and> length (pf_signature p) = 64"

definition valid_bundle :: "prims \<Rightarrow> identity_bundle \<Rightarrow> bool" where
  "valid_bundle P b \<longleftrightarrow> valid_draft P (bd_draft b) \<and> list_all proof_ok (bd_proofs b)
     \<and> sorted (map proof_order (bd_proofs b)) \<and> distinct (map pf_signer_id (bd_proofs b))"

lemma map_PyBytes_bytes_of: "list_all is_PyBytes vs \<Longrightarrow> map PyBytes (map bytes_of vs) = vs"
  by (induction vs) (auto simp: is_PyBytes_iff bytes_of_def)

lemma parse_previous_state_chain_envelope:
  "parse_previous_state_chain P name e h = Inr previous
    \<Longrightarrow> (e = PyNone \<longleftrightarrow> previous = None) \<and> (e = PyNone \<or> is_PyBytes e)"
  using parse_previous_state_chain_lineage [of P name e h]
  by (auto simp: parse_previous_state_chain_def res_simps split: if_splits)

lemma decode_signed_update_bytes: "decode_signed_update P u = Inr r \<Longrightarrow> is_PyBytes u"
  by (auto simp: decode_signed_update_def res_simps)

lemma make_draft_fields:
  assumes "make_draft P u e h = Inr d"
  shows "u = PyBytes (dr_signed_update_bytes d) \<and> e = optional_bytes (dr_previous_state_envelope d)
    \<and> h = map PyBytes (dr_previous_state_history d)"
proof -
  from assms obtain r name previous where u: "decode_signed_update P u = Inr r"
    and h: "list_all is_PyBytes h" and e: "parse_previous_state_chain P name e h = Inr previous"
    and d: "d = \<lparr>dr_signed_update_bytes = bytes_of u,
         dr_previous_state_envelope = (case e of PyBytes b \<Rightarrow> Some b | _ \<Rightarrow> None),
         dr_previous_state_history = map bytes_of h\<rparr>"
    by (auto simp: make_draft_def bindE_Inr_iff raise_if_Inr_iff)
  from decode_signed_update_bytes [OF u] have "u = PyBytes (bytes_of u)"
    by (auto simp: is_PyBytes_iff bytes_of_def)
  moreover have "e = optional_bytes (case e of PyBytes b \<Rightarrow> Some b | _ \<Rightarrow> None)"
    using parse_previous_state_chain_envelope [OF e] by (auto simp: is_PyBytes_iff optional_bytes_def)
  ultimately show ?thesis
    using map_PyBytes_bytes_of [OF h] unfolding d by simp
qed

lemma make_draft_valid: "make_draft P u e h = Inr d \<Longrightarrow> valid_draft P d"
  using make_draft_fields [of P u e h d] by (simp add: valid_draft_def)

lemma make_proof_Inr_iff:
  "make_proof (optional_str i) (PyBytes k) (PyBytes s) = Inr p \<longleftrightarrow>
     p = \<lparr>pf_signer_id = i, pf_signer_public_key = k, pf_signature = s\<rparr> \<and> proof_ok p"
  by (auto simp: make_proof_def proof_ok_def optional_str_def id_bytes_def res_simps not_less
      split: option.splits)

lemma make_proof_ok: "make_proof v k s = Inr p \<Longrightarrow> proof_ok p"
  by (auto simp: make_proof_def proof_ok_def id_bytes_def res_simps case_res_simps not_less
      split: option.splits pyval.splits)

lemma make_bundle_Inr_iff:
  "make_bundle d ps = Inr b \<longleftrightarrow> b = \<lparr>bd_draft = d, bd_proofs = ps\<rparr>
     \<and> sorted (map proof_order ps) \<and> distinct (map pf_signer_id ps)"
  by (auto simp: make_bundle_def res_simps sort_key_eq_self_iff [symmetric])

section \<open>Exchange formats round-trip\<close>

lemma as_request_Inr [res_simps]: "as_request m = Inr y \<longleftrightarrow> m = Inr y"
  by (simp add: as_request_def res_simps)

lemma draft_from_cbor_valid: "draft_from_cbor P v = Inr d \<Longrightarrow> valid_draft P d"
  by (auto simp: draft_from_cbor_def res_simps intro: make_draft_valid)

lemma draft_round_trip:
  assumes "cbor_ok P" and "valid_draft P d" and "cbor_plain (draft_value d)"
  shows "\<exists>b. draft_to_cbor P d = Inr b \<and> draft_from_cbor P (PyBytes b) = Inr d"
proof -
  from assms obtain b where b: "cbor_dumps P (draft_value d) = Some b"
    by (elim cbor_okD)
  then have "require_canonical P (PyBytes b) = Inr (draft_value d)"
    using assms by (intro require_canonical_dumps)
  moreover have "require_exact_keys (draft_value d) [1, 2, 3, 4] =
      Inr [(PyInt 1, PyInt 2), (PyInt 2, PyBytes (dr_signed_update_bytes d)),
        (PyInt 3, optional_bytes (dr_previous_state_envelope d)),
        (PyInt 4, PyList (map PyBytes (dr_previous_state_history d)))]"
    by (auto simp: res_simps draft_value_def dkeys_def)
  ultimately have "draft_from_cbor P (PyBytes b) = Inr d"
    using assms(2)
    by (auto simp: draft_from_cbor_def valid_draft_def dget_none_def optional_bytes_def list_all_iff
        as_request_def split: option.splits)
  with b show ?thesis by (auto simp: draft_to_cbor_def res_simps)
qed

lemma bundle_from_cbor_valid:
  assumes "bundle_from_cbor P v = Inr b"
  shows "valid_bundle P b"
proof -
  from assms obtain items d where "mapE proof_from_item items = Inr (bd_proofs b)"
    and "draft_from_cbor P d = Inr (bd_draft b)" "make_bundle (bd_draft b) (bd_proofs b) = Inr b"
    by (auto simp: bundle_from_cbor_def res_simps case_res_simps make_bundle_Inr_iff)
  moreover have "proof_ok p" if "p \<in> set (bd_proofs b)" for p
    using mapE_result [OF calculation(1) that]
    by (auto simp: proof_from_item_def res_simps intro: make_proof_ok)
  ultimately show ?thesis
    by (auto simp: valid_bundle_def make_bundle_Inr_iff list_all_iff intro: draft_from_cbor_valid)
qed

lemma proof_from_item_value: "proof_ok p \<Longrightarrow> proof_from_item (proof_value p) = Inr p"
proof -
  assume "proof_ok p"
  moreover have "require_exact_keys (proof_value p) [1, 2, 3] =
      Inr [(PyInt 1, optional_str (pf_signer_id p)), (PyInt 2, PyBytes (pf_signer_public_key p)),
        (PyInt 3, PyBytes (pf_signature p))]"
    by (auto simp: res_simps proof_value_def dkeys_def)
  ultimately show ?thesis
    by (simp add: proof_from_item_def dget_none_def make_proof_Inr_iff)
qed

lemma bundle_round_trip:
  assumes "cbor_ok P" and "valid_bundle P b" and "cbor_plain (draft_value (bd_draft b))"
    and "\<And>draft. draft_to_cbor P (bd_draft b) = Inr draft \<Longrightarrow> length draft < 2 ^ 64"
    and "length (bd_proofs b) < 2 ^ 64"
  shows "\<exists>data. bundle_to_cbor P b = Inr data \<and> bundle_from_cbor P (PyBytes data) = Inr b"
proof -
  from assms draft_round_trip [OF assms(1), of "bd_draft b"] obtain draft where d: "draft_to_cbor P (bd_draft b) = Inr draft"
    and d': "draft_from_cbor P (PyBytes draft) = Inr (bd_draft b)"
    by (auto simp: valid_bundle_def)
  let ?d = "[(PyInt 1, PyInt 2), (PyInt 2, PyBytes draft),
      (PyInt 3, PyList (map proof_value (bd_proofs b)))]"
  have pv: "cbor_plain (proof_value p)" if "p \<in> set (bd_proofs b)" for p
    using that assms(2)
    by (auto simp: valid_bundle_def list_all_iff proof_ok_def proof_value_def optional_str_def
        id_bytes_def split: option.splits dest!: bspec)
  have "cbor_plain (PyDict ?d)"
    using pv assms(4) [OF d] assms(5) by (auto simp: list_all_iff)
  from cbor_okD [OF assms(1) this] obtain data where data: "cbor_dumps P (PyDict ?d) = Some data"
    and r: "require_canonical P (PyBytes data) = Inr (PyDict ?d)"
    using assms(1) require_canonical_dumps \<open>cbor_plain (PyDict ?d)\<close> by metis
  have "require_exact_keys (PyDict ?d) [1, 2, 3] = Inr ?d"
    by (auto simp: res_simps dkeys_def)
  moreover have "mapE proof_from_item (map proof_value (bd_proofs b)) = Inr (bd_proofs b)"
    using assms(2) mapE_all_Inr [of "bd_proofs b" "\<lambda>p. proof_from_item (proof_value p)" id]
    by (simp add: mapE_map valid_bundle_def list_all_iff proof_from_item_value)
  moreover have "make_bundle (bd_draft b) (bd_proofs b) = Inr b"
    using assms(2) by (simp add: make_bundle_Inr_iff valid_bundle_def)
  moreover have "sort_key proof_order (bd_proofs b) = bd_proofs b"
    using assms(2) by (simp add: sort_key_eq_self_iff valid_bundle_def)
  ultimately have "bundle_from_cbor P (PyBytes data) = Inr b"
    using r d' by (simp add: bundle_from_cbor_def dget_none_def as_request_def)
  with d data show ?thesis by (auto simp: bundle_to_cbor_def res_simps)
qed

section \<open>Merging\<close>

lemma proof_order_inj:
  assumes "proof_ok p" and "proof_ok q" and "proof_order p = proof_order q"
  shows "pf_signer_id p = pf_signer_id q"
  using assms
  by (auto simp: proof_ok_def proof_order_def proof_id_bytes_def id_bytes_def
      split: option.splits dest: utf8_encode_inj simp: utf8_encode_Nil_iff)

lemma inj_on_proof_order:
  assumes "list_all proof_ok ps" and "distinct (map pf_signer_id ps)"
  shows "inj_on proof_order (set ps)"
proof (rule inj_onI)
  fix p q assume "p \<in> set ps" "q \<in> set ps" "proof_order p = proof_order q"
  with assms show "p = q"
    using proof_order_inj [of p q] by (auto simp: list_all_iff distinct_map dest: inj_onD)
qed

lemma distinct_ids_sort:
  "distinct (map pf_signer_id (sort_key proof_order ps)) \<longleftrightarrow> distinct (map pf_signer_id ps)"
  by (simp add: distinct_map)

text \<open>The proofs of a merged bundle: all of both, in the order of their signers.\<close>

lemma bundle_merge_eq:
  "bundle_merge b c =
     (if bd_draft b = bd_draft c \<and> distinct (map pf_signer_id (bd_proofs b @ bd_proofs c))
      then Inr \<lparr>bd_draft = bd_draft b, bd_proofs = sort_key proof_order (bd_proofs b @ bd_proofs c)\<rparr>
      else Inl InvalidIdentityRequest)"
proof -
  have "make_bundle d (sort_key proof_order ps) =
      Inr \<lparr>bd_draft = d, bd_proofs = sort_key proof_order ps\<rparr>"
    if "distinct (map pf_signer_id ps)" for d ps
    using that by (simp add: make_bundle_Inr_iff distinct_ids_sort)
  then show ?thesis
    unfolding bundle_merge_def Let_def raise_if_def by presburger
qed

lemma bundle_merge_valid:
  assumes "valid_bundle P b" and "valid_bundle P c" and "bundle_merge b c = Inr m"
  shows "valid_bundle P m"
proof -
  from assms(3) have "distinct (map pf_signer_id (bd_proofs b @ bd_proofs c))"
    and m: "m = \<lparr>bd_draft = bd_draft b, bd_proofs = sort_key proof_order (bd_proofs b @ bd_proofs c)\<rparr>"
    by (auto simp: bundle_merge_eq split: if_splits)
  then have "distinct (map pf_signer_id (bd_proofs m))"
    using distinct_ids_sort by simp
  with assms(1, 2) show ?thesis
    unfolding valid_bundle_def m by (auto simp: list_all_iff simp del: sort_key_simps)
qed

lemma sort_proofs_cong:
  assumes "list_all proof_ok ps" and "distinct (map pf_signer_id ps)" and "mset ps = mset qs"
  shows "sort_key proof_order ps = sort_key proof_order qs"
  using assms(3) inj_on_proof_order [OF assms(1, 2)] by (intro sort_key_inj_key_eq) auto

lemma bundle_merge_commute:
  assumes "valid_bundle P b" and "valid_bundle P c"
  shows "bundle_merge b c = bundle_merge c b"
proof -
  have "distinct (map pf_signer_id (bd_proofs b @ bd_proofs c))
      \<longleftrightarrow> distinct (map pf_signer_id (bd_proofs c @ bd_proofs b))"
    by auto
  moreover have "sort_key proof_order (bd_proofs b @ bd_proofs c)
      = sort_key proof_order (bd_proofs c @ bd_proofs b)"
    if "distinct (map pf_signer_id (bd_proofs b @ bd_proofs c))"
    using that assms by (intro sort_proofs_cong) (auto simp: valid_bundle_def)
  ultimately show ?thesis
    unfolding bundle_merge_eq by metis
qed

text \<open>Merging does not depend on the grouping either.\<close>

lemma bundle_merge_nested:
  assumes "list_all proof_ok (xs @ ys)" and "distinct (map pf_signer_id (xs @ ys))"
  shows "sort_key proof_order (sort_key proof_order xs @ ys) = sort_key proof_order (xs @ ys)"
    and "sort_key proof_order (xs @ sort_key proof_order ys) = sort_key proof_order (xs @ ys)"
  using assms by (auto intro!: sort_proofs_cong [symmetric])

lemma distinct_ids_nested:
  "distinct (map pf_signer_id (sort_key proof_order xs @ ys)) \<longleftrightarrow> distinct (map pf_signer_id (xs @ ys))"
  "distinct (map pf_signer_id (xs @ sort_key proof_order ys)) \<longleftrightarrow> distinct (map pf_signer_id (xs @ ys))"
  using distinct_ids_sort [of xs] distinct_ids_sort [of ys] by auto

lemma bundle_merge_assoc:
  assumes "valid_bundle P a" and "valid_bundle P b" and "valid_bundle P c"
  shows "bindE (bundle_merge a b) (\<lambda>ab. bundle_merge ab c)
    = bindE (bundle_merge b c) (\<lambda>bc. bundle_merge a bc)"
proof -
  let ?all = "bd_proofs a @ bd_proofs b @ bd_proofs c"
  let ?ok = "bd_draft a = bd_draft b \<and> bd_draft b = bd_draft c \<and> distinct (map pf_signer_id ?all)"
  have okp: "list_all proof_ok ?all" using assms by (simp add: valid_bundle_def)
  show ?thesis
  proof (cases ?ok)
    case True
    then have "distinct (map pf_signer_id (bd_proofs a @ bd_proofs b))"
      "distinct (map pf_signer_id (bd_proofs b @ bd_proofs c))" by auto
    with True show ?thesis
      using okp bundle_merge_nested [of "bd_proofs a @ bd_proofs b" "bd_proofs c"]
        bundle_merge_nested [of "bd_proofs a" "bd_proofs b @ bd_proofs c"]
      by (simp add: bundle_merge_eq distinct_ids_nested del: map_append)
  next
    case False
    have "\<not> distinct (map pf_signer_id ?all) \<Longrightarrow>
        \<not> distinct (map pf_signer_id ((bd_proofs a @ bd_proofs b) @ bd_proofs c))" by simp
    with False show ?thesis
      by (auto simp: bundle_merge_eq distinct_ids_nested simp del: map_append)
  qed
qed

end
