(* ===== verification/Identity_Finalize.thy ===== *)
theory Identity_Finalize
  imports Identity_Draft
begin

text \<open>
  The three places of \<^verbatim>\<open>identity.py\<close> that judge a transition (the constructor of a
  draft, the finalization of a bundle, the parser of the finished envelope) agree.
\<close>

section \<open>Draft rules and envelope rules\<close>

lemma signer_map_values_eq: "distinct (map fst ss) \<Longrightarrow> signer_map_values ss = snd ` set ss"
proof -
  assume "distinct (map fst ss)"
  then have "signer_map ss (fst e) = Some (snd e)" if "e \<in> set ss" for e
    using that unfolding signer_map_def dict_of_def
    by (intro map_of_is_SomeI) (auto simp: rev_map [symmetric])
  then have "(\<lambda>e. the (signer_map ss (fst e))) ` set ss = snd ` set ss"
    by (intro image_cong) auto
  then show ?thesis by (simp add: signer_map_values_def image_image)
qed

text \<open>What an upgrade requires of the legacy state before it.\<close>

definition upgrades :: "bytes \<Rightarrow> bytes \<Rightarrow> int \<Rightarrow> authorization \<Rightarrow> identity_state \<Rightarrow> bool" where
  "upgrades name key sequence a prev \<longleftrightarrow> st_owner_name prev = name \<and> st_signer_set prev = []
     \<and> st_owner_public_key prev = key \<and> st_state_hash prev = au_predecessor a
     \<and> sequence = st_sequence prev + 1 \<and> key \<in> snd ` set (au_signers a)"

lemma draft_transition_agrees:
  assumes "auth_ok a"
  shows "validate_draft_transition name key sequence (Some a) previous = Inr () \<longleftrightarrow>
    check_transition name (PyBytes key) sequence a previous = Inr ()
    \<and> (au_operation a = 4 \<longrightarrow> (\<exists>prev. previous = Some prev \<and> upgrades name key sequence a prev))"
proof -
  have v: "signer_map_values (au_signers a) = snd ` set (au_signers a)"
    using assms by (intro signer_map_values_eq) (simp add: auth_ok_def signers_ok_def)
  have "au_operation a \<in> {1, 2, 3, 4, 5}"
    using assms by (auto simp: auth_ok_def OPERATION_VALUES_def)
  then consider "au_operation a = 1" | "au_operation a = 2" | "au_operation a = 3"
    | "au_operation a = 4" | "au_operation a = 5" by blast
  then show ?thesis
  proof cases
    case 1 then show ?thesis
      by (cases previous) (auto simp: validate_draft_transition_def check_transition_def
          require_complete_2_of_3_def validate_draft_upgrade_def validate_draft_update_def res_simps)
  next
    case 2 then show ?thesis
      by (cases previous) (auto simp: validate_draft_transition_def check_transition_def
          validate_draft_upgrade_def validate_draft_update_def res_simps)
  next
    case 3 then show ?thesis
      by (cases previous) (auto simp: validate_draft_transition_def check_transition_def
          require_complete_2_of_3_def validate_draft_upgrade_def validate_draft_update_def res_simps)
  next
    case 4 then show ?thesis
      by (cases previous) (auto simp: validate_draft_transition_def check_transition_def upgrades_def
          require_complete_2_of_3_def validate_draft_upgrade_def validate_draft_update_def res_simps v)
  next
    case 5 then show ?thesis
      by (cases previous) (auto simp: validate_draft_transition_def check_transition_def
          validate_draft_rotation_def res_simps)
  qed
qed

section \<open>Proof values of a bundle\<close>

abbreviation proof_entry :: "identity_proof \<Rightarrow> proof_entry" where
  "proof_entry p \<equiv> (pf_signer_id p, pf_signature p)"

lemma verify_bundle_signature_Inr [res_simps]:
  "verify_bundle_signature P k u s = Inr x \<longleftrightarrow> ed25519_verify P k (sha256 u) s"
  by (auto simp: verify_bundle_signature_def res_simps)

lemma collect_proofs_entries:
  "collect_proofs P rotated keys u ps = Inr pv \<Longrightarrow> pv = map proof_entry ps"
  by (induction ps arbitrary: pv)
    (auto simp: res_simps case_res_simps split: option.splits)

lemma collect_proofs_signers:
  assumes "collect_proofs P None keys u ps = Inr pv"
  shows "\<exists>ids. verify_proofs P keys u pv = Inr ids \<and> map Some ids = map pf_signer_id ps
    \<and> list_all2 (\<lambda>p i. keys i = Some (pf_signer_public_key p)) ps ids"
  using assms
  by (induction ps arbitrary: pv) (fastforce simp: res_simps case_res_simps)+

lemma collect_proofs_rotated:
  assumes "collect_proofs P (Some k) keys u ps = Inr pv" and "p \<in> set ps"
  shows "pf_signer_id p = None \<and> ed25519_verify P k (sha256 u) (pf_signature p)"
  using assms by (induction ps arbitrary: pv) (auto simp: res_simps)

lemma normalize_proofs_items:
  assumes "list_all proof_ok ps" and "distinct (map pf_signer_id ps)"
    and "pf_signer_id ` set ps \<inter> set seen = {}"
  shows "normalize_proofs (map (\<lambda>p. proof_item (proof_entry p)) ps) seen = Inr (map proof_entry ps)"
  using assms
proof (induction ps arbitrary: seen)
  case (Cons p ps)
  have "require_exact_keys (proof_item (proof_entry p)) [1, 2] =
      Inr [(PyInt 1, optional_str (pf_signer_id p)), (PyInt 2, PyBytes (pf_signature p))]"
    by (auto simp: res_simps proof_item_def dkeys_def)
  moreover have "normalize_proofs (map (\<lambda>p. proof_item (proof_entry p)) ps) (pf_signer_id p # seen)
      = Inr (map proof_entry ps)"
    using Cons.prems by (intro Cons.IH) (auto simp: image_iff)
  moreover have "optional_id (optional_str (pf_signer_id p)) = Inr (pf_signer_id p)"
    using Cons.prems by (auto simp: optional_id_def optional_str_def proof_ok_def split: option.splits)
  ultimately show ?case
    using Cons.prems
    by (auto simp: dget_none_def proof_ok_def require_bytes_def split: option.splits)
qed simp

lemma validate_proof_list_items:
  assumes "list_all proof_ok ps" and "distinct (map pf_signer_id ps)"
    and "sorted (map proof_order ps)"
  shows "validate_proof_list (PyList (map proof_item (map proof_entry ps))) = Inr (map proof_entry ps)"
proof -
  have "sort_key (\<lambda>p. proof_id_bytes (fst p)) (map proof_entry ps) = map proof_entry ps"
    using assms(3) by (simp add: sort_key_eq_self_iff proof_order_def [abs_def] comp_def)
  then show ?thesis
    using normalize_proofs_items [OF assms(1, 2), of "[]"]
    by (simp add: validate_proof_list_def comp_def)
qed

section \<open>The closing check of finalize accepts\<close>

text \<open>What a valid draft establishes about its own update.\<close>

lemma valid_draft_decoded:
  assumes "valid_draft P d"
  obtains rec name key sequence authorization previous where
    "decode_signed_update P (PyBytes (dr_signed_update_bytes d)) = Inr (rec, [], sequence, authorization)"
    "ditem rec 1 = PyBytes name" "ditem rec 2 = PyBytes key" "length key = 32"
    "draft_previous_state P d = Inr previous"
    "validate_draft_transition name key sequence authorization previous = Inr ()"
    "draft_owner_name P d = Inr (PyBytes name)"
proof -
  from assms obtain rec payload sequence authorization name key previous where
      u: "decode_signed_update P (PyBytes (dr_signed_update_bytes d))
        = Inr (rec, payload, sequence, authorization)" "payload = []"
    and r: "ditem rec 1 = PyBytes name" "ditem rec 2 = PyBytes key" "length key = 32"
    and p: "parse_previous_state_chain P name (optional_bytes (dr_previous_state_envelope d))
        (map PyBytes (dr_previous_state_history d)) = Inr previous"
    and t: "validate_draft_transition name key sequence authorization previous = Inr ()"
    unfolding valid_draft_def make_draft_def
    by (auto simp: bindE_Inr_iff raise_if_Inr_iff validate_owner_name_Inr require_bytes_Inr)
  show ?thesis
    using u r p t
    by (intro that) (auto simp: draft_previous_state_def draft_owner_name_def bytes_of_def)
qed

lemma canonical_outer:
  assumes "cbor_ok P" and "cbor_plain (PyDict outer)" and "canonical P (PyDict outer) = Inr e"
  shows "require_canonical P (PyBytes e) = Inr (PyDict outer)"
  using assms by (intro require_canonical_dumps) (auto simp: res_simps)

text \<open>A state that holds exactly the given update.\<close>

definition holds_update :: "identity_state \<Rightarrow> bytes \<Rightarrow> bytes \<Rightarrow> bytes \<Rightarrow> int \<Rightarrow> bytes
    \<Rightarrow> authorization option \<Rightarrow> bool" where
  "holds_update st e name key sequence u authorization \<longleftrightarrow>
     st_envelope_bytes st = e \<and> st_owner_name st = name \<and> st_owner_public_key st = key
     \<and> st_sequence st = sequence \<and> st_signed_update_bytes st = u \<and> st_state_hash st = sha256 u
     \<and> st_generation st = map_option au_epoch authorization
     \<and> st_threshold st = map_option au_threshold authorization
     \<and> st_signer_set st = (case authorization of None \<Rightarrow> [] | Some a \<Rightarrow> au_signers a)"

lemma finalize_legacy_parses:
  assumes "cbor_ok P" and "length u < 2 ^ 64"
    and d: "decode_signed_update P (PyBytes u) = Inr (rec, [], sequence, None)"
    and r: "ditem rec 1 = PyBytes name" "ditem rec 2 = PyBytes key" "length key = 32"
    and "list_all proof_ok ps" and f: "finalize_legacy P u rec ps = Inr e"
  shows "\<exists>st. parse_identity_envelope P name (PyBytes e) previous = Inr st
    \<and> holds_update st e name key sequence u None"
proof -
  from f r obtain p where p: "ps = [p]" "pf_signer_public_key p = key"
      "ed25519_verify P key (sha256 u) (pf_signature p)"
    and e: "canonical P (PyDict [(PyInt 1, PyBytes u), (PyInt 2, PyBytes (pf_signature p))]) = Inr e"
    unfolding finalize_legacy_def legacy_envelope_def
    by (cases ps) (auto simp: res_simps length_Suc_conv)
  let ?outer = "[(PyInt 1, PyBytes u), (PyInt 2, PyBytes (pf_signature p))]"
  have l: "length (pf_signature p) = 64" using assms(7) p by (simp add: proof_ok_def)
  have "require_canonical P (PyBytes e) = Inr (PyDict ?outer)"
    using assms(1, 2) l e by (intro canonical_outer) auto
  moreover have "dkeys ?outer = {PyInt 1, PyInt 2}" by (auto simp: dkeys_def)
  ultimately show ?thesis
    using p l r d
    by (simp add: parse_identity_envelope_def parse_legacy_envelope_def dget_none_def
        require_bytes_def verify_signature_def holds_update_def)
qed

lemma card_signers:
  assumes "map Some ids = map pf_signer_id ps"
  shows "card (fst ` set (map proof_entry ps)) = card (set ids)"
proof -
  have "fst ` set (map proof_entry ps) = set (map pf_signer_id ps)" by force
  also have "\<dots> = Some ` set ids" unfolding assms [symmetric] by simp
  finally show ?thesis by (simp add: card_image)
qed

text \<open>The steps of \<open>finalize_v1\<close> that returned.\<close>

lemma finalize_v1_steps:
  assumes "finalize_v1 P u rec a previous ps = Inr e"
  obtains keys where "authorized_keys a previous = Inr keys"
    and "collect_proofs P (rotation_predecessor_owner_key a previous) keys u ps
      = Inr (map proof_entry ps)"
    and "canonical P (PyDict [(PyInt 1, PyInt 1), (PyInt 2, PyBytes u),
        (PyInt 3, PyList (map proof_item (map proof_entry ps)))]) = Inr e"
    and "if au_operation a = 4
         then length ps = 1 \<and> PyBytes (pf_signer_public_key (hd ps)) = ditem rec 2
         else if rotation_predecessor_owner_key a previous \<noteq> None then length ps = 1
         else au_threshold a \<le> int (card (fst ` set (map proof_entry ps)))"
proof -
  from assms obtain keys pv where k: "authorized_keys a previous = Inr keys"
    and c: "collect_proofs P (rotation_predecessor_owner_key a previous) keys u ps = Inr pv"
    and e: "canonical P (PyDict [(PyInt 1, PyInt 1), (PyInt 2, PyBytes u),
        (PyInt 3, PyList (map proof_item pv))]) = Inr e"
    and g: "if au_operation a = 4
         then length ps = 1 \<and> PyBytes (pf_signer_public_key (hd ps)) = ditem rec 2
         else if rotation_predecessor_owner_key a previous \<noteq> None then length ps = 1
         else au_threshold a \<le> int (card (fst ` set pv))"
    unfolding finalize_v1_def
    by (auto simp: bindE_Inr_iff raise_if_Inr_iff Let_def not_less split: if_splits)
  from collect_proofs_entries [OF c] k c e g show ?thesis by (intro that [of keys]) auto
qed

lemma signer_proofs_accepted:
  assumes c: "collect_proofs P None keys u ps = Inr (map proof_entry ps)"
    and "au_threshold a \<le> int (card (fst ` set (map proof_entry ps)))" and "au_operation a \<noteq> 4"
    and "keys = (if au_operation a \<in> {2, 3, 5}
         then (case previous of None \<Rightarrow> Map.empty | Some prev \<Rightarrow> dict_of (st_signer_set prev))
         else dict_of (au_signers a))"
  shows "check_signer_proofs P u a previous (map proof_entry ps) = Inr ()"
proof -
  from collect_proofs_signers [OF c] obtain ids where
      v: "verify_proofs P keys u (map proof_entry ps) = Inr ids" "map Some ids = map pf_signer_id ps"
    by auto
  then show ?thesis
    using assms(2, 3) card_signers [OF v(2)] unfolding check_signer_proofs_def assms(4) Let_def by simp
qed

lemma upgrade_proof_accepted:
  assumes c: "collect_proofs P None (dict_of (au_signers a)) u ps = Inr (map proof_entry ps)"
    and "length ps = 1" "pf_signer_public_key (hd ps) = key" "au_operation a = 4"
    and "upgrades name key sequence a prev"
  shows "check_proofs P u (PyBytes key) sequence a (Some prev) (map proof_entry ps) = Inr ()"
proof -
  from assms(2) obtain p where ps: "ps = [p]" by (auto simp: length_Suc_conv)
  from collect_proofs_signers [OF c] obtain ids where
      v: "verify_proofs P (dict_of (au_signers a)) u (map proof_entry ps) = Inr ids"
    and m: "map Some ids = map pf_signer_id ps"
    and l: "list_all2 (\<lambda>p i. dict_of (au_signers a) i = Some (pf_signer_public_key p)) ps ids"
    by blast
  from m obtain i where i: "ids = [i]" "pf_signer_id p = Some i"
    unfolding ps by (cases ids) auto
  from l have k: "dict_of (au_signers a) i = Some key"
    using assms(3) unfolding ps i by simp
  have "\<not> upgrade_refused (PyBytes key) sequence a (Some prev) (map proof_entry ps)"
    using assms(5) k i(2) unfolding ps by (simp add: upgrade_refused_def upgrades_def)
  then show ?thesis
    using v assms(4) unfolding i(1) by (simp add: check_proofs_def check_signer_proofs_def)
qed

lemma finalize_v1_proofs:
  assumes a: "auth_ok a" and f: "finalize_v1 P u rec a previous ps = Inr e"
    and t: "validate_draft_transition name key sequence (Some a) previous = Inr ()"
    and r: "ditem rec 2 = PyBytes key"
  shows "check_proofs P u (PyBytes key) sequence a previous (map proof_entry ps) = Inr ()"
proof -
  from f obtain keys where k: "authorized_keys a previous = Inr keys"
    and c: "collect_proofs P (rotation_predecessor_owner_key a previous) keys u ps
      = Inr (map proof_entry ps)"
    and g: "if au_operation a = 4
         then length ps = 1 \<and> PyBytes (pf_signer_public_key (hd ps)) = ditem rec 2
         else if rotation_predecessor_owner_key a previous \<noteq> None then length ps = 1
         else au_threshold a \<le> int (card (fst ` set (map proof_entry ps)))"
    by (rule finalize_v1_steps)
  from t have ct: "check_transition name (PyBytes key) sequence a previous = Inr ()"
    and up: "au_operation a = 4 \<Longrightarrow> \<exists>prev. previous = Some prev \<and> upgrades name key sequence a prev"
    using draft_transition_agrees [OF a] by auto
  have op: "au_operation a \<in> {1, 2, 3, 4, 5}"
    using a by (auto simp: auth_ok_def OPERATION_VALUES_def)
  show ?thesis
  proof (cases "rotation_predecessor_owner_key a previous")
    case (Some k)
    then obtain prev p where "previous = Some prev" "au_operation a = 5" "st_signer_set prev = []"
        "k = st_owner_public_key prev" "ps = [p]"
      using g by (auto simp: rotation_predecessor_owner_key_def length_Suc_conv
          split: option.splits if_splits)
    then show ?thesis
      using collect_proofs_rotated [OF c [unfolded Some], of p]
      by (simp add: check_proofs_def verify_signature_def)
  next
    case None
    show ?thesis
    proof (cases "au_operation a = 4")
      case True
      then obtain prev where "previous = Some prev" "upgrades name key sequence a prev"
        using up by blast
      then show ?thesis
        using True c None g r k
        by (auto intro!: upgrade_proof_accepted simp: authorized_keys_def signer_map_def)
    next
      case False
      have "keys = (if au_operation a \<in> {2, 3, 5}
           then (case previous of None \<Rightarrow> Map.empty | Some prev \<Rightarrow> dict_of (st_signer_set prev))
           else dict_of (au_signers a))"
        using k None op ct False
        by (auto simp: authorized_keys_def signer_map_def raise_if_Inr_iff check_transition_def
            split: option.splits if_splits)
      then have "check_signer_proofs P u a previous (map proof_entry ps) = Inr ()"
        using c None False g by (intro signer_proofs_accepted) auto
      then show ?thesis
        using False None
        by (auto simp: check_proofs_def rotation_predecessor_owner_key_def split: option.splits)
    qed
  qed
qed

lemma finalize_v1_parses:
  assumes "cbor_ok P" and "length u < 2 ^ 64" and "length ps < 2 ^ 64" and a: "auth_ok a"
    and d: "decode_signed_update P (PyBytes u) = Inr (rec, [], sequence, Some a)"
    and r: "ditem rec 1 = PyBytes name" "ditem rec 2 = PyBytes key" "length key = 32"
    and ps: "list_all proof_ok ps" "distinct (map pf_signer_id ps)" "sorted (map proof_order ps)"
    and t: "validate_draft_transition name key sequence (Some a) previous = Inr ()"
    and f: "finalize_v1 P u rec a previous ps = Inr e"
  shows "\<exists>st. parse_identity_envelope P name (PyBytes e) previous = Inr st
    \<and> holds_update st e name key sequence u (Some a)"
proof -
  let ?outer = "[(PyInt 1, PyInt 1), (PyInt 2, PyBytes u),
      (PyInt 3, PyList (map proof_item (map proof_entry ps)))]"
  have "cbor_plain (proof_item (proof_entry p))" if "p \<in> set ps" for p
    using that ps(1)
    by (auto simp: list_all_iff proof_ok_def proof_item_def optional_str_def id_bytes_def
        split: option.splits dest!: bspec)
  then have "cbor_plain (PyDict ?outer)"
    using assms(2, 3) by (auto simp: list_all_iff)
  then have "require_canonical P (PyBytes e) = Inr (PyDict ?outer)"
    using f assms(1) by (elim finalize_v1_steps) (rule canonical_outer)
  moreover have k: "dkeys ?outer = {PyInt 1, PyInt 2, PyInt 3}" by (auto simp: dkeys_def)
  moreover have "PyInt 3 \<in> dkeys ?outer" "PyInt 3 \<notin> {PyInt 1, PyInt 2}"
    unfolding k by simp_all
  then have "dkeys ?outer \<noteq> {PyInt 1, PyInt 2}" by metis
  ultimately have "parse_identity_envelope P name (PyBytes e) previous
      = parse_v1_envelope P name ?outer e previous"
    by (simp add: parse_identity_envelope_def require_bytes_def)
  moreover have "check_transition name (PyBytes key) sequence a previous = Inr ()"
    using t draft_transition_agrees [OF a] by blast
  ultimately show ?thesis
    using d r k validate_proof_list_items [OF ps] finalize_v1_proofs [OF a f t r(2)]
    by (simp add: parse_v1_envelope_def dget_none_def require_bytes_def holds_update_def)
qed

text \<open>The envelope of a bundle without the check that closes \<^verbatim>\<open>finalize\<close>.\<close>

definition assembled_envelope :: "prims \<Rightarrow> identity_bundle \<Rightarrow> bytes res" where
  "assembled_envelope P b =
     bindE (draft_previous_state P (bd_draft b)) (\<lambda>previous.
     raise_if (bd_proofs b = []) InvalidIdentityRequest
     (let update = dr_signed_update_bytes (bd_draft b) in
      bindE (decode_signed_update P (PyBytes update)) (\<lambda>(rec, _, _, authorization).
      case authorization of
        None \<Rightarrow> finalize_legacy P update rec (bd_proofs b)
      | Some auth \<Rightarrow> finalize_v1 P update rec auth previous (bd_proofs b))))"

lemma bundle_finalize_assembled:
  assumes "cbor_ok P" and "valid_bundle P b"
    and "length (dr_signed_update_bytes (bd_draft b)) < 2 ^ 64" and "length (bd_proofs b) < 2 ^ 64"
  shows "bundle_finalize P b = assembled_envelope P b"
proof -
  let ?u = "dr_signed_update_bytes (bd_draft b)" and ?ps = "bd_proofs b"
  from assms(2) have "valid_draft P (bd_draft b)"
    and ps: "list_all proof_ok ?ps" "distinct (map pf_signer_id ?ps)" "sorted (map proof_order ?ps)"
    by (simp_all add: valid_bundle_def)
  from this(1) obtain rec name key sequence authorization previous where
      d: "decode_signed_update P (PyBytes ?u) = Inr (rec, [], sequence, authorization)"
    and r: "ditem rec 1 = PyBytes name" "ditem rec 2 = PyBytes key" "length key = 32"
    and p: "draft_previous_state P (bd_draft b) = Inr previous"
    and t: "validate_draft_transition name key sequence authorization previous = Inr ()"
    and n: "draft_owner_name P (bd_draft b) = Inr (PyBytes name)"
    by (rule valid_draft_decoded)
  let ?m = "case authorization of None \<Rightarrow> finalize_legacy P ?u rec ?ps
    | Some auth \<Rightarrow> finalize_v1 P ?u rec auth previous ?ps"
  have "\<exists>st. parse_identity_envelope P name (PyBytes e) previous = Inr st
      \<and> holds_update st e name key sequence ?u authorization" if "?m = Inr e" for e
  proof (cases authorization)
    case None
    then show ?thesis
      using finalize_legacy_parses [OF assms(1, 3) d [unfolded None] r ps(1)] that by simp
  next
    case (Some a)
    have "auth_ok a" using decode_signed_update_sound(2) [OF d Some] .
    with Some show ?thesis
      using finalize_v1_parses [OF assms(1, 3, 4) _ d [unfolded Some] r ps] t that by simp
  qed
  then have "bindE ?m (\<lambda>e. exceptE (bindE (parse_identity_envelope P name (PyBytes e) previous)
        (\<lambda>_. Inr e)) (\<lambda>x. Inl (if x = InvalidIdentityState then InvalidIdentityRequest else x)))
      = ?m"
    by (cases ?m) force+
  then show ?thesis
    by (simp add: bundle_finalize_def assembled_envelope_def p d n Let_def bytes_of_def)
qed

section \<open>Finalized envelopes extend the history\<close>

lemma bundle_finalize_parses:
  assumes "valid_bundle P b" and "bundle_finalize P b = Inr e"
  obtains name previous st where "draft_owner_name P (bd_draft b) = Inr (PyBytes name)"
    and "draft_previous_state P (bd_draft b) = Inr previous"
    and "parse_identity_envelope P name (PyBytes e) previous = Inr st"
proof -
  from assms(1) have "valid_draft P (bd_draft b)" by (simp add: valid_bundle_def)
  then obtain name where n: "draft_owner_name P (bd_draft b) = Inr (PyBytes name)"
    by (rule valid_draft_decoded)
  from assms(2) obtain previous m st where "draft_previous_state P (bd_draft b) = Inr previous"
    and "parse_identity_envelope P name (PyBytes e) previous = Inr st"
    unfolding bundle_finalize_def
    by (auto simp: bindE_Inr_iff raise_if_Inr_iff exceptE_Inr_iff Let_def n bytes_of_def)
  with n that show ?thesis by blast
qed

text \<open>The history a successor of the finalized state is drafted with.\<close>

definition next_history :: "identity_draft \<Rightarrow> pyval list" where
  "next_history d =
     (case dr_previous_state_envelope d of
        None \<Rightarrow> []
      | Some e \<Rightarrow> PyBytes e # map PyBytes (dr_previous_state_history d))"

lemma finalize_extends_history:
  assumes "valid_bundle P b" and "bundle_finalize P b = Inr e"
  obtains name st where "draft_owner_name P (bd_draft b) = Inr (PyBytes name)"
    and "parse_previous_state_chain P name (PyBytes e) (next_history (bd_draft b)) = Inr (Some st)"
    and "draft_previous_state P (bd_draft b) = Inr previous
      \<Longrightarrow> parse_identity_envelope P name (PyBytes e) previous = Inr st"
proof -
  from bundle_finalize_parses [OF assms] obtain name previous st where
      n: "draft_owner_name P (bd_draft b) = Inr (PyBytes name)"
    and p: "draft_previous_state P (bd_draft b) = Inr previous"
    and st: "parse_identity_envelope P name (PyBytes e) previous = Inr st" .
  have "parse_history P name (next_history (bd_draft b)) = Inr previous"
    using p unfolding draft_previous_state_def n next_history_def
    by (auto simp: parse_previous_state_chain_def optional_bytes_def bytes_of_def raise_if_Inr_iff
        split: option.splits)
  then show ?thesis
    using n st p by (intro that) (auto simp: parse_previous_state_chain_def)
qed

end
