(* ===== verification/Cbor_Reference.thy ===== *)
theory Cbor_Reference
  imports Primitives
begin

text \<open>
  An executable canonical CBOR codec (RFC 8949, the part the package's values
  use) that meets \<open>cbor_ok\<close>, and a set of primitives built on it.  It shows
  that the documented behaviour that the theorems rely on can hold, and gives
  the witnesses of those theorems a concrete instance.
\<close>

section \<open>Encoding\<close>

fun be_bytes :: "nat \<Rightarrow> nat \<Rightarrow> bytes" where
  "be_bytes 0 n = []"
| "be_bytes (Suc w) n = be_bytes w (n div 256) @ [word_of_nat n]"

definition of_be :: "bytes \<Rightarrow> nat" where
  "of_be bs = foldl (\<lambda>acc b. 256 * acc + unat b) 0 bs"

text \<open>Initial byte and argument of an item: major type \<open>m\<close>, shortest argument.\<close>

definition cbor_head :: "nat \<Rightarrow> nat \<Rightarrow> bytes" where
  "cbor_head m n =
     (if n < 24 then [word_of_nat (32 * m + n)]
      else if n < 2 ^ 8 then word_of_nat (32 * m + 24) # be_bytes 1 n
      else if n < 2 ^ 16 then word_of_nat (32 * m + 25) # be_bytes 2 n
      else if n < 2 ^ 32 then word_of_nat (32 * m + 26) # be_bytes 4 n
      else word_of_nat (32 * m + 27) # be_bytes 8 n)"

definition utf8_of :: "pystr \<Rightarrow> bytes" where
  "utf8_of s = (case utf8_encode s of None \<Rightarrow> [] | Some b \<Rightarrow> b)"

fun cbor_enc :: "pyval \<Rightarrow> bytes" where
  "cbor_enc (PyInt i) = cbor_head 0 (nat i)"
| "cbor_enc (PyBytes b) = cbor_head 2 (length b) @ b"
| "cbor_enc (PyStr s) = cbor_head 3 (length (utf8_of s)) @ utf8_of s"
| "cbor_enc (PyList xs) = cbor_head 4 (length xs) @ concat (map cbor_enc xs)"
| "cbor_enc (PyDict d) =
     cbor_head 5 (length d) @ concat (map (\<lambda>kv. cbor_enc (fst kv) @ cbor_enc (snd kv)) d)"
| "cbor_enc _ = [0xf6]"

section \<open>Decoding\<close>

definition take_be :: "nat \<Rightarrow> bytes \<Rightarrow> (nat \<times> bytes) option" where
  "take_be w bs = (if length bs < w then None else Some (of_be (take w bs), drop w bs))"

fun cbor_head_dec :: "bytes \<Rightarrow> (nat \<times> nat \<times> bytes) option" where
  "cbor_head_dec [] = None"
| "cbor_head_dec (b # bs) =
     (let m = unat b div 32; a = unat b mod 32;
          arg = (\<lambda>w. map_option (\<lambda>(n, r). (m, n, r)) (take_be w bs)) in
      if a < 24 then Some (m, a, bs)
      else if a = 24 then arg 1 else if a = 25 then arg 2
      else if a = 26 then arg 4 else if a = 27 then arg 8 else None)"

fun dec_many :: "(bytes \<Rightarrow> (pyval \<times> bytes) option) \<Rightarrow> nat \<Rightarrow> bytes
    \<Rightarrow> (pyval list \<times> bytes) option" where
  "dec_many d 0 bs = Some ([], bs)"
| "dec_many d (Suc n) bs =
     (case d bs of None \<Rightarrow> None
      | Some (v, r) \<Rightarrow> map_option (\<lambda>(vs, r'). (v # vs, r')) (dec_many d n r))"

fun pair_up :: "pyval list \<Rightarrow> pydict" where
  "pair_up (k # v # r) = (k, v) # pair_up r"
| "pair_up _ = []"

fun cbor_dec :: "nat \<Rightarrow> bytes \<Rightarrow> (pyval \<times> bytes) option" where
  "cbor_dec 0 bs = None"
| "cbor_dec (Suc f) bs =
     (case cbor_head_dec bs of
        None \<Rightarrow> None
      | Some (m, n, r) \<Rightarrow>
          if m = 0 then Some (PyInt (int n), r)
          else if m = 2 then
            (if length r < n then None else Some (PyBytes (take n r), drop n r))
          else if m = 3 then
            (if length r < n then None
             else map_option (\<lambda>s. (PyStr s, drop n r)) (utf8_decode (take n r)))
          else if m = 4 then map_option (\<lambda>(vs, r'). (PyList vs, r')) (dec_many (cbor_dec f) n r)
          else if m = 5 then
            map_option (\<lambda>(vs, r'). (PyDict (pair_up vs), r')) (dec_many (cbor_dec f) (2 * n) r)
          else if m = 7 \<and> n = 22 then Some (PyNone, r) else None)"

definition cbor_ref_dumps :: "pyval \<Rightarrow> bytes option" where
  "cbor_ref_dumps v = (if cbor_plain v then Some (cbor_enc v) else None)"

definition cbor_ref_loads :: "bytes \<Rightarrow> pyval option" where
  "cbor_ref_loads bs =
     (case cbor_dec (length bs) bs of Some (v, []) \<Rightarrow> Some v | _ \<Rightarrow> None)"

section \<open>Round trip\<close>

lemma length_be_bytes [simp]: "length (be_bytes w n) = w"
  by (induction w arbitrary: n) simp_all

lemma of_be_append: "of_be (bs @ [b]) = 256 * of_be bs + unat b"
  by (simp add: of_be_def)

lemma of_be_be_bytes: "n < 256 ^ w \<Longrightarrow> of_be (be_bytes w n) = n"
proof (induction w arbitrary: n)
  case (Suc w)
  have "of_be (be_bytes w (n div 256)) = n div 256"
    using Suc by (intro Suc.IH) (simp add: less_mult_imp_div_less mult.commute)
  then show ?case by (simp add: of_be_append unat_of_nat)
qed (simp add: of_be_def)

lemma take_be_be_bytes: "n < 256 ^ w \<Longrightarrow> take_be w (be_bytes w n @ r) = Some (n, r)"
  by (simp add: take_be_def of_be_be_bytes)

lemma cbor_initial:
  assumes "m < 8" and "a < 32"
  shows "unat (word_of_nat (32 * m + a) :: byte) div 32 = m"
    and "unat (word_of_nat (32 * m + a) :: byte) mod 32 = a"
proof -
  have "unat (word_of_nat (32 * m + a) :: byte) = 32 * m + a"
    using assms by (simp only: unsigned_of_nat take_bit_eq_mod) simp
  then show "unat (word_of_nat (32 * m + a) :: byte) div 32 = m"
    and "unat (word_of_nat (32 * m + a) :: byte) mod 32 = a"
    using assms by simp_all
qed

lemma cbor_head_dec_arg:
  assumes "m < 8" and "(a, w) \<in> {(24, 1), (25, 2), (26, 4), (27, 8)}" and "n < 256 ^ w"
  shows "cbor_head_dec (word_of_nat (32 * m + a) # be_bytes w n @ r) = Some (m, n, r)"
proof -
  have "a < 32" using assms(2) by auto
  note i = cbor_initial [OF assms(1) this]
  show ?thesis
    unfolding cbor_head_dec.simps Let_def i
    using assms(2) take_be_be_bytes [OF assms(3)] by auto
qed

lemma cbor_head_dec_head:
  assumes "m < 8" and "n < 2 ^ 64"
  shows "cbor_head_dec (cbor_head m n @ r) = Some (m, n, r)"
proof (cases "n < 24")
  case True
  with cbor_initial [OF assms(1), of n] show ?thesis
    unfolding cbor_head_def by (simp del: of_nat_add of_nat_mult)
next
  case False
  have "256 ^ 1 = (2::nat) ^ 8" "256 ^ 2 = (2::nat) ^ 16" "256 ^ 4 = (2::nat) ^ 32"
    "256 ^ 8 = (2::nat) ^ 64" by simp_all
  with False assms show ?thesis
    unfolding cbor_head_def if_not_P [OF False]
    by (cases "n < 2 ^ 8"; cases "n < 2 ^ 16"; cases "n < 2 ^ 32")
      (simp_all only: if_True if_False append_Cons, (rule cbor_head_dec_arg; simp)+)
qed

lemma cbor_head_nonempty: "cbor_head m n \<noteq> []"
  by (simp add: cbor_head_def)

lemma dec_many_concat:
  assumes "\<And>v r. v \<in> set vs \<Longrightarrow> d (enc v @ r) = Some (v, r)"
  shows "dec_many d (length vs) (concat (map enc vs) @ r) = Some (vs, r)"
  using assms by (induction vs) auto

text \<open>Nesting depth, the fuel the decoder needs.\<close>

fun vdepth :: "pyval \<Rightarrow> nat" where
  "vdepth (PyList xs) = Suc (fold max (map vdepth xs) 0)"
| "vdepth (PyDict d) = Suc (fold max (map (\<lambda>kv. max (vdepth (fst kv)) (vdepth (snd kv))) d) 0)"
| "vdepth _ = 1"

lemma fold_max_le_iff: "fold max (xs :: nat list) a \<le> k \<longleftrightarrow> a \<le> k \<and> (\<forall>x \<in> set xs. x \<le> k)"
  by (induction xs arbitrary: a) auto

definition flat :: "pydict \<Rightarrow> pyval list" where
  "flat d = concat (map (\<lambda>kv. [fst kv, snd kv]) d)"

lemma pair_up_flat [simp]: "pair_up (flat d) = d"
  by (induction d) (auto simp: flat_def)

lemma length_flat [simp]: "length (flat d) = 2 * length d"
  by (induction d) (auto simp: flat_def)

lemma set_flat: "set (flat d) = fst ` set d \<union> snd ` set d"
  by (auto simp: flat_def)

lemma concat_flat: "concat (map f (flat d)) = concat (map (\<lambda>kv. f (fst kv) @ f (snd kv)) d)"
  by (induction d) (auto simp: flat_def)

lemma cbor_plain_flat:
  assumes "cbor_plain (PyDict d)" and "v \<in> set (flat d)"
  shows "cbor_plain v"
proof -
  have "cbor_plain (fst kv) \<and> cbor_plain (snd kv)" if "kv \<in> set d" for kv
    using assms(1) that by (cases "fst kv") (auto simp: list_all_iff split: pyval.splits dest!: bspec)
  with assms(2) show ?thesis by (auto simp: set_flat)
qed

lemma length_concat_mem: "x \<in> set xs \<Longrightarrow> length (f x) \<le> length (concat (map f xs))"
  by (induction xs) auto

lemma head_length: "Suc (length b) \<le> length (cbor_head m n @ b)"
  using cbor_head_nonempty [of m n] by (cases "cbor_head m n") auto

lemma vdepth_le: "vdepth v \<le> length (cbor_enc v)"
proof (induction v)
  case (PyList xs)
  have "fold max (map vdepth xs) 0 \<le> length (concat (map cbor_enc xs))"
    using PyList length_concat_mem [of _ xs cbor_enc] by (fastforce simp: fold_max_le_iff)
  then show ?case using head_length [of "concat (map cbor_enc xs)" 4 "length xs"] by simp
next
  case (PyDict d)
  let ?f = "\<lambda>kv. cbor_enc (fst kv) @ cbor_enc (snd kv)"
  have "max (vdepth (fst kv)) (vdepth (snd kv)) \<le> length (concat (map ?f d))" if "kv \<in> set d" for kv
  proof -
    have "vdepth (fst kv) \<le> length (cbor_enc (fst kv))" "vdepth (snd kv) \<le> length (cbor_enc (snd kv))"
      using PyDict that by (cases kv; auto)+
    with length_concat_mem [OF that, of ?f] show ?thesis by simp
  qed
  then have "fold max (map (\<lambda>kv. max (vdepth (fst kv)) (vdepth (snd kv))) d) 0
      \<le> length (concat (map ?f d))"
    by (auto simp: fold_max_le_iff)
  then show ?case using head_length [of "concat (map ?f d)" 5 "length d"] by simp
qed (auto intro: le_trans [OF _ head_length] simp: Suc_leI cbor_head_nonempty)

lemma cbor_dec_enc:
  "cbor_plain v \<Longrightarrow> vdepth v \<le> f \<Longrightarrow> cbor_dec f (cbor_enc v @ r) = Some (v, r)"
proof (induction f arbitrary: v r)
  case (Suc f)
  have many: "dec_many (cbor_dec f) (length vs) (concat (map cbor_enc vs) @ r') = Some (vs, r')"
    if "\<forall>x \<in> set vs. cbor_plain x \<and> vdepth x \<le> f" for vs r'
    using that Suc.IH by (intro dec_many_concat) auto
  show ?case
  proof (cases v)
    case (PyStr s)
    then obtain b where "utf8_encode s = Some b" "length b < 2 ^ 64"
      using Suc.prems by (auto split: option.splits)
    then show ?thesis
      using PyStr by (simp add: cbor_head_dec_head utf8_of_def utf8_decode_encode)
  next
    case (PyList xs)
    then show ?thesis
      using Suc.prems many [of xs] by (auto simp: cbor_head_dec_head list_all_iff fold_max_le_iff)
  next
    case (PyDict d)
    have "\<forall>x \<in> set (flat d). cbor_plain x \<and> vdepth x \<le> f"
      using Suc.prems cbor_plain_flat [of d] unfolding PyDict
      by (auto simp: fold_max_le_iff set_flat)
    from many [OF this] show ?thesis
      using PyDict Suc.prems by (simp add: cbor_head_dec_head concat_flat)
  next
    case PyNone
    then show ?thesis by simp
  qed (use Suc.prems in \<open>auto simp: cbor_head_dec_head nat_less_iff\<close>)
next
  case 0 then show ?case by (cases v) auto
qed

lemma cbor_enc_nonempty: "cbor_plain v \<Longrightarrow> cbor_enc v \<noteq> []"
  by (cases v) (auto simp: cbor_head_nonempty)

lemma cbor_ref_loads_enc: "cbor_plain v \<Longrightarrow> cbor_ref_loads (cbor_enc v) = Some v"
  using cbor_dec_enc [of v "length (cbor_enc v)" "[]"] vdepth_le by (simp add: cbor_ref_loads_def)

section \<open>A concrete set of primitives\<close>

text \<open>
  Signatures, key derivation and encryption are stand-ins with the shapes and the
  laws of the real primitives and none of their security.
\<close>

definition demo_sig :: "bytes \<Rightarrow> bytes \<Rightarrow> bytes" where
  "demo_sig key msg = take 64 (key @ msg @ zero_bytes 64)"

definition demo_tag :: "bytes \<Rightarrow> bytes \<Rightarrow> bytes" where
  "demo_tag key nonce = take 8 key @ take 8 nonce"

definition demo_prims :: prims where
  "demo_prims =
     \<lparr>cbor_loads = cbor_ref_loads, cbor_dumps = cbor_ref_dumps,
      ed25519_public = (\<lambda>seed. if length seed = 32 then Some seed else None),
      ed25519_sign = (\<lambda>seed msg. if length seed = 32 then Some (demo_sig seed msg) else None),
      ed25519_verify = (\<lambda>key msg sig. sig = demo_sig key msg),
      argon2id = (\<lambda>password salt. Some (take 32 (salt @ password @ zero_bytes 32))),
      aead_encrypt = (\<lambda>key nonce aad plaintext. Some (plaintext, demo_tag key nonce)),
      aead_decrypt = (\<lambda>key nonce aad ciphertext tag.
        if tag = demo_tag key nonce then Some ciphertext else None)\<rparr>"

lemma demo_cbor_ok [simp]: "cbor_ok demo_prims"
  by (auto simp: cbor_ok_def demo_prims_def cbor_ref_dumps_def cbor_ref_loads_enc cbor_enc_nonempty)

lemma demo_ed25519_ok [simp]: "ed25519_ok demo_prims"
  by (auto simp: ed25519_ok_def demo_prims_def demo_sig_def)

lemma demo_aead_ok [simp]: "aead_ok demo_prims"
  by (auto simp: aead_ok_def demo_prims_def demo_tag_def)

lemma demo_argon2_ok [simp]: "argon2_ok demo_prims"
  by (auto simp: argon2_ok_def demo_prims_def)

lemma demo_verify [simp]: "ed25519_verify demo_prims key msg (demo_sig key msg)"
  by (simp add: demo_prims_def)

lemma length_demo_sig [simp]: "length (demo_sig key msg) = 64"
  by (simp add: demo_sig_def)

text \<open>The encoding of a plain value is accepted as canonical bytes.\<close>

lemma demo_dumps [simp]: "cbor_plain v \<Longrightarrow> cbor_dumps demo_prims v = Some (cbor_enc v)"
  by (simp add: demo_prims_def cbor_ref_dumps_def)

lemma demo_loads [simp]: "cbor_plain v \<Longrightarrow> cbor_loads demo_prims (cbor_enc v) = Some v"
  by (simp add: demo_prims_def cbor_ref_loads_enc)

end
