(* ===== verification/Demo_Identity.thy ===== *)
theory Demo_Identity
  imports Identity_Finalize Cbor_Reference
begin

text \<open>
  A concrete Identity over the reference primitives, which the witnesses of the
  Identity theorems apply them to: a two-of-three genesis and an ordinary update
  on top of it, drafted, signed by two signers, and finalized.
\<close>

definition demo_name :: bytes where
  "demo_name = [0x61]"

definition demo_key :: "byte \<Rightarrow> bytes" where
  "demo_key n = replicate 32 n"

definition demo_signers :: signer_list where
  "demo_signers = [([97], demo_key 1), ([98], demo_key 2), ([99], demo_key 3)]"

definition demo_auth :: "int \<Rightarrow> bytes \<Rightarrow> authorization" where
  "demo_auth operation predecessor =
     \<lparr>au_operation = operation, au_epoch = 1, au_threshold = 2, au_signers = demo_signers,
      au_predecessor = predecessor\<rparr>"

definition demo_update :: "bytes \<Rightarrow> int \<Rightarrow> authorization \<Rightarrow> bytes" where
  "demo_update key sequence a = cbor_enc (update_value demo_name key sequence (Some a))"

definition demo_proof :: "nat \<Rightarrow> byte \<Rightarrow> bytes \<Rightarrow> identity_proof" where
  "demo_proof i k update =
     \<lparr>pf_signer_id = Some [i], pf_signer_public_key = demo_key k,
      pf_signature = demo_sig (demo_key k) (sha256 update)\<rparr>"

definition demo_proofs :: "bytes \<Rightarrow> identity_proof list" where
  "demo_proofs update = [demo_proof 97 1 update, demo_proof 98 2 update]"

definition demo_outer :: "bytes \<Rightarrow> pydict" where
  "demo_outer update =
     [(PyInt 1, PyInt 1), (PyInt 2, PyBytes update),
      (PyInt 3, PyList (map proof_item (map proof_entry (demo_proofs update))))]"

definition demo_envelope :: "bytes \<Rightarrow> bytes" where
  "demo_envelope update = cbor_enc (PyDict (demo_outer update))"

lemma length_demo_key [simp]: "length (demo_key n) = 32"
  by (simp add: demo_key_def)

lemma demo_id_bytes [simp]:
  "utf8_encode_char 97 = Some [97]" "utf8_encode_char 98 = Some [98]"
  "utf8_encode_char 99 = Some [99]"
  by code_simp+

lemma demo_keys_distinct [simp]: "demo_key i = demo_key j \<longleftrightarrow> i = j"
  by (auto simp: demo_key_def dest: arg_cong [of _ _ hd])

lemma demo_signers_ok [simp]: "signers_ok demo_signers"
  by (simp add: signers_ok_def demo_signers_def signer_ok_def id_bytes_def)

lemma demo_auth_ok:
  "operation \<in> {1, 2, 3, 4, 5} \<Longrightarrow> length predecessor = 32 \<Longrightarrow> auth_ok (demo_auth operation predecessor)"
  by (auto simp: auth_ok_def demo_auth_def OPERATION_VALUES_def) (simp_all add: demo_signers_def)

lemma length_cbor_head: "length (cbor_head m n) \<le> 9"
  by (simp add: cbor_head_def)

lemma demo_update_plain:
  assumes "auth_ok (demo_auth op p)" and "length key = 32" and "0 \<le> sequence" "sequence < 2 ^ 64"
  shows "cbor_plain (update_value demo_name key sequence (Some (demo_auth op p)))"
proof -
  have "cbor_plain (PyDict (auth_dict (demo_auth op p)))"
    using assms(1) by (rule auth_ok_plain) (simp_all add: demo_auth_def demo_signers_def)
  with assms show ?thesis by (simp add: update_value_def demo_name_def)
qed

lemma demo_update_decode:
  assumes "auth_ok (demo_auth op p)" and "length key = 32" and "0 \<le> sequence" "sequence < 2 ^ 64"
  shows "decode_signed_update demo_prims (PyBytes (demo_update key sequence (demo_auth op p))) =
    Inr ([(PyInt 1, PyBytes demo_name), (PyInt 2, PyBytes key)], [], sequence,
      Some (demo_auth op p))"
  using assms demo_update_plain [OF assms]
  by (intro decode_update_value) (auto simp: demo_update_def)

lemma demo_update_bound:
  assumes "length p = 32" "length key = 32"
  shows "length (demo_update key sequence (demo_auth op p)) \<le> 1000"
  using assms length_cbor_head [of 0 "nat sequence"] length_cbor_head [of 0 "nat op"]
  by (simp add: demo_update_def update_value_def auth_dict_def demo_auth_def demo_signers_def
      demo_name_def utf8_of_def) (simp add: cbor_head_def)

lemma demo_update_length:
  "length p = 32 \<Longrightarrow> length key = 32 \<Longrightarrow> length (demo_update key sequence (demo_auth op p)) < 2 ^ 64"
  using demo_update_bound [of p key sequence op] by simp

lemma demo_proofs_ok:
  "list_all proof_ok (demo_proofs u)" "distinct (map pf_signer_id (demo_proofs u))"
  "sorted (map proof_order (demo_proofs u))" "length (demo_proofs u) = 2"
  by (simp_all add: demo_proofs_def demo_proof_def proof_ok_def proof_order_def proof_id_bytes_def
      id_bytes_def)

lemma demo_outer_plain: "length u < 2 ^ 64 \<Longrightarrow> cbor_plain (PyDict (demo_outer u))"
  by (simp add: demo_outer_def demo_proofs_def demo_proof_def proof_item_def optional_str_def)

section \<open>Genesis\<close>

definition demo_genesis :: bytes where
  "demo_genesis = demo_update (demo_key 1) 1 (demo_auth 1 (zero_bytes 32))"

definition demo_genesis_bundle :: identity_bundle where
  "demo_genesis_bundle =
     \<lparr>bd_draft = \<lparr>dr_signed_update_bytes = demo_genesis, dr_previous_state_envelope = None,
                  dr_previous_state_history = []\<rparr>,
      bd_proofs = demo_proofs demo_genesis\<rparr>"

lemma demo_genesis_decode:
  "decode_signed_update demo_prims (PyBytes demo_genesis) =
    Inr ([(PyInt 1, PyBytes demo_name), (PyInt 2, PyBytes (demo_key 1))], [], 1,
      Some (demo_auth 1 (zero_bytes 32)))"
  unfolding demo_genesis_def by (intro demo_update_decode demo_auth_ok) simp_all

lemma demo_name_utf8 [simp]: "utf8_decode demo_name = Some [97]"
  by code_simp

lemma demo_genesis_bundle_valid: "valid_bundle demo_prims demo_genesis_bundle"
proof -
  have "validate_draft_transition demo_name (demo_key 1) 1 (Some (demo_auth 1 (zero_bytes 32))) None
      = Inr ()"
    by (simp add: validate_draft_transition_def demo_auth_def require_complete_2_of_3_def
        demo_signers_def)
  then have "valid_draft demo_prims (bd_draft demo_genesis_bundle)"
    by (simp add: valid_draft_def demo_genesis_bundle_def make_draft_def demo_genesis_decode
        MAX_PREDECESSOR_DEPTH_def dget_none_def validate_owner_name_def require_bytes_def
        parse_previous_state_chain_def optional_bytes_def bytes_of_def demo_name_def
        del: demo_name_utf8, simp add: demo_name_def [symmetric])
  then show ?thesis
    using demo_proofs_ok [of demo_genesis]
    by (simp add: valid_bundle_def) (simp add: demo_genesis_bundle_def)
qed

lemma demo_dict_of:
  "dict_of demo_signers [97] = Some (demo_key 1)" "dict_of demo_signers [98] = Some (demo_key 2)"
  by (simp_all add: dict_of_def demo_signers_def)

lemma demo_collect:
  "collect_proofs demo_prims None (dict_of demo_signers) u (demo_proofs u)
    = Inr (map proof_entry (demo_proofs u))"
  by (simp add: demo_proofs_def demo_proof_def demo_dict_of verify_bundle_signature_def
      verify_signature_def)

lemma demo_finalize_v1:
  assumes "au_operation a \<in> {1, 2}" and "au_threshold a = 2" and "au_signers a = demo_signers"
    and "length u < 2 ^ 64"
  shows "finalize_v1 demo_prims u rec a previous (demo_proofs u) = Inr (demo_envelope u)"
proof -
  have r: "rotation_predecessor_owner_key a previous = None"
    using assms(1) by (auto simp: rotation_predecessor_owner_key_def split: option.splits)
  then have k: "authorized_keys a previous = Inr (dict_of demo_signers)"
    using assms(1, 3) by (auto simp: authorized_keys_def signer_map_def)
  have c: "card (fst ` set (map proof_entry (demo_proofs u))) = 2"
    by (simp add: demo_proofs_def demo_proof_def)
  show ?thesis
    using assms demo_outer_plain [OF assms(4)] c
    unfolding finalize_v1_def r k Let_def bindE_simps demo_collect
    by (auto simp: raise_if_def canonical_def demo_outer_def demo_envelope_def)
qed

lemma demo_genesis_length: "length demo_genesis < 2 ^ 64"
  unfolding demo_genesis_def by (rule demo_update_length) simp_all

lemma demo_genesis_finalize:
  "bundle_finalize demo_prims demo_genesis_bundle = Inr (demo_envelope demo_genesis)"
proof -
  have "bundle_finalize demo_prims demo_genesis_bundle
      = assembled_envelope demo_prims demo_genesis_bundle"
    using demo_genesis_length
    by (intro bundle_finalize_assembled)
      (simp_all add: demo_genesis_bundle_valid, simp_all add: demo_genesis_bundle_def demo_proofs_ok)
  also have "\<dots> = Inr (demo_envelope demo_genesis)"
    using demo_genesis_length demo_proofs_ok(4) [of demo_genesis]
    by (auto simp: assembled_envelope_def demo_genesis_bundle_def draft_previous_state_def
        draft_owner_name_def demo_genesis_decode dget_none_def bytes_of_def optional_bytes_def
        parse_previous_state_chain_def demo_finalize_v1 demo_auth_def raise_if_def)
  finally show ?thesis .
qed

lemma demo_genesis_parse:
  obtains st where "parse_identity_envelope demo_prims demo_name (PyBytes (demo_envelope demo_genesis))
      None = Inr st"
    and "holds_update st (demo_envelope demo_genesis) demo_name (demo_key 1) 1 demo_genesis
      (Some (demo_auth 1 (zero_bytes 32)))"
proof -
  have "\<exists>st. parse_identity_envelope demo_prims demo_name (PyBytes (demo_envelope demo_genesis)) None
      = Inr st \<and> holds_update st (demo_envelope demo_genesis) demo_name (demo_key 1) 1 demo_genesis
      (Some (demo_auth 1 (zero_bytes 32)))"
    using demo_genesis_length demo_proofs_ok [of demo_genesis]
    by (intro finalize_v1_parses [where ps = "demo_proofs demo_genesis"
          and rec = "[(PyInt 1, PyBytes demo_name), (PyInt 2, PyBytes (demo_key 1))]"] demo_auth_ok
        demo_genesis_decode demo_finalize_v1)
      (simp_all add: dget_none_def validate_draft_transition_def require_complete_2_of_3_def
        demo_auth_def demo_signers_def)
  then show ?thesis using that by blast
qed

section \<open>An ordinary update\<close>

definition demo_next :: bytes where
  "demo_next = demo_update (demo_key 1) 2 (demo_auth 2 (sha256 demo_genesis))"

definition demo_next_bundle :: identity_bundle where
  "demo_next_bundle =
     \<lparr>bd_draft = \<lparr>dr_signed_update_bytes = demo_next,
                  dr_previous_state_envelope = Some (demo_envelope demo_genesis),
                  dr_previous_state_history = []\<rparr>,
      bd_proofs = demo_proofs demo_next\<rparr>"

lemma demo_next_decode:
  "decode_signed_update demo_prims (PyBytes demo_next) =
    Inr ([(PyInt 1, PyBytes demo_name), (PyInt 2, PyBytes (demo_key 1))], [], 2,
      Some (demo_auth 2 (sha256 demo_genesis)))"
  unfolding demo_next_def by (intro demo_update_decode demo_auth_ok) simp_all

lemma demo_next_length: "length demo_next < 2 ^ 64"
  unfolding demo_next_def by (rule demo_update_length) simp_all

lemma demo_next_transition:
  assumes "holds_update st (demo_envelope demo_genesis) demo_name (demo_key 1) 1 demo_genesis
      (Some (demo_auth 1 (zero_bytes 32)))"
  shows "validate_draft_transition demo_name (demo_key 1) 2
      (Some (demo_auth 2 (sha256 demo_genesis))) (Some st) = Inr ()"
  using assms
  by (auto simp: holds_update_def validate_draft_transition_def validate_draft_update_def
      demo_auth_def demo_signers_def)

lemma demo_next_bundle_valid: "valid_bundle demo_prims demo_next_bundle"
proof -
  obtain st where p: "parse_identity_envelope demo_prims demo_name
        (PyBytes (demo_envelope demo_genesis)) None = Inr st"
    and h: "holds_update st (demo_envelope demo_genesis) demo_name (demo_key 1) 1 demo_genesis
      (Some (demo_auth 1 (zero_bytes 32)))"
    by (rule demo_genesis_parse)
  have "demo_name \<noteq> []" by (simp add: demo_name_def)
  then have "valid_draft demo_prims (bd_draft demo_next_bundle)"
    using p demo_next_transition [OF h]
    by (simp add: valid_draft_def demo_next_bundle_def make_draft_def demo_next_decode
        MAX_PREDECESSOR_DEPTH_def dget_none_def validate_owner_name_def require_bytes_def
        parse_previous_state_chain_def optional_bytes_def bytes_of_def)
  then show ?thesis
    using demo_proofs_ok [of demo_next]
    by (simp add: valid_bundle_def) (simp add: demo_next_bundle_def)
qed

lemma demo_next_parse:
  assumes "holds_update prev (demo_envelope demo_genesis) demo_name (demo_key 1) 1 demo_genesis
      (Some (demo_auth 1 (zero_bytes 32)))"
  shows "\<exists>st. parse_identity_envelope demo_prims demo_name (PyBytes (demo_envelope demo_next))
      (Some prev) = Inr st
    \<and> holds_update st (demo_envelope demo_next) demo_name (demo_key 1) 2 demo_next
      (Some (demo_auth 2 (sha256 demo_genesis)))"
  using demo_next_length demo_proofs_ok [of demo_next] demo_next_transition [OF assms]
  by (intro finalize_v1_parses [where ps = "demo_proofs demo_next"
        and rec = "[(PyInt 1, PyBytes demo_name), (PyInt 2, PyBytes (demo_key 1))]"] demo_auth_ok
      demo_next_decode demo_finalize_v1)
    (simp_all add: dget_none_def, simp_all add: demo_auth_def)

end
