(* ===== verification/Identity_Properties.thy ===== *)
theory Identity_Properties
  imports Demo_Identity
begin

text \<open>
  The properties of the Identity component: envelopes, histories, drafts,
  proofs and bundles, each with a witness on the Identity of \<open>Demo_Identity\<close>.
\<close>

lemma quorum_two:
  assumes "quorum P ss 2 u" and "signers_ok ss"
  obtains i j ki kj where "i \<noteq> j" "ki \<noteq> kj" "(i, ki) \<in> set ss" "(j, kj) \<in> set ss"
    "signed_by P ki u" "signed_by P kj u"
proof -
  from assms(1) obtain ids where "2 \<le> card ids"
    and k: "\<forall>i \<in> ids. \<exists>k. (i, k) \<in> set ss \<and> signed_by P k u"
    by (auto simp: quorum_def)
  then obtain i j where ij: "i \<in> ids" "j \<in> ids" "i \<noteq> j"
    by (metis card_le_Suc_iff insertI1 insertI2 numeral_2_eq_2)
  with k obtain ki kj where "(i, ki) \<in> set ss" "(j, kj) \<in> set ss" "signed_by P ki u" "signed_by P kj u"
    by meson
  moreover have "inj_on snd (set ss)"
    using assms(2) by (simp add: signers_ok_def distinct_map)
  ultimately have "ki \<noteq> kj" using ij(3) inj_onD by fastforce
  moreover note \<open>(i, ki) \<in> set ss\<close> \<open>(j, kj) \<in> set ss\<close> \<open>signed_by P ki u\<close> \<open>signed_by P kj u\<close>
  ultimately show ?thesis using that ij(3) by blast
qed

lemma accepted_step:
  assumes "parse_previous_state_chain P name e history = Inr (Some prev)"
    and "parse_identity_envelope P name e' (Some prev) = Inr st" and "st_signer_set st \<noteq> []"
  shows "lineage P prev" and "identity_step P prev st"
  using parse_previous_state_chain_lineage [OF assms(1)] parse_identity_envelope_cases [OF assms(2)]
    assms(3) checked_step
  by (auto simp: legacy_anchor_def)

section \<open>Histories\<close>

text \<open>
  C1. \<^verbatim>\<open>_parse_previous_state_chain\<close> refines the abstract specification: every state
  that it returns is an authorized lineage of the given owner, it carries the bytes
  that were parsed, and the predecessors it records are the newest part of the
  history it was given.
\<close>

theorem accepted_chain_is_lineage:
  assumes "parse_previous_state_chain P name e history = Inr (Some st)"
  shows "lineage P st \<and> st_owner_name st = name \<and> e = PyBytes (st_envelope_bytes st)
    \<and> recorded_history st history"
  using assms by (rule parse_previous_state_chain_lineage)

lemma demo_chain:
  obtains st where "parse_previous_state_chain demo_prims demo_name
      (PyBytes (demo_envelope demo_genesis)) [] = Inr (Some st)"
    and "holds_update st (demo_envelope demo_genesis) demo_name (demo_key 1) 1 demo_genesis
      (Some (demo_auth 1 (zero_bytes 32)))"
proof -
  obtain st where "parse_identity_envelope demo_prims demo_name
      (PyBytes (demo_envelope demo_genesis)) None = Inr st"
    and "holds_update st (demo_envelope demo_genesis) demo_name (demo_key 1) 1 demo_genesis
      (Some (demo_auth 1 (zero_bytes 32)))" by (rule demo_genesis_parse)
  then show ?thesis by (intro that) (simp_all add: parse_previous_state_chain_def)
qed

theorem accepted_chain_is_lineage_witness:
  "\<exists>st. parse_previous_state_chain demo_prims demo_name (PyBytes (demo_envelope demo_genesis)) []
      = Inr (Some st)
    \<and> lineage demo_prims st \<and> st_owner_name st = demo_name
    \<and> PyBytes (demo_envelope demo_genesis) = PyBytes (st_envelope_bytes st)
    \<and> recorded_history st []"
proof -
  obtain st where "parse_previous_state_chain demo_prims demo_name
      (PyBytes (demo_envelope demo_genesis)) [] = Inr (Some st)" by (rule demo_chain)
  with accepted_chain_is_lineage [OF this] show ?thesis by blast
qed

text \<open>
  C2. A version-1 successor of an accepted version-1 state has the next sequence number
  and was signed by two different signers, with two different keys, of the set that
  its predecessor authorizes: no single key changes a governed Identity.
\<close>

theorem successor_signed_by_two_predecessor_signers:
  assumes "parse_previous_state_chain P name e history = Inr (Some prev)"
    and "st_signer_set prev \<noteq> []"
    and "parse_identity_envelope P name e' (Some prev) = Inr st" and "st_signer_set st \<noteq> []"
  shows "st_sequence st = st_sequence prev + 1
    \<and> (\<exists>i j ki kj. i \<noteq> j \<and> ki \<noteq> kj
         \<and> (i, ki) \<in> set (st_signer_set prev) \<and> (j, kj) \<in> set (st_signer_set prev)
         \<and> signed_by P ki (st_signed_update_bytes st) \<and> signed_by P kj (st_signed_update_bytes st))"
proof -
  note s = accepted_step [OF assms(1, 3, 4)]
  have "signers_ok (st_signer_set prev)"
    using lineage_two_of_three [OF s(1) assms(2)] by (simp add: two_of_three_def)
  then show ?thesis
    using step_sequence [OF s(2)] step_needs_quorum [OF s assms(2)] by (metis quorum_two)
qed

theorem successor_signed_by_two_predecessor_signers_witness:
  "\<exists>prev st. parse_previous_state_chain demo_prims demo_name
      (PyBytes (demo_envelope demo_genesis)) [] = Inr (Some prev)
    \<and> parse_identity_envelope demo_prims demo_name (PyBytes (demo_envelope demo_next)) (Some prev)
      = Inr st
    \<and> st_sequence st = st_sequence prev + 1
    \<and> (\<exists>i j ki kj. i \<noteq> j \<and> ki \<noteq> kj
         \<and> (i, ki) \<in> set (st_signer_set prev) \<and> (j, kj) \<in> set (st_signer_set prev)
         \<and> signed_by demo_prims ki (st_signed_update_bytes st)
         \<and> signed_by demo_prims kj (st_signed_update_bytes st))"
proof -
  obtain prev where p: "parse_previous_state_chain demo_prims demo_name
      (PyBytes (demo_envelope demo_genesis)) [] = Inr (Some prev)"
    and h: "holds_update prev (demo_envelope demo_genesis) demo_name (demo_key 1) 1 demo_genesis
      (Some (demo_auth 1 (zero_bytes 32)))" by (rule demo_chain)
  from demo_next_parse [OF h] obtain st where
      q: "parse_identity_envelope demo_prims demo_name (PyBytes (demo_envelope demo_next)) (Some prev)
        = Inr st"
    and g: "holds_update st (demo_envelope demo_next) demo_name (demo_key 1) 2 demo_next
      (Some (demo_auth 2 (sha256 demo_genesis)))" by blast
  have "st_signer_set prev \<noteq> []" "st_signer_set st \<noteq> []"
    using g h by (simp_all add: holds_update_def demo_auth_def demo_signers_def)
  from successor_signed_by_two_predecessor_signers [OF p this(1) q this(2)] p q show ?thesis
    by blast
qed



section \<open>Updates, drafts and bundles\<close>

text \<open>
  C27. \<^verbatim>\<open>build_identity_update\<close> and \<^verbatim>\<open>_decode_signed_update\<close> are inverse: the bytes built
  for an owner name, key, sequence and authorization map decode to exactly these,
  with the authorization in its normal form.
\<close>

theorem build_decode_round_trip:
  assumes "cbor_ok P" and "length name < 2 ^ 64" and "sequence < 2 ^ 64"
    and "validate_authorization (PyDict m) = Inr a" and "au_epoch a < 2 ^ 64"
    and "length (au_signers a) < 2 ^ 64"
    and "build_identity_update P (PyBytes name) (PyBytes key) (PyInt sequence) (Some m) = Inr b"
  shows "decode_signed_update P (PyBytes b) =
    Inr ([(PyInt 1, PyBytes name), (PyInt 2, PyBytes key)], [], sequence, Some a)"
proof -
  have a: "auth_ok a" using assms(4) by (rule validate_authorization_sound)
  from assms(7) have b: "cbor_dumps P (update_value name key sequence (Some a)) = Some b"
    "length key = 32" "0 \<le> sequence"
    unfolding build_identity_update_Inr by (auto simp: assms(4))
  have "cbor_plain (update_value name key sequence (Some a))"
    using auth_ok_plain [OF a assms(5, 6)] assms(2, 3) b by (simp add: update_value_def)
  then show ?thesis using a b assms(1) by (intro decode_update_value) auto
qed

lemma demo_build:
  "build_identity_update demo_prims (PyBytes demo_name) (PyBytes (demo_key 1)) (PyInt 1)
    (Some (auth_dict (demo_auth 1 (zero_bytes 32)))) = Inr demo_genesis"
proof -
  have a: "auth_ok (demo_auth 1 (zero_bytes 32))" by (rule demo_auth_ok) simp_all
  have "demo_name \<noteq> []" by (simp add: demo_name_def)
  then show ?thesis
    unfolding build_identity_update_Inr
    using validate_authorization_dict [OF a] demo_update_plain [OF a, of "demo_key 1" 1]
    by (simp add: demo_genesis_def demo_update_def)
qed

theorem build_decode_round_trip_witness:
  "build_identity_update demo_prims (PyBytes demo_name) (PyBytes (demo_key 1)) (PyInt 1)
      (Some (auth_dict (demo_auth 1 (zero_bytes 32)))) = Inr demo_genesis
    \<and> decode_signed_update demo_prims (PyBytes demo_genesis) =
        Inr ([(PyInt 1, PyBytes demo_name), (PyInt 2, PyBytes (demo_key 1))], [], 1,
          Some (demo_auth 1 (zero_bytes 32)))"
  using build_decode_round_trip [OF demo_cbor_ok _ _ validate_authorization_dict [OF demo_auth_ok]
      _ _ demo_build] demo_build
  by (simp add: demo_name_def) (simp add: demo_auth_def demo_signers_def)



text \<open>
  C8. The check that closes \<^verbatim>\<open>IdentityBundle.finalize\<close> never rejects what the earlier
  checks let through: on a valid bundle \<^verbatim>\<open>finalize\<close> returns exactly the envelope it
  assembles from the draft and its proofs, or the error of assembling it.
\<close>

theorem finalize_closing_check_never_rejects:
  assumes "cbor_ok P" and "valid_bundle P b"
    and "length (dr_signed_update_bytes (bd_draft b)) < 2 ^ 64" and "length (bd_proofs b) < 2 ^ 64"
  shows "bundle_finalize P b = assembled_envelope P b"
  using assms by (rule bundle_finalize_assembled)

theorem finalize_closing_check_never_rejects_witness:
  "bundle_finalize demo_prims demo_next_bundle = assembled_envelope demo_prims demo_next_bundle"
  using finalize_closing_check_never_rejects [OF demo_cbor_ok demo_next_bundle_valid]
    demo_next_length demo_proofs_ok(4) [of demo_next]
  by (simp add: demo_next_bundle_def)

text \<open>
  C21. A finalized envelope extends the history of its draft: read with the draft's own
  predecessors it is accepted, and the resulting state is an authorized lineage of
  the draft's owner, so that the next update can be drafted on it.
\<close>

theorem finalized_bundle_extends_history:
  assumes "valid_bundle P b" and "bundle_finalize P b = Inr e"
  shows "\<exists>name st. draft_owner_name P (bd_draft b) = Inr (PyBytes name)
    \<and> parse_previous_state_chain P name (PyBytes e) (next_history (bd_draft b)) = Inr (Some st)
    \<and> lineage P st \<and> st_owner_name st = name \<and> st_envelope_bytes st = e"
proof -
  obtain name st where n: "draft_owner_name P (bd_draft b) = Inr (PyBytes name)"
    and c: "parse_previous_state_chain P name (PyBytes e) (next_history (bd_draft b)) = Inr (Some st)"
    using finalize_extends_history [OF assms] by metis
  with parse_previous_state_chain_lineage [OF c] show ?thesis by auto
qed

theorem finalized_bundle_extends_history_witness:
  "\<exists>name st. draft_owner_name demo_prims (bd_draft demo_genesis_bundle) = Inr (PyBytes name)
    \<and> parse_previous_state_chain demo_prims name (PyBytes (demo_envelope demo_genesis))
        (next_history (bd_draft demo_genesis_bundle)) = Inr (Some st)
    \<and> lineage demo_prims st \<and> st_owner_name st = name
    \<and> st_envelope_bytes st = demo_envelope demo_genesis"
  by (rule finalized_bundle_extends_history [OF demo_genesis_bundle_valid demo_genesis_finalize])

text \<open>
  C25. Collecting proofs does not depend on the order or the grouping in which bundles
  are merged: on valid bundles \<^verbatim>\<open>merge\<close> is commutative and associative, errors
  included, and it keeps bundles valid.
\<close>

theorem merge_order_irrelevant:
  assumes "valid_bundle P a" and "valid_bundle P b" and "valid_bundle P c"
  shows "bundle_merge a b = bundle_merge b a
    \<and> bindE (bundle_merge a b) (\<lambda>ab. bundle_merge ab c)
      = bindE (bundle_merge b c) (\<lambda>bc. bundle_merge a bc)
    \<and> pred_sum (\<lambda>_. True) (valid_bundle P) (bundle_merge a b)"
proof -
  have "pred_sum (\<lambda>_. True) (valid_bundle P) (bundle_merge a b)"
    using bundle_merge_valid [OF assms(1, 2)] by (cases "bundle_merge a b") auto
  with bundle_merge_commute [OF assms(1, 2)] bundle_merge_assoc [OF assms] show ?thesis by blast
qed

definition demo_single :: "identity_proof \<Rightarrow> identity_bundle" where
  "demo_single p = demo_genesis_bundle\<lparr>bd_proofs := [p]\<rparr>"

lemma demo_single_valid:
  "valid_bundle demo_prims (demo_single (demo_proof 97 1 u))"
  "valid_bundle demo_prims (demo_single (demo_proof 98 2 u))"
  using demo_genesis_bundle_valid
  by (simp_all add: valid_bundle_def demo_single_def demo_proof_def proof_ok_def id_bytes_def)

theorem merge_order_irrelevant_witness:
  "bundle_merge (demo_single (demo_proof 97 1 demo_genesis)) (demo_single (demo_proof 98 2 demo_genesis))
    = bundle_merge (demo_single (demo_proof 98 2 demo_genesis)) (demo_single (demo_proof 97 1 demo_genesis))
   \<and> bundle_merge (demo_single (demo_proof 98 2 demo_genesis))
       (demo_single (demo_proof 97 1 demo_genesis)) = Inr demo_genesis_bundle"
  using merge_order_irrelevant [OF demo_single_valid(1) [of demo_genesis]
      demo_single_valid(2) [of demo_genesis] demo_single_valid(1) [of demo_genesis]]
  by (simp add: bundle_merge_eq demo_single_def demo_proof_def demo_genesis_bundle_def proof_order_def
      proof_id_bytes_def id_bytes_def demo_proofs_def)

text \<open>
  C26. The exchange format of bundles, and of the drafts inside them, loses nothing:
  \<^verbatim>\<open>IdentityBundle.from_cbor\<close> reads back exactly the bundle that \<^verbatim>\<open>to_cbor\<close> wrote.
\<close>

theorem bundle_exchange_round_trip:
  assumes "cbor_ok P" and "valid_bundle P b" and "cbor_plain (draft_value (bd_draft b))"
    and "\<forall>draft. draft_to_cbor P (bd_draft b) = Inr draft \<longrightarrow> length draft < 2 ^ 64"
    and "length (bd_proofs b) < 2 ^ 64"
  shows "\<exists>data. bundle_to_cbor P b = Inr data \<and> bundle_from_cbor P (PyBytes data) = Inr b"
  using assms by (intro bundle_round_trip) auto

theorem bundle_exchange_round_trip_witness:
  "\<exists>data. bundle_to_cbor demo_prims demo_genesis_bundle = Inr data
    \<and> bundle_from_cbor demo_prims (PyBytes data) = Inr demo_genesis_bundle"
proof -
  have p: "cbor_plain (draft_value (bd_draft demo_genesis_bundle))"
    using demo_genesis_length by (simp add: draft_value_def demo_genesis_bundle_def optional_bytes_def)
  have b: "length demo_genesis \<le> 1000"
    unfolding demo_genesis_def by (rule demo_update_bound) simp_all
  have "length (cbor_enc (draft_value (bd_draft demo_genesis_bundle))) \<le> 2000"
    using b length_cbor_head [of 2 "length demo_genesis"]
    by (simp add: draft_value_def demo_genesis_bundle_def optional_bytes_def)
      (simp add: cbor_head_def)
  then have "\<forall>draft. draft_to_cbor demo_prims (bd_draft demo_genesis_bundle) = Inr draft
      \<longrightarrow> length draft < 2 ^ 64"
    using p by (auto simp: draft_to_cbor_def canonical_def)
  then show ?thesis
    using p by (intro bundle_exchange_round_trip demo_cbor_ok demo_genesis_bundle_valid)
      (simp_all add: demo_genesis_bundle_def demo_proofs_ok)
qed

end
