(* ===== verification/Signer.thy ===== *)
theory Signer
  imports Identity_State Complex_Main
begin

text \<open>
  \<^verbatim>\<open>signer.py\<close>: the validators of signing input, and the one-operation signing
  capability with the module's table \<^verbatim>\<open>_PRIVATE_KEYS\<close>.  Time is a rational
  parameter read once per call of \<^verbatim>\<open>time.monotonic\<close>.
\<close>

section \<open>Seeds and keys\<close>

text \<open>\<^verbatim>\<open>_generate_seed\<close>: \<open>approved\<close> tells whether \<^verbatim>\<open>secrets.token_bytes\<close> is still the
  function that the module captured, \<open>token\<close> is the outcome of calling it.\<close>

definition generate_seed :: "bool \<Rightarrow> pyval res \<Rightarrow> bytes res" where
  "generate_seed approved token =
     raise_if (\<not> approved) KeyGenerationError
     (bindE (exceptE token (\<lambda>_. Inl KeyGenerationError)) (\<lambda>seed.
      (case seed of
         PyBytes b \<Rightarrow> raise_if (length b \<noteq> 32) KeyGenerationError (Inr b)
       | _ \<Rightarrow> Inl KeyGenerationError)))"

definition public_key_from_seed :: "prims \<Rightarrow> bytes \<Rightarrow> bytes res" where
  "public_key_from_seed P seed =
     (case ed25519_public P seed of None \<Rightarrow> Inl KeyGenerationError | Some k \<Rightarrow> Inr k)"

section \<open>Validation of signing input\<close>

definition require_exact_int_keys :: "pyval \<Rightarrow> int list \<Rightarrow> pydict res" where
  "require_exact_int_keys v expected =
     (case v of
        PyDict d \<Rightarrow>
          raise_if (\<not> list_all (\<lambda>kv. is_PyInt (fst kv)) d \<or> dkeys d \<noteq> set (map PyInt expected))
            InvalidSigningInput (Inr d)
      | _ \<Rightarrow> Inl InvalidSigningInput)"

definition require_signing_uint :: "pyval \<Rightarrow> int res" where
  "require_signing_uint v =
     (case v of
        PyInt i \<Rightarrow> raise_if (i < 0) InvalidSigningInput (Inr i)
      | _ \<Rightarrow> Inl InvalidSigningInput)"

text \<open>The loop over the signer entries.  \<open>keys\<close> collects the public keys; \<open>seen_ids\<close>,
  \<open>seen_keys\<close> and \<open>previous_id\<close> are its other variables.  A signer identifier that does not
  encode raises \<^verbatim>\<open>UnicodeEncodeError\<close>.\<close>

fun check_signer_entries ::
    "pyval list \<Rightarrow> pystr list \<Rightarrow> bytes list \<Rightarrow> bytes option \<Rightarrow> bytes list res" where
  "check_signer_entries [] seen_ids seen_keys previous_id = Inr []"
| "check_signer_entries (entry # rest) seen_ids seen_keys previous_id =
     bindE (require_exact_int_keys entry [1, 2]) (\<lambda>e.
     (case ditem e 1 of
        PyStr signer_id \<Rightarrow>
          raise_if (signer_id = []) InvalidSigningInput
          (case utf8_encode signer_id of
             None \<Rightarrow> Inl PyUnicodeError
           | Some signer_id_bytes \<Rightarrow>
               raise_if (length signer_id_bytes > 256) InvalidSigningInput
               (raise_if (case previous_id of None \<Rightarrow> False | Some p \<Rightarrow> signer_id_bytes \<le> p)
                  InvalidSigningInput
               (case ditem e 2 of
                  PyBytes public_key \<Rightarrow>
                    raise_if (length public_key \<noteq> 32) InvalidSigningInput
                    (raise_if (signer_id \<in> set seen_ids \<or> public_key \<in> set seen_keys)
                       InvalidSigningInput
                    (bindE (check_signer_entries rest (signer_id # seen_ids)
                              (public_key # seen_keys) (Some signer_id_bytes)) (\<lambda>keys.
                     Inr (public_key # keys))))
                | _ \<Rightarrow> Inl InvalidSigningInput)))
      | _ \<Rightarrow> Inl InvalidSigningInput))"

definition validate_signing_authorization :: "pyval \<Rightarrow> bytes \<Rightarrow> unit res" where
  "validate_signing_authorization authorization signer_public_key =
     bindE (require_exact_int_keys authorization [1, 2, 3, 4, 5, 6, 7]) (\<lambda>a.
     bindE (require_signing_uint (ditem a 1)) (\<lambda>version.
     raise_if (version \<noteq> 1) InvalidSigningInput
     (bindE (require_signing_uint (ditem a 2)) (\<lambda>kind.
     raise_if (kind \<noteq> 1) InvalidSigningInput
     (bindE (require_signing_uint (ditem a 3)) (\<lambda>operation.
     raise_if (operation \<notin> set OPERATION_VALUES) InvalidSigningInput
     (bindE (require_signing_uint (ditem a 4)) (\<lambda>_.
     bindE (require_signing_uint (ditem a 5)) (\<lambda>threshold.
     (case ditem a 6 of
        PyList entries \<Rightarrow>
          raise_if (entries = []) InvalidSigningInput
          (bindE (check_signer_entries entries [] [] None) (\<lambda>signer_keys.
           raise_if (threshold < 1 \<or> threshold > int (length entries)) InvalidSigningInput
           (case ditem a 7 of
              PyBytes predecessor \<Rightarrow>
                raise_if (length predecessor \<noteq> 32) InvalidSigningInput
                (raise_if (signer_public_key \<notin> set signer_keys \<and> operation \<notin> {3, 5})
                   InvalidSigningInput (Inr ()))
            | _ \<Rightarrow> Inl InvalidSigningInput)))
      | _ \<Rightarrow> Inl InvalidSigningInput))))))))))"

definition validate_identity_update :: "prims \<Rightarrow> pyval \<Rightarrow> bytes \<Rightarrow> unit res" where
  "validate_identity_update P data signer_public_key =
     (case data of
        PyBytes b \<Rightarrow>
          raise_if (b = []) InvalidSigningInput
          (case cbor_loads P b of
             None \<Rightarrow> Inl InvalidSigningInput
           | Some v \<Rightarrow>
               raise_if (cbor_dumps P v \<noteq> Some b) InvalidSigningInput
               (case v of
                  PyDict decoded \<Rightarrow>
                    raise_if (\<not> list_all (\<lambda>kv. is_PyInt (fst kv)) decoded
                        \<or> dkeys decoded \<noteq> set (map PyInt [1, 2, 3])
                          \<and> dkeys decoded \<noteq> set (map PyInt [1, 2, 3, 4])) InvalidSigningInput
                    (raise_if (\<not> is_PyDict (ditem decoded 1)) InvalidSigningInput
                    (bindE (require_exact_int_keys (ditem decoded 1) [1, 2]) (\<lambda>rec.
                     raise_if (\<not> is_PyBytes (ditem rec 1) \<or> ditem rec 1 = PyBytes [])
                       InvalidSigningInput
                     (raise_if (case ditem rec 2 of PyBytes k \<Rightarrow> length k \<noteq> 32 | _ \<Rightarrow> True)
                        InvalidSigningInput
                     (raise_if (ditem decoded 2 \<noteq> PyDict []) InvalidSigningInput
                     (bindE (require_signing_uint (ditem decoded 3)) (\<lambda>_.
                      (case dget decoded (PyInt 4) of
                         Some authorization \<Rightarrow>
                           validate_signing_authorization authorization signer_public_key
                       | None \<Rightarrow>
                           raise_if (ditem rec 2 \<noteq> PyBytes signer_public_key) InvalidSigningInput
                             (Inr ())))))))))
                | _ \<Rightarrow> Inl InvalidSigningInput))
      | _ \<Rightarrow> Inl InvalidSigningInput)"

section \<open>Signing capabilities\<close>

record capability =
  cap_handle :: "nat option"
  cap_public_key :: bytes
  cap_expires_at :: rat
  cap_active :: bool
  cap_on_invalidate :: bool
  cap_timer :: bool

text \<open>The module's state: \<^verbatim>\<open>_PRIVATE_KEYS\<close> by handle, and the capabilities that were
  created.  A handle is a fresh object; here it is the next number.\<close>

record signer_state =
  ss_private_keys :: "nat \<rightharpoonup> bytes"
  ss_caps :: "capability list"

definition cap_at :: "signer_state \<Rightarrow> nat \<Rightarrow> capability" where
  "cap_at s c = ss_caps s ! c"

definition put_cap :: "signer_state \<Rightarrow> nat \<Rightarrow> capability \<Rightarrow> signer_state" where
  "put_cap s c cap = s\<lparr>ss_caps := (ss_caps s)[c := cap]\<rparr>"

text \<open>\<^verbatim>\<open>_create_capability_from_seed\<close>: \<open>timeout\<close> is the number given, or \<open>None\<close> for an
  argument that is not an \<^verbatim>\<open>int\<close> or \<^verbatim>\<open>float\<close>; \<open>callback\<close> tells whether
  \<^verbatim>\<open>on_invalidate\<close> was given.  The result is the index of the capability.\<close>

definition create_capability_from_seed ::
    "prims \<Rightarrow> pyval \<Rightarrow> rat option \<Rightarrow> bool \<Rightarrow> rat \<Rightarrow> signer_state \<Rightarrow> nat res \<times> signer_state" where
  "create_capability_from_seed P seed timeout callback now s =
     (case (seed, timeout) of
        (PyBytes b, Some t) \<Rightarrow>
          if length b \<noteq> 32 \<or> \<not> (0 < t \<and> t \<le> 900) then (Inl SignerUnavailable, s)
          else
            (case ed25519_public P b of
               None \<Rightarrow> (Inl SignerUnavailable, s)
             | Some public_key \<Rightarrow>
                 let h = length (ss_caps s) in
                 (Inr h,
                  s\<lparr>ss_private_keys := (ss_private_keys s)(h \<mapsto> b),
                    ss_caps := ss_caps s @
                      [\<lparr>cap_handle = Some h, cap_public_key = public_key,
                        cap_expires_at = now + t, cap_active = True,
                        cap_on_invalidate = callback, cap_timer = True\<rparr>]\<rparr>))
      | _ \<Rightarrow> (Inl SignerUnavailable, s))"

text \<open>\<^verbatim>\<open>_invalidate_unlocked\<close>: the flag tells whether the callback is called.\<close>

definition invalidate_unlocked :: "nat \<Rightarrow> signer_state \<Rightarrow> bool \<times> signer_state" where
  "invalidate_unlocked c s =
     (let cap = cap_at s c in
      if \<not> cap_active cap \<and> cap_handle cap = None then (False, s)
      else
        (cap_on_invalidate cap,
         put_cap
           (s\<lparr>ss_private_keys :=
               (case cap_handle cap of
                  None \<Rightarrow> ss_private_keys s | Some h \<Rightarrow> (ss_private_keys s)(h := None))\<rparr>)
           c
           (cap\<lparr>cap_active := False, cap_expires_at := 0, cap_handle := None, cap_timer := False,
                cap_on_invalidate := False\<rparr>)))"

definition cap_cancel :: "nat \<Rightarrow> signer_state \<Rightarrow> bool \<times> signer_state" where
  "cap_cancel c s = invalidate_unlocked c s"

text \<open>The \<^verbatim>\<open>is_active\<close> property.\<close>

definition cap_is_active :: "rat \<Rightarrow> nat \<Rightarrow> signer_state \<Rightarrow> bool \<times> bool \<times> signer_state" where
  "cap_is_active now c s =
     (let (called, s') =
        (if cap_active (cap_at s c) \<and> cap_expires_at (cap_at s c) \<le> now
         then invalidate_unlocked c s else (False, s))
      in (cap_active (cap_at s' c), called, s'))"

definition assert_active :: "rat \<Rightarrow> nat \<Rightarrow> signer_state \<Rightarrow> unit res \<times> bool \<times> signer_state" where
  "assert_active now c s =
     (let cap = cap_at s c in
      if \<not> cap_active cap then (Inl SignerUnavailable, False, s)
      else if cap_expires_at cap \<le> now then (Inl SignerUnavailable, invalidate_unlocked c s)
      else if (case cap_handle cap of None \<Rightarrow> True | Some h \<Rightarrow> ss_private_keys s h = None)
        then (Inl SignerUnavailable, False, s)
      else (Inr (), False, s))"

text \<open>The body of the \<^verbatim>\<open>try\<close> of \<^verbatim>\<open>sign_identity_update\<close> with its handlers.\<close>

definition sign_body :: "prims \<Rightarrow> pyval \<Rightarrow> nat \<Rightarrow> signer_state \<Rightarrow> bytes res" where
  "sign_body P data c s =
     exceptE
       (bindE (validate_identity_update P data (cap_public_key (cap_at s c))) (\<lambda>_.
        (case cap_handle (cap_at s c) of
           None \<Rightarrow> Inl SignerUnavailable
         | Some h \<Rightarrow>
             (case ss_private_keys s h of
                None \<Rightarrow> Inl SignerUnavailable
              | Some key \<Rightarrow>
                  (case data of
                     PyBytes b \<Rightarrow>
                       (case ed25519_sign P key (sha256 b) of
                          None \<Rightarrow> Inl PyException
                        | Some sig \<Rightarrow> raise_if (length sig \<noteq> 64) SignerError (Inr sig))
                   | _ \<Rightarrow> Inl PyTypeError)))))
       (\<lambda>e. Inl (if e \<in> {InvalidSigningInput, SignerUnavailable, SignerError} then e
                 else SignerError))"

definition sign_identity_update ::
    "prims \<Rightarrow> pyval \<Rightarrow> rat \<Rightarrow> nat \<Rightarrow> signer_state \<Rightarrow> bytes res \<times> bool \<times> signer_state" where
  "sign_identity_update P data now c s =
     (case assert_active now c s of
        (Inl e, called, s') \<Rightarrow> (Inl e, called, s')
      | (Inr _, _, s') \<Rightarrow> (sign_body P data c s', invalidate_unlocked c s'))"

end
