(* ===== verification/Signer_Facts.thy ===== *)
theory Signer_Facts
  imports Signer Identity_Lineage
begin

text \<open>
  Lemmas on \<^verbatim>\<open>signer.py\<close>: its validators accept what the independent validators of
  \<^verbatim>\<open>identity.py\<close> accept, and the table of private keys holds the keys of the active
  capabilities and no others.
\<close>

section \<open>The two validators agree\<close>

lemma require_exact_int_keys_eq:
  "require_exact_int_keys v ks = Inr d \<longleftrightarrow> require_exact_keys v ks = Inr d"
  by (cases v) (auto simp: require_exact_int_keys_def require_exact_keys_def raise_if_def)

lemma require_signing_uint_eq: "require_signing_uint v = Inr i \<longleftrightarrow> require_uint v = Inr i"
  by (cases v) (auto simp: require_signing_uint_def require_uint_def raise_if_def)

text \<open>Identifiers in strictly ascending order, after \<open>previous_id\<close> if there is one.\<close>

definition ascending :: "bytes option \<Rightarrow> signer_list \<Rightarrow> bool" where
  "ascending previous_id ns \<longleftrightarrow>
     sorted_wrt (<) ((case previous_id of None \<Rightarrow> [] | Some p \<Rightarrow> [p]) @ map (\<lambda>e. id_bytes (fst e)) ns)"

lemma ascending_Cons:
  "ascending p (e # ns) \<longleftrightarrow>
     (case p of None \<Rightarrow> True | Some b \<Rightarrow> b < id_bytes (fst e)) \<and> ascending (Some (id_bytes (fst e))) ns"
  by (cases p) (auto simp: ascending_def intro: order.strict_trans)

lemma check_signer_entries_Inr:
  "check_signer_entries vs ids keys p = Inr ks \<longleftrightarrow>
     (\<exists>ns. normalize_signers vs ids keys = Inr ns \<and> ascending p ns \<and> ks = map snd ns)"
proof (induction vs arbitrary: ids keys p ks)
  case Nil
  then show ?case by (cases p) (auto simp: ascending_def)
next
  case (Cons v vs)
  show ?case
    unfolding check_signer_entries.simps normalize_signers.simps
    apply (simp only: bindE_Inr_iff raise_if_Inr_iff case_PyStr_Inr case_option_Inr case_PyBytes_Inr
        require_exact_int_keys_eq require_bytes_Inr Cons.IH)
    apply (simp only: ex_simps [symmetric] conj_assoc)
    by (auto simp: ascending_Cons id_bytes_def not_le not_less split: option.splits)
qed

lemma ascending_iff:
  assumes "\<forall>e \<in> set ns. signer_ok e" and "distinct (map fst ns)"
  shows "ascending None ns \<longleftrightarrow> sorted (map (\<lambda>e. id_bytes (fst e)) ns)"
proof -
  have "inj_on (\<lambda>e. id_bytes (fst e)) (set ns)"
  proof (rule inj_onI)
    fix d e assume de: "d \<in> set ns" "e \<in> set ns" "id_bytes (fst d) = id_bytes (fst e)"
    with assms(1) have "signer_ok d" "signer_ok e" by blast+
    with de(3) have "fst d = fst e"
      by (auto simp: signer_ok_def id_bytes_def dest: utf8_encode_inj)
    with de assms(2) show "d = e" by (auto simp: distinct_map dest: inj_onD)
  qed
  then have "distinct (map (\<lambda>e. id_bytes (fst e)) ns)"
    using assms(2) by (simp add: distinct_map)
  then show ?thesis by (simp add: ascending_def strict_sorted_iff)
qed

lemma validate_signing_authorization_agrees:
  "validate_signing_authorization v pk = Inr () \<longleftrightarrow>
     (\<exists>a. validate_authorization v = Inr a
        \<and> (pk \<in> snd ` set (au_signers a) \<or> au_operation a \<in> {3, 5}))"
proof -
  have e: "(\<exists>ks. check_signer_entries vs [] [] None = Inr ks \<and> Q ks) \<longleftrightarrow>
      (\<exists>ns. normalize_signers vs [] [] = Inr ns
         \<and> ns = sort_key (\<lambda>e. id_bytes (fst e)) ns \<and> Q (map snd ns))" for vs Q
    using normalize_signers_sound [of vs "[]" "[]"] ascending_iff
    by (auto simp: check_signer_entries_Inr sort_key_eq_self_iff eq_commute [of _ "sort_key _ _"])
  have l: "normalize_signers vs [] [] = Inr ns \<Longrightarrow> length vs = length ns" for vs ns
    using normalize_signers_sound by metis
  show ?thesis
    unfolding validate_signing_authorization_def validate_authorization_def
    apply (simp only: bindE_Inr_iff raise_if_Inr_iff case_PyList_Inr case_PyBytes_Inr
        require_exact_int_keys_eq require_signing_uint_eq require_bytes_Inr e)
    by (force simp: l not_less not_le)
qed

text \<open>What a signer may sign with the key \<open>pk\<close>.\<close>

definition may_sign :: "pydict \<Rightarrow> authorization option \<Rightarrow> bytes \<Rightarrow> bool" where
  "may_sign rec authorization pk \<longleftrightarrow>
     (\<exists>name key. ditem rec 1 = PyBytes name \<and> name \<noteq> [] \<and> ditem rec 2 = PyBytes key \<and> length key = 32
        \<and> (case authorization of
             None \<Rightarrow> key = pk
           | Some a \<Rightarrow> pk \<in> snd ` set (au_signers a) \<or> au_operation a \<in> {3, 5}))"

lemma require_exact_keys_empty: "require_exact_keys v [] = Inr d \<longleftrightarrow> v = PyDict [] \<and> d = []"
  by (auto simp: res_simps dkeys_def)

text \<open>The outer map of an update that both modules accept.\<close>

definition update_map :: "prims \<Rightarrow> bytes \<Rightarrow> pydict \<Rightarrow> bool" where
  "update_map P b d \<longleftrightarrow> b \<noteq> [] \<and> cbor_loads P b = Some (PyDict d) \<and> cbor_dumps P (PyDict d) = Some b
     \<and> list_all (\<lambda>kv. is_PyInt (fst kv)) d
     \<and> (dkeys d = set (map PyInt [1, 2, 3]) \<or> dkeys d = set (map PyInt [1, 2, 3, 4]))"

lemma decode_signed_update_Inr:
  "decode_signed_update P (PyBytes b) = Inr (rec, payload, sequence, authorization) \<longleftrightarrow>
     (\<exists>d. update_map P b d \<and> require_exact_keys (ditem d 1) [1, 2] = Inr rec
        \<and> ditem d 2 = PyDict [] \<and> payload = [] \<and> require_uint (ditem d 3) = Inr sequence
        \<and> (case dget d (PyInt 4) of
             None \<Rightarrow> authorization = None
           | Some v \<Rightarrow> \<exists>a. validate_authorization v = Inr a \<and> authorization = Some a))"
proof -
  have o: "(case x of None \<Rightarrow> Inr (r, p, s, None)
        | Some v \<Rightarrow> bindE (validate_authorization v) (\<lambda>a. Inr (r, p, s, Some a)))
      = Inr (rec, payload, sequence, authorization) \<longleftrightarrow>
      r = rec \<and> p = payload \<and> s = sequence \<and>
      (case x of None \<Rightarrow> authorization = None
       | Some v \<Rightarrow> \<exists>a. validate_authorization v = Inr a \<and> authorization = Some a)" for x r p s
    by (auto simp: bindE_Inr_iff split: option.splits)
  show ?thesis
    unfolding decode_signed_update_def require_canonical_def update_map_def
    apply (simp only: pyval.case bindE_Inr_iff raise_if_Inr_iff case_PyDict_Inr case_option_Inr
        require_exact_keys_empty de_Morgan_conj not_not o)
    by blast
qed

lemma validate_identity_update_Inr:
  "validate_identity_update P (PyBytes b) pk = Inr () \<longleftrightarrow>
     (\<exists>d rec sequence. update_map P b d \<and> require_exact_keys (ditem d 1) [1, 2] = Inr rec
        \<and> ditem d 2 = PyDict [] \<and> require_uint (ditem d 3) = Inr sequence
        \<and> (\<exists>name. ditem rec 1 = PyBytes name \<and> name \<noteq> [])
        \<and> (\<exists>key. ditem rec 2 = PyBytes key \<and> length key = 32)
        \<and> (case dget d (PyInt 4) of
             None \<Rightarrow> ditem rec 2 = PyBytes pk
           | Some v \<Rightarrow> validate_signing_authorization v pk = Inr ()))"
proof -
  have r: "is_PyDict v \<and> require_exact_keys v [1, 2] = Inr d \<longleftrightarrow> require_exact_keys v [1, 2] = Inr d"
    for v d by (cases v) (auto simp: require_exact_keys_def)
  have n: "(is_PyBytes v \<and> v \<noteq> PyBytes []) \<longleftrightarrow> (\<exists>name. v = PyBytes name \<and> name \<noteq> [])"
    "(case v of PyBytes k \<Rightarrow> length k \<noteq> 32 | _ \<Rightarrow> True) \<longleftrightarrow> \<not> (\<exists>k. v = PyBytes k \<and> length k = 32)" for v
    by (cases v; auto)+
  have o: "(case x of None \<Rightarrow> raise_if c e (Inr ()) | Some v \<Rightarrow> f v) = Inr () \<longleftrightarrow>
      (case x of None \<Rightarrow> \<not> c | Some v \<Rightarrow> f v = Inr ())" for x c e f
    by (simp add: raise_if_Inr_iff split: option.splits)
  show ?thesis
    unfolding validate_identity_update_def update_map_def
    apply (simp only: pyval.case bindE_Inr_iff raise_if_Inr_iff case_PyDict_Inr case_option_Inr o
        require_exact_int_keys_eq require_signing_uint_eq de_Morgan_disj de_Morgan_conj not_not n)
    using r by blast
qed

lemma validate_identity_update_agrees:
  "validate_identity_update P data pk = Inr () \<longleftrightarrow>
     (\<exists>rec sequence authorization.
        decode_signed_update P data = Inr (rec, [], sequence, authorization)
        \<and> may_sign rec authorization pk)"
proof (cases data)
  case (PyBytes b)
  show ?thesis
    unfolding PyBytes
  proof
    assume "validate_identity_update P (PyBytes b) pk = Inr ()"
    then obtain d rec sequence where d: "update_map P b d" "require_exact_keys (ditem d 1) [1, 2] = Inr rec"
        "ditem d 2 = PyDict []" "require_uint (ditem d 3) = Inr sequence"
      and r: "\<exists>name. ditem rec 1 = PyBytes name \<and> name \<noteq> []"
        "\<exists>key. ditem rec 2 = PyBytes key \<and> length key = 32"
      and a: "case dget d (PyInt 4) of None \<Rightarrow> ditem rec 2 = PyBytes pk
          | Some v \<Rightarrow> validate_signing_authorization v pk = Inr ()"
      unfolding validate_identity_update_Inr by blast
    show "\<exists>rec sequence authorization. decode_signed_update P (PyBytes b)
        = Inr (rec, [], sequence, authorization) \<and> may_sign rec authorization pk"
    proof (cases "dget d (PyInt 4)")
      case None
      with d have "decode_signed_update P (PyBytes b) = Inr (rec, [], sequence, None)"
        unfolding decode_signed_update_Inr by (intro exI [of _ d]) simp
      moreover have "may_sign rec None pk" using r a None by (auto simp: may_sign_def)
      ultimately show ?thesis by blast
    next
      case (Some v)
      with a obtain m where m: "validate_authorization v = Inr m"
          "pk \<in> snd ` set (au_signers m) \<or> au_operation m \<in> {3, 5}"
        by (auto simp: validate_signing_authorization_agrees)
      with d Some have "decode_signed_update P (PyBytes b) = Inr (rec, [], sequence, Some m)"
        unfolding decode_signed_update_Inr by (intro exI [of _ d]) simp
      moreover have "may_sign rec (Some m) pk" using r m(2) by (auto simp: may_sign_def)
      ultimately show ?thesis by blast
    qed
  next
    assume "\<exists>rec sequence authorization. decode_signed_update P (PyBytes b)
        = Inr (rec, [], sequence, authorization) \<and> may_sign rec authorization pk"
    then obtain d rec sequence authorization where d: "update_map P b d"
        "require_exact_keys (ditem d 1) [1, 2] = Inr rec" "ditem d 2 = PyDict []"
        "require_uint (ditem d 3) = Inr sequence"
      and a: "case dget d (PyInt 4) of None \<Rightarrow> authorization = None
          | Some v \<Rightarrow> \<exists>a. validate_authorization v = Inr a \<and> authorization = Some a"
      and m: "may_sign rec authorization pk"
      unfolding decode_signed_update_Inr by blast
    have "case dget d (PyInt 4) of None \<Rightarrow> ditem rec 2 = PyBytes pk
        | Some v \<Rightarrow> validate_signing_authorization v pk = Inr ()"
      using a m
      by (auto simp: validate_signing_authorization_agrees may_sign_def split: option.splits)
    with d m show "validate_identity_update P (PyBytes b) pk = Inr ()"
      unfolding validate_identity_update_Inr may_sign_def by blast
  qed
qed (simp_all add: validate_identity_update_def decode_signed_update_def require_canonical_def)

section \<open>Capabilities over time\<close>

datatype signer_event =
    Create pyval "rat option" bool rat
  | Sign nat pyval rat
  | Cancel nat
  | Fire nat
  | Query nat rat

text \<open>One call, or one expiry of a timer; the output is the capability and signature of
  a successful signing.\<close>

fun signer_apply ::
    "prims \<Rightarrow> signer_event \<Rightarrow> signer_state \<Rightarrow> (nat \<times> bytes) list \<times> signer_state" where
  "signer_apply P (Create seed timeout callback now) s =
     ([], snd (create_capability_from_seed P seed timeout callback now s))"
| "signer_apply P (Sign c data now) s =
     (if c < length (ss_caps s)
      then (case sign_identity_update P data now c s of
              (Inr sig, _, s') \<Rightarrow> ([(c, sig)], s') | (Inl e, _, s') \<Rightarrow> ([], s'))
      else ([], s))"
| "signer_apply P (Cancel c) s = ([], if c < length (ss_caps s) then snd (cap_cancel c s) else s)"
| "signer_apply P (Fire c) s =
     ([], if c < length (ss_caps s) then snd (invalidate_unlocked c s) else s)"
| "signer_apply P (Query c now) s =
     ([], if c < length (ss_caps s) then snd (snd (cap_is_active now c s)) else s)"

primrec signer_run ::
    "prims \<Rightarrow> signer_event list \<Rightarrow> signer_state \<Rightarrow> (nat \<times> bytes) list \<times> signer_state" where
  "signer_run P [] s = ([], s)"
| "signer_run P (e # es) s =
     (case signer_apply P e s of (out, s') \<Rightarrow>
      (case signer_run P es s' of (outs, s'') \<Rightarrow> (out @ outs, s'')))"

definition signer_start :: signer_state where
  "signer_start = \<lparr>ss_private_keys = Map.empty, ss_caps = []\<rparr>"

text \<open>The keys in the table are those of the active capabilities, by their own handles,
  and each belongs to the public key that its capability shows.\<close>

definition live :: "signer_state \<Rightarrow> nat \<Rightarrow> bool" where
  "live s c \<longleftrightarrow> c < length (ss_caps s) \<and> cap_active (cap_at s c)"

definition signer_inv :: "prims \<Rightarrow> signer_state \<Rightarrow> bool" where
  "signer_inv P s \<longleftrightarrow> dom (ss_private_keys s) = Collect (live s)
     \<and> (\<forall>c < length (ss_caps s). cap_handle (cap_at s c) = (if live s c then Some c else None))
     \<and> (\<forall>c key. ss_private_keys s c = Some key \<longrightarrow>
          length key = 32 \<and> ed25519_public P key = Some (cap_public_key (cap_at s c)))"

lemma signer_inv_start: "signer_inv P signer_start"
  by (auto simp: signer_inv_def signer_start_def live_def)

lemma invalidate_inv:
  assumes "signer_inv P s" and "c < length (ss_caps s)"
  shows "signer_inv P (snd (invalidate_unlocked c s))"
    and "live (snd (invalidate_unlocked c s)) d \<longleftrightarrow> live s d \<and> d \<noteq> c"
    and "length (ss_caps (snd (invalidate_unlocked c s))) = length (ss_caps s)"
proof -
  let ?s = "snd (invalidate_unlocked c s)"
  have h: "cap_handle (cap_at s c) = (if live s c then Some c else None)"
    using assms by (simp add: signer_inv_def)
  show live: "live ?s d \<longleftrightarrow> live s d \<and> d \<noteq> c" for d
    using h assms(2)
    by (auto simp: invalidate_unlocked_def live_def put_cap_def cap_at_def nth_list_update Let_def
        split: if_splits)
  show len: "length (ss_caps ?s) = length (ss_caps s)"
    by (simp add: invalidate_unlocked_def put_cap_def Let_def)
  have keys: "ss_private_keys ?s = (ss_private_keys s)(c := None)"
  proof (cases "live s c")
    case True
    then show ?thesis using h by (auto simp: invalidate_unlocked_def put_cap_def Let_def live_def)
  next
    case False
    then have "ss_private_keys s c = None" using assms(1) by (auto simp: signer_inv_def dom_def)
    with False h assms(2) show ?thesis
      by (auto simp: invalidate_unlocked_def put_cap_def Let_def live_def fun_eq_iff)
  qed
  have caps: "cap_public_key (cap_at ?s d) = cap_public_key (cap_at s d)"
    "d \<noteq> c \<Longrightarrow> cap_handle (cap_at ?s d) = cap_handle (cap_at s d)"
    "cap_handle (cap_at ?s c) = None" for d
    using h assms(2)
    by (auto simp: invalidate_unlocked_def put_cap_def cap_at_def nth_list_update Let_def live_def)
  have "dom (ss_private_keys ?s) = Collect (live ?s)"
    using assms(1) live unfolding keys by (auto simp: signer_inv_def)
  moreover have "cap_handle (cap_at ?s d) = (if live ?s d then Some d else None)"
    if "d < length (ss_caps ?s)" for d
    using that assms(1) caps(2,3) live len by (cases "d = c") (auto simp: signer_inv_def)
  ultimately show "signer_inv P ?s"
    using assms(1) caps(1) unfolding signer_inv_def keys by auto
qed

lemma create_inv:
  assumes "signer_inv P s"
  shows "signer_inv P (snd (create_capability_from_seed P seed timeout callback now s))"
    and "live s d \<Longrightarrow> live (snd (create_capability_from_seed P seed timeout callback now s)) d"
    and "live (snd (create_capability_from_seed P seed timeout callback now s)) d
      \<Longrightarrow> live s d \<or> length (ss_caps s) \<le> d"
    and "length (ss_caps s) \<le> length (ss_caps (snd (create_capability_from_seed P seed timeout callback now s)))"
proof -
  let ?s = "snd (create_capability_from_seed P seed timeout callback now s)"
  show "live s d \<Longrightarrow> live ?s d" and "live ?s d \<Longrightarrow> live s d \<or> length (ss_caps s) \<le> d"
    and "length (ss_caps s) \<le> length (ss_caps ?s)"
    by (auto simp: create_capability_from_seed_def live_def cap_at_def nth_append Let_def
        split: pyval.splits option.splits if_splits)
  show "signer_inv P ?s"
  proof (cases "?s = s")
    case False
    then obtain b t pk where b: "seed = PyBytes b" "timeout = Some t" "length b = 32"
        "ed25519_public P b = Some pk"
      by (auto simp: create_capability_from_seed_def split: pyval.splits option.splits if_splits)
    let ?h = "length (ss_caps s)"
    have n: "ss_private_keys s ?h = None"
      using assms by (auto simp: signer_inv_def live_def dom_def)
    have k: "ss_private_keys ?s = (ss_private_keys s)(?h \<mapsto> b)" "length (ss_caps ?s) = Suc ?h"
      "cap_at ?s ?h = \<lparr>cap_handle = Some ?h, cap_public_key = pk, cap_expires_at = now + t,
         cap_active = True, cap_on_invalidate = callback, cap_timer = True\<rparr>"
      "d < ?h \<Longrightarrow> cap_at ?s d = cap_at s d" for d
      using False b
      by (auto simp: create_capability_from_seed_def cap_at_def nth_append Let_def split: if_splits)
    then have l: "live ?s d \<longleftrightarrow> live s d \<or> d = ?h" for d
      by (auto simp: live_def less_Suc_eq)
    have "dom (ss_private_keys ?s) = Collect (live ?s)"
      using assms l unfolding k by (auto simp: signer_inv_def)
    moreover have "cap_handle (cap_at ?s d) = (if live ?s d then Some d else None)"
      if "d < length (ss_caps ?s)" for d
      using that assms l k by (auto simp: signer_inv_def less_Suc_eq live_def)
    moreover have "length key = 32 \<and> ed25519_public P key = Some (cap_public_key (cap_at ?s d))"
      if "ss_private_keys ?s d = Some key" for d key
    proof (cases "d = ?h")
      case True
      then show ?thesis using that b k by simp
    next
      case False
      then have "ss_private_keys s d = Some key" using that k by simp
      moreover from this have "d < ?h" using assms by (auto simp: signer_inv_def live_def dom_def)
      ultimately show ?thesis using assms k by (simp add: signer_inv_def)
    qed
    ultimately show ?thesis by (simp add: signer_inv_def)
  qed (use assms in simp)
qed

lemma assert_active_cases:
  assumes "signer_inv P s" and "c < length (ss_caps s)"
  shows "if live s c \<and> now < cap_expires_at (cap_at s c)
    then assert_active now c s = (Inr (), False, s)
    else fst (assert_active now c s) = Inl SignerUnavailable
      \<and> snd (snd (assert_active now c s)) =
          (if live s c then snd (invalidate_unlocked c s) else s)"
proof -
  have "live s c \<Longrightarrow> cap_handle (cap_at s c) = Some c \<and> ss_private_keys s c \<noteq> None"
    using assms by (auto simp: signer_inv_def dom_def)
  then show ?thesis
    using assms(2) by (auto simp: assert_active_def live_def Let_def not_less split: prod.splits)
qed

text \<open>Signing consumes a live capability whatever its outcome, and does nothing to a dead
  one.\<close>

lemma sign_cases:
  assumes "signer_inv P s" and "c < length (ss_caps s)"
  shows "snd (snd (sign_identity_update P data now c s)) =
      (if live s c then snd (invalidate_unlocked c s) else s)"
    and "fst (sign_identity_update P data now c s) =
      (if live s c \<and> now < cap_expires_at (cap_at s c) then sign_body P data c s
       else Inl SignerUnavailable)"
  using assert_active_cases [OF assms, of now]
  by (auto simp: sign_identity_update_def split: prod.splits sum.splits if_splits)

lemma sign_body_sound:
  assumes "sign_body P data c s = Inr sig"
  obtains b h key where "data = PyBytes b"
    "validate_identity_update P data (cap_public_key (cap_at s c)) = Inr ()"
    "cap_handle (cap_at s c) = Some h" "ss_private_keys s h = Some key"
    "ed25519_sign P key (sha256 b) = Some sig" "length sig = 64"
  using assms
  by (auto simp: sign_body_def exceptE_Inr_iff bindE_Inr_iff case_option_Inr case_PyBytes_Inr
      raise_if_Inr_iff split: if_splits)

lemma query_state:
  "snd (snd (cap_is_active now c s)) =
     (if cap_active (cap_at s c) \<and> cap_expires_at (cap_at s c) \<le> now
      then snd (invalidate_unlocked c s) else s)"
  by (simp add: cap_is_active_def Let_def split: prod.splits)

lemma signer_apply_inv:
  assumes "signer_inv P s"
  shows "signer_inv P (snd (signer_apply P e s))"
proof (cases e)
  case (Create seed timeout callback now)
  then show ?thesis using create_inv(1) [OF assms] by simp
next
  case (Sign c data now)
  then show ?thesis
    using sign_cases(1) [OF assms, of c data now] invalidate_inv(1) [OF assms, of c] assms
    by (auto split: prod.splits sum.splits if_splits)
qed (use assms invalidate_inv(1) [OF assms] in
      \<open>auto simp: cap_cancel_def query_state split: if_splits\<close>)

lemma signer_run_inv: "signer_inv P s \<Longrightarrow> signer_inv P (snd (signer_run P es s))"
proof (induction es arbitrary: s)
  case (Cons e es)
  have "snd (signer_run P (e # es) s) = snd (signer_run P es (snd (signer_apply P e s)))"
    by (simp split: prod.splits)
  then show ?case using Cons.IH signer_apply_inv [OF Cons.prems, of e] by simp
qed simp

text \<open>A capability that is not live stays so.\<close>

lemma signer_apply_live:
  assumes "signer_inv P s" and "live (snd (signer_apply P e s)) c"
  shows "live s c \<or> length (ss_caps s) \<le> c"
proof (cases e)
  case (Create seed timeout callback now)
  then show ?thesis using create_inv(3) [OF assms(1)] assms(2) by simp
next
  case (Sign d data now)
  then show ?thesis
    using sign_cases(1) [OF assms(1), of d data now] invalidate_inv(2) [OF assms(1), of d c] assms(2)
    by (auto split: prod.splits sum.splits if_splits)
qed (use assms invalidate_inv(2) [OF assms(1)] in
      \<open>auto simp: cap_cancel_def query_state split: if_splits\<close>)

lemma signer_apply_length:
  assumes "signer_inv P s"
  shows "length (ss_caps s) \<le> length (ss_caps (snd (signer_apply P e s)))"
proof (cases e)
  case (Sign d data now)
  then show ?thesis
    using sign_cases(1) [OF assms, of d data now] invalidate_inv(3) [OF assms, of d]
    by (auto split: prod.splits sum.splits if_splits)
qed (use create_inv(4) [OF assms] invalidate_inv(3) [OF assms] in
      \<open>auto simp: cap_cancel_def query_state split: if_splits\<close>)

lemma signer_apply_output:
  assumes "signer_inv P s" and "signer_apply P e s = (out, s')"
  shows "out = [] \<or> (\<exists>c sig. out = [(c, sig)] \<and> live s c \<and> \<not> live s' c)"
proof (cases e)
  case (Sign c data now)
  then show ?thesis
    using assms sign_cases [OF assms(1), of c data now] invalidate_inv(2) [OF assms(1), of c c]
    by (auto split: prod.splits sum.splits if_splits)
qed (use assms in auto)

lemma signer_run_outputs:
  assumes "signer_inv P s" and "signer_run P es s = (outs, s')"
  shows "distinct (map fst outs) \<and> (\<forall>c \<in> fst ` set outs. live s c \<or> length (ss_caps s) \<le> c)"
  using assms
proof (induction es arbitrary: s outs)
  case (Cons e es)
  obtain out t where e: "signer_apply P e s = (out, t)" by fastforce
  obtain outs' where r: "signer_run P es t = (outs', s')" and o: "outs = out @ outs'"
    using Cons.prems(2) e by (auto split: prod.splits)
  have t: "signer_inv P t" using signer_apply_inv [OF Cons.prems(1), of e] e by simp
  note IH = Cons.IH [OF t r]
  have old: "live t c \<or> length (ss_caps t) \<le> c \<Longrightarrow> live s c \<or> length (ss_caps s) \<le> c" for c
    using signer_apply_live [OF Cons.prems(1), of e c] signer_apply_length [OF Cons.prems(1), of e] e
    by auto
  from signer_apply_output [OF Cons.prems(1) e] show ?case
  proof
    assume "out = []"
    with IH old show ?thesis unfolding o by auto
  next
    assume "\<exists>c sig. out = [(c, sig)] \<and> live s c \<and> \<not> live t c"
    then obtain c sig where c: "out = [(c, sig)]" "live s c" "\<not> live t c" by blast
    have "c < length (ss_caps t)"
      using c(2) signer_apply_length [OF Cons.prems(1), of e] e by (auto simp: live_def)
    with c IH old show ?thesis unfolding o by fastforce
  qed
qed simp

end
