(* ===== verification/Signer_Properties.thy ===== *)
theory Signer_Properties
  imports Signer_Facts Demo_Identity
begin

text \<open>
  The properties of \<^verbatim>\<open>signer.py\<close>.
\<close>

text \<open>
  C15. The signer and the Identity component validate an update independently and agree:
  \<^verbatim>\<open>_validate_identity_update\<close> of \<^verbatim>\<open>signer.py\<close> accepts bytes exactly when
  \<^verbatim>\<open>_decode_signed_update\<close> of \<^verbatim>\<open>identity.py\<close> decodes them, the record names an owner and
  a 32-byte key, and the signer's key may sign: it is the record's key when there is
  no authorization, and otherwise it is in the signer set or the operation is a
  signer replacement or an owner-key rotation.
\<close>

theorem signer_and_identity_validators_agree:
  "validate_identity_update P data pk = Inr () \<longleftrightarrow>
     (\<exists>rec sequence authorization.
        decode_signed_update P data = Inr (rec, [], sequence, authorization)
        \<and> may_sign rec authorization pk)"
  by (rule validate_identity_update_agrees)

text \<open>
  C5. In every sequence of calls (creation, signing, cancellation, expiry of a timer,
  query), starting from the freshly loaded module, each capability yields at most one
  signature, and \<^verbatim>\<open>_PRIVATE_KEYS\<close> holds a key exactly for each capability that is
  still active.
\<close>

theorem capability_signs_at_most_once:
  "distinct (map fst (fst (signer_run P es signer_start)))
    \<and> dom (ss_private_keys (snd (signer_run P es signer_start)))
      = Collect (live (snd (signer_run P es signer_start)))"
proof -
  obtain outs s where r: "signer_run P es signer_start = (outs, s)" by fastforce
  show ?thesis
    using signer_run_outputs [OF signer_inv_start r] signer_run_inv [OF signer_inv_start, of P es] r
    by (simp add: signer_inv_def)
qed

text \<open>
  C35. A call of \<^verbatim>\<open>sign_identity_update\<close> leaves its capability dead and its key erased,
  whatever the outcome; a dead or expired capability raises \<^verbatim>\<open>SignerUnavailable\<close>.
\<close>

theorem signing_consumes_capability:
  assumes "signer_run P es signer_start = (outs, s)" and "c < length (ss_caps s)"
  shows "\<not> live (snd (snd (sign_identity_update P data now c s))) c
    \<and> ss_private_keys (snd (snd (sign_identity_update P data now c s))) c = None
    \<and> (\<not> live s c \<or> cap_expires_at (cap_at s c) \<le> now
        \<longrightarrow> fst (sign_identity_update P data now c s) = Inl SignerUnavailable)"
proof -
  have inv: "signer_inv P s" using signer_run_inv [OF signer_inv_start, of P es] assms(1) by simp
  let ?t = "snd (snd (sign_identity_update P data now c s))"
  have "signer_inv P ?t" and "\<not> live ?t c"
    using sign_cases(1) [OF inv assms(2), of data now] invalidate_inv [OF inv assms(2)] inv
    by (auto split: if_splits)
  moreover from this have "ss_private_keys ?t c = None"
    by (auto simp: signer_inv_def dom_def)
  ultimately show ?thesis
    using sign_cases(2) [OF inv assms(2), of data now] by auto
qed

definition demo_signer_events :: "signer_event list" where
  "demo_signer_events = [Create (PyBytes (demo_key 1)) (Some 60) True 0]"

definition demo_signer_state :: signer_state where
  "demo_signer_state =
     \<lparr>ss_private_keys = [0 \<mapsto> demo_key 1],
      ss_caps = [\<lparr>cap_handle = Some 0, cap_public_key = demo_key 1, cap_expires_at = 60,
                  cap_active = True, cap_on_invalidate = True, cap_timer = True\<rparr>]\<rparr>"

lemma demo_signer_run: "signer_run demo_prims demo_signer_events signer_start = ([], demo_signer_state)"
  by (simp add: demo_signer_events_def demo_signer_state_def signer_start_def
      create_capability_from_seed_def) (simp add: demo_prims_def)

theorem signing_consumes_capability_witness:
  "\<not> live (snd (snd (sign_identity_update demo_prims (PyBytes demo_genesis) 1 0 demo_signer_state))) 0
    \<and> fst (sign_identity_update demo_prims (PyBytes demo_genesis) 61 0 demo_signer_state)
      = Inl SignerUnavailable"
  using signing_consumes_capability [OF demo_signer_run, of 0 "PyBytes demo_genesis" 1]
    signing_consumes_capability [OF demo_signer_run, of 0 "PyBytes demo_genesis" 61]
  by (simp add: demo_signer_state_def cap_at_def)

text \<open>
  C19. A signature that a capability returns is a valid 64-byte Ed25519 signature, under
  the public key that the capability shows, of the SHA-256 digest of update bytes
  that its validator accepted for this key, and it was made before the deadline.
\<close>

theorem returned_signature_verifies:
  assumes "ed25519_ok P" and "signer_run P es signer_start = (outs, s)" and "c < length (ss_caps s)"
    and "fst (sign_identity_update P data now c s) = Inr sig"
  shows "\<exists>b. data = PyBytes b \<and> length sig = 64 \<and> now < cap_expires_at (cap_at s c)
    \<and> validate_identity_update P data (cap_public_key (cap_at s c)) = Inr ()
    \<and> ed25519_verify P (cap_public_key (cap_at s c)) (sha256 b) sig"
proof -
  have inv: "signer_inv P s" using signer_run_inv [OF signer_inv_start, of P es] assms(2) by simp
  from sign_cases(2) [OF inv assms(3), of data now] assms(4)
  have "sign_body P data c s = Inr sig" and t: "live s c" "now < cap_expires_at (cap_at s c)"
    by (auto split: if_splits)
  then obtain b h key where b: "data = PyBytes b"
      "validate_identity_update P data (cap_public_key (cap_at s c)) = Inr ()"
      "cap_handle (cap_at s c) = Some h" "ss_private_keys s h = Some key"
      "ed25519_sign P key (sha256 b) = Some sig" "length sig = 64"
    by (elim sign_body_sound)
  then have "h = c" using inv assms(3) by (auto simp: signer_inv_def split: if_splits)
  then have "length key = 32" "ed25519_public P key = Some (cap_public_key (cap_at s c))"
    using inv b(4) by (auto simp: signer_inv_def)
  then have "ed25519_verify P (cap_public_key (cap_at s c)) (sha256 b) sig"
    using assms(1) b(5) unfolding ed25519_ok_def by (metis option.inject)
  with b t show ?thesis by blast
qed

theorem returned_signature_verifies_witness:
  "\<exists>sig b. fst (sign_identity_update demo_prims (PyBytes demo_genesis) 1 0 demo_signer_state) = Inr sig
    \<and> PyBytes demo_genesis = PyBytes b \<and> length sig = 64
    \<and> ed25519_verify demo_prims (demo_key 1) (sha256 b) sig"
proof -
  have "may_sign [(PyInt 1, PyBytes demo_name), (PyInt 2, PyBytes (demo_key 1))]
      (Some (demo_auth 1 (zero_bytes 32))) (demo_key 1)"
    by (simp add: may_sign_def dget_none_def demo_name_def demo_auth_def demo_signers_def)
  with demo_genesis_decode have v: "validate_identity_update demo_prims (PyBytes demo_genesis)
      (demo_key 1) = Inr ()"
    unfolding validate_identity_update_agrees by blast
  have "ed25519_sign demo_prims (demo_key 1) m = Some (demo_sig (demo_key 1) m)" for m
    by (simp add: demo_prims_def)
  with v have sig: "fst (sign_identity_update demo_prims (PyBytes demo_genesis) 1 0 demo_signer_state)
      = Inr (demo_sig (demo_key 1) (sha256 demo_genesis))"
    by (simp add: sign_identity_update_def assert_active_def sign_body_def demo_signer_state_def
        cap_at_def)
  from returned_signature_verifies [OF demo_ed25519_ok demo_signer_run _ sig] sig show ?thesis
    by (auto simp: demo_signer_state_def cap_at_def)
qed

end
