(* ===== verification/Payload_Codec.thy ===== *)
theory Payload_Codec
  imports Py_Values Py_Text
begin

text \<open>
  The typed payload codec of \<^verbatim>\<open>container.py\<close>: \<^verbatim>\<open>_encode_value\<close> turns a payload
  into a JSON-ready tree in which every node names its type, and
  \<^verbatim>\<open>_decode_value\<close> reads such a tree back.  The lemmas show that decoding
  inverts encoding up to the order of dictionary entries, and that whatever
  decodes is a well-formed payload in canonical order.
\<close>

section \<open>Definitions\<close>

text \<open>\<^verbatim>\<open>_b64_decode\<close>: the optional length is checked after decoding.\<close>

definition b64_decode :: "pyval \<Rightarrow> nat option \<Rightarrow> bytes res" where
  "b64_decode value expected_length =
     (case value of
        PyStr s \<Rightarrow>
          (case (if \<forall>c \<in> set s. c < 128 then b64_decode_raw s else None) of
             None \<Rightarrow> Inl InvalidContainer
           | Some decoded \<Rightarrow>
               raise_if (case expected_length of None \<Rightarrow> False | Some n \<Rightarrow> length decoded \<noteq> n)
                 InvalidContainer (Inr decoded))
      | _ \<Rightarrow> Inl InvalidContainer)"

definition tagged :: "string \<Rightarrow> pyval \<Rightarrow> pyval" where
  "tagged kind v = PyDict [(pykey ''t'', pykey kind), (pykey ''v'', v)]"

fun item_key :: "pyval \<Rightarrow> pystr" where
  "item_key (PyList (PyStr k # xs)) = k"
| "item_key _ = []"

function (sequential) encode_value :: "pyval \<Rightarrow> pyval res" where
  "encode_value PyNone = Inr (PyDict [(pykey ''t'', pykey ''null'')])"
| "encode_value (PyBool b) = Inr (tagged ''bool'' (PyBool b))"
| "encode_value (PyStr s) = Inr (tagged ''str'' (PyStr s))"
| "encode_value (PyInt i) = Inr (tagged ''int'' (PyInt i))"
| "encode_value (PyBytes b) = Inr (tagged ''bytes'' (PyStr (b64_encode b)))"
| "encode_value (PyList xs) =
     bindE (mapE encode_value xs) (\<lambda>ys. Inr (tagged ''list'' (PyList ys)))"
| "encode_value (PyDict d) =
     bindE
       (mapE (\<lambda>kv. case fst kv of
                PyStr k \<Rightarrow> bindE (encode_value (snd kv)) (\<lambda>e. Inr (PyList [PyStr k, e]))
              | _ \<Rightarrow> Inl InvalidContainer) d)
       (\<lambda>items. Inr (tagged ''map'' (PyList (sort_key item_key items))))"
| "encode_value _ = Inl InvalidContainer"
  by pat_completeness auto

lemma size_snd_dict: "kv \<in> set d \<Longrightarrow> size (snd kv) < size (PyDict d)"
proof (induction d)
  case (Cons p d)
  then show ?case by (cases p) auto
qed simp

lemma size_elem_list: "v \<in> set vs \<Longrightarrow> size v < size (PyList vs)"
  by (induction vs) auto

termination encode_value
  by (relation "measure size") (auto dest: size_snd_dict size_elem_list)

text \<open>The loop over the items of a map, with the last key seen.\<close>

fun decode_items :: "(pyval \<Rightarrow> pyval res) \<Rightarrow> pystr option \<Rightarrow> pyval list \<Rightarrow> pydict res" where
  "decode_items f previous [] = Inr []"
| "decode_items f previous (item # raw) =
     (case item of
        PyList [PyStr key, x] \<Rightarrow>
          raise_if (case previous of None \<Rightarrow> False | Some p \<Rightarrow> key \<le> p) InvalidContainer
            (bindE (f x) (\<lambda>v.
             bindE (decode_items f (Some key) raw) (\<lambda>d. Inr ((PyStr key, v) # d))))
      | _ \<Rightarrow> Inl InvalidContainer)"

lemma decode_items_cong [fundef_cong]:
  assumes "xs = ys" and "p = q"
    and "\<And>k x. PyList [k, x] \<in> set ys \<Longrightarrow> f x = g x"
  shows "decode_items f p xs = decode_items g q ys"
  using assms(3) unfolding assms(1,2)
proof (induction ys arbitrary: q)
  case (Cons y ys)
  have IH: "decode_items f r ys = decode_items g r ys" for r
    using Cons by (meson list.set_intros(2))
  have "f x = g x" if "y = PyList [k, x]" for k x
    using Cons.prems that by (meson list.set_intros(1))
  then show ?case
    by (auto simp: IH split: pyval.split list.split)
qed simp

function (sequential) decode_value :: "pyval \<Rightarrow> pyval res" where
  "decode_value (PyDict value) =
     raise_if (\<not> dkeys value \<subseteq> {pykey ''t'', pykey ''v''} \<or> pykey ''t'' \<notin> dkeys value)
       InvalidContainer
     (let kind = dget_none value (pykey ''t'') in
      if kind = pykey ''null'' then
        raise_if (dkeys value \<noteq> {pykey ''t''}) InvalidContainer (Inr PyNone)
      else
        (case dget value (pykey ''v'') of
           None \<Rightarrow> Inl InvalidContainer
         | Some raw \<Rightarrow>
             if kind = pykey ''bytes'' then bindE (b64_decode raw None) (\<lambda>b. Inr (PyBytes b))
             else
               (case raw of
                  PyBool b \<Rightarrow> raise_if (kind \<noteq> pykey ''bool'') InvalidContainer (Inr raw)
                | PyStr s \<Rightarrow> raise_if (kind \<noteq> pykey ''str'') InvalidContainer (Inr raw)
                | PyInt i \<Rightarrow> raise_if (kind \<noteq> pykey ''int'') InvalidContainer (Inr raw)
                | PyList xs \<Rightarrow>
                    if kind = pykey ''list'' then
                      bindE (mapE decode_value xs) (\<lambda>ys. Inr (PyList ys))
                    else if kind = pykey ''map'' then
                      bindE (decode_items decode_value None xs) (\<lambda>d. Inr (PyDict d))
                    else Inl InvalidContainer
                | _ \<Rightarrow> Inl InvalidContainer)))"
| "decode_value _ = Inl InvalidContainer"
  by pat_completeness auto

lemma size_dget: "dget d k = Some v \<Longrightarrow> size v < size (PyDict d)"
  using size_snd_dict [of "(k, v)" d] by (auto dest: dget_Some_mem)

lemma size_pair_item: "PyList [k, x] \<in> set vs \<Longrightarrow> size x < size (PyList vs)"
  using size_elem_list [of "PyList [k, x]" vs] by simp

termination decode_value
  by (relation "measure size")
    (auto dest!: size_dget size_elem_list size_pair_item)

section \<open>Payloads and their canonical order\<close>

text \<open>What \<^verbatim>\<open>_encode_value\<close> accepts: no floats, no foreign objects, text keys;
  the keys of a Python \<^verbatim>\<open>dict\<close> are distinct.\<close>

fun payload_ok :: "pyval \<Rightarrow> bool" where
  "payload_ok (PyList xs) = list_all payload_ok xs"
| "payload_ok (PyDict d) =
     (list_all (\<lambda>kv. is_PyStr (fst kv) \<and> payload_ok (snd kv)) d \<and> distinct (map fst d))"
| "payload_ok (PyFloat t) = False"
| "payload_ok (PyOther n) = False"
| "payload_ok _ = True"

fun key_text :: "pyval \<Rightarrow> pystr" where
  "key_text (PyStr s) = s"
| "key_text _ = []"

fun norm_value :: "pyval \<Rightarrow> pyval" where
  "norm_value (PyList xs) = PyList (map norm_value xs)"
| "norm_value (PyDict d) =
     PyDict (sort_key (\<lambda>kv. key_text (fst kv)) (map (\<lambda>kv. (fst kv, norm_value (snd kv))) d))"
| "norm_value v = v"

section \<open>Encoding succeeds exactly on payloads\<close>

abbreviation enc :: "pyval \<Rightarrow> pyval" where
  "enc v \<equiv> projr (encode_value v)"

abbreviation entry_key :: "pyval \<times> pyval \<Rightarrow> pystr" where
  "entry_key kv \<equiv> key_text (fst kv)"

lemma payload_ok_entry:
  assumes "payload_ok (PyDict d)" and "kv \<in> set d"
  obtains k where "fst kv = PyStr k" and "payload_ok (snd kv)"
  using assms by (auto simp: list_all_iff is_PyStr_iff)

text \<open>The body of the loop over the entries of a mapping.\<close>

lemma encode_entry_ok:
  assumes "fst kv = PyStr k" and "\<exists>e. encode_value (snd kv) = Inr e"
  shows "(case fst kv of
      PyStr k \<Rightarrow> bindE (encode_value (snd kv)) (\<lambda>e. Inr (PyList [PyStr k, e]))
    | _ \<Rightarrow> Inl InvalidContainer) = Inr (PyList [fst kv, enc (snd kv)])"
  using assms by auto

lemma encode_value_ok: "payload_ok v \<Longrightarrow> \<exists>e. encode_value v = Inr e"
proof (induction v rule: encode_value.induct)
  case (6 xs)
  then have "\<forall>x \<in> set xs. encode_value x = Inr (enc x)"
    by (fastforce simp: list_all_iff)
  then have "mapE encode_value xs = Inr (map enc xs)"
    by (intro mapE_all_Inr) blast
  then show ?case by simp
next
  case (7 d)
  have "mapE (\<lambda>kv. case fst kv of
      PyStr k \<Rightarrow> bindE (encode_value (snd kv)) (\<lambda>e. Inr (PyList [PyStr k, e]))
    | _ \<Rightarrow> Inl InvalidContainer) d = Inr (map (\<lambda>kv. PyList [fst kv, enc (snd kv)]) d)"
  proof (rule mapE_all_Inr)
    fix kv assume kv: "kv \<in> set d"
    then obtain k where k: "fst kv = PyStr k" and "payload_ok (snd kv)"
      using 7(2) payload_ok_entry by blast
    with 7(1) [OF kv k] show "(case fst kv of
      PyStr k \<Rightarrow> bindE (encode_value (snd kv)) (\<lambda>e. Inr (PyList [PyStr k, e]))
    | _ \<Rightarrow> Inl InvalidContainer) = Inr (PyList [fst kv, enc (snd kv)])"
      by (intro encode_entry_ok) auto
  qed
  then show ?case by simp
qed simp_all

lemma encode_value_dict:
  assumes "payload_ok (PyDict d)"
  shows "encode_value (PyDict d) =
     Inr (tagged ''map'' (PyList (map (\<lambda>kv. PyList [fst kv, enc (snd kv)]) (sort_key entry_key d))))"
proof -
  let ?item = "\<lambda>kv. PyList [fst kv, enc (snd kv)]"
  have entry: "\<exists>k. fst kv = PyStr k \<and> (\<exists>e. encode_value (snd kv) = Inr e)" if "kv \<in> set d" for kv
    using that assms encode_value_ok payload_ok_entry by metis
  have "mapE (\<lambda>kv. case fst kv of
      PyStr k \<Rightarrow> bindE (encode_value (snd kv)) (\<lambda>e. Inr (PyList [PyStr k, e]))
    | _ \<Rightarrow> Inl InvalidContainer) d = Inr (map ?item d)"
    using entry by (intro mapE_all_Inr) (metis encode_entry_ok)
  moreover have "sort_key item_key (map ?item d) = map ?item (sort_key (\<lambda>y. item_key (?item y)) d)"
    by (rule sort_key_map)
  moreover have "sort_key (\<lambda>y. item_key (?item y)) d = sort_key entry_key d"
    using entry by (intro sort_key_cong) (metis item_key.simps(1) key_text.simps(1))
  ultimately show ?thesis by simp
qed

declare encode_value.simps(7) [simp del]

section \<open>Round trip\<close>

lemma decode_items_map:
  assumes "\<forall>kv \<in> set d. is_PyStr (fst kv) \<and> f (g kv) = Inr (n kv)"
    and "sorted_wrt (<) (map entry_key d)"
    and "\<forall>kv \<in> set d. case prev of None \<Rightarrow> True | Some p \<Rightarrow> p < entry_key kv"
  shows "decode_items f prev (map (\<lambda>kv. PyList [fst kv, g kv]) d)
     = Inr (map (\<lambda>kv. (fst kv, n kv)) d)"
  using assms
proof (induction d arbitrary: prev)
  case (Cons kv d)
  from Cons.prems(1) obtain k where k: "fst kv = PyStr k" by (auto simp: is_PyStr_iff)
  have "decode_items f (Some k) (map (\<lambda>kv. PyList [fst kv, g kv]) d)
      = Inr (map (\<lambda>kv. (fst kv, n kv)) d)"
    using Cons.prems k by (intro Cons.IH) auto
  with Cons.prems k show ?case by (auto simp: raise_if_def split: option.splits)
qed simp

lemma entry_keys_strict:
  assumes "payload_ok (PyDict d)"
  shows "sorted_wrt (<) (map entry_key (sort_key entry_key d))"
proof -
  have "inj_on key_text (fst ` set d)"
    using assms by (intro inj_onI) (metis imageE key_text.simps(1) payload_ok_entry)
  moreover have "distinct (map fst d)" using assms by simp
  ultimately have "distinct (map key_text (map fst d))"
    by (simp add: distinct_map del: map_map)
  then have "distinct (map entry_key (sort_key entry_key d))"
    by (simp add: distinct_map comp_def)
  then show ?thesis by (simp add: sorted_distinct_strict)
qed

lemma norm_value_dict:
  "norm_value (PyDict d) = PyDict (map (\<lambda>kv. (fst kv, norm_value (snd kv))) (sort_key entry_key d))"
  by (simp add: sort_key_map)

lemmas decode_value_tagged = tagged_def dkeys_def dget_none_def insert_commute

lemma decode_encode_ok: "payload_ok v \<Longrightarrow> decode_value (enc v) = Inr (norm_value v)"
proof (induction v rule: encode_value.induct)
  case (5 b)
  then show ?case
    by (auto simp: decode_value_tagged b64_decode_def b64_decode_encode b64_encode_ascii)
next
  case (6 xs)
  from 6 have "mapE decode_value (map enc xs) = Inr (map norm_value xs)"
    unfolding mapE_map by (intro mapE_all_Inr) (simp add: list_all_iff)
  moreover have "enc (PyList xs) = tagged ''list'' (PyList (map enc xs))"
  proof -
    have "\<forall>x \<in> set xs. encode_value x = Inr (enc x)"
      using 6(2) encode_value_ok by (fastforce simp: list_all_iff)
    then have "mapE encode_value xs = Inr (map enc xs)"
      by (intro mapE_all_Inr) blast
    then show ?thesis by simp
  qed
  ultimately show ?case by (auto simp: decode_value_tagged)
next
  case (7 d)
  let ?d = "sort_key entry_key d"
  have "decode_items decode_value None (map (\<lambda>kv. PyList [fst kv, enc (snd kv)]) ?d)
      = Inr (map (\<lambda>kv. (fst kv, norm_value (snd kv))) ?d)"
    using 7 entry_keys_strict [of d]
    by (intro decode_items_map) (auto simp: list_all_iff is_PyStr_iff)
  with 7 show ?case
    unfolding norm_value_dict by (auto simp: encode_value_dict decode_value_tagged)
qed (auto simp: decode_value_tagged)

section \<open>What decodes is a canonical payload\<close>

lemma decode_items_sound:
  assumes "decode_items f prev xs = Inr d"
    and "\<And>k x y. PyList [k, x] \<in> set xs \<Longrightarrow> f x = Inr y \<Longrightarrow> P y"
  shows "(\<forall>kv \<in> set d. is_PyStr (fst kv) \<and> P (snd kv)) \<and> sorted_wrt (<) (map entry_key d)
     \<and> (\<forall>kv \<in> set d. case prev of None \<Rightarrow> True | Some p \<Rightarrow> p < entry_key kv)"
  using assms
proof (induction xs arbitrary: prev d)
  case (Cons item raw)
  from Cons.prems(1) obtain key x v d' where item: "item = PyList [PyStr key, x]"
    and prev: "case prev of None \<Rightarrow> True | Some p \<Rightarrow> p < key"
    and v: "f x = Inr v" and d': "decode_items f (Some key) raw = Inr d'"
    and d: "d = (PyStr key, v) # d'"
    by (auto simp: res_simps split: pyval.splits list.splits option.splits)
  have "(\<forall>kv \<in> set d'. is_PyStr (fst kv) \<and> P (snd kv)) \<and> sorted_wrt (<) (map entry_key d')
     \<and> (\<forall>kv \<in> set d'. key < entry_key kv)"
    using Cons.IH [OF d'] Cons.prems(2) by force
  moreover have "P v" using Cons.prems(2) item v by (meson list.set_intros(1))
  ultimately show ?case using prev unfolding d by (fastforce split: option.splits)
qed simp

lemma payload_ok_dictI:
  assumes "\<forall>kv \<in> set d. is_PyStr (fst kv) \<and> payload_ok (snd kv) \<and> norm_value (snd kv) = snd kv"
    and "sorted_wrt (<) (map entry_key d)"
  shows "payload_ok (PyDict d) \<and> norm_value (PyDict d) = PyDict d"
proof
  have "distinct (map key_text (map fst d))"
    using assms(2) by (simp add: sorted_distinct_strict comp_def)
  then have "distinct (map fst d)" by (simp only: distinct_map)
  with assms(1) show "payload_ok (PyDict d)" by (simp add: list_all_iff)
  have "sort_key entry_key d = d"
    using assms(2) by (simp add: sort_key_eq_self_iff sorted_distinct_strict)
  moreover have "map (\<lambda>kv. (fst kv, norm_value (snd kv))) d = d"
    using assms(1) by (intro map_idI) simp
  ultimately show "norm_value (PyDict d) = PyDict d" by (simp only: norm_value_dict)
qed

lemma decode_value_sound: "decode_value e = Inr v \<Longrightarrow> payload_ok v \<and> norm_value v = v"
proof (induction e arbitrary: v rule: decode_value.induct)
  case (1 w)
  let ?kind = "dget_none w (pykey ''t'')"
  from "1.prems" have guard: "\<not> (\<not> dkeys w \<subseteq> {pykey ''t'', pykey ''v''} \<or> pykey ''t'' \<notin> dkeys w)"
    by (auto simp: res_simps)
  show ?case
  proof (cases "?kind = pykey ''null''")
    case True
    with "1.prems" show ?thesis by (auto simp: res_simps)
  next
    case False
    with "1.prems" obtain raw where raw: "dget w (pykey ''v'') = Some raw"
      by (auto simp: res_simps split: option.splits)
    show ?thesis
    proof (cases "\<exists>xs. raw = PyList xs \<and> ?kind \<noteq> pykey ''bytes''")
      case True
      then obtain xs where xs: "raw = PyList xs" and nb: "?kind \<noteq> pykey ''bytes''" by blast
      note IH1 = "1.IH"(1) [OF refl False raw nb xs]
      note IH2 = "1.IH"(2) [OF refl False raw nb xs]
      have "?kind = pykey ''list'' \<or> ?kind = pykey ''map''"
        using "1.prems" guard False raw xs nb by (auto simp: res_simps split: if_splits)
      then show ?thesis
      proof
        assume k: "?kind = pykey ''list''"
        with "1.prems" guard raw xs obtain ys where ys: "mapE decode_value xs = Inr ys" and v: "v = PyList ys"
          by (auto simp: res_simps)
        have "\<forall>y \<in> set ys. payload_ok y \<and> norm_value y = y"
          using IH1 [OF k] mapE_result [OF ys] by blast
        then show ?thesis unfolding v by (simp add: list_all_iff map_idI)
      next
        assume k: "?kind = pykey ''map''"
        with "1.prems" guard raw xs obtain d where d: "decode_items decode_value None xs = Inr d"
          and v: "v = PyDict d"
          by (auto simp: res_simps)
        have "?kind \<noteq> pykey ''list''" using k by simp
        then show ?thesis
          using decode_items_sound [OF d, of "\<lambda>y. payload_ok y \<and> norm_value y = y"] IH2 k
          unfolding v by (intro payload_ok_dictI) blast+
      qed
    next
      case False
      with "1.prems" \<open>?kind \<noteq> pykey ''null''\<close> raw show ?thesis
        by (auto simp: res_simps split: if_splits pyval.splits)
    qed
  qed
qed simp_all

section \<open>Properties\<close>

text \<open>
  C23. Typed payloads survive storage: \<^verbatim>\<open>_encode_value\<close> accepts every payload of nulls,
  booleans, integers, text, bytes, lists and text-keyed mappings, and \<^verbatim>\<open>_decode_value\<close>
  reads back the same value with the entries of each mapping in key order.
\<close>

theorem payload_round_trip:
  assumes "payload_ok v"
  shows "\<exists>e. encode_value v = Inr e \<and> decode_value e = Inr (norm_value v)"
  using encode_value_ok [OF assms] decode_encode_ok [OF assms] by force

theorem payload_round_trip_witness:
  "\<exists>e. encode_value (PyDict [(pykey ''k'', PyBytes [1, 2, 3, 4]), (pykey ''a'', PyList [PyNone, PyInt 7])])
      = Inr e
    \<and> decode_value e =
        Inr (PyDict [(pykey ''a'', PyList [PyNone, PyInt 7]), (pykey ''k'', PyBytes [1, 2, 3, 4])])"
  using payload_round_trip [of "PyDict [(pykey ''k'', PyBytes [1, 2, 3, 4]),
      (pykey ''a'', PyList [PyNone, PyInt 7])]"]
  by (simp add: str_of_def)

text \<open>
  C24. \<^verbatim>\<open>_decode_value\<close> is strict: whatever it accepts is a payload in normal form, so that
  encoding the result and decoding again changes nothing.
\<close>

theorem decoding_yields_normal_payload:
  assumes "decode_value e = Inr v"
  shows "payload_ok v \<and> norm_value v = v
    \<and> (\<exists>e'. encode_value v = Inr e' \<and> decode_value e' = Inr v)"
  using decode_value_sound [OF assms] encode_value_ok [of v] decode_encode_ok [of v] by force

theorem decoding_yields_normal_payload_witness:
  "payload_ok (PyList [PyInt 7])
    \<and> (\<exists>e'. encode_value (PyList [PyInt 7]) = Inr e' \<and> decode_value e' = Inr (PyList [PyInt 7]))"
proof -
  have "decode_value (tagged ''list'' (PyList [tagged ''int'' (PyInt 7)])) = Inr (PyList [PyInt 7])"
    by (simp add: decode_value_tagged)
  from decoding_yields_normal_payload [OF this] show ?thesis by blast
qed

end
