(* ===== verification/Rotation_Intent.thy ===== *)
theory Rotation_Intent
  imports Primitives
begin

text \<open>
  The rotation intent of \<^verbatim>\<open>container.py\<close>: the realm identifier of a Registry, the
  public binding of a possibly dispatched owner-key rotation with its payload
  form, and the permit that proves the binding was stored.
\<close>

section \<open>Realm identifiers\<close>

text \<open>The code points of the literal \<^verbatim>\<open>whitespace\<close>.\<close>

definition whitespace :: "nat list" where
  "whitespace =
     [0x9, 0xA, 0xB, 0xC, 0xD, 0x20, 0x85, 0xA0, 0x1680, 0x2000, 0x2001, 0x2002, 0x2003, 0x2004,
      0x2005, 0x2006, 0x2007, 0x2008, 0x2009, 0x200A, 0x2028, 0x2029, 0x202F, 0x205F, 0x3000]"

definition valid_registry_environment :: "pyval \<Rightarrow> bool" where
  "valid_registry_environment v =
     (case v of
        PyStr s \<Rightarrow>
          (case utf16_length s of
             None \<Rightarrow> False
           | Some n \<Rightarrow> 1 \<le> n \<and> n \<le> 256 \<and> list_ex (\<lambda>c. c \<notin> set whitespace) s)
      | _ \<Rightarrow> False)"

section \<open>Intents\<close>

record rotation_intent =
  ri_owner_name :: bytes
  ri_predecessor_owner_public_key :: bytes
  ri_successor_owner_public_key :: bytes
  ri_predecessor_state_hash :: bytes
  ri_sequence :: int
  ri_envelope_hash :: bytes
  ri_environment :: "pystr option"

definition intent_key_field :: "pyval \<Rightarrow> bytes res" where
  "intent_key_field v =
     (case v of
        PyBytes b \<Rightarrow> raise_if (length b \<noteq> 32) InvalidContainer (Inr b)
      | _ \<Rightarrow> Inl InvalidContainer)"

text \<open>The constructor with \<^verbatim>\<open>__post_init__\<close>, on arguments of any type.\<close>

definition make_intent ::
    "pyval \<Rightarrow> pyval \<Rightarrow> pyval \<Rightarrow> pyval \<Rightarrow> pyval \<Rightarrow> pyval \<Rightarrow> pyval \<Rightarrow> rotation_intent res" where
  "make_intent owner_name predecessor_key successor_key state_hash sequence envelope_hash
       environment =
     raise_if (environment \<noteq> PyNone \<and> \<not> valid_registry_environment environment) InvalidContainer
     (case owner_name of
        PyBytes name \<Rightarrow>
          raise_if (\<not> (1 \<le> length name \<and> length name \<le> 1024 * 1024)) InvalidContainer
          (raise_if (utf8_decode name = None) InvalidContainer
          (bindE (intent_key_field predecessor_key) (\<lambda>pk.
           bindE (intent_key_field successor_key) (\<lambda>sk.
           bindE (intent_key_field state_hash) (\<lambda>sh.
           bindE (intent_key_field envelope_hash) (\<lambda>eh.
           (case sequence of
              PyInt n \<Rightarrow>
                raise_if (n < 1) InvalidContainer
                (Inr \<lparr>ri_owner_name = name, ri_predecessor_owner_public_key = pk,
                      ri_successor_owner_public_key = sk, ri_predecessor_state_hash = sh,
                      ri_sequence = n, ri_envelope_hash = eh,
                      ri_environment =
                        (case environment of PyStr s \<Rightarrow> Some s | _ \<Rightarrow> None)\<rparr>)
            | _ \<Rightarrow> Inl InvalidContainer)))))))
      | _ \<Rightarrow> Inl InvalidContainer)"

definition intent_keys :: "pyval list" where
  "intent_keys =
     [pykey ''owner_name'', pykey ''predecessor_owner_public_key'',
      pykey ''successor_owner_public_key'', pykey ''predecessor_state_hash'',
      pykey ''sequence'', pykey ''envelope_hash'']"

definition intent_to_payload :: "rotation_intent \<Rightarrow> pydict" where
  "intent_to_payload i =
     [(pykey ''owner_name'', PyBytes (ri_owner_name i)),
      (pykey ''predecessor_owner_public_key'', PyBytes (ri_predecessor_owner_public_key i)),
      (pykey ''successor_owner_public_key'', PyBytes (ri_successor_owner_public_key i)),
      (pykey ''predecessor_state_hash'', PyBytes (ri_predecessor_state_hash i)),
      (pykey ''sequence'', PyInt (ri_sequence i)),
      (pykey ''envelope_hash'', PyBytes (ri_envelope_hash i))]
     @ (case ri_environment i of None \<Rightarrow> [] | Some s \<Rightarrow> [(pykey ''environment'', PyStr s)])"

definition intent_from_payload :: "pyval \<Rightarrow> rotation_intent res" where
  "intent_from_payload v =
     (case v of
        PyDict d \<Rightarrow>
          raise_if (dkeys d \<noteq> set intent_keys
              \<and> dkeys d \<noteq> insert (pykey ''environment'') (set intent_keys)) InvalidContainer
          (raise_if (pykey ''environment'' \<in> dkeys d
              \<and> \<not> valid_registry_environment (dget_none d (pykey ''environment'')))
             InvalidContainer
          (make_intent (dget_none d (pykey ''owner_name''))
             (dget_none d (pykey ''predecessor_owner_public_key''))
             (dget_none d (pykey ''successor_owner_public_key''))
             (dget_none d (pykey ''predecessor_state_hash''))
             (dget_none d (pykey ''sequence''))
             (dget_none d (pykey ''envelope_hash''))
             (dget_none d (pykey ''environment''))))
      | _ \<Rightarrow> Inl InvalidContainer)"

section \<open>Permits\<close>

text \<open>A permit holds an intent and a seal; only \<^verbatim>\<open>_ROTATION_PERMIT_SEAL\<close>, a private object
  of the module, passes the constructor.  Here it is the number 0.\<close>

definition ROTATION_PERMIT_SEAL :: nat where
  "ROTATION_PERMIT_SEAL = 0"

record rotation_permit =
  rp_intent :: "rotation_intent option"
  rp_seal :: "nat option"

definition make_permit :: "rotation_intent \<Rightarrow> nat \<Rightarrow> rotation_permit res" where
  "make_permit i seal =
     raise_if (seal \<noteq> ROTATION_PERMIT_SEAL) InvalidContainer
       (Inr \<lparr>rp_intent = Some i, rp_seal = Some seal\<rparr>)"

definition permit_authentic :: "rotation_permit \<Rightarrow> bool" where
  "permit_authentic p \<longleftrightarrow> rp_seal p = Some ROTATION_PERMIT_SEAL \<and> rp_intent p \<noteq> None"

section \<open>Well-formed intents\<close>

definition valid_intent :: "rotation_intent \<Rightarrow> bool" where
  "valid_intent i \<longleftrightarrow>
     1 \<le> length (ri_owner_name i) \<and> length (ri_owner_name i) \<le> 1024 * 1024
     \<and> utf8_decode (ri_owner_name i) \<noteq> None
     \<and> length (ri_predecessor_owner_public_key i) = 32
     \<and> length (ri_successor_owner_public_key i) = 32
     \<and> length (ri_predecessor_state_hash i) = 32
     \<and> length (ri_envelope_hash i) = 32
     \<and> 1 \<le> ri_sequence i
     \<and> (case ri_environment i of None \<Rightarrow> True | Some s \<Rightarrow> valid_registry_environment (PyStr s))"

lemma intent_key_field_Inr [res_simps]:
  "intent_key_field v = Inr b \<longleftrightarrow> v = PyBytes b \<and> length b = 32"
  by (auto simp: intent_key_field_def res_simps case_res_simps)

lemma valid_environment_str: "valid_registry_environment v \<Longrightarrow> \<exists>s. v = PyStr s"
  by (cases v) (auto simp: valid_registry_environment_def)

lemma valid_environment_not_None [simp]: "\<not> valid_registry_environment PyNone"
  by (simp add: valid_registry_environment_def)

lemma case_PyInt_Inr [case_res_simps]:
  "(case v of PyInt i \<Rightarrow> f i | _ \<Rightarrow> Inl e) = Inr y \<longleftrightarrow> (\<exists>i. v = PyInt i \<and> f i = Inr y)"
  by (cases v) auto

text \<open>The environment argument of an intent.\<close>

definition env_value :: "pystr option \<Rightarrow> pyval" where
  "env_value e = (case e of None \<Rightarrow> PyNone | Some s \<Rightarrow> PyStr s)"

lemma make_intent_Inr_iff:
  "make_intent n pk sk sh q eh e = Inr i \<longleftrightarrow>
     valid_intent i \<and> n = PyBytes (ri_owner_name i)
     \<and> pk = PyBytes (ri_predecessor_owner_public_key i)
     \<and> sk = PyBytes (ri_successor_owner_public_key i)
     \<and> sh = PyBytes (ri_predecessor_state_hash i)
     \<and> q = PyInt (ri_sequence i) \<and> eh = PyBytes (ri_envelope_hash i)
     \<and> e = env_value (ri_environment i)"
  (is "?l \<longleftrightarrow> ?r")
proof
  assume l: ?l
  then have e: "e = PyNone \<or> (\<exists>s. e = PyStr s \<and> valid_registry_environment e)"
    using valid_environment_str by (auto simp: make_intent_def res_simps)
  from l show ?r
    unfolding make_intent_def res_simps case_res_simps
    using e by (auto simp: valid_intent_def env_value_def)
next
  assume r: ?r
  then show ?l
    by (cases i; cases "ri_environment i")
      (auto simp: make_intent_def res_simps case_res_simps valid_intent_def env_value_def)
qed

lemma environment_not_intent_key [simp]: "pykey ''environment'' \<notin> set intent_keys"
  by (simp add: intent_keys_def)

lemma intent_payload_keys:
  "dkeys (intent_to_payload i) =
     set intent_keys \<union> (if ri_environment i = None then {} else {pykey ''environment''})"
  by (auto simp: intent_to_payload_def dkeys_def intent_keys_def split: option.splits)

lemma intent_payload_env:
  "pykey ''environment'' \<in> dkeys (intent_to_payload i) \<longleftrightarrow> ri_environment i \<noteq> None"
  by (auto simp: intent_payload_keys intent_keys_def)

lemma intent_payload_items:
  "dget_none (intent_to_payload i) (pykey ''owner_name'') = PyBytes (ri_owner_name i)"
  "dget_none (intent_to_payload i) (pykey ''predecessor_owner_public_key'') =
     PyBytes (ri_predecessor_owner_public_key i)"
  "dget_none (intent_to_payload i) (pykey ''successor_owner_public_key'') =
     PyBytes (ri_successor_owner_public_key i)"
  "dget_none (intent_to_payload i) (pykey ''predecessor_state_hash'') =
     PyBytes (ri_predecessor_state_hash i)"
  "dget_none (intent_to_payload i) (pykey ''sequence'') = PyInt (ri_sequence i)"
  "dget_none (intent_to_payload i) (pykey ''envelope_hash'') = PyBytes (ri_envelope_hash i)"
  "dget_none (intent_to_payload i) (pykey ''environment'') = env_value (ri_environment i)"
  by (simp_all add: intent_to_payload_def dget_none_def env_value_def split: option.splits)

lemma intent_from_payload_sound:
  assumes "intent_from_payload v = Inr i"
  shows "valid_intent i \<and> (\<exists>d. v = PyDict d)"
  using assms
  by (auto simp: intent_from_payload_def res_simps case_res_simps make_intent_Inr_iff)

lemma intent_round_trip:
  assumes "valid_intent i"
  shows "intent_from_payload (PyDict (intent_to_payload i)) = Inr i"
proof -
  have "ri_environment i \<noteq> None \<Longrightarrow> valid_registry_environment (env_value (ri_environment i))"
    using assms by (auto simp: valid_intent_def env_value_def)
  then show ?thesis
    using assms
    by (simp add: intent_from_payload_def res_simps intent_payload_keys intent_payload_env
        intent_payload_items make_intent_Inr_iff)
qed

end
