(* ===== verification/One_Use.thy ===== *)
theory One_Use
  imports Main
begin

text \<open>
  The contract of a one-use token: taking a key succeeds exactly once.  The
  replay-nonce store and the consumption flag of a rotation publication are
  its providers.
\<close>

locale one_use =
  fixes take_key :: "'k \<Rightarrow> 's \<Rightarrow> bool \<times> 's"
    and used_keys :: "'s \<Rightarrow> 'k set"
  assumes take_iff: "fst (take_key k s) \<longleftrightarrow> k \<notin> used_keys s"
    and used_take: "used_keys (snd (take_key k s)) = insert k (used_keys s)"
begin

text \<open>The keys of a sequence of calls that succeed, in order, and the final state.\<close>

primrec take_all :: "'k list \<Rightarrow> 's \<Rightarrow> 'k list \<times> 's" where
  "take_all [] s = ([], s)"
| "take_all (k # ks) s =
     (let (b, s') = take_key k s; (won, s'') = take_all ks s' in ((if b then k # won else won), s''))"

lemma take_all_used: "used_keys (snd (take_all ks s)) = set ks \<union> used_keys s"
  by (induction ks arbitrary: s) (auto simp: Let_def split_beta used_take)

lemma take_all_wins:
  "distinct (fst (take_all ks s)) \<and> set (fst (take_all ks s)) = set ks - used_keys s"
proof (induction ks arbitrary: s)
  case (Cons k ks)
  then show ?case
    using Cons [of "snd (take_key k s)"]
    by (auto simp: Let_def split_beta used_take take_iff)
qed simp

lemma taken_stays_taken: "k \<in> used_keys s \<Longrightarrow> k \<notin> set (fst (take_all ks s))"
  using take_all_wins [of ks s] by auto

end

end
