(* ===== verification/Rotation_Latch.thy ===== *)
theory Rotation_Latch
  imports Rotation_Intent Identity_Finalize One_Use
begin

text \<open>
  The rotation latch of \<^verbatim>\<open>identity.py\<close>: the binding of a rotation, the registry
  of locally stored unresolved rotations by owner name, and the objects that
  carry a binding across components: the one-use publication, the
  confirmation and the dispatch rejection.
\<close>

section \<open>Bindings\<close>

text \<open>The attributes that \<^verbatim>\<open>_rotation_binding\<close> reads of its argument; a missing
  attribute is \<^verbatim>\<open>None\<close>.\<close>

record rotation_fields =
  rf_environment :: pyval
  rf_owner_name :: pyval
  rf_predecessor_owner_public_key :: pyval
  rf_successor_owner_public_key :: pyval
  rf_predecessor_state_hash :: pyval
  rf_sequence :: pyval
  rf_envelope_hash :: pyval

record latch_binding =
  rb_environment :: pyval
  rb_owner_name :: bytes
  rb_predecessor_owner_public_key :: bytes
  rb_successor_owner_public_key :: bytes
  rb_predecessor_state_hash :: bytes
  rb_sequence :: int
  rb_envelope_hash :: bytes

definition is_key_bytes :: "pyval \<Rightarrow> bool" where
  "is_key_bytes v = (case v of PyBytes b \<Rightarrow> length b = 32 | _ \<Rightarrow> False)"

definition int_of :: "pyval \<Rightarrow> int" where
  "int_of v = (case v of PyInt i \<Rightarrow> i | _ \<Rightarrow> 0)"

definition rotation_binding :: "rotation_fields \<Rightarrow> latch_binding option" where
  "rotation_binding f =
     (if \<not> is_PyBytes (rf_owner_name f) \<or> bytes_of (rf_owner_name f) = []
        \<or> \<not> is_key_bytes (rf_predecessor_owner_public_key f)
        \<or> \<not> is_key_bytes (rf_successor_owner_public_key f)
        \<or> \<not> is_key_bytes (rf_predecessor_state_hash f)
        \<or> \<not> is_PyInt (rf_sequence f) \<or> int_of (rf_sequence f) \<le> 0
        \<or> \<not> is_key_bytes (rf_envelope_hash f)
      then None
      else Some
        \<lparr>rb_environment = rf_environment f,
         rb_owner_name = bytes_of (rf_owner_name f),
         rb_predecessor_owner_public_key = bytes_of (rf_predecessor_owner_public_key f),
         rb_successor_owner_public_key = bytes_of (rf_successor_owner_public_key f),
         rb_predecessor_state_hash = bytes_of (rf_predecessor_state_hash f),
         rb_sequence = int_of (rf_sequence f),
         rb_envelope_hash = bytes_of (rf_envelope_hash f)\<rparr>)"

definition intent_fields :: "rotation_intent \<Rightarrow> rotation_fields" where
  "intent_fields i =
     \<lparr>rf_environment = env_value (ri_environment i),
      rf_owner_name = PyBytes (ri_owner_name i),
      rf_predecessor_owner_public_key = PyBytes (ri_predecessor_owner_public_key i),
      rf_successor_owner_public_key = PyBytes (ri_successor_owner_public_key i),
      rf_predecessor_state_hash = PyBytes (ri_predecessor_state_hash i),
      rf_sequence = PyInt (ri_sequence i),
      rf_envelope_hash = PyBytes (ri_envelope_hash i)\<rparr>"

section \<open>The latch registry\<close>

text \<open>\<^verbatim>\<open>_bindings\<close>: by owner name, the binding and whether dispatch is permitted.  Every
  operation runs under the registry's guard, so each is one step.\<close>

type_synonym latches = "bytes \<rightharpoonup> latch_binding \<times> bool"

definition is_owner_latched :: "latches \<Rightarrow> bytes \<Rightarrow> bool" where
  "is_owner_latched m owner_name \<longleftrightarrow> m owner_name \<noteq> None"

definition is_latched :: "latches \<Rightarrow> rotation_fields \<Rightarrow> bool" where
  "is_latched m f =
     (case rotation_binding f of
        None \<Rightarrow> False
      | Some b \<Rightarrow> (case m (rb_owner_name b) of None \<Rightarrow> False | Some (c, _) \<Rightarrow> c = b))"

definition is_dispatch_ready :: "latches \<Rightarrow> rotation_fields \<Rightarrow> bool" where
  "is_dispatch_ready m f =
     (case rotation_binding f of
        None \<Rightarrow> False
      | Some b \<Rightarrow> m (rb_owner_name b) = Some (b, True))"

text \<open>The condition under which \<^verbatim>\<open>register\<close> refuses to replace a different binding.\<close>

definition register_conflict :: "latch_binding \<times> bool \<Rightarrow> latch_binding \<Rightarrow> bool \<Rightarrow> bool" where
  "register_conflict current b dispatch_ready \<longleftrightarrow>
     fst current \<noteq> b
     \<and> (dispatch_ready \<or> snd current \<or> rb_environment (fst current) \<noteq> PyNone
        \<or> rb_environment b = PyNone
        \<or> (fst current)\<lparr>rb_environment := rb_environment b\<rparr> \<noteq> b)"

definition latch_register :: "rotation_fields \<Rightarrow> bool \<Rightarrow> latches \<Rightarrow> bool \<times> latches" where
  "latch_register f dispatch_ready m =
     (case rotation_binding f of
        None \<Rightarrow> (False, m)
      | Some b \<Rightarrow>
          (case m (rb_owner_name b) of
             None \<Rightarrow> (True, m(rb_owner_name b \<mapsto> (b, dispatch_ready)))
           | Some current \<Rightarrow>
               if register_conflict current b dispatch_ready then (False, m)
               else (True, m(rb_owner_name b \<mapsto> (b, dispatch_ready \<or> snd current)))))"

definition latch_clear :: "rotation_fields \<Rightarrow> latches \<Rightarrow> bool \<times> latches" where
  "latch_clear f m =
     (case rotation_binding f of
        None \<Rightarrow> (False, m)
      | Some b \<Rightarrow>
          (case m (rb_owner_name b) of
             None \<Rightarrow> (False, m)
           | Some (c, _) \<Rightarrow>
               if c \<noteq> b then (False, m) else (True, m(rb_owner_name b := None))))"

section \<open>Publications, confirmations and rejections\<close>

text \<open>The adapter's token and its latch registry are created together and are one number
  here; \<open>pub_id\<close> identifies the object, whose consumption flag is in the state.\<close>

record rotation_publication =
  pub_id :: nat
  pub_environment :: pystr
  pub_bundle :: identity_bundle
  pub_envelope_bytes :: bytes
  pub_previous_state :: identity_state
  pub_expires_at :: int
  pub_adapter_token :: nat
  pub_latch_registry :: nat

record rotation_confirmation =
  rc_environment :: pystr
  rc_owner_name :: bytes
  rc_predecessor_owner_public_key :: bytes
  rc_successor_owner_public_key :: bytes
  rc_predecessor_state_hash :: bytes
  rc_sequence :: int
  rc_envelope_hash :: bytes
  rc_state_hash :: bytes
  rc_sealed :: bool
  rc_latch_registry :: nat

datatype publish_status =
    READY | CONFIRMED | PROOF_READY | UNKNOWN | FAILED | STALE | DENIED | CANCELLED | EXPIRED

record rotation_rejection =
  rj_id :: nat
  rj_status :: publish_status
  rj_publication :: rotation_publication
  rj_sealed :: bool

text \<open>The latch registries by number, the publications that were consumed and the
  rejections that are claimed.\<close>

record rotation_state =
  rs_latches :: "nat \<Rightarrow> latches"
  rs_consumed :: "nat set"
  rs_claimed :: "nat set"

definition publication_envelope_hash :: "rotation_publication \<Rightarrow> bytes" where
  "publication_envelope_hash p = sha256 (pub_envelope_bytes p)"

definition publication_fields :: "prims \<Rightarrow> rotation_publication \<Rightarrow> rotation_fields res" where
  "publication_fields P p =
     bindE (draft_owner_name P (bd_draft (pub_bundle p))) (\<lambda>owner_name.
     bindE (draft_owner_public_key P (bd_draft (pub_bundle p))) (\<lambda>successor.
     bindE (draft_sequence P (bd_draft (pub_bundle p))) (\<lambda>sequence.
     Inr \<lparr>rf_environment = PyStr (pub_environment p),
          rf_owner_name = owner_name,
          rf_predecessor_owner_public_key = PyBytes (st_owner_public_key (pub_previous_state p)),
          rf_successor_owner_public_key = successor,
          rf_predecessor_state_hash = PyBytes (st_state_hash (pub_previous_state p)),
          rf_sequence = PyInt sequence,
          rf_envelope_hash = PyBytes (publication_envelope_hash p)\<rparr>)))"

text \<open>\<^verbatim>\<open>_matches_bundle\<close>.  The owner name, key and sequence of the publication are those
  of its own bundle.\<close>

definition matches_bundle :: "prims \<Rightarrow> rotation_publication \<Rightarrow> identity_bundle \<Rightarrow> bool" where
  "matches_bundle P p b \<longleftrightarrow>
     b = pub_bundle p
     \<and> bundle_finalize P b = Inr (pub_envelope_bytes p)
     \<and> draft_previous_state P (bd_draft b) = Inr (Some (pub_previous_state p))
     \<and> (case draft_authorization P (bd_draft b) of
          Inr (Some auth) \<Rightarrow> au_operation auth = 5
        | _ \<Rightarrow> False)"

definition publication_matches_intent ::
    "prims \<Rightarrow> rotation_publication \<Rightarrow> rotation_intent \<Rightarrow> bool res" where
  "publication_matches_intent P p i =
     bindE (publication_fields P p) (\<lambda>f. Inr (rotation_binding f = rotation_binding (intent_fields i)))"

definition set_latches :: "nat \<Rightarrow> latches \<Rightarrow> rotation_state \<Rightarrow> rotation_state" where
  "set_latches r m s = s\<lparr>rs_latches := (rs_latches s)(r := m)\<rparr>"

text \<open>\<^verbatim>\<open>_mark_latched\<close> and \<^verbatim>\<open>_clear_latch\<close> of a publication.\<close>

definition mark_latched ::
    "prims \<Rightarrow> rotation_publication \<Rightarrow> rotation_intent \<Rightarrow> rotation_state \<Rightarrow> bool res \<times> rotation_state" where
  "mark_latched P p i s =
     (case publication_matches_intent P p i of
        Inl e \<Rightarrow> (Inl e, s)
      | Inr False \<Rightarrow> (Inr False, s)
      | Inr True \<Rightarrow>
          (let (b, m) = latch_register (intent_fields i) True (rs_latches s (pub_latch_registry p))
           in (Inr b, set_latches (pub_latch_registry p) m s)))"

definition publication_clear_latch ::
    "prims \<Rightarrow> rotation_publication \<Rightarrow> rotation_intent \<Rightarrow> rotation_state \<Rightarrow> bool res \<times> rotation_state" where
  "publication_clear_latch P p i s =
     (case publication_matches_intent P p i of
        Inl e \<Rightarrow> (Inl e, s)
      | Inr False \<Rightarrow> (Inr False, s)
      | Inr True \<Rightarrow>
          (let (b, m) = latch_clear (intent_fields i) (rs_latches s (pub_latch_registry p))
           in (Inr b, set_latches (pub_latch_registry p) m s)))"

definition consume_for :: "rotation_publication \<Rightarrow> nat \<Rightarrow> rotation_state \<Rightarrow> bool \<times> rotation_state" where
  "consume_for p adapter_token s =
     (if pub_adapter_token p \<noteq> adapter_token \<or> pub_id p \<in> rs_consumed s then (False, s)
      else (True, s\<lparr>rs_consumed := insert (pub_id p) (rs_consumed s)\<rparr>))"

definition confirmation_fields :: "rotation_confirmation \<Rightarrow> rotation_fields" where
  "confirmation_fields c =
     \<lparr>rf_environment = PyStr (rc_environment c),
      rf_owner_name = PyBytes (rc_owner_name c),
      rf_predecessor_owner_public_key = PyBytes (rc_predecessor_owner_public_key c),
      rf_successor_owner_public_key = PyBytes (rc_successor_owner_public_key c),
      rf_predecessor_state_hash = PyBytes (rc_predecessor_state_hash c),
      rf_sequence = PyInt (rc_sequence c),
      rf_envelope_hash = PyBytes (rc_envelope_hash c)\<rparr>"

definition confirmation_matches_intent :: "rotation_confirmation \<Rightarrow> rotation_intent \<Rightarrow> bool" where
  "confirmation_matches_intent c i \<longleftrightarrow>
     rc_sealed c \<and> rotation_binding (confirmation_fields c) = rotation_binding (intent_fields i)"

definition confirmation_is_latched ::
    "rotation_confirmation \<Rightarrow> rotation_intent \<Rightarrow> rotation_state \<Rightarrow> bool" where
  "confirmation_is_latched c i s \<longleftrightarrow>
     confirmation_matches_intent c i
     \<and> is_latched (rs_latches s (rc_latch_registry c)) (intent_fields i)"

definition confirmation_clear_latch ::
    "rotation_confirmation \<Rightarrow> rotation_intent \<Rightarrow> rotation_state \<Rightarrow> bool \<times> rotation_state" where
  "confirmation_clear_latch c i s =
     (if confirmation_matches_intent c i then
        (let (b, m) = latch_clear (intent_fields i) (rs_latches s (rc_latch_registry c))
         in (b, set_latches (rc_latch_registry c) m s))
      else (False, s))"

text \<open>\<^verbatim>\<open>RotationDispatchRejection(...)\<close>: sealed, and only for an expired consent.  Its
  binding attributes are those of the publication.\<close>

definition make_rejection ::
    "bool \<Rightarrow> publish_status \<Rightarrow> nat \<Rightarrow> rotation_publication \<Rightarrow> rotation_rejection res" where
  "make_rejection sealed status rid p =
     raise_if (\<not> sealed \<or> status \<noteq> EXPIRED) InvalidIdentityRequest
       (Inr \<lparr>rj_id = rid, rj_status = status, rj_publication = p, rj_sealed = sealed\<rparr>)"

definition rejection_matches_intent ::
    "prims \<Rightarrow> rotation_rejection \<Rightarrow> rotation_intent \<Rightarrow> bool res" where
  "rejection_matches_intent P r i =
     (if rj_sealed r then publication_matches_intent P (rj_publication r) i else Inr False)"

definition rejection_is_latched ::
    "prims \<Rightarrow> rotation_rejection \<Rightarrow> rotation_intent \<Rightarrow> rotation_state \<Rightarrow> bool res" where
  "rejection_is_latched P r i s =
     bindE (rejection_matches_intent P r i) (\<lambda>b.
     Inr (b \<and> is_latched (rs_latches s (pub_latch_registry (rj_publication r))) (intent_fields i)))"

definition rejection_clear_latch ::
    "prims \<Rightarrow> rotation_rejection \<Rightarrow> rotation_intent \<Rightarrow> rotation_state \<Rightarrow> bool res \<times> rotation_state" where
  "rejection_clear_latch P r i s =
     (case rejection_matches_intent P r i of
        Inl e \<Rightarrow> (Inl e, s)
      | Inr False \<Rightarrow> (Inr False, s)
      | Inr True \<Rightarrow> publication_clear_latch P (rj_publication r) i s)"

definition rejection_claim :: "rotation_rejection \<Rightarrow> rotation_state \<Rightarrow> bool \<times> rotation_state" where
  "rejection_claim r s =
     (if rj_id r \<in> rs_claimed s then (False, s)
      else (True, s\<lparr>rs_claimed := insert (rj_id r) (rs_claimed s)\<rparr>))"

definition rejection_release :: "rotation_rejection \<Rightarrow> rotation_state \<Rightarrow> rotation_state" where
  "rejection_release r s = s\<lparr>rs_claimed := rs_claimed s - {rj_id r}\<rparr>"

end
