(* ===== verification/Rotation_Latch_Facts.thy ===== *)
theory Rotation_Latch_Facts
  imports Rotation_Latch
begin

text \<open>
  Behaviour of the latch registry over sequences of calls: which registration
  made a rotation ready for dispatch, how long an owner stays latched, and the
  one-use law of publications.
\<close>

section \<open>Calls as steps\<close>

text \<open>A call with its argument and its result.\<close>

datatype latch_call =
    Register rotation_fields bool bool
  | Clear rotation_fields bool

inductive latch_step :: "latches \<Rightarrow> latch_call \<Rightarrow> latches \<Rightarrow> bool" where
  step_register: "latch_register f ready m = (ok, m') \<Longrightarrow> latch_step m (Register f ready ok) m'"
| step_clear: "latch_clear f m = (ok, m') \<Longrightarrow> latch_step m (Clear f ok) m'"

inductive_cases latch_step_registerE: "latch_step m (Register f ready ok) m'"
inductive_cases latch_step_clearE: "latch_step m (Clear f ok) m'"

text \<open>The calls on a fresh registry, the latest one first.\<close>

inductive latch_history :: "latch_call list \<Rightarrow> latches \<Rightarrow> bool" where
  history_start: "latch_history [] Map.empty"
| history_step: "latch_history calls m \<Longrightarrow> latch_step m call m' \<Longrightarrow> latch_history (call # calls) m'"

inductive latch_steps :: "latches \<Rightarrow> latch_call list \<Rightarrow> latches \<Rightarrow> bool" where
  steps_done: "latch_steps m [] m"
| steps_more: "latch_step m call m' \<Longrightarrow> latch_steps m' calls m'' \<Longrightarrow> latch_steps m (call # calls) m''"

text \<open>\<open>readied calls b\<close>: since the last successful clearing of \<open>b\<close>, a registration of \<open>b\<close>
  with \<^verbatim>\<open>dispatch_ready=True\<close> succeeded.\<close>

fun readied :: "latch_call list \<Rightarrow> latch_binding \<Rightarrow> bool" where
  "readied [] b = False"
| "readied (Register f ready ok # calls) b =
     (ok \<and> ready \<and> rotation_binding f = Some b \<or> readied calls b)"
| "readied (Clear f ok # calls) b =
     (\<not> (ok \<and> rotation_binding f = Some b) \<and> readied calls b)"

lemma latch_register_cases:
  assumes "latch_register f ready m = (ok, m')"
  obtains (refused) "\<not> ok" "m' = m"
    | (added) b where "ok" "rotation_binding f = Some b" "m (rb_owner_name b) = None"
        "m' = m(rb_owner_name b \<mapsto> (b, ready))"
    | (kept) b r where "ok" "rotation_binding f = Some b" "m (rb_owner_name b) = Some (b, r)"
        "m' = m(rb_owner_name b \<mapsto> (b, ready \<or> r))"
    | (bound) b c where "ok" "rotation_binding f = Some b" "m (rb_owner_name b) = Some (c, False)"
        "\<not> ready" "rb_environment c = PyNone" "c\<lparr>rb_environment := rb_environment b\<rparr> = b"
        "m' = m(rb_owner_name b \<mapsto> (b, False))"
proof (cases "rotation_binding f")
  case None
  then show ?thesis using assms refused by (simp add: latch_register_def)
next
  case b: (Some b)
  show ?thesis
  proof (cases "m (rb_owner_name b)")
    case None
    then show ?thesis using assms b added by (simp add: latch_register_def)
  next
    case current: (Some current)
    show ?thesis
    proof (cases "register_conflict current b ready")
      case True
      then show ?thesis using assms b current refused by (simp add: latch_register_def)
    next
      case False
      then have m': "ok" "m' = m(rb_owner_name b \<mapsto> (b, ready \<or> snd current))"
        using assms b current by (simp_all add: latch_register_def)
      show ?thesis
      proof (cases "fst current = b")
        case True
        then show ?thesis using kept [OF m'(1) b, of "snd current"] current m'(2) by auto
      next
        case other: False
        then show ?thesis
          using bound [OF m'(1) b, of "fst current"] current m'(2) False
          by (cases current) (simp add: register_conflict_def)
      qed
    qed
  qed
qed

lemma latch_clear_cases:
  assumes "latch_clear f m = (ok, m')"
  obtains (refused) "\<not> ok" "m' = m"
    | (cleared) b r where "ok" "rotation_binding f = Some b" "m (rb_owner_name b) = Some (b, r)"
        "m' = m(rb_owner_name b := None)"
proof (cases "rotation_binding f")
  case None
  then show ?thesis using assms refused by (simp add: latch_clear_def)
next
  case (Some b)
  show ?thesis
  proof (cases "\<exists>r. m (rb_owner_name b) = Some (b, r)")
    case True
    then show ?thesis using assms Some cleared by (auto simp: latch_clear_def)
  next
    case False
    then have "\<not> ok \<and> m' = m"
      using assms Some by (auto simp: latch_clear_def split: option.splits if_splits)
    then show ?thesis using refused by blast
  qed
qed

definition owners_ok :: "latches \<Rightarrow> bool" where
  "owners_ok m \<longleftrightarrow> (\<forall>n b r. m n = Some (b, r) \<longrightarrow> rb_owner_name b = n)"

lemma owners_ok_upd [simp]: "owners_ok m \<Longrightarrow> owners_ok (m(rb_owner_name b \<mapsto> (b, r)))"
  by (simp add: owners_ok_def)

lemma owners_ok_del [simp]: "owners_ok m \<Longrightarrow> owners_ok (m(n := None))"
  by (simp add: owners_ok_def)

lemma latch_step_owners_ok: "latch_step m call m' \<Longrightarrow> owners_ok m \<Longrightarrow> owners_ok m'"
proof (induction rule: latch_step.induct)
  case (step_register f ready m ok m')
  then show ?case by (cases rule: latch_register_cases) (simp_all del: fun_upd_apply)
next
  case (step_clear f m ok m')
  then show ?case by (cases rule: latch_clear_cases) (simp_all del: fun_upd_apply)
qed

lemma latch_history_owners_ok: "latch_history calls m \<Longrightarrow> owners_ok m"
proof (induction rule: latch_history.induct)
  case history_start
  show ?case by (simp add: owners_ok_def)
next
  case (history_step calls m call m')
  then show ?case by (blast intro: latch_step_owners_ok)
qed

lemma latch_history_readied:
  "latch_history calls m \<Longrightarrow> m o' = Some (b, True) \<Longrightarrow> readied calls b"
proof (induction arbitrary: o' b rule: latch_history.induct)
  case (history_step calls m call m')
  from history_step.hyps(2) show ?case
  proof cases
    case (step_register f ready ok)
    from step_register(2) show ?thesis
      using history_step.IH history_step.prems step_register(1)
      by (cases rule: latch_register_cases) (auto split: if_splits)
  next
    case (step_clear f ok)
    from step_clear(2) show ?thesis
    proof (cases rule: latch_clear_cases)
      case refused
      then show ?thesis using history_step.IH history_step.prems step_clear(1) by auto
    next
      case (cleared c r)
      have "o' \<noteq> rb_owner_name c" and m: "m o' = Some (b, True)"
        using cleared history_step.prems by (auto split: if_splits)
      then have "b \<noteq> c" using latch_history_owners_ok [OF history_step.hyps(1)] m by (auto simp: owners_ok_def)
      then show ?thesis using history_step.IH [OF m] cleared step_clear(1) by auto
    qed
  qed
qed simp

section \<open>Owners stay latched\<close>

text \<open>Two bindings that agree on everything but, possibly, a realm that the first lacks.\<close>

definition same_rotation :: "latch_binding \<Rightarrow> latch_binding \<Rightarrow> bool" where
  "same_rotation b c \<longleftrightarrow>
     c = b \<or> rb_environment b = PyNone \<and> b\<lparr>rb_environment := rb_environment c\<rparr> = c"

lemma same_rotation_refl [simp]: "same_rotation b b"
  by (simp add: same_rotation_def)

lemma same_rotation_trans: "same_rotation a b \<Longrightarrow> same_rotation b c \<Longrightarrow> same_rotation a c"
  by (cases a; cases b; cases c) (auto simp: same_rotation_def)

lemma same_rotation_owner: "same_rotation b c \<Longrightarrow> rb_owner_name c = rb_owner_name b"
  by (cases b; cases c) (auto simp: same_rotation_def)

definition clears :: "bytes \<Rightarrow> latch_call \<Rightarrow> bool" where
  "clears owner_name call =
     (case call of
        Register f ready ok \<Rightarrow> False
      | Clear f ok \<Rightarrow> ok \<and> (\<exists>b. rotation_binding f = Some b \<and> rb_owner_name b = owner_name))"

lemma latch_step_keeps:
  assumes "latch_step m call m'" and "m o' = Some (b, r)" and "\<not> clears o' call"
    and "rb_owner_name b = o'"
  obtains c r' where "m' o' = Some (c, r')" and "same_rotation b c" and "r \<Longrightarrow> r' \<and> c = b"
  using assms(1)
proof cases
  case (step_register f ready ok)
  from step_register(2) show thesis
    using assms(2,4) that
    by (cases rule: latch_register_cases) (fastforce simp: same_rotation_def split: if_splits)+
next
  case (step_clear f ok)
  from step_clear(2) show thesis
    using assms(2-4) that step_clear(1)
    by (cases rule: latch_clear_cases) (auto simp: clears_def)
qed

lemma latch_steps_keep:
  "latch_steps m calls m' \<Longrightarrow> m o' = Some (b, r) \<Longrightarrow> rb_owner_name b = o' \<Longrightarrow>
     list_all (\<lambda>call. \<not> clears o' call) calls \<Longrightarrow>
     \<exists>c r'. m' o' = Some (c, r') \<and> same_rotation b c"
proof (induction arbitrary: b r rule: latch_steps.induct)
  case (steps_more m call m' calls m'')
  from steps_more.prems have "\<not> clears o' call" by simp
  then obtain c r' where c: "m' o' = Some (c, r')" "same_rotation b c"
    using latch_step_keeps [OF steps_more.hyps(1) steps_more.prems(1) _ steps_more.prems(2)]
    by metis
  then show ?case
    using steps_more.IH [OF c(1)] steps_more.prems same_rotation_owner [OF c(2)]
    by (auto intro: same_rotation_trans)
qed auto

section \<open>Bindings of intents\<close>

definition intent_binding :: "rotation_intent \<Rightarrow> latch_binding" where
  "intent_binding i =
     \<lparr>rb_environment = env_value (ri_environment i), rb_owner_name = ri_owner_name i,
      rb_predecessor_owner_public_key = ri_predecessor_owner_public_key i,
      rb_successor_owner_public_key = ri_successor_owner_public_key i,
      rb_predecessor_state_hash = ri_predecessor_state_hash i,
      rb_sequence = ri_sequence i, rb_envelope_hash = ri_envelope_hash i\<rparr>"

lemma rotation_binding_intent:
  assumes "valid_intent i"
  shows "rotation_binding (intent_fields i) = Some (intent_binding i)"
proof -
  have "ri_owner_name i \<noteq> []" and "0 < ri_sequence i"
    using assms by (auto simp: valid_intent_def)
  then show ?thesis
    using assms
    by (simp add: rotation_binding_def intent_fields_def valid_intent_def is_key_bytes_def
        bytes_of_def int_of_def intent_binding_def)
qed

lemma env_value_inject [simp]: "env_value e = env_value e' \<longleftrightarrow> e = e'"
  by (auto simp: env_value_def split: option.splits)

lemma intent_binding_inject [simp]: "intent_binding i = intent_binding j \<longleftrightarrow> i = j"
proof
  assume "intent_binding i = intent_binding j"
  then show "i = j"
    by (intro rotation_intent.equality) (simp_all add: intent_binding_def)
qed simp

lemma is_latched_iff:
  "rotation_binding f = Some b \<Longrightarrow>
     is_latched m f \<longleftrightarrow> (\<exists>r. m (rb_owner_name b) = Some (b, r))"
  by (auto simp: is_latched_def split: option.splits)

lemma is_latched_owner:
  "is_latched m f \<Longrightarrow> \<exists>b. rotation_binding f = Some b \<and> is_owner_latched m (rb_owner_name b)"
  by (auto simp: is_latched_def is_owner_latched_def split: option.splits)

section \<open>Publications are consumed once\<close>

interpretation pub: one_use "\<lambda>k. consume_for (p\<lparr>pub_id := k\<rparr>) (pub_adapter_token p)" rs_consumed
  for p
  by unfold_locales (auto simp: consume_for_def)

lemma consume_other_adapter: "pub_adapter_token p \<noteq> t \<Longrightarrow> consume_for p t s = (False, s)"
  by (simp add: consume_for_def)

end
