(* ===== verification/Rotation_Properties.thy ===== *)
theory Rotation_Properties
  imports Rotation_Latch_Facts
begin

text \<open>
  Properties of the rotation intent, the latch registry and the one-use
  publication, with a concrete intent for the witnesses.
\<close>

definition demo_intent :: rotation_intent where
  "demo_intent =
     \<lparr>ri_owner_name = [97], ri_predecessor_owner_public_key = replicate 32 1,
      ri_successor_owner_public_key = replicate 32 2, ri_predecessor_state_hash = replicate 32 3,
      ri_sequence = 2, ri_envelope_hash = replicate 32 4, ri_environment = None\<rparr>"

lemma demo_owner_utf8: "utf8_decode [97] = Some [97]"
  by code_simp

lemma demo_intent_valid: "valid_intent demo_intent"
  by (simp add: valid_intent_def demo_intent_def demo_owner_utf8)

lemma demo_binding: "rotation_binding (intent_fields demo_intent) = Some (intent_binding demo_intent)"
  by (rule rotation_binding_intent [OF demo_intent_valid])

lemma demo_register:
  "latch_register (intent_fields demo_intent) True Map.empty =
     (True, [ri_owner_name demo_intent \<mapsto> (intent_binding demo_intent, True)])"
  using demo_binding by (simp add: latch_register_def intent_binding_def)

text \<open>
  C34. The payload form of an intent is faithful and closed: whatever
  \<^verbatim>\<open>_from_payload\<close> accepts is a well-formed intent (key and hash lengths, a
  UTF-8 owner name of bounded length, a positive sequence number, a valid
  realm if there is one), and writing it with \<^verbatim>\<open>_to_payload\<close> and reading it
  again gives the same intent.
\<close>

theorem stored_intent_well_formed:
  assumes "intent_from_payload v = Inr i"
  shows "valid_intent i \<and> intent_from_payload (PyDict (intent_to_payload i)) = Inr i"
  using intent_from_payload_sound [OF assms] intent_round_trip by blast

theorem stored_intent_well_formed_witness:
  "intent_from_payload (PyDict (intent_to_payload demo_intent)) = Inr demo_intent
   \<and> valid_intent demo_intent"
  using stored_intent_well_formed [OF intent_round_trip [OF demo_intent_valid]] by blast

text \<open>
  C29. In every sequence of calls on a fresh latch registry, a rotation that
  \<^verbatim>\<open>is_dispatch_ready\<close> accepts was registered with \<^verbatim>\<open>dispatch_ready=True\<close>, exactly
  as it is, after the last time it was cleared: read-only registrations and
  the legacy realm binding never grant dispatch.
\<close>

theorem dispatch_ready_was_registered:
  assumes "latch_history calls m" and "is_dispatch_ready m f"
  shows "\<exists>b. rotation_binding f = Some b \<and> readied calls b"
  using assms latch_history_readied [OF assms(1)]
  by (auto simp: is_dispatch_ready_def split: option.splits)

theorem dispatch_ready_was_registered_witness:
  "\<exists>b. rotation_binding (intent_fields demo_intent) = Some b
     \<and> readied [Register (intent_fields demo_intent) True True] b"
proof (rule dispatch_ready_was_registered)
  show "latch_history [Register (intent_fields demo_intent) True True]
      [ri_owner_name demo_intent \<mapsto> (intent_binding demo_intent, True)]"
    by (rule history_step [OF history_start step_register [OF demo_register]])
  show "is_dispatch_ready [ri_owner_name demo_intent \<mapsto> (intent_binding demo_intent, True)]
      (intent_fields demo_intent)"
    using demo_binding by (simp add: is_dispatch_ready_def intent_binding_def)
qed

text \<open>
  C28. While an owner has an unresolved rotation, no sequence of calls without a
  successful \<^verbatim>\<open>clear\<close> for that owner removes it: the owner stays latched on the
  same rotation (which may gain its missing realm), and a registration of any
  other rotation of the owner is refused and changes nothing.
\<close>

theorem latched_owner_stays_latched:
  assumes "latch_history before m" and "m owner = Some (b, ready)" and "latch_steps m calls m'"
    and "list_all (\<lambda>call. \<not> clears owner call) calls"
  shows "is_owner_latched m' owner
    \<and> (\<exists>c r. m' owner = Some (c, r) \<and> same_rotation b c)
    \<and> (\<forall>f d now. rotation_binding f = Some d \<and> rb_owner_name d = owner \<and> \<not> same_rotation b d
         \<longrightarrow> latch_register f now m' = (False, m'))"
proof -
  have "rb_owner_name b = owner"
    using latch_history_owners_ok [OF assms(1)] assms(2) by (auto simp: owners_ok_def)
  from latch_steps_keep [OF assms(3,2) this assms(4)]
  obtain c r where c: "m' owner = Some (c, r)" "same_rotation b c" by blast
  have "latch_register f now m' = (False, m')"
    if f: "rotation_binding f = Some d" "rb_owner_name d = owner" and d: "\<not> same_rotation b d" for f d now
  proof -
    have "\<not> same_rotation c d" using c(2) d same_rotation_trans by blast
    then have "register_conflict (c, r) d now"
      by (auto simp: register_conflict_def same_rotation_def)
    then show ?thesis using f c(1) by (simp add: latch_register_def)
  qed
  then show ?thesis using c by (auto simp: is_owner_latched_def)
qed

theorem latched_owner_stays_latched_witness:
  "is_owner_latched [ri_owner_name demo_intent \<mapsto> (intent_binding demo_intent, True)]
     (ri_owner_name demo_intent)"
  using latched_owner_stays_latched
    [OF history_step [OF history_start step_register [OF demo_register]] _ steps_done]
  by simp

end
