(* ===== verification/Py_State.thy ===== *)
theory Py_State
  imports Prelude
begin

text \<open>
  Programs with a state: a run ends in a result, an exception or the death of
  the process, and in every case leaves a state.  The combinators are the
  sequencing, \<^verbatim>\<open>try\<close>/\<^verbatim>\<open>except\<close> and \<^verbatim>\<open>finally\<close> of Python; a killed process runs no
  handler.
\<close>

datatype 'a outcome = Ret 'a | Raise exn | Killed

type_synonym ('a, 's) prog = "'s \<Rightarrow> 'a outcome \<times> 's"

named_theorems prog_simps "unfolding of program combinators"

definition returnS :: "'a \<Rightarrow> ('a, 's) prog" where
  "returnS x = (\<lambda>s. (Ret x, s))"

definition raiseS :: "exn \<Rightarrow> ('a, 's) prog" where
  "raiseS e = (\<lambda>s. (Raise e, s))"

definition bindS :: "('a, 's) prog \<Rightarrow> ('a \<Rightarrow> ('b, 's) prog) \<Rightarrow> ('b, 's) prog" where
  "bindS m f =
     (\<lambda>s. case m s of
            (Ret x, s') \<Rightarrow> f x s'
          | (Raise e, s') \<Rightarrow> (Raise e, s')
          | (Killed, s') \<Rightarrow> (Killed, s'))"

text \<open>A handler that does not apply re-raises its argument.\<close>

definition exceptS :: "('a, 's) prog \<Rightarrow> (exn \<Rightarrow> ('a, 's) prog) \<Rightarrow> ('a, 's) prog" where
  "exceptS m h =
     (\<lambda>s. case m s of
            (Ret x, s') \<Rightarrow> (Ret x, s')
          | (Raise e, s') \<Rightarrow> h e s'
          | (Killed, s') \<Rightarrow> (Killed, s'))"

text \<open>An exception of the \<^verbatim>\<open>finally\<close> block replaces the result.\<close>

definition finallyS :: "('a, 's) prog \<Rightarrow> (unit, 's) prog \<Rightarrow> ('a, 's) prog" where
  "finallyS m f =
     (\<lambda>s. case m s of
            (Ret x, s') \<Rightarrow> bindS f (\<lambda>_. returnS x) s'
          | (Raise e, s') \<Rightarrow> bindS f (\<lambda>_. raiseS e) s'
          | (Killed, s') \<Rightarrow> (Killed, s'))"

definition getS :: "('s \<Rightarrow> 'a) \<Rightarrow> ('a, 's) prog" where
  "getS f = (\<lambda>s. (Ret (f s), s))"

definition modifyS :: "('s \<Rightarrow> 's) \<Rightarrow> (unit, 's) prog" where
  "modifyS f = (\<lambda>s. (Ret (), f s))"

definition liftS :: "'a res \<Rightarrow> ('a, 's) prog" where
  "liftS r = (case r of Inl e \<Rightarrow> raiseS e | Inr x \<Rightarrow> returnS x)"

text \<open>\<^verbatim>\<open>if c: raise e\<close>.\<close>

definition guardS :: "bool \<Rightarrow> exn \<Rightarrow> (unit, 's) prog" where
  "guardS c e = (if c then raiseS e else returnS ())"

abbreviation thenS :: "(unit, 's) prog \<Rightarrow> ('b, 's) prog \<Rightarrow> ('b, 's) prog" where
  "thenS m k \<equiv> bindS m (\<lambda>_. k)"

lemma run_returnS [simp]: "returnS x s = (Ret x, s)"
  by (simp add: returnS_def)

lemma run_raiseS [simp]: "raiseS e s = (Raise e, s)"
  by (simp add: raiseS_def)

lemma run_getS [simp]: "getS f s = (Ret (f s), s)"
  by (simp add: getS_def)

lemma run_modifyS [simp]: "modifyS f s = (Ret (), f s)"
  by (simp add: modifyS_def)

lemma run_liftS [simp]: "liftS (Inl e) s = (Raise e, s)" "liftS (Inr x) s = (Ret x, s)"
  by (simp_all add: liftS_def)

lemma run_guardS [simp]: "guardS c e s = (if c then (Raise e, s) else (Ret (), s))"
  by (simp add: guardS_def)

section \<open>Runs that return\<close>

lemma bindS_Ret [prog_simps]:
  "bindS m f s = (Ret y, s') \<longleftrightarrow> (\<exists>x s1. m s = (Ret x, s1) \<and> f x s1 = (Ret y, s'))"
  by (auto simp: bindS_def split: prod.splits outcome.splits)

lemma finallyS_Ret [prog_simps]:
  "finallyS m f s = (Ret y, s') \<longleftrightarrow> (\<exists>s1. m s = (Ret y, s1) \<and> f s1 = (Ret (), s'))"
  by (auto simp: finallyS_def bindS_def split: prod.splits outcome.splits)

lemma exceptS_Ret [prog_simps]:
  "exceptS m h s = (Ret y, s') \<longleftrightarrow>
     m s = (Ret y, s') \<or> (\<exists>e s1. m s = (Raise e, s1) \<and> h e s1 = (Ret y, s'))"
  by (auto simp: exceptS_def split: prod.splits outcome.splits)

lemma liftS_Ret [prog_simps]: "liftS r s = (Ret x, s') \<longleftrightarrow> r = Inr x \<and> s' = s"
  by (cases r) auto

lemma guardS_Ret [prog_simps]: "guardS c e s = (Ret x, s') \<longleftrightarrow> \<not> c \<and> s' = s"
  by auto

section \<open>Reasoning about runs\<close>

text \<open>\<open>always m Q s\<close>: whatever the outcome of \<open>m\<close> from \<open>s\<close>, it satisfies \<open>Q\<close>.\<close>

definition always :: "('a, 's) prog \<Rightarrow> ('a outcome \<Rightarrow> 's \<Rightarrow> bool) \<Rightarrow> 's \<Rightarrow> bool" where
  "always m Q s \<longleftrightarrow> Q (fst (m s)) (snd (m s))"

lemma always_returnS [simp]: "always (returnS x) Q s \<longleftrightarrow> Q (Ret x) s"
  by (simp add: always_def)

lemma always_raiseS [simp]: "always (raiseS e) Q s \<longleftrightarrow> Q (Raise e) s"
  by (simp add: always_def)

lemma always_getS [simp]: "always (getS f) Q s \<longleftrightarrow> Q (Ret (f s)) s"
  by (simp add: always_def)

lemma always_modifyS [simp]: "always (modifyS f) Q s \<longleftrightarrow> Q (Ret ()) (f s)"
  by (simp add: always_def)

lemma always_guardS [simp]: "always (guardS c e) Q s \<longleftrightarrow> (if c then Q (Raise e) s else Q (Ret ()) s)"
  by (simp add: always_def)

lemma always_liftS [simp]:
  "always (liftS r) Q s \<longleftrightarrow> (case r of Inl e \<Rightarrow> Q (Raise e) s | Inr x \<Rightarrow> Q (Ret x) s)"
  by (cases r) (simp_all add: always_def)

lemma always_bindS [simp]:
  "always (bindS m f) Q s \<longleftrightarrow>
     always m (\<lambda>r s'. case r of
                 Ret x \<Rightarrow> always (f x) Q s' | Raise e \<Rightarrow> Q (Raise e) s' | Killed \<Rightarrow> Q Killed s') s"
  by (simp add: always_def bindS_def split: prod.split outcome.split)

lemma always_exceptS [simp]:
  "always (exceptS m h) Q s \<longleftrightarrow>
     always m (\<lambda>r s'. case r of
                 Ret x \<Rightarrow> Q (Ret x) s' | Raise e \<Rightarrow> always (h e) Q s' | Killed \<Rightarrow> Q Killed s') s"
  by (simp add: always_def exceptS_def split: prod.split outcome.split)

lemma always_finallyS [simp]:
  "always (finallyS m f) Q s \<longleftrightarrow>
     always m (\<lambda>r s'. case r of
                 Killed \<Rightarrow> Q Killed s'
               | _ \<Rightarrow> always f (\<lambda>r' s''. case r' of
                          Ret _ \<Rightarrow> Q r s'' | Raise e \<Rightarrow> Q (Raise e) s'' | Killed \<Rightarrow> Q Killed s'') s') s"
  by (simp add: always_def finallyS_def bindS_def split: prod.split outcome.split)

lemma always_mono:
  assumes "always m Q s" and "\<And>r s'. Q r s' \<Longrightarrow> R r s'"
  shows "always m R s"
  using assms by (simp add: always_def)

lemma always_conj: "always m Q s \<Longrightarrow> always m R s \<Longrightarrow> always m (\<lambda>r s'. Q r s' \<and> R r s') s"
  by (simp add: always_def)

lemma alwaysD: "always m Q s \<Longrightarrow> m s = (r, s') \<Longrightarrow> Q r s'"
  by (simp add: always_def)

end
