(* ===== verification/Atomic_Write.thy ===== *)
theory Atomic_Write
  imports Py_State
begin

text \<open>
  Storage of \<^verbatim>\<open>container.py\<close>: staging a file beside its target, installing it by
  rename or by link, synchronising the directory, and restoring the previous
  content when that fails.  Every system call may fail, may find that another
  process changed the directory, or may never return because the process is
  killed; the fault of each call is taken from a list in the state.
\<close>

section \<open>The directory\<close>

text \<open>The names of one directory, the content of the files by inode number, the inodes
  whose data was synchronised, and the names as of the last synchronisation of the
  directory.  A temporary name is fresh: it carries the number of its inode.\<close>

datatype fname = Path pystr | Temp nat

record files =
  fs_names :: "fname \<rightharpoonup> nat"
  fs_data :: "nat \<Rightarrow> bytes"
  fs_next :: nat
  fs_synced :: "nat set"
  fs_dir :: "fname \<rightharpoonup> nat"

datatype fault = NoFault | Fault exn | Interfere "files \<Rightarrow> files" | Kill

record disk =
  dk_files :: files
  dk_faults :: "fault list"

definition content :: "files \<Rightarrow> fname \<Rightarrow> bytes option" where
  "content fs p = map_option (fs_data fs) (fs_names fs p)"

section \<open>System calls\<close>

definition next_fault :: "'x disk_scheme \<Rightarrow> fault" where
  "next_fault w = (case dk_faults w of [] \<Rightarrow> NoFault | f # _ \<Rightarrow> f)"

definition drop_fault :: "'x disk_scheme \<Rightarrow> 'x disk_scheme" where
  "drop_fault w = w\<lparr>dk_faults := tl (dk_faults w)\<rparr>"

text \<open>A call that the directory serves: \<open>op\<close> gives its result and the new directory.\<close>

definition syscall :: "(files \<Rightarrow> 'a res \<times> files) \<Rightarrow> ('a, 'x disk_scheme) prog" where
  "syscall op w =
     (let w' = drop_fault w;
          run = (\<lambda>fs. (case op fs of
                          (Inl e, fs') \<Rightarrow> (Raise e, w'\<lparr>dk_files := fs'\<rparr>)
                        | (Inr x, fs') \<Rightarrow> (Ret x, w'\<lparr>dk_files := fs'\<rparr>)))
      in (case next_fault w of
            NoFault \<Rightarrow> run (dk_files w)
          | Interfere g \<Rightarrow> run (g (dk_files w))
          | Fault e \<Rightarrow> (Raise e, w')
          | Kill \<Rightarrow> (Killed, w')))"

text \<open>A call without effect on the model: \<^verbatim>\<open>fchmod\<close>, \<^verbatim>\<open>fdopen\<close>, \<^verbatim>\<open>flush\<close>, \<^verbatim>\<open>open\<close>, \<^verbatim>\<open>close\<close>.\<close>

definition os_nop :: "files \<Rightarrow> unit res \<times> files" where
  "os_nop fs = (Inr (), fs)"

definition os_mkstemp :: "files \<Rightarrow> (fname \<times> nat) res \<times> files" where
  "os_mkstemp fs =
     (let n = fs_next fs in
      (Inr (Temp n, n),
       fs\<lparr>fs_names := (fs_names fs)(Temp n \<mapsto> n), fs_data := (fs_data fs)(n := []),
          fs_next := Suc n, fs_synced := fs_synced fs - {n}\<rparr>))"

definition os_write :: "nat \<Rightarrow> bytes \<Rightarrow> files \<Rightarrow> unit res \<times> files" where
  "os_write ino data fs =
     (Inr (), fs\<lparr>fs_data := (fs_data fs)(ino := data), fs_synced := fs_synced fs - {ino}\<rparr>)"

definition os_fsync :: "nat \<Rightarrow> files \<Rightarrow> unit res \<times> files" where
  "os_fsync ino fs = (Inr (), fs\<lparr>fs_synced := insert ino (fs_synced fs)\<rparr>)"

definition os_replace :: "fname \<Rightarrow> fname \<Rightarrow> files \<Rightarrow> unit res \<times> files" where
  "os_replace src dst fs =
     (case fs_names fs src of
        None \<Rightarrow> (Inl PyFileNotFoundError, fs)
      | Some ino \<Rightarrow> (Inr (), fs\<lparr>fs_names := (fs_names fs)(src := None, dst \<mapsto> ino)\<rparr>))"

definition os_link :: "fname \<Rightarrow> fname \<Rightarrow> files \<Rightarrow> unit res \<times> files" where
  "os_link src dst fs =
     (if fs_names fs dst \<noteq> None then (Inl PyFileExistsError, fs)
      else
        (case fs_names fs src of
           None \<Rightarrow> (Inl PyFileNotFoundError, fs)
         | Some ino \<Rightarrow> (Inr (), fs\<lparr>fs_names := (fs_names fs)(dst \<mapsto> ino)\<rparr>)))"

definition os_unlink :: "fname \<Rightarrow> files \<Rightarrow> unit res \<times> files" where
  "os_unlink p fs =
     (case fs_names fs p of
        None \<Rightarrow> (Inl PyFileNotFoundError, fs)
      | Some _ \<Rightarrow> (Inr (), fs\<lparr>fs_names := (fs_names fs)(p := None)\<rparr>))"

definition os_lstat :: "fname \<Rightarrow> files \<Rightarrow> nat res \<times> files" where
  "os_lstat p fs =
     (case fs_names fs p of None \<Rightarrow> (Inl PyFileNotFoundError, fs) | Some ino \<Rightarrow> (Inr ino, fs))"

definition os_samefile :: "fname \<Rightarrow> fname \<Rightarrow> files \<Rightarrow> bool res \<times> files" where
  "os_samefile p q fs =
     (case (fs_names fs p, fs_names fs q) of
        (Some i, Some j) \<Rightarrow> (Inr (i = j), fs)
      | _ \<Rightarrow> (Inl PyFileNotFoundError, fs))"

definition os_read_bytes :: "fname \<Rightarrow> files \<Rightarrow> bytes res \<times> files" where
  "os_read_bytes p fs =
     (case content fs p of None \<Rightarrow> (Inl PyFileNotFoundError, fs) | Some b \<Rightarrow> (Inr b, fs))"

definition os_exists :: "fname \<Rightarrow> files \<Rightarrow> bool res \<times> files" where
  "os_exists p fs = (Inr (fs_names fs p \<noteq> None), fs)"

definition os_fsync_dir :: "files \<Rightarrow> unit res \<times> files" where
  "os_fsync_dir fs = (Inr (), fs\<lparr>fs_dir := fs_names fs\<rparr>)"

section \<open>Exception classes\<close>

definition is_os_error :: "exn \<Rightarrow> bool" where
  "is_os_error e \<longleftrightarrow> e \<in> {PyOSError, PyFileNotFoundError, PyFileExistsError}"

definition is_value_error :: "exn \<Rightarrow> bool" where
  "is_value_error e \<longleftrightarrow> e \<in> {PyValueError, PyUnicodeError, PyJSONDecodeError}"

definition is_wallet_error :: "exn \<Rightarrow> bool" where
  "is_wallet_error e \<longleftrightarrow>
     e \<in> {WalletError, WalletLockedError, PasswordPolicyError, UnlockFailed, InvalidContainer,
          UnsupportedFormat, StorageFailure, StorageOutcomeUnknown, RotationInProgress}"

section \<open>Staging a file\<close>

definition fsync_directory :: "(unit, 'x disk_scheme) prog" where
  "fsync_directory =
     bindS (syscall os_nop) (\<lambda>_.
     finallyS (syscall os_fsync_dir) (syscall os_nop))"

text \<open>The local variables of \<^verbatim>\<open>_stage_file\<close> that its \<^verbatim>\<open>finally\<close> block reads.\<close>

record stage =
  sg_temporary_path :: "fname option"
  sg_fd :: bool
  sg_linked_target :: bool

definition on_disk :: "('a, 's) prog \<Rightarrow> ('a, 's \<times> stage) prog" where
  "on_disk m = (\<lambda>(w, l). case m w of (r, w') \<Rightarrow> (r, (w', l)))"

definition set_local :: "(stage \<Rightarrow> stage) \<Rightarrow> (unit, 's \<times> stage) prog" where
  "set_local f = modifyS (\<lambda>(w, l). (w, f l))"

definition ignore_os_error :: "(unit, 's) prog \<Rightarrow> (unit, 's) prog" where
  "ignore_os_error m = exceptS m (\<lambda>e. if is_os_error e then returnS () else raiseS e)"

text \<open>The first part of the \<^verbatim>\<open>try\<close> block: a temporary file with the data on disk.\<close>

definition fill_temporary :: "nat \<Rightarrow> bytes \<Rightarrow> (unit, 'x disk_scheme \<times> stage) prog" where
  "fill_temporary ino data =
     thenS (on_disk (syscall os_nop))
     (thenS (on_disk (syscall os_nop))
     (thenS (set_local (\<lambda>l. l\<lparr>sg_fd := False\<rparr>))
     (thenS (on_disk (syscall (os_write ino data)))
     (thenS (on_disk (syscall os_nop))
     (thenS (on_disk (syscall (os_fsync ino)))
     (thenS (on_disk (syscall os_nop))
     (on_disk (syscall os_nop))))))))"

definition stage_temporary :: "bytes \<Rightarrow> (fname \<times> nat, 'x disk_scheme \<times> stage) prog" where
  "stage_temporary data =
     bindS (on_disk (syscall os_mkstemp)) (\<lambda>(name, ino).
     thenS (set_local (\<lambda>l. l\<lparr>sg_temporary_path := Some name, sg_fd := True\<rparr>))
     (thenS (fill_temporary ino data)
     (returnS (name, ino))))"

text \<open>The second part: installing it under the target name.\<close>

definition stage_install ::
    "fname \<Rightarrow> bool \<Rightarrow> fname \<Rightarrow> (unit, 'x disk_scheme \<times> stage) prog" where
  "stage_install path replace name =
     (if replace then
        thenS (on_disk (syscall (os_replace name path)))
          (set_local (\<lambda>l. l\<lparr>sg_temporary_path := None\<rparr>))
      else
        thenS (on_disk (syscall (os_link name path)))
        (thenS (set_local (\<lambda>l. l\<lparr>sg_linked_target := True\<rparr>))
        (thenS (on_disk (syscall (os_unlink name)))
          (set_local (\<lambda>l. l\<lparr>sg_temporary_path := None, sg_linked_target := False\<rparr>)))))"

text \<open>The \<^verbatim>\<open>finally\<close> block, by the local variables it finds.\<close>

definition cleanup_stage :: "fname \<Rightarrow> stage \<Rightarrow> (unit, 'x disk_scheme \<times> stage) prog" where
  "cleanup_stage path l =
     thenS (if sg_fd l then ignore_os_error (on_disk (syscall os_nop)) else returnS ())
     (case sg_temporary_path l of
        None \<Rightarrow> returnS ()
      | Some name \<Rightarrow>
          thenS
            (if sg_linked_target l then
               ignore_os_error
                 (bindS (on_disk (syscall (os_samefile name path))) (\<lambda>same.
                  if same then on_disk (syscall (os_unlink path)) else returnS ()))
             else returnS ())
            (ignore_os_error (on_disk (syscall (os_unlink name)))))"

definition stage_cleanup :: "fname \<Rightarrow> (unit, 'x disk_scheme \<times> stage) prog" where
  "stage_cleanup path = bindS (getS snd) (cleanup_stage path)"

definition stage_body ::
    "fname \<Rightarrow> bytes \<Rightarrow> bool \<Rightarrow> (nat, 'x disk_scheme \<times> stage) prog" where
  "stage_body path data replace =
     bindS (stage_temporary data) (\<lambda>(name, ino).
     thenS (stage_install path replace name) (returnS ino))"

definition no_stage :: stage where
  "no_stage = \<lparr>sg_temporary_path = None, sg_fd = False, sg_linked_target = False\<rparr>"

definition stage_file :: "fname \<Rightarrow> bytes \<Rightarrow> bool \<Rightarrow> (nat, 'x disk_scheme) prog" where
  "stage_file path data replace w =
     (case finallyS (stage_body path data replace) (stage_cleanup path) (w, no_stage) of
        (r, (w', _)) \<Rightarrow> (r, w'))"

section \<open>Writing atomically\<close>

text \<open>\<^verbatim>\<open>path.read_bytes()\<close>, with \<^verbatim>\<open>None\<close> for a missing file.\<close>

definition read_or_none :: "fname \<Rightarrow> (bytes option, 'x disk_scheme) prog" where
  "read_or_none path =
     exceptS (bindS (syscall (os_read_bytes path)) (\<lambda>b. returnS (Some b)))
       (\<lambda>e. if e = PyFileNotFoundError then returnS None else raiseS e)"

text \<open>\<open>false_on_os_error m\<close> is \<^verbatim>\<open>try: m except OSError: return False\<close>.\<close>

definition false_on_os_error :: "(bool, 's) prog \<Rightarrow> (bool, 's) prog" where
  "false_on_os_error m = exceptS m (\<lambda>e. if is_os_error e then returnS False else raiseS e)"

text \<open>The first statement of \<^verbatim>\<open>_restore_previous_after_failed_sync\<close>: \<open>False\<close> is an early
  return of \<^verbatim>\<open>False\<close>.\<close>

definition undo_install :: "fname \<Rightarrow> bytes option \<Rightarrow> nat \<Rightarrow> (bool, 'x disk_scheme) prog" where
  "undo_install path previous installed =
     bindS
       (exceptS (bindS (syscall (os_lstat path)) (\<lambda>ino. returnS (Inr ino)))
          (\<lambda>e. if e = PyFileNotFoundError then returnS (Inl (previous = None))
               else if is_os_error e then returnS (Inl False) else raiseS e))
       (\<lambda>found.
        (case found of
           Inl go \<Rightarrow> returnS go
         | Inr ino \<Rightarrow>
             if ino \<noteq> installed then returnS False
             else
               exceptS
                 (thenS
                    (case previous of
                       None \<Rightarrow> syscall (os_unlink path)
                     | Some data \<Rightarrow> bindS (stage_file path data True) (\<lambda>_. returnS ()))
                    (returnS True))
                 (\<lambda>e. if e = PyFileNotFoundError then returnS (previous = None)
                      else if is_os_error e \<or> is_value_error e \<or> is_wallet_error e
                        then returnS True
                      else raiseS e)))"

definition restore_previous_after_failed_sync ::
    "fname \<Rightarrow> bytes option \<Rightarrow> nat \<Rightarrow> (bool, 'x disk_scheme) prog" where
  "restore_previous_after_failed_sync path previous installed =
     bindS (undo_install path previous installed) (\<lambda>go.
     if \<not> go then returnS False
     else
       false_on_os_error
         (bindS (read_or_none path) (\<lambda>current.
          if current \<noteq> previous then returnS False
          else
            thenS fsync_directory
            (bindS (read_or_none path) (\<lambda>current. returnS (current = previous))))))"

text \<open>\<^verbatim>\<open>path.exists()\<close> answers \<^verbatim>\<open>False\<close> for a missing file or an unusable name and
  raises any other error.\<close>

definition path_exists :: "fname \<Rightarrow> (bool, 'x disk_scheme) prog" where
  "path_exists path =
     exceptS (syscall (os_exists path))
       (\<lambda>e. if e = PyFileNotFoundError \<or> is_value_error e then returnS False else raiseS e)"

definition previous_content :: "fname \<Rightarrow> bool \<Rightarrow> (bytes option, 'x disk_scheme) prog" where
  "previous_content path replace =
     bindS (if replace then path_exists path else returnS False) (\<lambda>there.
     if there then
       exceptS (bindS (syscall (os_read_bytes path)) (\<lambda>b. returnS (Some b)))
         (\<lambda>e. if is_os_error e then raiseS StorageFailure else raiseS e)
     else returnS None)"

definition atomic_write :: "fname \<Rightarrow> bytes \<Rightarrow> bool \<Rightarrow> (unit, 'x disk_scheme) prog" where
  "atomic_write path data replace =
     bindS (previous_content path replace) (\<lambda>previous.
     exceptS
       (bindS (stage_file path data replace) (\<lambda>installed.
        exceptS fsync_directory
          (\<lambda>e. if is_os_error e then
                 bindS (restore_previous_after_failed_sync path previous installed) (\<lambda>ok.
                 raiseS (if ok then StorageFailure else StorageOutcomeUnknown))
               else raiseS e)))
       (\<lambda>e. if is_wallet_error e then raiseS e
            else if is_os_error e \<or> is_value_error e then raiseS StorageFailure
            else raiseS e))"

end
