(* ===== verification/World.thy ===== *)
theory World
  imports Atomic_Write Rotation_Latch Signer
begin

text \<open>
  The state of the process that wallet sessions share: the disk with its
  faults, the clocks and the random source as streams, the bytearrays that
  hold secrets, the module tables of \<^verbatim>\<open>container.py\<close> and \<^verbatim>\<open>signer.py\<close>, the sessions
  and the rotation latches.
\<close>

text \<open>An unlocked or locked session.  The handle of its secrets is its index; \<open>wa_dek\<close> is
  the address of the data-encryption key, \<open>None\<close> once the session is locked.\<close>

record wallet =
  wa_path :: pystr
  wa_dek :: "nat option"
  wa_payload :: pydict
  wa_envelope :: pydict
  wa_capabilities :: "nat list"
  wa_inactivity_seconds :: rat
  wa_last_activity :: rat

record world = disk +
  w_random :: "nat \<Rightarrow> nat \<Rightarrow> bytes"
  w_draws :: nat
  w_approved_csrng :: bool
  w_monotonic :: "nat \<Rightarrow> rat"
  w_time :: "nat \<Rightarrow> int"
  w_ticks :: nat
  w_recursion_limit :: nat
  w_bufs :: "bytes list"
  w_auth_failures :: "pystr \<rightharpoonup> nat"
  w_sleeps :: "rat list"
  w_wallet_secrets :: "nat \<rightharpoonup> nat"
  w_pending_secrets :: "nat \<rightharpoonup> nat"
  w_signer :: signer_state
  w_wallets :: "wallet list"
  w_rotation :: rotation_state

text \<open>\<^verbatim>\<open>secrets.token_bytes(n)\<close>: the random source is a stream of answers.\<close>

definition token_bytes :: "nat \<Rightarrow> (bytes, world) prog" where
  "token_bytes n w = (Ret (w_random w (w_draws w) n), w\<lparr>w_draws := Suc (w_draws w)\<rparr>)"

text \<open>\<^verbatim>\<open>time.monotonic()\<close> and \<^verbatim>\<open>int(time.time())\<close>.\<close>

definition monotonic_now :: "(rat, world) prog" where
  "monotonic_now w = (Ret (w_monotonic w (w_ticks w)), w\<lparr>w_ticks := Suc (w_ticks w)\<rparr>)"

definition time_now :: "(int, world) prog" where
  "time_now w = (Ret (w_time w (w_ticks w)), w\<lparr>w_ticks := Suc (w_ticks w)\<rparr>)"

section \<open>Bytearrays\<close>

definition new_buffer :: "bytes \<Rightarrow> (nat, world) prog" where
  "new_buffer b w = (Ret (length (w_bufs w)), w\<lparr>w_bufs := w_bufs w @ [b]\<rparr>)"

definition read_buffer :: "nat \<Rightarrow> (bytes, world) prog" where
  "read_buffer a = getS (\<lambda>w. w_bufs w ! a)"

definition wipe_buffer :: "nat \<Rightarrow> (unit, world) prog" where
  "wipe_buffer a =
     modifyS (\<lambda>w. w\<lparr>w_bufs := (w_bufs w)[a := zero_bytes (length (w_bufs w ! a))]\<rparr>)"

text \<open>\<^verbatim>\<open>_wipe\<close> on a variable that may be \<^verbatim>\<open>None\<close>.\<close>

definition wipe_option :: "nat option \<Rightarrow> (unit, world) prog" where
  "wipe_option a = (case a of None \<Rightarrow> returnS () | Some b \<Rightarrow> wipe_buffer b)"

lemma run_token_bytes [simp]:
  "token_bytes n w = (Ret (w_random w (w_draws w) n), w\<lparr>w_draws := Suc (w_draws w)\<rparr>)"
  by (simp add: token_bytes_def)

lemma run_new_buffer [simp]:
  "new_buffer b w = (Ret (length (w_bufs w)), w\<lparr>w_bufs := w_bufs w @ [b]\<rparr>)"
  by (simp add: new_buffer_def)

lemma run_read_buffer [simp]: "read_buffer a w = (Ret (w_bufs w ! a), w)"
  by (simp add: read_buffer_def)

lemma run_wipe_buffer [simp]:
  "wipe_buffer a w = (Ret (), w\<lparr>w_bufs := (w_bufs w)[a := zero_bytes (length (w_bufs w ! a))]\<rparr>)"
  by (simp add: wipe_buffer_def)

end
