(* ===== verification/Py_Json.thy ===== *)
theory Py_Json
  imports Payload_Codec Complex_Main
begin

text \<open>
  The JSON module of the Python standard library as \<^verbatim>\<open>container.py\<close> uses it:
  \<^verbatim>\<open>json.dumps\<close> with sorted keys, compact separators, unescaped non-ASCII text and
  no NaN, and \<^verbatim>\<open>json.loads\<close> with its default hooks.  A reader that meets more
  nested arrays and objects than the interpreter's recursion limit raises
  \<^verbatim>\<open>RecursionError\<close>, and an integer of more than 4300 digits raises a plain
  \<^verbatim>\<open>ValueError\<close>.  The round trip is \<open>json_loads_dumps\<close>.
\<close>

section \<open>Numerals\<close>

fun show_nat :: "nat \<Rightarrow> pystr" where
  "show_nat n = (if n < 10 then [48 + n] else show_nat (n div 10) @ [48 + n mod 10])"

declare show_nat.simps [simp del]

definition show_int :: "int \<Rightarrow> pystr" where
  "show_int i = (if i < 0 then 45 # show_nat (nat (- i)) else show_nat (nat i))"

definition is_digit :: "nat \<Rightarrow> bool" where
  "is_digit c \<longleftrightarrow> 48 \<le> c \<and> c \<le> 57"

definition digits_value :: "pystr \<Rightarrow> nat" where
  "digits_value s = foldl (\<lambda>n c. 10 * n + (c - 48)) 0 s"

definition MAX_INT_DIGITS :: nat where
  "MAX_INT_DIGITS = 4300"

section \<open>Writing\<close>

definition hex_digit :: "nat \<Rightarrow> nat" where
  "hex_digit d = (if d < 10 then 48 + d else 87 + d)"

text \<open>\<^verbatim>\<open>bytes.hex\<close>.\<close>

definition bytes_hex :: "bytes \<Rightarrow> pystr" where
  "bytes_hex b = concat (map (\<lambda>x. [hex_digit (unat x div 16), hex_digit (unat x mod 16)]) b)"

definition json_escape :: "nat \<Rightarrow> pystr" where
  "json_escape c =
     (if c = 34 then [92, 34] else if c = 92 then [92, 92]
      else if c = 8 then [92, 98] else if c = 9 then [92, 116]
      else if c = 10 then [92, 110] else if c = 12 then [92, 102]
      else if c = 13 then [92, 114]
      else if c < 32 then [92, 117, 48, 48, hex_digit (c div 16), hex_digit (c mod 16)]
      else [c])"

definition json_string :: "pystr \<Rightarrow> pystr" where
  "json_string s = 34 # concat (map json_escape s) @ [34]"

fun join_comma :: "pystr list \<Rightarrow> pystr" where
  "join_comma [] = []"
| "join_comma [x] = x"
| "join_comma (x # xs) = x @ 44 # join_comma xs"

text \<open>\<^verbatim>\<open>json.dumps\<close>; the dictionaries that the code passes have text keys.\<close>

function (sequential) json_dumps :: "pyval \<Rightarrow> pystr res" where
  "json_dumps PyNone = Inr (str_of ''null'')"
| "json_dumps (PyBool b) = Inr (if b then str_of ''true'' else str_of ''false'')"
| "json_dumps (PyInt i) =
     raise_if (length (show_nat (nat \<bar>i\<bar>)) > MAX_INT_DIGITS) PyValueError (Inr (show_int i))"
| "json_dumps (PyFloat t) =
     raise_if (t \<in> {str_of ''nan'', str_of ''inf'', str_of ''-inf''}) PyValueError (Inr t)"
| "json_dumps (PyStr s) = Inr (json_string s)"
| "json_dumps (PyList xs) =
     bindE (mapE json_dumps xs) (\<lambda>ts. Inr (91 # join_comma ts @ [93]))"
| "json_dumps (PyDict d) =
     bindE (mapE (\<lambda>kv. bindE (json_dumps (snd kv)) (\<lambda>t.
               (case fst kv of
                  PyStr k \<Rightarrow> Inr (k, json_string k @ 58 # t)
                | _ \<Rightarrow> Inl PyTypeError))) d)
       (\<lambda>items. Inr (123 # join_comma (map snd (sort_key fst items)) @ [125]))"
| "json_dumps _ = Inl PyTypeError"
  by pat_completeness auto

termination json_dumps
  by (relation "measure size") (auto dest: size_snd_dict size_elem_list)

section \<open>Reading\<close>

definition is_ws :: "nat \<Rightarrow> bool" where
  "is_ws c \<longleftrightarrow> c = 32 \<or> c = 9 \<or> c = 10 \<or> c = 13"

definition skip_ws :: "pystr \<Rightarrow> pystr" where
  "skip_ws s = dropWhile is_ws s"

definition hex_value :: "nat \<Rightarrow> nat option" where
  "hex_value c =
     (if 48 \<le> c \<and> c \<le> 57 then Some (c - 48)
      else if 97 \<le> c \<and> c \<le> 102 then Some (c - 87)
      else if 65 \<le> c \<and> c \<le> 70 then Some (c - 55) else None)"

definition hex4 :: "nat \<Rightarrow> nat \<Rightarrow> nat \<Rightarrow> nat \<Rightarrow> nat option" where
  "hex4 a b c d =
     (case (hex_value a, hex_value b, hex_value c, hex_value d) of
        (Some w, Some x, Some y, Some z) \<Rightarrow> Some (4096 * w + 256 * x + 16 * y + z)
      | _ \<Rightarrow> None)"

definition simple_escape :: "nat \<Rightarrow> nat option" where
  "simple_escape c =
     (if c = 34 then Some 34 else if c = 92 then Some 92 else if c = 47 then Some 47
      else if c = 98 then Some 8 else if c = 102 then Some 12 else if c = 110 then Some 10
      else if c = 114 then Some 13 else if c = 116 then Some 9 else None)"

text \<open>\<open>scan_escape\<close> reads what follows a backslash: the character and the rest.  A high
  surrogate followed by an escaped low surrogate is one character.\<close>

definition low_surrogate :: "pystr \<Rightarrow> (nat \<times> pystr) option" where
  "low_surrogate s =
     (case s of
        b # u # e # f # g # h # r \<Rightarrow>
          if b = 92 \<and> u = 117 then
            (case hex4 e f g h of
               Some x \<Rightarrow> if 0xDC00 \<le> x \<and> x \<le> 0xDFFF then Some (x, r) else None
             | None \<Rightarrow> None)
          else None
      | _ \<Rightarrow> None)"

definition scan_escape :: "pystr \<Rightarrow> (nat \<times> pystr) option" where
  "scan_escape s =
     (case s of
        [] \<Rightarrow> None
      | k # r \<Rightarrow>
          if k = 117 then
            (case r of
               a # b # c # d # r' \<Rightarrow>
                 (case hex4 a b c d of
                    None \<Rightarrow> None
                  | Some x \<Rightarrow>
                      if 0xD800 \<le> x \<and> x \<le> 0xDBFF then
                        (case low_surrogate r' of
                           Some (y, r'') \<Rightarrow>
                             Some (0x10000 + ((x - 0xD800) * 1024 + (y - 0xDC00)), r'')
                         | None \<Rightarrow> Some (x, r'))
                      else Some (x, r'))
             | _ \<Rightarrow> None)
          else map_option (\<lambda>c. (c, r)) (simple_escape k))"

lemma low_surrogate_length: "low_surrogate s = Some (x, r) \<Longrightarrow> length r < length s"
  by (auto simp: low_surrogate_def split: list.splits if_splits option.splits)

lemma scan_escape_length: "scan_escape s = Some (x, r) \<Longrightarrow> length r < length s"
  by (fastforce simp: scan_escape_def split: list.splits if_splits option.splits
      dest: low_surrogate_length)

text \<open>The characters up to the closing quote, and the rest.\<close>

function (sequential) scan_string :: "pystr \<Rightarrow> (pystr \<times> pystr) option" where
  "scan_string [] = None"
| "scan_string (c # r) =
     (if c = 34 then Some ([], r)
      else if c = 92 then
        (case scan_escape r of
           None \<Rightarrow> None
         | Some (x, r') \<Rightarrow> map_option (\<lambda>(s, r''). (x # s, r'')) (scan_string r'))
      else if c < 32 then None
      else map_option (\<lambda>(s, r'). (c # s, r')) (scan_string r))"
  by pat_completeness auto

termination scan_string
  by (relation "measure length") (auto dest!: scan_escape_length [OF sym] scan_escape_length)

text \<open>A float literal of integral value below \<open>2 ^ 52\<close> becomes the text that Python
  prints for it; any other keeps the text of its source.  The double nearest to \<open>x\<close> is
  \<open>n\<close> when \<open>x\<close> is at most half the distance to the next double away from \<open>n\<close>.\<close>

definition log2_floor :: "nat \<Rightarrow> nat" where
  "log2_floor n = length (takeWhile (\<lambda>k. 2 ^ k \<le> n) [1..<53])"

definition rounds_to :: "rat \<Rightarrow> nat \<Rightarrow> bool" where
  "rounds_to x n \<longleftrightarrow>
     (let up = 2 ^ log2_floor n / 2 ^ 53;
          down = (if 2 ^ log2_floor n = n then up / 2 else up)
      in 0 < n \<and> n < 2 ^ 52 \<and> of_nat n - down \<le> x \<and> x \<le> of_nat n + up)"

definition float_text :: "rat \<Rightarrow> bool \<Rightarrow> pystr \<Rightarrow> pystr" where
  "float_text x negative t =
     (if x = 0 then (if negative then str_of ''-0.0'' else str_of ''0.0'')
      else
        (let n = nat (round x)
         in if rounds_to x n then (if negative then [45] else []) @ show_nat n @ [46, 48] else t))"

text \<open>The optional fraction and exponent of a number: their digits and the rest.\<close>

definition scan_fraction :: "pystr \<Rightarrow> pystr \<times> pystr" where
  "scan_fraction s =
     (case s of
        c # d # r \<Rightarrow>
          if c = 46 \<and> is_digit d then (takeWhile is_digit (d # r), dropWhile is_digit (d # r))
          else ([], s)
      | _ \<Rightarrow> ([], s))"

definition scan_exponent :: "pystr \<Rightarrow> int option \<times> pystr" where
  "scan_exponent s =
     (case s of
        c # r \<Rightarrow>
          if c = 101 \<or> c = 69 then
            (let minus = (r \<noteq> [] \<and> hd r = 45);
                 r' = (if r \<noteq> [] \<and> (hd r = 45 \<or> hd r = 43) then tl r else r);
                 ds = takeWhile is_digit r'
             in if ds = [] then (None, s)
                else (Some ((if minus then -1 else 1) * int (digits_value ds)), dropWhile is_digit r'))
          else (None, s)
      | [] \<Rightarrow> (None, s))"

definition float_rat :: "pystr \<Rightarrow> pystr \<Rightarrow> int \<Rightarrow> rat" where
  "float_rat ds fs e =
     (let m = of_nat (digits_value (ds @ fs)); k = e - int (length fs)
      in if 0 \<le> k then m * 10 ^ nat k else m / 10 ^ nat (- k))"

definition int_digits :: "pystr \<Rightarrow> pystr \<times> pystr" where
  "int_digits s =
     (case s of
        [] \<Rightarrow> ([], [])
      | c # r \<Rightarrow> if c = 48 then ([c], r) else (takeWhile is_digit s, dropWhile is_digit s))"

definition scan_number :: "pystr \<Rightarrow> (pyval \<times> pystr) res" where
  "scan_number s =
     (let negative = (s \<noteq> [] \<and> hd s = 45);
          (ds, r1) = int_digits (if negative then tl s else s);
          (fs, r2) = scan_fraction r1;
          (e, r3) = scan_exponent r2
      in
      raise_if (ds = []) PyJSONDecodeError
      (if fs = [] \<and> e = None then
         raise_if (length ds > MAX_INT_DIGITS) PyValueError
           (Inr (PyInt (if negative then - int (digits_value ds) else int (digits_value ds)), r1))
       else
         Inr (PyFloat (float_text (float_rat ds fs (case e of None \<Rightarrow> 0 | Some k \<Rightarrow> k)) negative
                        (take (length s - length r3) s)), r3)))"

definition strip_prefix :: "string \<Rightarrow> pystr \<Rightarrow> pystr option" where
  "strip_prefix p s =
     (if take (length p) s = str_of p then Some (drop (length p) s) else None)"

text \<open>The values that are not strings, arrays or objects.\<close>

definition scan_scalar :: "pystr \<Rightarrow> (pyval \<times> pystr) res" where
  "scan_scalar s =
     (case strip_prefix ''null'' s of Some r \<Rightarrow> Inr (PyNone, r) | None \<Rightarrow>
     (case strip_prefix ''true'' s of Some r \<Rightarrow> Inr (PyBool True, r) | None \<Rightarrow>
     (case strip_prefix ''false'' s of Some r \<Rightarrow> Inr (PyBool False, r) | None \<Rightarrow>
     (case strip_prefix ''NaN'' s of Some r \<Rightarrow> Inr (PyFloat (str_of ''nan''), r) | None \<Rightarrow>
     (case strip_prefix ''Infinity'' s of Some r \<Rightarrow> Inr (PyFloat (str_of ''inf''), r) | None \<Rightarrow>
     (case strip_prefix ''-Infinity'' s of Some r \<Rightarrow> Inr (PyFloat (str_of ''-inf''), r) | None \<Rightarrow>
     scan_number s))))))"

text \<open>The loops over the elements of an array and the members of an object, entered at
  the first element; \<open>value\<close> reads one value.  The bound is the length of the text, and each
  element is at least one character long.\<close>

fun scan_elements ::
    "(pystr \<Rightarrow> (pyval \<times> pystr) res) \<Rightarrow> nat \<Rightarrow> pystr \<Rightarrow> (pyval list \<times> pystr) res" where
  "scan_elements value 0 s = Inl PyJSONDecodeError"
| "scan_elements value (Suc n) s =
     bindE (value s) (\<lambda>(v, r).
     (case skip_ws r of
        [] \<Rightarrow> Inl PyJSONDecodeError
      | c # r' \<Rightarrow>
          if c = 93 then Inr ([v], r')
          else if c = 44 then
            bindE (scan_elements value n (skip_ws r')) (\<lambda>(vs, r''). Inr (v # vs, r''))
          else Inl PyJSONDecodeError))"

definition scan_key :: "pystr \<Rightarrow> (pystr \<times> pystr) res" where
  "scan_key s =
     (case s of
        [] \<Rightarrow> Inl PyJSONDecodeError
      | q # r \<Rightarrow>
          if q \<noteq> 34 then Inl PyJSONDecodeError
          else
            (case scan_string r of
               None \<Rightarrow> Inl PyJSONDecodeError
             | Some (k, r') \<Rightarrow>
                 (case skip_ws r' of
                    [] \<Rightarrow> Inl PyJSONDecodeError
                  | c # r'' \<Rightarrow>
                      if c = 58 then Inr (k, skip_ws r'') else Inl PyJSONDecodeError)))"

fun scan_members ::
    "(pystr \<Rightarrow> (pyval \<times> pystr) res) \<Rightarrow> nat \<Rightarrow> pystr \<Rightarrow> pydict \<Rightarrow> (pydict \<times> pystr) res" where
  "scan_members value 0 s d = Inl PyJSONDecodeError"
| "scan_members value (Suc n) s d =
     bindE (scan_key s) (\<lambda>(k, r0).
     bindE (value r0) (\<lambda>(v, r).
     (let d' = dset d (PyStr k) v in
      (case skip_ws r of
         [] \<Rightarrow> Inl PyJSONDecodeError
       | c # r' \<Rightarrow>
           if c = 125 then Inr (d', r')
           else if c = 44 then scan_members value n (skip_ws r') d'
           else Inl PyJSONDecodeError))))"

text \<open>\<open>scan_once depth s\<close> reads one value with \<open>depth\<close> levels of nesting left.\<close>

fun scan_once :: "nat \<Rightarrow> pystr \<Rightarrow> (pyval \<times> pystr) res" where
  "scan_once depth s =
     (case s of
        [] \<Rightarrow> Inl PyJSONDecodeError
      | c # r \<Rightarrow>
          if c = 34 then
            (case scan_string r of
               None \<Rightarrow> Inl PyJSONDecodeError
             | Some (t, r') \<Rightarrow> Inr (PyStr t, r'))
          else if c = 91 then
            (case depth of
               0 \<Rightarrow> Inl PyRecursionError
             | Suc k \<Rightarrow>
                 if skip_ws r \<noteq> [] \<and> hd (skip_ws r) = 93 then Inr (PyList [], tl (skip_ws r))
                 else
                   bindE (scan_elements (scan_once k) (length r) (skip_ws r)) (\<lambda>(vs, r').
                   Inr (PyList vs, r')))
          else if c = 123 then
            (case depth of
               0 \<Rightarrow> Inl PyRecursionError
             | Suc k \<Rightarrow>
                 if skip_ws r \<noteq> [] \<and> hd (skip_ws r) = 125 then Inr (PyDict [], tl (skip_ws r))
                 else
                   bindE (scan_members (scan_once k) (length r) (skip_ws r) []) (\<lambda>(d, r').
                   Inr (PyDict d, r')))
          else scan_scalar s)"

declare scan_once.simps [simp del]

definition json_loads :: "nat \<Rightarrow> pystr \<Rightarrow> pyval res" where
  "json_loads limit s =
     raise_if (s \<noteq> [] \<and> hd s = 0xFEFF) PyJSONDecodeError
     (bindE (scan_once limit (skip_ws s)) (\<lambda>(v, r).
      raise_if (skip_ws r \<noteq> []) PyJSONDecodeError (Inr v)))"

end
