(* ===== verification/Container_Format.thy ===== *)
theory Container_Format
  imports World Py_Json
begin

text \<open>
  The encrypted container of \<^verbatim>\<open>container.py\<close>: password policy and unlock delays, the
  key-encryption key, sealing and opening, the envelope and its parser.
  Passwords, keys and plaintexts that the code holds in bytearrays live in
  buffers of the world and are wiped where the code wipes them.
\<close>

section \<open>Constants\<close>

definition CURRENT_FORMAT_VERSION :: int where "CURRENT_FORMAT_VERSION = 2"
definition FORMAT :: string where "FORMAT = ''decent-wallet''"
definition KDF_MEMORY_KIB :: nat where "KDF_MEMORY_KIB = 64 * 1024"
definition KDF_TIME_COST :: nat where "KDF_TIME_COST = 3"
definition KDF_PARALLELISM :: nat where "KDF_PARALLELISM = 4"
definition KEY_LENGTH :: nat where "KEY_LENGTH = 32"
definition SALT_LENGTH :: nat where "SALT_LENGTH = 16"
definition NONCE_LENGTH :: nat where "NONCE_LENGTH = 24"
definition TAG_LENGTH :: nat where "TAG_LENGTH = 16"
definition MAX_CONTAINER_BYTES :: nat where "MAX_CONTAINER_BYTES = 16 * 1024 * 1024"
definition MIN_PASSWORD_LENGTH :: nat where "MIN_PASSWORD_LENGTH = 16"
definition MAX_AUTH_DELAY_SECONDS :: rat where "MAX_AUTH_DELAY_SECONDS = 1 / 2"

lemmas format_constants = CURRENT_FORMAT_VERSION_def FORMAT_def KDF_MEMORY_KIB_def
  KDF_TIME_COST_def KDF_PARALLELISM_def KEY_LENGTH_def SALT_LENGTH_def NONCE_LENGTH_def
  TAG_LENGTH_def

section \<open>Passwords\<close>

text \<open>\<open>confirmation\<close> is \<open>None\<close> when the caller gave none.\<close>

definition validate_password :: "pyval \<Rightarrow> pyval option \<Rightarrow> pystr res" where
  "validate_password password confirmation =
     (case password of
        PyStr s \<Rightarrow>
          raise_if (length s < MIN_PASSWORD_LENGTH) PasswordPolicyError
          (raise_if (case confirmation of None \<Rightarrow> False | Some c \<Rightarrow> c \<noteq> PyNone \<and> c \<noteq> PyStr s)
             PasswordPolicyError (Inr s))
      | _ \<Rightarrow> Inl PasswordPolicyError)"

definition unlock_delay :: "nat \<Rightarrow> rat" where
  "unlock_delay failures = min (1 / 20 * 2 ^ min (failures - 1) 4) MAX_AUTH_DELAY_SECONDS"

definition record_unlock_failure :: "pystr \<Rightarrow> (unit, world) prog" where
  "record_unlock_failure key =
     modifyS (\<lambda>w.
       let failures = (case w_auth_failures w key of None \<Rightarrow> 0 | Some n \<Rightarrow> n) + 1
       in w\<lparr>w_auth_failures := (w_auth_failures w)(key \<mapsto> min failures 32),
            w_sleeps := w_sleeps w @ [unlock_delay failures]\<rparr>)"

definition clear_unlock_failures :: "pystr \<Rightarrow> (unit, world) prog" where
  "clear_unlock_failures key =
     modifyS (\<lambda>w. w\<lparr>w_auth_failures := (w_auth_failures w)(key := None)\<rparr>)"

definition derive_kek :: "prims \<Rightarrow> pystr \<Rightarrow> bytes \<Rightarrow> (nat, world) prog" where
  "derive_kek P password salt =
     bindS
       (exceptS
          (case utf8_encode password of
             None \<Rightarrow> raiseS PyUnicodeError
           | Some b \<Rightarrow>
               bindS (new_buffer b) (\<lambda>password_bytes.
               finallyS
                 (bindS (read_buffer password_bytes) (\<lambda>secret.
                  (case argon2id P secret salt of
                     None \<Rightarrow> raiseS PyException
                   | Some derived \<Rightarrow> returnS derived)))
                 (wipe_buffer password_bytes)))
          (\<lambda>_. raiseS UnlockFailed))
       new_buffer"

section \<open>Headers and associated data\<close>

definition canonical_json :: "pyval \<Rightarrow> bytes res" where
  "canonical_json v =
     exceptE
       (bindE (json_dumps v) (\<lambda>t.
        (case utf8_encode t of None \<Rightarrow> Inl PyUnicodeError | Some b \<Rightarrow> Inr b)))
       (\<lambda>e. Inl (if e = PyTypeError \<or> is_value_error e then InvalidContainer else e))"

definition kdf_header :: "bytes \<Rightarrow> pydict" where
  "kdf_header salt =
     [(pykey ''algorithm'', pykey ''argon2id''),
      (pykey ''memory_kib'', PyInt (int KDF_MEMORY_KIB)),
      (pykey ''time_cost'', PyInt (int KDF_TIME_COST)),
      (pykey ''parallelism'', PyInt (int KDF_PARALLELISM)),
      (pykey ''salt'', PyStr (b64_encode salt))]"

definition wrap_aad :: "pydict \<Rightarrow> int \<Rightarrow> bytes res" where
  "wrap_aad kdf version =
     canonical_json (PyDict [(pykey ''format'', pykey FORMAT), (pykey ''version'', PyInt version),
                             (pykey ''kdf'', PyDict kdf)])"

definition payload_aad :: "pydict \<Rightarrow> int \<Rightarrow> bytes res" where
  "payload_aad info version =
     canonical_json (PyDict [(pykey ''format'', pykey FORMAT), (pykey ''version'', PyInt version),
                             (pykey ''payload'', PyDict info)])"

definition aead_info :: "bytes \<Rightarrow> pydict" where
  "aead_info nonce =
     [(pykey ''algorithm'', pykey ''xchacha20-poly1305''), (pykey ''nonce'', PyStr (b64_encode nonce))]"

section \<open>Sealing and opening\<close>

definition seal :: "prims \<Rightarrow> bytes \<Rightarrow> bytes \<Rightarrow> bytes \<Rightarrow> (pydict \<times> bytes \<times> bytes, world) prog" where
  "seal P key plaintext aad =
     bindS (token_bytes NONCE_LENGTH) (\<lambda>nonce.
     (case aead_encrypt P key nonce aad plaintext of
        None \<Rightarrow> raiseS StorageFailure
      | Some (ciphertext, tag) \<Rightarrow> returnS (aead_info nonce, ciphertext, tag)))"

definition open_sealed :: "prims \<Rightarrow> bytes \<Rightarrow> bytes \<Rightarrow> bytes \<Rightarrow> pydict \<Rightarrow> bytes \<Rightarrow> bytes res" where
  "open_sealed P key ciphertext tag info aad =
     raise_if (dget_none info (pykey ''algorithm'') \<noteq> pykey ''xchacha20-poly1305'') InvalidContainer
     (bindE (b64_decode (dget_none info (pykey ''nonce'')) (Some NONCE_LENGTH)) (\<lambda>nonce.
      (case aead_decrypt P key nonce aad ciphertext tag of
         None \<Rightarrow> Inl UnlockFailed | Some plaintext \<Rightarrow> Inr plaintext)))"

text \<open>In \<^verbatim>\<open>_make_payload\<close> the associated data is computed inside the \<^verbatim>\<open>try\<close> block.\<close>

definition make_payload :: "prims \<Rightarrow> bytes \<Rightarrow> pydict \<Rightarrow> int \<Rightarrow> (pydict \<times> bytes \<times> bytes, world) prog" where
  "make_payload P dek payload version =
     bindS (liftS (bindE (encode_value (PyDict payload)) canonical_json)) (\<lambda>encoded.
     bindS (token_bytes NONCE_LENGTH) (\<lambda>random.
     let info = aead_info random in
     bindS (liftS (b64_decode (dget_none info (pykey ''nonce'')) (Some NONCE_LENGTH))) (\<lambda>nonce.
     exceptS
       (bindS (liftS (payload_aad info version)) (\<lambda>aad.
        (case aead_encrypt P dek nonce aad encoded of
           None \<Rightarrow> raiseS PyException
         | Some (ciphertext, tag) \<Rightarrow> returnS (info, ciphertext, tag))))
       (\<lambda>_. raiseS StorageFailure))))"

definition wrap_dek :: "prims \<Rightarrow> bytes \<Rightarrow> bytes \<Rightarrow> pydict \<Rightarrow> int \<Rightarrow> (pydict \<times> bytes \<times> bytes, world) prog" where
  "wrap_dek P kek dek kdf version = bindS (liftS (wrap_aad kdf version)) (seal P kek dek)"

section \<open>Envelopes\<close>

definition serialize :: "pydict \<Rightarrow> bytes res" where
  "serialize envelope = canonical_json (PyDict envelope)"

text \<open>A number of a parsed header compared with \<^verbatim>\<open>!=\<close>: an equal float or bool is equal.\<close>

definition equals_int :: "pyval \<Rightarrow> nat \<Rightarrow> bool" where
  "equals_int v n =
     (case v of
        PyInt i \<Rightarrow> i = int n
      | PyBool b \<Rightarrow> (if b then 1 else 0) = n
      | PyFloat t \<Rightarrow> t = show_nat n @ [46, 48]
      | _ \<Rightarrow> False)"

definition loads_text :: "nat \<Rightarrow> bytes \<Rightarrow> pyval res" where
  "loads_text limit raw =
     (case utf8_decode raw of None \<Rightarrow> Inl PyUnicodeError | Some t \<Rightarrow> json_loads limit t)"

definition check_kdf :: "pyval \<Rightarrow> unit res" where
  "check_kdf v =
     (case v of
        PyDict kdf \<Rightarrow>
          raise_if (dkeys kdf \<noteq> {pykey ''algorithm'', pykey ''memory_kib'', pykey ''time_cost'',
                                pykey ''parallelism'', pykey ''salt''}) InvalidContainer
          (raise_if (dget_none kdf (pykey ''algorithm'') \<noteq> pykey ''argon2id''
              \<or> \<not> equals_int (dget_none kdf (pykey ''memory_kib'')) KDF_MEMORY_KIB
              \<or> \<not> equals_int (dget_none kdf (pykey ''time_cost'')) KDF_TIME_COST
              \<or> \<not> equals_int (dget_none kdf (pykey ''parallelism'')) KDF_PARALLELISM)
             UnsupportedFormat
          (bindE (b64_decode (dget_none kdf (pykey ''salt'')) (Some SALT_LENGTH)) (\<lambda>_. Inr ())))
      | _ \<Rightarrow> Inl InvalidContainer)"

definition check_sealed :: "pyval \<Rightarrow> unit res" where
  "check_sealed v =
     (case v of
        PyDict d \<Rightarrow>
          raise_if (dkeys d \<noteq> {pykey ''algorithm'', pykey ''nonce'', pykey ''ciphertext'', pykey ''tag''})
            InvalidContainer
          (raise_if (dget_none d (pykey ''algorithm'') \<noteq> pykey ''xchacha20-poly1305'') UnsupportedFormat
          (bindE (b64_decode (dget_none d (pykey ''nonce'')) (Some NONCE_LENGTH)) (\<lambda>_.
           bindE (b64_decode (dget_none d (pykey ''ciphertext'')) None) (\<lambda>_.
           bindE (b64_decode (dget_none d (pykey ''tag'')) (Some TAG_LENGTH)) (\<lambda>_. Inr ())))))
      | _ \<Rightarrow> Inl InvalidContainer)"

definition parse_container :: "nat \<Rightarrow> bytes \<Rightarrow> int \<Rightarrow> pydict res" where
  "parse_container limit raw expected_version =
     raise_if (length raw > MAX_CONTAINER_BYTES) InvalidContainer
     (bindE
        (exceptE (loads_text limit raw)
           (\<lambda>e. Inl (if e = PyUnicodeError \<or> e = PyJSONDecodeError then InvalidContainer else e)))
        (\<lambda>v.
         (case v of
            PyDict d \<Rightarrow>
              raise_if (dkeys d \<noteq> {pykey ''format'', pykey ''version'', pykey ''kdf'', pykey ''wrap'',
                                  pykey ''payload''}) InvalidContainer
              (raise_if (dget_none d (pykey ''format'') \<noteq> pykey FORMAT
                  \<or> \<not> is_PyInt (dget_none d (pykey ''version''))) InvalidContainer
              (raise_if (dget_none d (pykey ''version'') \<noteq> PyInt expected_version) UnsupportedFormat
              (bindE (check_kdf (dget_none d (pykey ''kdf''))) (\<lambda>_.
               bindE (check_sealed (dget_none d (pykey ''wrap''))) (\<lambda>_.
               bindE (check_sealed (dget_none d (pykey ''payload''))) (\<lambda>_. Inr d))))))
          | _ \<Rightarrow> Inl InvalidContainer)))"

text \<open>A dictionary inside an envelope that was parsed or built.\<close>

definition sub_dict :: "pydict \<Rightarrow> string \<Rightarrow> pydict" where
  "sub_dict d k = (case dget_none d (pykey k) of PyDict e \<Rightarrow> e | _ \<Rightarrow> [])"

definition sealed_info :: "pydict \<Rightarrow> pydict" where
  "sealed_info d =
     [(pykey ''algorithm'', dget_none d (pykey ''algorithm'')), (pykey ''nonce'', dget_none d (pykey ''nonce''))]"

definition sealed_part :: "pydict \<times> bytes \<times> bytes \<Rightarrow> pydict" where
  "sealed_part = (\<lambda>(info, ciphertext, tag).
     info @ [(pykey ''ciphertext'', PyStr (b64_encode ciphertext)), (pykey ''tag'', PyStr (b64_encode tag))])"

definition make_envelope :: "pydict \<Rightarrow> pydict \<Rightarrow> pydict \<Rightarrow> pydict" where
  "make_envelope kdf wrapped payload =
     [(pykey ''format'', pykey FORMAT), (pykey ''version'', PyInt CURRENT_FORMAT_VERSION),
      (pykey ''kdf'', PyDict kdf), (pykey ''wrap'', PyDict wrapped), (pykey ''payload'', PyDict payload)]"

definition read_container :: "pystr \<Rightarrow> (bytes, world) prog" where
  "read_container path =
     exceptS
       (thenS (syscall os_nop)
          (bindS (syscall (os_read_bytes (Path path))) (\<lambda>raw. returnS (take (MAX_CONTAINER_BYTES + 1) raw))))
       (\<lambda>e. if is_os_error e then raiseS StorageFailure else raiseS e)"

definition read_envelope :: "pystr \<Rightarrow> (pydict, world) prog" where
  "read_envelope path =
     bindS (read_container path) (\<lambda>raw.
     bindS (getS w_recursion_limit) (\<lambda>limit.
     liftS (parse_container limit raw CURRENT_FORMAT_VERSION)))"

definition decode_plaintext :: "nat \<Rightarrow> bytes \<Rightarrow> pydict res" where
  "decode_plaintext limit plaintext =
     bindE
       (exceptE (loads_text limit plaintext)
          (\<lambda>e. Inl (if e = PyUnicodeError \<or> e = PyJSONDecodeError then UnlockFailed else e)))
       (\<lambda>decoded.
        bindE (decode_value decoded) (\<lambda>v. (case v of PyDict d \<Rightarrow> Inr d | _ \<Rightarrow> Inl UnlockFailed)))"

definition decode_payload :: "prims \<Rightarrow> pydict \<Rightarrow> bytes \<Rightarrow> int \<Rightarrow> (pydict, world) prog" where
  "decode_payload P envelope dek version =
     (let payload = sub_dict envelope ''payload''; info = sealed_info payload in
      bindS (liftS (b64_decode (dget_none payload (pykey ''ciphertext'')) None)) (\<lambda>ciphertext.
      bindS (liftS (b64_decode (dget_none payload (pykey ''tag'')) (Some TAG_LENGTH))) (\<lambda>tag.
      bindS (liftS (bindE (payload_aad info version) (open_sealed P dek ciphertext tag info))) (\<lambda>opened.
      bindS (new_buffer opened) (\<lambda>plaintext.
      finallyS
        (bindS (read_buffer plaintext) (\<lambda>b.
         bindS (getS w_recursion_limit) (\<lambda>limit. liftS (decode_plaintext limit b))))
        (wipe_buffer plaintext))))))"

text \<open>The argument order of \<^verbatim>\<open>_open\<close> in \<^verbatim>\<open>_unlock_envelope\<close>: ciphertext, tag, then associated data.\<close>

definition unwrap_dek :: "prims \<Rightarrow> pydict \<Rightarrow> bytes \<Rightarrow> int \<Rightarrow> bytes res" where
  "unwrap_dek P envelope kek version =
     (let wrapped = sub_dict envelope ''wrap'' in
      bindE (b64_decode (dget_none wrapped (pykey ''ciphertext'')) None) (\<lambda>ciphertext.
      bindE (b64_decode (dget_none wrapped (pykey ''tag'')) (Some TAG_LENGTH)) (\<lambda>tag.
      bindE (wrap_aad (sub_dict envelope ''kdf'') version) (\<lambda>aad.
      open_sealed P kek ciphertext tag (sealed_info wrapped) aad))))"

definition unlock_envelope :: "prims \<Rightarrow> pydict \<Rightarrow> pystr \<Rightarrow> int \<Rightarrow> (nat \<times> pydict, world) prog" where
  "unlock_envelope P envelope password version =
     bindS (liftS (b64_decode (dget_none (sub_dict envelope ''kdf'') (pykey ''salt'')) (Some SALT_LENGTH)))
       (\<lambda>salt.
     bindS (derive_kek P password salt) (\<lambda>kek.
     finallyS
       (bindS (read_buffer kek) (\<lambda>kek_bytes.
        bindS (liftS (unwrap_dek P envelope kek_bytes version)) (\<lambda>dek_bytes.
        bindS (new_buffer dek_bytes) (\<lambda>dek.
        exceptS
          (thenS (guardS (length dek_bytes \<noteq> KEY_LENGTH) UnlockFailed)
             (bindS (decode_payload P envelope dek_bytes version) (\<lambda>payload. returnS (dek, payload))))
          (\<lambda>e. thenS (wipe_buffer dek) (raiseS e))))))
       (wipe_buffer kek)))"

definition build_v2_envelope :: "prims \<Rightarrow> pystr \<Rightarrow> bytes \<Rightarrow> pydict \<Rightarrow> pydict \<Rightarrow> (pydict, world) prog" where
  "build_v2_envelope P password dek kdf payload =
     bindS (liftS (b64_decode (dget_none kdf (pykey ''salt'')) (Some SALT_LENGTH))) (\<lambda>salt.
     bindS (derive_kek P password salt) (\<lambda>kek.
     bindS
       (finallyS
          (bindS (read_buffer kek) (\<lambda>kek_bytes. wrap_dek P kek_bytes dek kdf CURRENT_FORMAT_VERSION))
          (wipe_buffer kek)) (\<lambda>wrapped.
     bindS (make_payload P dek payload CURRENT_FORMAT_VERSION) (\<lambda>sealed.
     returnS (make_envelope kdf (sealed_part wrapped) (sealed_part sealed))))))"

end
