(* ===== verification/Wallet_Session.thy ===== *)
theory Wallet_Session
  imports Container_Format
begin

text \<open>
  Wallet sessions of \<^verbatim>\<open>container.py\<close>: the class \<^verbatim>\<open>Wallet\<close> with creation, opening,
  migration and import of a container, locking and the inactivity limit.  A
  session is an index into the world's list; every operation runs under the
  session's lock and is one program here.  A capability that was invalidated
  elsewhere may stay in the session's list: invalidating it again does
  nothing.
\<close>

section \<open>Session access\<close>

definition get_wallet :: "nat \<Rightarrow> (wallet, world) prog" where
  "get_wallet h = getS (\<lambda>w. w_wallets w ! h)"

definition put_wallet :: "nat \<Rightarrow> (wallet \<Rightarrow> wallet) \<Rightarrow> (unit, world) prog" where
  "put_wallet h f = modifyS (\<lambda>w. w\<lparr>w_wallets := (w_wallets w)[h := f (w_wallets w ! h)]\<rparr>)"

definition set_secret :: "nat \<Rightarrow> nat option \<Rightarrow> (unit, world) prog" where
  "set_secret h a = modifyS (\<lambda>w. w\<lparr>w_wallet_secrets := (w_wallet_secrets w)(h := a)\<rparr>)"

definition set_pending :: "nat \<Rightarrow> nat option \<Rightarrow> (unit, world) prog" where
  "set_pending h a = modifyS (\<lambda>w. w\<lparr>w_pending_secrets := (w_pending_secrets w)(h := a)\<rparr>)"

definition item :: "pydict \<Rightarrow> string \<Rightarrow> pyval" where
  "item d k = dget_none d (pykey k)"

section \<open>Secret material\<close>

definition SIGNING_FIELDS :: "pyval list" where
  "SIGNING_FIELDS =
     [pykey ''private_seed'', pykey ''public_key'', pykey ''pending_private_seed'',
      pykey ''pending_public_key'', pykey ''rotation_dispatch_intent'']"

definition validate_seed_public_key_pair :: "prims \<Rightarrow> pyval \<Rightarrow> pyval \<Rightarrow> unit res" where
  "validate_seed_public_key_pair P seed public_key =
     raise_if (\<not> is_key_bytes seed) InvalidContainer
     (raise_if (\<not> is_key_bytes public_key) InvalidContainer
     (bindE (exceptE (public_key_from_seed P (bytes_of seed)) (\<lambda>_. Inl InvalidContainer)) (\<lambda>derived.
      raise_if (public_key \<noteq> PyBytes derived) InvalidContainer (Inr ()))))"

text \<open>\<^verbatim>\<open>_public_key_for_secret\<close>: \<open>seed\<close> is the address of the secret, if there is one.\<close>

definition public_key_for_secret :: "prims \<Rightarrow> nat option \<Rightarrow> pyval \<Rightarrow> (bytes, world) prog" where
  "public_key_for_secret P seed stored =
     (case seed of
        None \<Rightarrow> raiseS SignerUnavailable
      | Some a \<Rightarrow>
          bindS (read_buffer a) (\<lambda>b.
          liftS (raise_if (length b \<noteq> KEY_LENGTH) SignerUnavailable
            (raise_if (\<not> is_key_bytes stored) SignerUnavailable
            (bindE (exceptE (public_key_from_seed P b) (\<lambda>_. Inl SignerUnavailable)) (\<lambda>derived.
             raise_if (stored \<noteq> PyBytes derived) SignerUnavailable (Inr derived)))))))"

text \<open>The checks of \<^verbatim>\<open>_install_secret_material\<close>: the payload without its seeds, and the
  seeds.\<close>

definition secret_material ::
    "prims \<Rightarrow> pydict \<Rightarrow> (pydict \<times> bytes option \<times> bytes option) res" where
  "secret_material P payload =
     (let seed = item payload ''private_seed'';
          pending_seed = item payload ''pending_private_seed'';
          rest = dpop (dpop payload (pykey ''private_seed'')) (pykey ''pending_private_seed'');
          public_key = item rest ''public_key'';
          pending_public_key = item rest ''pending_public_key'';
          has_intent = pykey ''rotation_dispatch_intent'' \<in> dkeys rest
      in
      if seed = PyNone then
        raise_if (public_key \<noteq> PyNone \<or> pending_seed \<noteq> PyNone \<or> pending_public_key \<noteq> PyNone
            \<or> has_intent) InvalidContainer (Inr (rest, None, None))
      else
        bindE (validate_seed_public_key_pair P seed public_key) (\<lambda>_.
        bindE
          (if pending_seed = PyNone then
             raise_if (pending_public_key \<noteq> PyNone) InvalidContainer (Inr ())
           else
             bindE (validate_seed_public_key_pair P pending_seed pending_public_key) (\<lambda>_.
             raise_if (pending_public_key = public_key) InvalidContainer (Inr ()))) (\<lambda>_.
        bindE
          (if has_intent then
             raise_if (pending_public_key = PyNone) InvalidContainer
             (bindE (intent_from_payload (item rest ''rotation_dispatch_intent'')) (\<lambda>intent.
              raise_if (PyBytes (ri_predecessor_owner_public_key intent) \<noteq> public_key
                  \<or> PyBytes (ri_successor_owner_public_key intent) \<noteq> pending_public_key)
                InvalidContainer (Inr ())))
           else Inr ()) (\<lambda>_.
        Inr (rest, Some (bytes_of seed),
             (if pending_seed = PyNone then None else Some (bytes_of pending_seed)))))))"

definition optional_buffer :: "bytes option \<Rightarrow> (nat option, world) prog" where
  "optional_buffer b =
     (case b of None \<Rightarrow> returnS None | Some x \<Rightarrow> bindS (new_buffer x) (\<lambda>a. returnS (Some a)))"

text \<open>\<^verbatim>\<open>Wallet(...)\<close>: the result is the index of the session.\<close>

definition wallet_init ::
    "prims \<Rightarrow> pystr \<Rightarrow> nat \<Rightarrow> pydict \<Rightarrow> pydict \<Rightarrow> int \<Rightarrow> (nat, world) prog" where
  "wallet_init P path dek payload envelope minutes =
     bindS (liftS (secret_material P payload)) (\<lambda>(rest, seed, pending_seed).
     bindS (optional_buffer pending_seed) (\<lambda>pending.
     bindS (optional_buffer seed) (\<lambda>secret.
     bindS (getS (\<lambda>w. length (w_wallets w))) (\<lambda>h.
     thenS (set_secret h secret)
     (thenS (set_pending h pending)
     (bindS monotonic_now (\<lambda>now.
      thenS
        (modifyS (\<lambda>w. w\<lparr>w_wallets := w_wallets w @
           [\<lparr>wa_path = path, wa_dek = Some dek, wa_payload = rest, wa_envelope = envelope,
             wa_capabilities = [], wa_inactivity_seconds = of_int (minutes * 60),
             wa_last_activity = now\<rparr>]\<rparr>))
        (returnS h))))))))"

section \<open>Locking\<close>

definition invalidate_capabilities :: "nat \<Rightarrow> (unit, world) prog" where
  "invalidate_capabilities h =
     bindS (get_wallet h) (\<lambda>wa.
     thenS
       (modifyS (\<lambda>w. w\<lparr>w_signer :=
          foldl (\<lambda>s c. snd (invalidate_unlocked c s)) (w_signer w) (wa_capabilities wa)\<rparr>))
       (put_wallet h (\<lambda>wa. wa\<lparr>wa_capabilities := []\<rparr>)))"

definition wallet_lock :: "nat \<Rightarrow> (unit, world) prog" where
  "wallet_lock h =
     thenS (invalidate_capabilities h)
     (bindS (getS (\<lambda>w. w_wallet_secrets w h)) (\<lambda>seed.
      thenS (set_secret h None)
      (thenS (wipe_option seed)
      (bindS (getS (\<lambda>w. w_pending_secrets w h)) (\<lambda>pending_seed.
       thenS (set_pending h None)
       (thenS (wipe_option pending_seed)
       (bindS (get_wallet h) (\<lambda>wa.
        thenS (wipe_option (wa_dek wa))
          (put_wallet h (\<lambda>wa. wa\<lparr>wa_dek := None, wa_payload := [], wa_envelope := []\<rparr>))))))))))"

definition background :: "nat \<Rightarrow> (unit, world) prog" where
  "background h = wallet_lock h"

definition is_unlocked :: "wallet \<Rightarrow> bool" where
  "is_unlocked wa \<longleftrightarrow> wa_dek wa \<noteq> None"

text \<open>\<open>now\<close> is the optional argument of \<^verbatim>\<open>check_inactivity\<close>.\<close>

definition check_inactivity :: "nat \<Rightarrow> rat option \<Rightarrow> (bool, world) prog" where
  "check_inactivity h now =
     bindS (get_wallet h) (\<lambda>wa.
     if \<not> is_unlocked wa then returnS True
     else
       bindS (case now of None \<Rightarrow> monotonic_now | Some t \<Rightarrow> returnS t) (\<lambda>current.
       if current - wa_last_activity wa \<ge> wa_inactivity_seconds wa
       then thenS (wallet_lock h) (returnS True)
       else returnS False))"

definition require_unlocked :: "nat \<Rightarrow> (unit, world) prog" where
  "require_unlocked h = bindS (get_wallet h) (\<lambda>wa. guardS (wa_dek wa = None) WalletLockedError)"

definition touch :: "nat \<Rightarrow> (unit, world) prog" where
  "touch h =
     thenS (require_unlocked h)
     (bindS (check_inactivity h None) (\<lambda>expired.
      thenS (guardS expired WalletLockedError)
      (bindS monotonic_now (\<lambda>now. put_wallet h (\<lambda>wa. wa\<lparr>wa_last_activity := now\<rparr>)))))"

definition last_activity :: "nat \<Rightarrow> (rat, world) prog" where
  "last_activity h = thenS (require_unlocked h) (bindS (get_wallet h) (\<lambda>wa. returnS (wa_last_activity wa)))"

definition ensure_not_latched :: "nat \<Rightarrow> (unit, world) prog" where
  "ensure_not_latched h =
     bindS (get_wallet h) (\<lambda>wa.
     guardS (pykey ''rotation_dispatch_intent'' \<in> dkeys (wa_payload wa)) RotationInProgress)"

section \<open>Creating and opening\<close>

definition validate_inactivity :: "pyval \<Rightarrow> int res" where
  "validate_inactivity minutes =
     (case minutes of
        PyInt m \<Rightarrow> raise_if (\<not> (1 \<le> m \<and> m \<le> 15)) InvalidContainer (Inr m)
      | _ \<Rightarrow> Inl InvalidContainer)"

text \<open>\<open>wallet_or_storage e\<close> is how the constructors re-raise: any foreign exception becomes a
  storage failure.\<close>

definition wallet_or_storage :: "exn \<Rightarrow> ('a, world) prog" where
  "wallet_or_storage e = raiseS (if is_wallet_error e then e else StorageFailure)"

definition create_storage ::
    "prims \<Rightarrow> pystr \<Rightarrow> pyval \<Rightarrow> pyval \<Rightarrow> pyval \<Rightarrow> pyval \<Rightarrow> (nat, world) prog" where
  "create_storage P path password confirmation payload minutes =
     bindS (liftS (validate_password password (Some confirmation))) (\<lambda>pw.
     bindS (liftS (validate_inactivity minutes)) (\<lambda>m.
     (case payload of
        PyDict d \<Rightarrow>
          bindS (token_bytes KEY_LENGTH) (\<lambda>key.
          bindS (new_buffer key) (\<lambda>dek.
          exceptS
            (bindS (token_bytes SALT_LENGTH) (\<lambda>salt.
             bindS (build_v2_envelope P pw key (kdf_header salt) d) (\<lambda>envelope.
             bindS (liftS (serialize envelope)) (\<lambda>raw.
             thenS (atomic_write (Path path) raw False)
               (exceptS (wallet_init P path dek d envelope m)
                  (\<lambda>e. thenS (ignore_os_error (syscall (os_unlink (Path path)))) (raiseS e)))))))
            (\<lambda>e. thenS (wipe_buffer dek) (wallet_or_storage e))))
      | _ \<Rightarrow> raiseS InvalidContainer)))"

definition wallet_create ::
    "prims \<Rightarrow> pystr \<Rightarrow> pyval \<Rightarrow> pyval \<Rightarrow> pyval \<Rightarrow> pyval \<Rightarrow> (nat, world) prog" where
  "wallet_create P path password confirmation payload minutes =
     (case payload of
        PyDict d \<Rightarrow>
          if set SIGNING_FIELDS \<inter> dkeys d \<noteq> {} then raiseS InvalidContainer
          else create_storage P path password confirmation payload minutes
      | _ \<Rightarrow> raiseS InvalidContainer)"

text \<open>\<^verbatim>\<open>_generate_seed()\<close> in a new bytearray.\<close>

definition new_seed :: "(nat, world) prog" where
  "new_seed =
     bindS (getS w_approved_csrng) (\<lambda>approved.
     thenS (guardS (\<not> approved) KeyGenerationError)
     (bindS (token_bytes KEY_LENGTH) (\<lambda>b.
      bindS (liftS (generate_seed True (Inr (PyBytes b)))) new_buffer)))"

definition create_with_generated_key ::
    "prims \<Rightarrow> pystr \<Rightarrow> pyval \<Rightarrow> pyval \<Rightarrow> pyval \<Rightarrow> (nat, world) prog" where
  "create_with_generated_key P path password confirmation minutes =
     bindS new_seed (\<lambda>seed.
     finallyS
       (bindS (read_buffer seed) (\<lambda>b.
        bindS (liftS (public_key_from_seed P b)) (\<lambda>public_key.
        create_storage P path password confirmation
          (PyDict [(pykey ''private_seed'', PyBytes b), (pykey ''public_key'', PyBytes public_key)])
          minutes)))
       (wipe_buffer seed))"

text \<open>Unlocking with the bookkeeping of failed attempts.\<close>

definition unlock_counted ::
    "prims \<Rightarrow> pystr \<Rightarrow> pydict \<Rightarrow> pystr \<Rightarrow> int \<Rightarrow> (nat \<times> pydict, world) prog" where
  "unlock_counted P path envelope password version =
     bindS
       (exceptS (unlock_envelope P envelope password version)
          (\<lambda>e. thenS (if e = UnlockFailed then record_unlock_failure path else returnS ()) (raiseS e)))
       (\<lambda>r. thenS (clear_unlock_failures path) (returnS r))"

definition wallet_open :: "prims \<Rightarrow> pystr \<Rightarrow> pyval \<Rightarrow> pyval \<Rightarrow> (nat, world) prog" where
  "wallet_open P path password minutes =
     bindS (liftS (validate_password password None)) (\<lambda>pw.
     bindS (liftS (validate_inactivity minutes)) (\<lambda>m.
     bindS (read_envelope path) (\<lambda>envelope.
     bindS (unlock_counted P path envelope pw CURRENT_FORMAT_VERSION) (\<lambda>(dek, payload).
     wallet_init P path dek payload envelope m))))"

text \<open>The common end of migration and import: a failure locks the session that exists or
  wipes the key.\<close>

definition init_then ::
    "prims \<Rightarrow> pystr \<Rightarrow> nat \<Rightarrow> pydict \<Rightarrow> pydict \<Rightarrow> int \<Rightarrow> (unit, world) prog \<Rightarrow> (nat, world) prog" where
  "init_then P path dek payload envelope m store =
     bindS
       (exceptS (wallet_init P path dek payload envelope m)
          (\<lambda>e. thenS (wipe_buffer dek) (raiseS e)))
       (\<lambda>h. exceptS (thenS store (returnS h)) (\<lambda>e. thenS (wallet_lock h) (raiseS e)))"

definition migrate_container :: "prims \<Rightarrow> pystr \<Rightarrow> pyval \<Rightarrow> pyval \<Rightarrow> (nat, world) prog" where
  "migrate_container P path password minutes =
     bindS (liftS (validate_password password None)) (\<lambda>pw.
     bindS (liftS (validate_inactivity minutes)) (\<lambda>m.
     bindS (read_container path) (\<lambda>raw.
     bindS (getS w_recursion_limit) (\<lambda>limit.
     bindS (liftS (parse_container limit raw 1)) (\<lambda>envelope.
     exceptS
       (bindS (unlock_counted P path envelope pw 1) (\<lambda>(dek, payload).
        bindS (read_buffer dek) (\<lambda>key.
        bindS
          (exceptS (build_v2_envelope P pw key (sub_dict envelope ''kdf'') payload)
             (\<lambda>e. thenS (wipe_buffer dek) (raiseS e)))
          (\<lambda>migrated.
           init_then P path dek payload migrated m
             (bindS (liftS (serialize migrated)) (\<lambda>data. atomic_write (Path path) data True))))))
       wallet_or_storage)))))"

definition import_container :: "prims \<Rightarrow> pystr \<Rightarrow> pyval \<Rightarrow> pyval \<Rightarrow> pyval \<Rightarrow> (nat, world) prog" where
  "import_container P path data password minutes =
     bindS (liftS (validate_password password None)) (\<lambda>pw.
     bindS (liftS (validate_inactivity minutes)) (\<lambda>m.
     (case data of
        PyBytes raw \<Rightarrow>
          bindS (getS w_recursion_limit) (\<lambda>limit.
          bindS (liftS (parse_container limit raw CURRENT_FORMAT_VERSION)) (\<lambda>envelope.
          exceptS
            (bindS (unlock_counted P path envelope pw CURRENT_FORMAT_VERSION) (\<lambda>(dek, payload).
             init_then P path dek payload envelope m (atomic_write (Path path) raw False)))
            wallet_or_storage))
      | _ \<Rightarrow> raiseS InvalidContainer)))"

end
