(* ===== verification/Wallet_Operations.thy ===== *)
theory Wallet_Operations
  imports Wallet_Session
begin

text \<open>
  Operations on an unlocked session: payload updates, export and password
  change, signing capabilities, and the staged rotation of the signing key
  from the preparation of a successor to its promotion, rejection or
  cancellation.
\<close>

section \<open>Persisting\<close>

text \<open>\<^verbatim>\<open>_build_envelope\<close>: the overrides are addresses of seeds.\<close>

definition storage_payload ::
    "pydict \<Rightarrow> pyval \<Rightarrow> bool \<Rightarrow> bytes option \<Rightarrow> bytes option \<Rightarrow> bool \<Rightarrow> pydict res" where
  "storage_payload payload current_public_key overridden seed pending_seed include_pending =
     (let p1 = (case seed of
                  None \<Rightarrow> payload
                | Some b \<Rightarrow>
                    let q = dset payload (pykey ''private_seed'') (PyBytes b)
                    in if overridden then q else dset q (pykey ''public_key'') current_public_key)
      in
      if include_pending then
        (case pending_seed of
           None \<Rightarrow> Inr p1
         | Some b \<Rightarrow>
             let pending_public_key = item p1 ''pending_public_key'' in
             raise_if (\<not> is_key_bytes pending_public_key) InvalidContainer
             (Inr (dset (dset p1 (pykey ''pending_private_seed'') (PyBytes b))
                     (pykey ''pending_public_key'') pending_public_key)))
      else Inr (dpop (dpop p1 (pykey ''pending_private_seed'')) (pykey ''pending_public_key'')))"

definition read_optional :: "nat option \<Rightarrow> (bytes option, world) prog" where
  "read_optional a =
     (case a of None \<Rightarrow> returnS None | Some b \<Rightarrow> bindS (read_buffer b) (\<lambda>x. returnS (Some x)))"

definition build_envelope ::
    "prims \<Rightarrow> nat \<Rightarrow> pydict \<Rightarrow> nat option \<Rightarrow> nat option \<Rightarrow> bool \<Rightarrow> (pydict, world) prog" where
  "build_envelope P h payload pending_override active_override include_pending =
     thenS (require_unlocked h)
     (bindS (get_wallet h) (\<lambda>wa.
      bindS (liftS (b64_decode (dget_none (sub_dict (wa_envelope wa) ''kdf'') (pykey ''salt''))
                      (Some SALT_LENGTH))) (\<lambda>salt.
      (case wa_dek wa of
         None \<Rightarrow> raiseS WalletLockedError
       | Some dek \<Rightarrow>
           bindS (read_buffer dek) (\<lambda>key.
           bindS (getS (\<lambda>w. if active_override \<noteq> None then active_override
                            else w_wallet_secrets w h)) (\<lambda>seed_address.
           bindS (read_optional seed_address) (\<lambda>seed.
           bindS (getS (\<lambda>w. if pending_override \<noteq> None then pending_override
                            else w_pending_secrets w h)) (\<lambda>pending_address.
           bindS (read_optional pending_address) (\<lambda>pending_seed.
           bindS (if seed \<noteq> None \<and> active_override = None
                  then liftS (dindex (wa_payload wa) (pykey ''public_key'')) else returnS PyNone)
             (\<lambda>current_public_key.
           bindS (liftS (storage_payload payload current_public_key (active_override \<noteq> None) seed
                           pending_seed include_pending)) (\<lambda>stored.
           bindS (make_payload P key stored CURRENT_FORMAT_VERSION) (\<lambda>sealed.
           returnS (make_envelope (kdf_header salt) (sub_dict (wa_envelope wa) ''wrap'')
                      (sealed_part sealed)))))))))))))) "

definition persist_envelope :: "nat \<Rightarrow> pydict \<Rightarrow> (unit, world) prog" where
  "persist_envelope h envelope =
     bindS (get_wallet h) (\<lambda>wa.
     exceptS
       (bindS (liftS (serialize envelope)) (\<lambda>raw. atomic_write (Path (wa_path wa)) raw True))
       (\<lambda>e. thenS (if e = StorageOutcomeUnknown then wallet_lock h else returnS ()) (raiseS e)))"

definition set_content :: "nat \<Rightarrow> pydict \<Rightarrow> pydict \<Rightarrow> (unit, world) prog" where
  "set_content h payload envelope =
     put_wallet h (\<lambda>wa. wa\<lparr>wa_payload := payload, wa_envelope := envelope\<rparr>)"

section \<open>Payload, export and password\<close>

text \<open>The fields of the session that an update carries over.\<close>

definition carried_payload :: "pydict \<Rightarrow> bool \<Rightarrow> bool \<Rightarrow> pydict \<Rightarrow> pydict res" where
  "carried_payload current has_seed has_pending payload =
     bindE (if has_seed
            then bindE (dindex current (pykey ''public_key'')) (\<lambda>k.
                 Inr (dset payload (pykey ''public_key'') k))
            else Inr payload) (\<lambda>p1.
     bindE (if has_pending
            then bindE (dindex current (pykey ''pending_public_key'')) (\<lambda>k.
                 Inr (dset p1 (pykey ''pending_public_key'') k))
            else Inr p1) (\<lambda>p2.
     Inr (if pykey ''rotation_dispatch_intent'' \<in> dkeys current
          then dset p2 (pykey ''rotation_dispatch_intent'') (item current ''rotation_dispatch_intent'')
          else p2)))"

definition update_payload :: "prims \<Rightarrow> nat \<Rightarrow> pyval \<Rightarrow> (unit, world) prog" where
  "update_payload P h payload =
     thenS (touch h)
     (case payload of
        PyDict d \<Rightarrow>
          thenS (guardS (set SIGNING_FIELDS \<inter> dkeys d \<noteq> {}) InvalidContainer)
          (bindS (get_wallet h) (\<lambda>wa.
           bindS (getS (\<lambda>w. (w_wallet_secrets w h \<noteq> None, w_pending_secrets w h \<noteq> None)))
             (\<lambda>(has_seed, has_pending).
           bindS (liftS (carried_payload (wa_payload wa) has_seed has_pending d)) (\<lambda>updated.
           bindS (build_envelope P h updated None None True) (\<lambda>envelope.
           thenS (persist_envelope h envelope)
           (thenS (set_content h updated envelope)
             (invalidate_capabilities h)))))))
      | _ \<Rightarrow> raiseS InvalidContainer)"

text \<open>Python's \<^verbatim>\<open>==\<close> on two parsed or built envelopes: the order of keys does not count, and
  the header numbers were compared with the same constants.\<close>

definition same_envelope :: "pydict \<Rightarrow> pydict \<Rightarrow> bool" where
  "same_envelope e f \<longleftrightarrow>
     item (sub_dict e ''kdf'') ''salt'' = item (sub_dict f ''kdf'') ''salt''
     \<and> list_all (\<lambda>part. list_all (\<lambda>k. item (sub_dict e part) k = item (sub_dict f part) k)
                    [''nonce'', ''ciphertext'', ''tag'']) [''wrap'', ''payload'']"

definition export_container :: "nat \<Rightarrow> (bytes, world) prog" where
  "export_container h =
     thenS (touch h)
     (bindS (get_wallet h) (\<lambda>wa.
      bindS (read_container (wa_path wa)) (\<lambda>raw.
      bindS (getS w_recursion_limit) (\<lambda>limit.
      bindS (liftS (parse_container limit raw CURRENT_FORMAT_VERSION)) (\<lambda>envelope.
      thenS (guardS (\<not> same_envelope envelope (wa_envelope wa)) InvalidContainer)
        (returnS raw))))))"

definition change_password :: "prims \<Rightarrow> nat \<Rightarrow> pyval \<Rightarrow> pyval \<Rightarrow> (unit, world) prog" where
  "change_password P h password confirmation =
     thenS (touch h)
     (bindS (liftS (validate_password password (Some confirmation))) (\<lambda>pw.
      bindS (token_bytes SALT_LENGTH) (\<lambda>salt.
      bindS (derive_kek P pw salt) (\<lambda>kek.
      bindS
        (finallyS
           (bindS (get_wallet h) (\<lambda>wa.
            (case wa_dek wa of
               None \<Rightarrow> raiseS WalletLockedError
             | Some dek \<Rightarrow>
                 bindS (read_buffer kek) (\<lambda>kek_bytes.
                 bindS (read_buffer dek) (\<lambda>key.
                 wrap_dek P kek_bytes key (kdf_header salt) CURRENT_FORMAT_VERSION)))))
           (wipe_buffer kek))
        (\<lambda>wrapped.
      bindS (get_wallet h) (\<lambda>wa.
      let envelope = make_envelope (kdf_header salt) (sealed_part wrapped)
                       (sub_dict (wa_envelope wa) ''payload'')
      in thenS (persist_envelope h envelope)
           (put_wallet h (\<lambda>wa. wa\<lparr>wa_envelope := envelope\<rparr>))))))))"

section \<open>Keys and signing capabilities\<close>

definition wallet_public_key :: "prims \<Rightarrow> nat \<Rightarrow> (bytes, world) prog" where
  "wallet_public_key P h =
     thenS (touch h)
     (bindS (getS (\<lambda>w. w_wallet_secrets w h)) (\<lambda>seed.
      bindS (get_wallet h) (\<lambda>wa. public_key_for_secret P seed (item (wa_payload wa) ''public_key''))))"

text \<open>\<open>timeout\<close> is \<open>None\<close> when the argument is not a number.\<close>

definition create_signer :: "prims \<Rightarrow> nat \<Rightarrow> rat option \<Rightarrow> (nat, world) prog" where
  "create_signer P h timeout =
     thenS (touch h)
     (thenS (ensure_not_latched h)
     (bindS (getS (\<lambda>w. w_wallet_secrets w h)) (\<lambda>seed.
      bindS (get_wallet h) (\<lambda>wa.
      let stored = item (wa_payload wa) ''public_key'' in
      (case seed of
         None \<Rightarrow> raiseS SignerUnavailable
       | Some a \<Rightarrow>
           bindS (read_buffer a) (\<lambda>b.
           thenS (guardS (length b \<noteq> KEY_LENGTH \<or> \<not> is_key_bytes stored) SignerUnavailable)
           (bindS monotonic_now (\<lambda>now.
            bindS
              (\<lambda>w. case create_capability_from_seed P (PyBytes b) timeout True now (w_signer w) of
                      (Inl e, s) \<Rightarrow> (Raise SignerUnavailable, w\<lparr>w_signer := s\<rparr>)
                    | (Inr c, s) \<Rightarrow> (Ret c, w\<lparr>w_signer := s\<rparr>))
              (\<lambda>c.
            bindS (getS (\<lambda>w. cap_public_key (cap_at (w_signer w) c))) (\<lambda>key.
            if PyBytes key \<noteq> stored then
              thenS (modifyS (\<lambda>w. w\<lparr>w_signer := snd (invalidate_unlocked c (w_signer w))\<rparr>))
                (raiseS SignerUnavailable)
            else
              thenS (put_wallet h (\<lambda>wa. wa\<lparr>wa_capabilities := wa_capabilities wa @ [c]\<rparr>))
                (returnS c)))))))))))"

definition dispatch_intent :: "nat \<Rightarrow> (rotation_intent option, world) prog" where
  "dispatch_intent h =
     thenS (touch h)
     (bindS (get_wallet h) (\<lambda>wa.
      (case dget (wa_payload wa) (pykey ''rotation_dispatch_intent'') of
         None \<Rightarrow> returnS None
       | Some v \<Rightarrow> bindS (liftS (intent_from_payload v)) (\<lambda>i. returnS (Some i)))))"

definition pending_signing_public_key :: "prims \<Rightarrow> nat \<Rightarrow> (bytes option, world) prog" where
  "pending_signing_public_key P h =
     thenS (touch h)
     (bindS (getS (\<lambda>w. w_pending_secrets w h)) (\<lambda>seed.
      bindS (get_wallet h) (\<lambda>wa.
      let stored = item (wa_payload wa) ''pending_public_key'' in
      if seed = None then
        thenS (guardS (stored \<noteq> PyNone) SignerUnavailable) (returnS None)
      else bindS (public_key_for_secret P seed stored) (\<lambda>k. returnS (Some k)))))"

section \<open>Preparing and cancelling a rotation\<close>

text \<open>The body of the \<^verbatim>\<open>try\<close> block up to the persisted flag: the new public key, payload and
  envelope.\<close>

definition stage_successor ::
    "prims \<Rightarrow> nat \<Rightarrow> nat \<Rightarrow> (bytes \<times> pydict \<times> pydict, world) prog" where
  "stage_successor P h pending_seed =
     bindS (read_buffer pending_seed) (\<lambda>b.
     bindS (liftS (exceptE (public_key_from_seed P b) (\<lambda>_. Inl KeyGenerationError))) (\<lambda>key.
     bindS (get_wallet h) (\<lambda>wa.
     thenS (guardS (PyBytes key = item (wa_payload wa) ''public_key'') KeyGenerationError)
     (let updated = dset (wa_payload wa) (pykey ''pending_public_key'') (PyBytes key) in
      bindS (build_envelope P h updated (Some pending_seed) None True) (\<lambda>envelope.
      thenS (persist_envelope h envelope) (returnS (key, updated, envelope)))))))"

definition prepare_signing_key_rotation :: "prims \<Rightarrow> nat \<Rightarrow> (bytes, world) prog" where
  "prepare_signing_key_rotation P h =
     thenS (touch h)
     (thenS (ensure_not_latched h)
     (bindS (getS (\<lambda>w. w_pending_secrets w h)) (\<lambda>existing.
      if existing \<noteq> None then
        bindS (pending_signing_public_key P h) (\<lambda>k.
        (case k of None \<Rightarrow> raiseS SignerUnavailable | Some key \<Rightarrow> returnS key))
      else
        bindS (getS (\<lambda>w. w_wallet_secrets w h)) (\<lambda>active_seed.
        bindS (get_wallet h) (\<lambda>wa.
        thenS (guardS (active_seed = None \<or> \<not> is_PyBytes (item (wa_payload wa) ''public_key''))
                 SignerUnavailable)
        (bindS new_seed (\<lambda>pending_seed.
         bindS
           (exceptS (stage_successor P h pending_seed)
              (\<lambda>e. thenS (wipe_buffer pending_seed) (raiseS e)))
           (\<lambda>(key, updated, envelope).
            thenS (set_pending h (Some pending_seed))
            (thenS (set_content h updated envelope)
            (thenS (invalidate_capabilities h) (returnS key))))))))))) "

definition cancel_signing_key_rotation :: "prims \<Rightarrow> nat \<Rightarrow> (unit, world) prog" where
  "cancel_signing_key_rotation P h =
     thenS (touch h)
     (thenS (ensure_not_latched h)
     (bindS (getS (\<lambda>w. w_pending_secrets w h)) (\<lambda>pending_seed.
      bindS (get_wallet h) (\<lambda>wa.
      (case pending_seed of
         None \<Rightarrow> guardS (item (wa_payload wa) ''pending_public_key'' \<noteq> PyNone) SignerUnavailable
       | Some a \<Rightarrow>
           let updated = dpop (wa_payload wa) (pykey ''pending_public_key'') in
           bindS (build_envelope P h updated None None False) (\<lambda>envelope.
           thenS (persist_envelope h envelope)
           (thenS (set_content h updated envelope)
           (thenS (set_pending h None)
           (thenS (wipe_buffer a)
             (invalidate_capabilities h))))))))))"

section \<open>Proving and latching\<close>

text \<open>\<open>draft\<close> is \<open>None\<close> for an argument of another class.\<close>

definition prove_pending_signing_key_rotation ::
    "prims \<Rightarrow> nat \<Rightarrow> identity_draft option \<Rightarrow> (unit, world) prog" where
  "prove_pending_signing_key_rotation P h draft =
     thenS (touch h)
     (thenS (ensure_not_latched h)
     (bindS (getS (\<lambda>w. (w_pending_secrets w h, w_wallet_secrets w h))) (\<lambda>(pending_seed, active_seed).
      bindS (get_wallet h) (\<lambda>wa.
      let pending_key = item (wa_payload wa) ''pending_public_key'';
          active_key = item (wa_payload wa) ''public_key''
      in
      thenS (guardS (pending_seed = None \<or> active_seed = None \<or> \<not> is_PyBytes pending_key
                     \<or> \<not> is_PyBytes active_key) SignerUnavailable)
      (case draft of
         None \<Rightarrow> raiseS InvalidIdentityRequest
       | Some d \<Rightarrow>
           bindS (public_key_for_secret P active_seed active_key) (\<lambda>derived_active.
           bindS (public_key_for_secret P pending_seed pending_key) (\<lambda>derived_pending.
           bindS (liftS (as_request
             (bindE (make_draft P (PyBytes (dr_signed_update_bytes d))
                       (optional_bytes (dr_previous_state_envelope d))
                       (map PyBytes (dr_previous_state_history d))) (\<lambda>validated.
              bindE (validate_owner_key_rotation_binding P validated (PyBytes derived_active)
                       (PyBytes derived_pending)) (\<lambda>_. Inr validated))))) (\<lambda>validated.
           bindS (read_optional pending_seed) (\<lambda>seed.
           let digest = sha256 (dr_signed_update_bytes validated) in
           (case ed25519_sign P (case seed of None \<Rightarrow> [] | Some b \<Rightarrow> b) digest of
              None \<Rightarrow> raiseS SignerUnavailable
            | Some signature \<Rightarrow>
                guardS (\<not> ed25519_verify P derived_pending digest signature) SignerUnavailable))))))))))"

text \<open>\<^verbatim>\<open>IdentityBundle.from_cbor(bundle.to_cbor())\<close> and its envelope.\<close>

definition revalidated_bundle :: "prims \<Rightarrow> identity_bundle \<Rightarrow> (identity_bundle \<times> bytes) res" where
  "revalidated_bundle P b =
     as_request
       (bindE (bundle_to_cbor P b) (\<lambda>data.
        bindE (bundle_from_cbor P (PyBytes data)) (\<lambda>validated.
        bindE (bundle_finalize P validated) (\<lambda>envelope. Inr (validated, envelope)))))"

definition rotation_step :: "(rotation_state \<Rightarrow> 'a res \<times> rotation_state) \<Rightarrow> ('a, world) prog" where
  "rotation_step f w =
     (case f (w_rotation w) of
        (Inl e, s) \<Rightarrow> (Raise e, w\<lparr>w_rotation := s\<rparr>)
      | (Inr x, s) \<Rightarrow> (Ret x, w\<lparr>w_rotation := s\<rparr>))"

text \<open>The authorized artifact: the bundle is revalidated, the publication is fresh and made
  for it, and the successor is proved.\<close>

definition authorized_intent ::
    "prims \<Rightarrow> nat \<Rightarrow> identity_bundle \<Rightarrow> rotation_publication \<Rightarrow> (rotation_intent, world) prog" where
  "authorized_intent P h bundle publication =
     bindS (liftS (revalidated_bundle P bundle)) (\<lambda>(validated, envelope).
     bindS time_now (\<lambda>now.
     thenS (guardS (pub_expires_at publication \<le> now \<or> \<not> matches_bundle P publication validated)
              InvalidIdentityRequest)
     (bindS (liftS (draft_authorization P (bd_draft validated))) (\<lambda>authorization.
      (case authorization of
         None \<Rightarrow> raiseS InvalidIdentityRequest
       | Some auth \<Rightarrow>
           thenS (guardS (au_operation auth \<noteq> 5) InvalidIdentityRequest)
           (thenS (prove_pending_signing_key_rotation P h (Some (bd_draft validated)))
           (bindS (wallet_public_key P h) (\<lambda>active_key.
            bindS (pending_signing_public_key P h) (\<lambda>successor.
            (case successor of
               None \<Rightarrow> raiseS SignerUnavailable
             | Some successor_key \<Rightarrow>
                 bindS (liftS (draft_owner_name P (bd_draft validated))) (\<lambda>owner_name.
                 bindS (liftS (draft_sequence P (bd_draft validated))) (\<lambda>sequence.
                 liftS (make_intent owner_name (PyBytes active_key) (PyBytes successor_key)
                   (PyBytes (au_predecessor auth)) (PyInt sequence) (PyBytes (sha256 envelope))
                   (PyStr (pub_environment publication)))))))))))))))"

definition latch_rotation ::
    "prims \<Rightarrow> nat \<Rightarrow> identity_bundle option \<Rightarrow> rotation_publication option
      \<Rightarrow> (rotation_permit, world) prog" where
  "latch_rotation P h bundle publication =
     thenS (touch h)
     (thenS (ensure_not_latched h)
     (case (bundle, publication) of
        (Some b, Some p) \<Rightarrow>
          bindS (authorized_intent P h b p) (\<lambda>intent.
          bindS (liftS (publication_matches_intent P p intent)) (\<lambda>matches.
          thenS (guardS (\<not> matches) InvalidIdentityRequest)
          (bindS (getS (\<lambda>w. is_owner_latched (rs_latches (w_rotation w) (pub_latch_registry p))
                              (ri_owner_name intent))) (\<lambda>latched.
           thenS (guardS latched InvalidIdentityRequest)
           (thenS (invalidate_capabilities h)
           (bindS (get_wallet h) (\<lambda>wa.
            let updated = dset (wa_payload wa) (pykey ''rotation_dispatch_intent'')
                            (PyDict (intent_to_payload intent))
            in
            bindS (build_envelope P h updated None None True) (\<lambda>envelope.
            thenS (persist_envelope h envelope)
            (thenS (set_content h updated envelope)
            (bindS (rotation_step (mark_latched P p intent)) (\<lambda>marked.
             thenS (guardS (\<not> marked) InvalidIdentityRequest)
               (liftS (make_permit intent ROTATION_PERMIT_SEAL)))))))))))))
      | (Some b, None) \<Rightarrow>
          bindS (liftS (revalidated_bundle P b)) (\<lambda>_. raiseS InvalidIdentityRequest)
      | (None, _) \<Rightarrow> raiseS InvalidIdentityRequest))"

text \<open>\<open>consent\<close> may run any program; \<open>None\<close> is an argument that cannot be called.\<close>

definition bind_legacy_environment ::
    "prims \<Rightarrow> nat \<Rightarrow> pyval \<Rightarrow> (rotation_intent \<Rightarrow> pyval \<Rightarrow> (pyval, world) prog) option
      \<Rightarrow> (rotation_intent, world) prog" where
  "bind_legacy_environment P h environment consent =
     thenS (touch h)
     (bindS (dispatch_intent h) (\<lambda>found.
      (case (found, consent) of
         (Some intent, Some ask) \<Rightarrow>
           thenS (guardS (ri_environment intent \<noteq> None \<or> \<not> valid_registry_environment environment)
                    InvalidIdentityRequest)
           (bindS
              (exceptS (ask intent environment) (\<lambda>_. raiseS InvalidIdentityRequest)) (\<lambda>answer.
            thenS (touch h)
            (thenS (guardS (answer \<noteq> PyBool True) InvalidIdentityRequest)
            (bindS (dispatch_intent h) (\<lambda>again.
             thenS (guardS (again \<noteq> Some intent) InvalidIdentityRequest)
             (bindS (get_wallet h) (\<lambda>wa.
              let bound = intent\<lparr>ri_environment :=
                            (case environment of PyStr s \<Rightarrow> Some s | _ \<Rightarrow> None)\<rparr>;
                  updated = dset (wa_payload wa) (pykey ''rotation_dispatch_intent'')
                              (PyDict (intent_to_payload bound))
              in
              bindS (build_envelope P h updated None None True) (\<lambda>envelope.
              thenS (invalidate_capabilities h)
              (thenS (persist_envelope h envelope)
              (thenS (set_content h updated envelope) (returnS bound)))))))))))
       | _ \<Rightarrow> raiseS InvalidIdentityRequest)))"

section \<open>Finishing a rotation\<close>

text \<open>The stored intent, with the seeds and keys it must belong to.\<close>

definition intent_keys_agree :: "wallet \<Rightarrow> rotation_intent \<Rightarrow> bool" where
  "intent_keys_agree wa intent \<longleftrightarrow>
     item (wa_payload wa) ''public_key'' = PyBytes (ri_predecessor_owner_public_key intent)
     \<and> item (wa_payload wa) ''pending_public_key'' = PyBytes (ri_successor_owner_public_key intent)"

definition stored_intent :: "nat \<Rightarrow> (rotation_intent, world) prog" where
  "stored_intent h =
     bindS (get_wallet h) (\<lambda>wa.
     let raw = item (wa_payload wa) ''rotation_dispatch_intent'' in
     thenS (guardS (raw = PyNone) InvalidIdentityRequest)
       (liftS (intent_from_payload raw)))"

text \<open>\<open>confirmation\<close> is \<open>None\<close> for an argument of another class.\<close>

definition finalize_signing_key_rotation ::
    "prims \<Rightarrow> nat \<Rightarrow> rotation_confirmation option \<Rightarrow> (bytes, world) prog" where
  "finalize_signing_key_rotation P h confirmation =
     thenS (touch h)
     (case confirmation of
        None \<Rightarrow> raiseS InvalidIdentityRequest
      | Some c \<Rightarrow>
          bindS (stored_intent h) (\<lambda>intent.
          thenS (guardS (\<not> confirmation_matches_intent c intent) InvalidIdentityRequest)
          (bindS (getS (\<lambda>w. (w_wallet_secrets w h, w_pending_secrets w h))) (\<lambda>(active_seed, pending_seed).
           bindS (get_wallet h) (\<lambda>wa.
           thenS (guardS (active_seed = None \<or> pending_seed = None \<or> \<not> intent_keys_agree wa intent)
                    SignerUnavailable)
           (bindS (public_key_for_secret P active_seed (item (wa_payload wa) ''public_key'')) (\<lambda>_.
            bindS (public_key_for_secret P pending_seed (item (wa_payload wa) ''pending_public_key''))
              (\<lambda>successor.
            thenS (guardS (successor \<noteq> rc_successor_owner_public_key c) SignerUnavailable)
            (bindS (getS (\<lambda>w. confirmation_is_latched c intent (w_rotation w))) (\<lambda>latched.
             thenS (guardS (\<not> latched) InvalidIdentityRequest)
             (let updated = dpop (dpop (dset (wa_payload wa) (pykey ''public_key'') (PyBytes successor))
                              (pykey ''pending_public_key'')) (pykey ''rotation_dispatch_intent'')
              in
              thenS (invalidate_capabilities h)
              (bindS (build_envelope P h updated None pending_seed False) (\<lambda>envelope.
               thenS (persist_envelope h envelope)
               (thenS (set_secret h pending_seed)
               (thenS (set_pending h None)
               (thenS (set_content h updated envelope)
               (thenS (wipe_option active_seed)
               (bindS (rotation_step (\<lambda>s. case confirmation_clear_latch c intent s of
                                            (b, s') \<Rightarrow> (Inr b, s'))) (\<lambda>cleared.
                thenS (guardS (\<not> cleared) InvalidIdentityRequest)
                  (returnS successor))))))))))))))))))))"

definition resolve_rotation_rejection ::
    "prims \<Rightarrow> nat \<Rightarrow> rotation_rejection option \<Rightarrow> (unit, world) prog" where
  "resolve_rotation_rejection P h rejection =
     thenS (touch h)
     (case rejection of
        None \<Rightarrow> raiseS InvalidIdentityRequest
      | Some r \<Rightarrow>
          thenS (guardS (rj_status r \<noteq> EXPIRED) InvalidIdentityRequest)
          (bindS (stored_intent h) (\<lambda>intent.
           bindS (liftS (rejection_matches_intent P r intent)) (\<lambda>matches.
           thenS (guardS (\<not> matches) InvalidIdentityRequest)
           (bindS (getS (\<lambda>w. (w_wallet_secrets w h, w_pending_secrets w h))) (\<lambda>(active_seed, pending_seed).
            bindS (get_wallet h) (\<lambda>wa.
            thenS (guardS (active_seed = None \<or> pending_seed = None \<or> \<not> intent_keys_agree wa intent)
                     SignerUnavailable)
            (bindS (public_key_for_secret P active_seed (item (wa_payload wa) ''public_key'')) (\<lambda>_.
             bindS (public_key_for_secret P pending_seed (item (wa_payload wa) ''pending_public_key''))
               (\<lambda>_.
             bindS (rotation_step (\<lambda>s. (rejection_is_latched P r intent s, s))) (\<lambda>latched.
             thenS (guardS (\<not> latched) InvalidIdentityRequest)
             (bindS (rotation_step (\<lambda>s. case rejection_claim r s of (b, s') \<Rightarrow> (Inr b, s'))) (\<lambda>claimed.
              thenS (guardS (\<not> claimed) InvalidIdentityRequest)
              (let updated = dpop (wa_payload wa) (pykey ''rotation_dispatch_intent'') in
               bindS
                 (exceptS
                    (bindS (build_envelope P h updated None None True) (\<lambda>envelope.
                     thenS (persist_envelope h envelope) (returnS envelope)))
                    (\<lambda>e. thenS (modifyS (\<lambda>w. w\<lparr>w_rotation := rejection_release r (w_rotation w)\<rparr>))
                           (raiseS e)))
                 (\<lambda>envelope.
                  thenS (set_content h updated envelope)
                  (thenS (invalidate_capabilities h)
                    (bindS (rotation_step (rejection_clear_latch P r intent)) (\<lambda>_.
                     returnS ()))))))))))))))))))"

end
