(* ===== verification/Consent.thy ===== *)
theory Consent
  imports Wallet_Operations One_Use
begin

text \<open>
  The consent of \<^verbatim>\<open>identity.py\<close>: transcripts, replay nonces, and the state that
  the registry adapter works on.  The transport of the adapter is a record of
  programs over a state of its own, the network.
\<close>

section \<open>Transcripts\<close>

record consent_transcript =
  ct_authenticated_origin :: pystr
  ct_environment :: pystr
  ct_operation :: pystr
  ct_payload_hash :: bytes
  ct_purpose :: pystr
  ct_capability :: pystr
  ct_expires_at :: int
  ct_replay_nonce :: bytes
  ct_sequence :: int
  ct_generation :: "int option"
  ct_review_payload :: bytes
  ct_signer_id :: "pystr option"
  ct_signer_public_key :: "bytes option"

definition require_text :: "pyval \<Rightarrow> pystr res" where
  "require_text v =
     (case v of
        PyStr s \<Rightarrow> raise_if (s = []) InvalidIdentityRequest (Inr s)
      | _ \<Rightarrow> Inl InvalidIdentityRequest)"

text \<open>The arguments that the caller of an adapter operation chooses.\<close>

record consent_args =
  ca_authenticated_origin :: pyval
  ca_environment :: pyval
  ca_purpose :: pyval
  ca_capability :: pyval
  ca_expires_at :: pyval
  ca_replay_nonce :: pyval

text \<open>\<^verbatim>\<open>ConsentTranscript(...)\<close>; the sequence, generation, signer and payload come from
  the adapter.\<close>

definition make_transcript ::
    "consent_args \<Rightarrow> pyval \<Rightarrow> bytes \<Rightarrow> int \<Rightarrow> int option \<Rightarrow> bytes \<Rightarrow> pyval \<Rightarrow> bytes option
      \<Rightarrow> consent_transcript res" where
  "make_transcript c operation payload_hash sequence generation review_payload signer_id signer_public_key =
     bindE (require_text (ca_authenticated_origin c)) (\<lambda>origin.
     bindE (require_text (ca_environment c)) (\<lambda>environment.
     bindE (require_text operation) (\<lambda>operation.
     bindE (require_text (ca_purpose c)) (\<lambda>purpose.
     bindE (require_text (ca_capability c)) (\<lambda>capability.
     bindE (require_uint (ca_expires_at c)) (\<lambda>expires_at.
     bindE (require_uint (PyInt sequence)) (\<lambda>sequence.
     raise_if (length payload_hash \<noteq> 32) InvalidIdentityRequest
      (bindE (require_bytes (ca_replay_nonce c) None True) (\<lambda>replay_nonce.
       raise_if (case generation of None \<Rightarrow> False | Some g \<Rightarrow> g < 0) InvalidIdentityRequest
       (bindE (if signer_id = PyNone then Inr None
               else bindE (require_text signer_id) (\<lambda>s. Inr (Some s))) (\<lambda>signer_id.
        raise_if (case signer_public_key of None \<Rightarrow> signer_id \<noteq> None | Some k \<Rightarrow> length k \<noteq> 32)
          InvalidIdentityRequest
        (raise_if (review_payload = []) InvalidIdentityRequest
        (raise_if (sha256 review_payload \<noteq> payload_hash) InvalidIdentityRequest
         (Inr \<lparr>ct_authenticated_origin = origin, ct_environment = environment,
               ct_operation = operation, ct_payload_hash = payload_hash, ct_purpose = purpose,
               ct_capability = capability, ct_expires_at = expires_at,
               ct_replay_nonce = replay_nonce, ct_sequence = sequence,
               ct_generation = generation, ct_review_payload = review_payload,
               ct_signer_id = signer_id, ct_signer_public_key = signer_public_key\<rparr>))))))))))))))"

definition transcript_value :: "consent_transcript \<Rightarrow> pyval" where
  "transcript_value t =
     PyDict
       ([(PyInt 1, PyStr (ct_authenticated_origin t)), (PyInt 2, PyStr (ct_environment t)),
         (PyInt 3, PyStr (ct_operation t)), (PyInt 4, PyBytes (ct_payload_hash t)),
         (PyInt 5, PyStr (ct_purpose t)), (PyInt 6, PyStr (ct_capability t)),
         (PyInt 7, PyInt (ct_expires_at t)), (PyInt 8, PyBytes (ct_replay_nonce t)),
         (PyInt 9, PyInt (ct_sequence t))]
        @ (case ct_generation t of None \<Rightarrow> [] | Some g \<Rightarrow> [(PyInt 10, PyInt g)])
        @ (case ct_signer_id t of None \<Rightarrow> [] | Some s \<Rightarrow> [(PyInt 11, PyStr s)])
        @ (case ct_signer_public_key t of None \<Rightarrow> [] | Some k \<Rightarrow> [(PyInt 12, PyBytes k)])
        @ [(PyInt 13, PyBytes (ct_review_payload t))])"

definition transcript_canonical_bytes :: "prims \<Rightarrow> consent_transcript \<Rightarrow> bytes res" where
  "transcript_canonical_bytes P t = canonical P (transcript_value t)"

definition transcript_digest :: "prims \<Rightarrow> consent_transcript \<Rightarrow> bytes res" where
  "transcript_digest P t = bindE (transcript_canonical_bytes P t) (\<lambda>b. Inr (sha256 b))"

section \<open>Decisions\<close>

datatype consent_decision = Approved | Denied | Cancelled | Expired | Failed

text \<open>\<^verbatim>\<open>_normalize_consent\<close>: a member of the enumeration is its string.\<close>

definition normalize_consent :: "pyval \<Rightarrow> consent_decision" where
  "normalize_consent v =
     (if v = pykey ''approved'' then Approved
      else if v = pykey ''denied'' then Denied
      else if v = pykey ''cancelled'' then Cancelled
      else if v = pykey ''expired'' then Expired
      else Failed)"

definition decision_value :: "consent_decision \<Rightarrow> string" where
  "decision_value d =
     (case d of Approved \<Rightarrow> ''approved'' | Denied \<Rightarrow> ''denied'' | Cancelled \<Rightarrow> ''cancelled''
      | Expired \<Rightarrow> ''expired'' | Failed \<Rightarrow> ''failed'')"

definition decision_status :: "consent_decision \<Rightarrow> publish_status" where
  "decision_status d =
     (case d of Denied \<Rightarrow> DENIED | Cancelled \<Rightarrow> CANCELLED | Expired \<Rightarrow> EXPIRED | _ \<Rightarrow> FAILED)"

section \<open>Replay nonces\<close>

text \<open>\<^verbatim>\<open>InMemoryReplayNonceStore.consume\<close> on the set of consumed keys.\<close>

definition memory_consume :: "bytes \<Rightarrow> bytes set \<Rightarrow> bool \<times> bytes set" where
  "memory_consume key consumed =
     (if key \<in> consumed then (False, consumed) else (True, insert key consumed))"

interpretation nonce: one_use memory_consume "\<lambda>s. s"
  by unfold_locales (auto simp: memory_consume_def)

section \<open>Transport and adapter\<close>

text \<open>A write as it is handed to the transport.\<close>

record put_call =
  put_owner_name_hex :: pystr
  put_envelope_cbor :: bytes
  put_expected_state_hash :: "bytes option"
  put_expires_at :: int

text \<open>\<^verbatim>\<open>IdentityTransport\<close>: the four methods are programs over the network; the attributes
  may raise and may change.  A missing \<^verbatim>\<open>registry_environment\<close> is \<open>None\<close>.\<close>

record 'n transport =
  tr_get :: "pystr \<Rightarrow> (pyval, 'n) prog"
  tr_get_by_hash :: "pystr \<Rightarrow> bytes \<Rightarrow> (pyval, 'n) prog"
  tr_get_remote :: "pystr \<Rightarrow> (pyval, 'n) prog"
  tr_put :: "put_call \<Rightarrow> (unit, 'n) prog"
  tr_registry_environment :: "'n \<Rightarrow> pyval option res"
  tr_supports_rotation :: "'n \<Rightarrow> pyval res"
  tr_remote_callable :: "'n \<Rightarrow> bool res"

text \<open>\<open>ad_replay\<close> is the replay store of the caller, if one was given.  \<open>ad_token\<close> is the
  adapter's rotation token and its latch registry.\<close>

record 'n adapter =
  ad_transport :: "'n transport"
  ad_replay :: "(bytes \<Rightarrow> (bool, 'n) prog) option"
  ad_registry_environment :: "pystr option"
  ad_token :: nat

text \<open>\<open>aw_puts\<close> lists the writes that were handed to the transport, in order;
  \<open>aw_objects\<close> numbers the publications and rejections.\<close>

record 'n adapter_world =
  aw_world :: world
  aw_net :: 'n
  aw_replay :: "bytes set"
  aw_objects :: nat
  aw_puts :: "put_call list"

definition make_adapter ::
    "'n transport \<Rightarrow> (bytes \<Rightarrow> (bool, 'n) prog) option \<Rightarrow> pyval \<Rightarrow> nat \<Rightarrow> 'n adapter res" where
  "make_adapter transport replay_store registry_environment token =
     raise_if (registry_environment \<noteq> PyNone \<and> \<not> valid_registry_environment registry_environment)
       InvalidIdentityRequest
     (Inr \<lparr>ad_transport = transport, ad_replay = replay_store,
           ad_registry_environment =
             (case registry_environment of PyStr s \<Rightarrow> Some s | _ \<Rightarrow> None),
           ad_token = token\<rparr>)"

definition on_world :: "('a, world) prog \<Rightarrow> ('a, 'n adapter_world) prog" where
  "on_world m w = (case m (aw_world w) of (r, w') \<Rightarrow> (r, w\<lparr>aw_world := w'\<rparr>))"

definition on_net :: "('a, 'n) prog \<Rightarrow> ('a, 'n adapter_world) prog" where
  "on_net m w = (case m (aw_net w) of (r, n) \<Rightarrow> (r, w\<lparr>aw_net := n\<rparr>))"

text \<open>A write is recorded and then handed over.\<close>

definition transport_put :: "'n adapter \<Rightarrow> put_call \<Rightarrow> (unit, 'n adapter_world) prog" where
  "transport_put A c =
     thenS (modifyS (\<lambda>w. w\<lparr>aw_puts := aw_puts w @ [c]\<rparr>)) (on_net (tr_put (ad_transport A) c))"

definition owner_latched :: "'n adapter \<Rightarrow> bytes \<Rightarrow> (bool, 'n adapter_world) prog" where
  "owner_latched A owner_name =
     getS (\<lambda>w. is_owner_latched (rs_latches (w_rotation (aw_world w)) (ad_token A)) owner_name)"

definition replay_consume :: "'n adapter \<Rightarrow> bytes \<Rightarrow> (bool, 'n adapter_world) prog" where
  "replay_consume A key =
     (case ad_replay A of
        None \<Rightarrow> (\<lambda>w. case memory_consume key (aw_replay w) of (b, s) \<Rightarrow> (Ret b, w\<lparr>aw_replay := s\<rparr>))
      | Some consume \<Rightarrow> on_net (consume key))"

definition replay_key :: "prims \<Rightarrow> bytes \<Rightarrow> pystr \<Rightarrow> pystr \<Rightarrow> bytes \<Rightarrow> bytes res" where
  "replay_key P owner_name origin environment replay_nonce =
     bindE (canonical P (PyDict [(PyInt 1, PyBytes owner_name), (PyInt 2, PyStr origin),
                                 (PyInt 3, PyStr environment), (PyInt 4, PyBytes replay_nonce)]))
       (\<lambda>b. Inr (sha256 b))"

definition reserve_replay_nonce ::
    "prims \<Rightarrow> 'n adapter \<Rightarrow> bytes \<Rightarrow> consent_transcript \<Rightarrow> (bool, 'n adapter_world) prog" where
  "reserve_replay_nonce P A owner_name t =
     bindS (liftS (replay_key P owner_name (ct_authenticated_origin t) (ct_environment t)
                     (ct_replay_nonce t))) (replay_consume A)"

section \<open>The consent gate\<close>

text \<open>The consent handler may run any program.  \<open>None\<close> is an approval.\<close>

type_synonym 'n consent_handler = "consent_transcript \<Rightarrow> (pyval, 'n adapter_world) prog"

text \<open>\<open>expired_at t\<close> is \<^verbatim>\<open>t <= int(time.time())\<close>.\<close>

definition expired_at :: "int \<Rightarrow> (bool, 'n adapter_world) prog" where
  "expired_at t = bindS (on_world time_now) (\<lambda>now. returnS (t \<le> now))"

text \<open>The part that asks, once the replay nonce is reserved.\<close>

definition ask_consent ::
    "consent_transcript \<Rightarrow> 'n consent_handler
      \<Rightarrow> ((publish_status \<times> string) option, 'n adapter_world) prog" where
  "ask_consent t consent =
     bindS (expired_at (ct_expires_at t)) (\<lambda>late.
     if late then returnS (Some (EXPIRED, ''consent expired''))
     else
       bindS
         (exceptS (bindS (consent t) (\<lambda>v. returnS (normalize_consent v))) (\<lambda>_. returnS Failed))
         (\<lambda>decision.
          if decision \<noteq> Approved then
            returnS (Some (decision_status decision, decision_value decision))
          else
            bindS (expired_at (ct_expires_at t)) (\<lambda>late.
            returnS (if late then Some (EXPIRED, ''consent expired'') else None))))"

definition consent_gate ::
    "prims \<Rightarrow> 'n adapter \<Rightarrow> bytes \<Rightarrow> consent_transcript \<Rightarrow> 'n consent_handler
      \<Rightarrow> ((publish_status \<times> string) option, 'n adapter_world) prog" where
  "consent_gate P A owner_name t consent =
     bindS
       (exceptS (bindS (reserve_replay_nonce P A owner_name t) (\<lambda>b. returnS (Some b)))
          (\<lambda>_. returnS None))
       (\<lambda>available.
        (case available of
           None \<Rightarrow> returnS (Some (FAILED, ''replay protection unavailable''))
         | Some free \<Rightarrow>
             if \<not> free then returnS (Some (FAILED, ''replay rejected''))
             else ask_consent t consent))"

end
