(* ===== verification/Registry_Adapter.thy ===== *)
theory Registry_Adapter
  imports Consent
begin

text \<open>
  The reading half of \<^verbatim>\<open>RegistryAdapter\<close>: the checks of the trusted environment and of
  the transport, the walk along the predecessor history behind an envelope,
  the construction of drafts from the accepted state, and the readback that
  confirms a publication.
\<close>

section \<open>Environment and transport\<close>

definition rotation_environment_matches ::
    "'n adapter \<Rightarrow> pystr option \<Rightarrow> (bool, 'n adapter_world) prog" where
  "rotation_environment_matches A environment =
     getS (\<lambda>w.
       (case environment of
          None \<Rightarrow> False
        | Some e \<Rightarrow>
            ad_registry_environment A = Some e
            \<and> (case tr_registry_environment (ad_transport A) (aw_net w) of
                 Inl _ \<Rightarrow> False
               | Inr None \<Rightarrow> True
               | Inr (Some v) \<Rightarrow> v = PyStr e)))"

definition rotation_transport_available :: "'n adapter \<Rightarrow> (bool, 'n adapter_world) prog" where
  "rotation_transport_available A =
     getS (\<lambda>w. tr_supports_rotation (ad_transport A) (aw_net w) = Inr (PyBool True)
             \<and> tr_remote_callable (ad_transport A) (aw_net w) = Inr True)"

section \<open>Accepted state\<close>

text \<open>A lookup with an integer key: Python finds an equal key of another numeric class
  too.\<close>

definition int_key :: "int \<Rightarrow> pyval \<Rightarrow> bool" where
  "int_key i k \<longleftrightarrow>
     k = PyInt i \<or> k = PyBool True \<and> i = 1 \<or> k = PyBool False \<and> i = 0
     \<or> k = PyFloat (show_int i @ str_of ''.0'')"

definition int_item :: "pydict \<Rightarrow> int \<Rightarrow> pyval" where
  "int_item d i =
     (case find (\<lambda>kv. int_key i (fst kv)) d of None \<Rightarrow> PyNone | Some kv \<Rightarrow> snd kv)"

text \<open>The authorization that sends the walk to a predecessor, if there is one.\<close>

definition history_authorization :: "prims \<Rightarrow> pyval \<Rightarrow> authorization option res" where
  "history_authorization P envelope =
     bindE (require_canonical P envelope) (\<lambda>v.
     bindE
       (case v of
          PyDict d \<Rightarrow>
            (case (int_item d 1, int_item d 2) of
               (PyInt i, PyBytes update) \<Rightarrow>
                 if i = 1 then
                   bindE (decode_signed_update P (PyBytes update)) (\<lambda>(_, _, _, authorization).
                   Inr authorization)
                 else Inr None
             | _ \<Rightarrow> Inr None)
        | _ \<Rightarrow> Inr None)
       (\<lambda>authorization.
        Inr (case authorization of
               None \<Rightarrow> None
             | Some a \<Rightarrow> if au_operation a \<in> {2, 3, 4, 5} then Some a else None)))"

text \<open>\<^verbatim>\<open>_parse_state_with_history\<close>: \<open>left\<close> is how many envelopes the chain may still take.
  Every predecessor is fetched on the way down; the envelopes are parsed on
  the way back, each against the state of its predecessor.\<close>

fun walk_history ::
    "prims \<Rightarrow> 'n adapter \<Rightarrow> bytes \<Rightarrow> pystr option \<Rightarrow> nat \<Rightarrow> pyval
      \<Rightarrow> (identity_state, 'n adapter_world) prog" where
  "walk_history P A owner_name rotation_environment left envelope =
     bindS (liftS (history_authorization P envelope)) (\<lambda>authorization.
     (case authorization of
        None \<Rightarrow> liftS (parse_identity_envelope P owner_name envelope None)
      | Some auth \<Rightarrow>
          (case left of
             0 \<Rightarrow> raiseS InvalidIdentityState
           | Suc left' \<Rightarrow>
               bindS (if rotation_environment = None then returnS True
                      else rotation_environment_matches A rotation_environment) (\<lambda>matches.
               thenS (guardS (\<not> matches) InvalidIdentityState)
               (bindS
                  (exceptS
                     (on_net (tr_get_by_hash (ad_transport A) (bytes_hex owner_name)
                                (au_predecessor auth)))
                     (\<lambda>_. raiseS TransportFailure)) (\<lambda>predecessor.
                thenS (guardS (predecessor = PyNone) InvalidIdentityState)
                (bindS (walk_history P A owner_name rotation_environment left' predecessor)
                   (\<lambda>state.
                 liftS (parse_identity_envelope P owner_name envelope (Some state))))))))))"

declare walk_history.simps [simp del]

definition parse_state_with_history ::
    "prims \<Rightarrow> 'n adapter \<Rightarrow> bytes \<Rightarrow> pyval \<Rightarrow> pystr option
      \<Rightarrow> (identity_state, 'n adapter_world) prog" where
  "parse_state_with_history P A owner_name envelope rotation_environment =
     walk_history P A owner_name rotation_environment MAX_PREDECESSOR_DEPTH envelope"

definition read_state ::
    "prims \<Rightarrow> 'n adapter \<Rightarrow> pyval \<Rightarrow> (identity_state option, 'n adapter_world) prog" where
  "read_state P A owner_name =
     bindS (liftS (validate_owner_name owner_name)) (\<lambda>owner_name.
     bindS
       (exceptS (on_net (tr_get (ad_transport A) (bytes_hex owner_name)))
          (\<lambda>_. raiseS TransportFailure)) (\<lambda>envelope.
     if envelope = PyNone then returnS None
     else
       bindS (parse_state_with_history P A owner_name envelope None) (\<lambda>state.
       returnS (Some state))))"

definition same_state :: "identity_state option \<Rightarrow> identity_state option \<Rightarrow> bool" where
  "same_state left right =
     (case (left, right) of
        (Some l, Some r) \<Rightarrow>
          st_state_hash l = st_state_hash r \<and> st_envelope_bytes l = st_envelope_bytes r
      | (None, None) \<Rightarrow> True
      | _ \<Rightarrow> False)"

section \<open>Drafts from the accepted state\<close>

definition next_sequence :: "identity_state option \<Rightarrow> int" where
  "next_sequence current = (case current of None \<Rightarrow> 1 | Some st \<Rightarrow> st_sequence st + 1)"

definition state_envelope :: "identity_state option \<Rightarrow> pyval" where
  "state_envelope current = optional_bytes (map_option st_envelope_bytes current)"

definition state_history :: "identity_state option \<Rightarrow> bytes list" where
  "state_history current =
     (case current of None \<Rightarrow> [] | Some st \<Rightarrow> st_predecessor_envelopes st)"

definition adapter_create_draft ::
    "prims \<Rightarrow> 'n adapter \<Rightarrow> pyval \<Rightarrow> pyval \<Rightarrow> pydict option
      \<Rightarrow> (identity_draft, 'n adapter_world) prog" where
  "adapter_create_draft P A owner_name owner_public_key authorization =
     bindS (liftS (validate_owner_name owner_name)) (\<lambda>owner_name.
     bindS (liftS (require_bytes owner_public_key (Some 32) False)) (\<lambda>owner_public_key.
     bindS (read_state P A (PyBytes owner_name)) (\<lambda>current.
     thenS (guardS (case current of None \<Rightarrow> False
                    | Some st \<Rightarrow> st_owner_public_key st \<noteq> owner_public_key) InvalidIdentityRequest)
       (liftS (create_draft P (PyBytes owner_name) (PyBytes owner_public_key)
                 (PyInt (next_sequence current)) authorization (state_envelope current)
                 (map PyBytes (state_history current)))))))"

text \<open>\<^verbatim>\<open>entry[1].encode("utf-8")\<close>; \<open>None\<close> where it raises.\<close>

definition encoded_text :: "pyval \<Rightarrow> bytes option" where
  "encoded_text v = (case v of PyStr s \<Rightarrow> utf8_encode s | _ \<Rightarrow> None)"

definition signer_sort_key :: "pyval \<Rightarrow> bytes option" where
  "signer_sort_key entry =
     (case entry of
        PyDict d \<Rightarrow> encoded_text (int_item d 1)
      | PyList xs \<Rightarrow> if 1 < length xs then encoded_text (xs ! 1) else None
      | PyStr s \<Rightarrow> if 1 < length s then utf8_encode [s ! 1] else None
      | _ \<Rightarrow> None)"

definition sorted_signer_entries :: "pyval \<Rightarrow> pyval list res" where
  "sorted_signer_entries signer_set =
     (case signer_set of
        PyList entries \<Rightarrow>
          raise_if (\<not> list_all (\<lambda>e. signer_sort_key e \<noteq> None) entries) InvalidIdentityRequest
          (Inr (sort_key (\<lambda>e. the (signer_sort_key e)) entries))
      | _ \<Rightarrow> Inl InvalidIdentityRequest)"

definition optional_int :: "int option \<Rightarrow> pyval" where
  "optional_int i = (case i of None \<Rightarrow> PyNone | Some n \<Rightarrow> PyInt n)"

text \<open>The epoch, the threshold and the signer entries of the successor.\<close>

definition successor_governance ::
    "identity_state \<Rightarrow> pyval \<Rightarrow> (pyval \<times> pyval \<times> pyval list) res" where
  "successor_governance previous signer_set =
     (if st_signer_set previous \<noteq> [] then
        raise_if (signer_set \<noteq> PyNone) InvalidIdentityRequest
        (Inr (optional_int (st_generation previous), optional_int (st_threshold previous),
              map signer_entry (st_signer_set previous)))
      else
        bindE (sorted_signer_entries signer_set) (\<lambda>entries. Inr (PyInt 1, PyInt 2, entries)))"

definition create_owner_key_rotation_draft ::
    "prims \<Rightarrow> 'n adapter \<Rightarrow> pyval \<Rightarrow> pyval \<Rightarrow> pyval \<Rightarrow> (identity_draft, 'n adapter_world) prog" where
  "create_owner_key_rotation_draft P A owner_name successor_owner_public_key successor_signer_set =
     bindS (liftS (validate_owner_name owner_name)) (\<lambda>owner_name.
     bindS (owner_latched A owner_name) (\<lambda>latched.
     thenS (guardS latched InvalidIdentityRequest)
     (bindS (liftS (require_bytes successor_owner_public_key (Some 32) False)) (\<lambda>successor.
      bindS (read_state P A (PyBytes owner_name)) (\<lambda>current.
      (case current of
         None \<Rightarrow> raiseS InvalidIdentityRequest
       | Some previous \<Rightarrow>
           thenS (guardS (successor = st_owner_public_key previous) InvalidIdentityRequest)
           (bindS (liftS (successor_governance previous successor_signer_set))
              (\<lambda>(epoch, threshold, entries).
            liftS (create_draft P (PyBytes owner_name) (PyBytes successor)
              (PyInt (st_sequence previous + 1))
              (Some [(PyInt 1, PyInt 1), (PyInt 2, PyInt 1), (PyInt 3, PyInt 5), (PyInt 4, epoch),
                     (PyInt 5, threshold), (PyInt 6, PyList entries),
                     (PyInt 7, PyBytes (st_state_hash previous))])
              (PyBytes (st_envelope_bytes previous))
              (map PyBytes (st_predecessor_envelopes previous)))))))))))"

section \<open>Results and confirmation by readback\<close>

record submission_result =
  sr_status :: publish_status
  sr_transcript :: consent_transcript
  sr_envelope_bytes :: "bytes option"
  sr_signed_update_bytes :: "bytes option"
  sr_proof_bytes :: "bytes option"
  sr_accepted_state :: "identity_state option"
  sr_reason :: "string option"
  sr_draft :: "identity_draft option"
  sr_identity_proof :: "identity_proof option"

record publication_result =
  pr_status :: publish_status
  pr_envelope_bytes :: "bytes option"
  pr_accepted_state :: "identity_state option"
  pr_reason :: "string option"
  pr_publication :: "rotation_publication option"

record dispatch_result =
  dp_status :: publish_status
  dp_confirmation :: "rotation_confirmation option"
  dp_rejection :: "rotation_rejection option"
  dp_reason :: "string option"

text \<open>\<^verbatim>\<open>_confirm\<close>.\<close>

definition confirm_envelope ::
    "prims \<Rightarrow> 'n adapter \<Rightarrow> pyval \<Rightarrow> bytes \<Rightarrow> identity_state option
      \<Rightarrow> (identity_state option, 'n adapter_world) prog" where
  "confirm_envelope P A owner_name envelope previous =
     bindS (liftS (validate_owner_name owner_name)) (\<lambda>owner_name.
     bindS
       (exceptS
          (bindS (on_net (tr_get (ad_transport A) (bytes_hex owner_name))) (\<lambda>candidate.
           if candidate = PyNone then returnS None
           else bindS (liftS (parse_identity_envelope P owner_name candidate previous)) (\<lambda>state.
                returnS (Some state))))
          (\<lambda>_. returnS None)) (\<lambda>found.
     returnS (case found of
                None \<Rightarrow> None
              | Some state \<Rightarrow> if st_envelope_bytes state = envelope then Some state else None)))"

definition confirm_publication ::
    "prims \<Rightarrow> 'n adapter \<Rightarrow> bytes \<Rightarrow> bytes \<Rightarrow> identity_state option \<Rightarrow> string
      \<Rightarrow> (publication_result, 'n adapter_world) prog" where
  "confirm_publication P A owner_name envelope previous failure_reason =
     bindS (confirm_envelope P A (PyBytes owner_name) envelope previous) (\<lambda>accepted.
     returnS \<lparr>pr_status = (if accepted = None then UNKNOWN else CONFIRMED),
              pr_envelope_bytes = Some envelope, pr_accepted_state = accepted,
              pr_reason = (if accepted = None then Some failure_reason else None),
              pr_publication = None\<rparr>)"

end
