(* ===== verification/Registry_Publish.thy ===== *)
theory Registry_Publish
  imports Registry_Adapter
begin

text \<open>
  The publishing half of \<^verbatim>\<open>RegistryAdapter\<close>: \<^verbatim>\<open>publish_bundle\<close>, \<^verbatim>\<open>confirm_bundle\<close>,
  \<^verbatim>\<open>submit_identity\<close> and \<^verbatim>\<open>sign_draft\<close>.
\<close>

section \<open>Operations and writes\<close>

text \<open>\<^verbatim>\<open>_OPERATION_NAMES\<close>.\<close>

definition operation_name :: "int \<Rightarrow> string" where
  "operation_name op =
     (if op = 1 then ''genesis'' else if op = 2 then ''ordinary-update''
      else if op = 3 then ''replace-signers'' else if op = 4 then ''upgrade''
      else ''owner-key-rotation'')"

definition draft_operation :: "authorization option \<Rightarrow> string" where
  "draft_operation authorization =
     (case authorization of None \<Rightarrow> ''identity.update'' | Some a \<Rightarrow> operation_name (au_operation a))"

definition is_rotation :: "authorization option \<Rightarrow> bool" where
  "is_rotation authorization =
     (case authorization of None \<Rightarrow> False | Some a \<Rightarrow> au_operation a = 5)"

text \<open>How a write ended: without exception, with one of the two rejections that precede
  it, or with any other exception.\<close>

datatype put_outcome = PutDone | PutStale | PutExpired | PutUnclear

definition try_put :: "'n adapter \<Rightarrow> put_call \<Rightarrow> (put_outcome, 'n adapter_world) prog" where
  "try_put A c =
     exceptS (thenS (transport_put A c) (returnS PutDone))
       (\<lambda>e. returnS (if e = StalePublication then PutStale
                     else if e = ExpiredPublication then PutExpired else PutUnclear))"

definition make_put :: "bytes \<Rightarrow> bytes \<Rightarrow> identity_state option \<Rightarrow> int \<Rightarrow> put_call" where
  "make_put owner_name envelope current expires_at =
     \<lparr>put_owner_name_hex = bytes_hex owner_name, put_envelope_cbor = envelope,
      put_expected_state_hash = map_option st_state_hash current, put_expires_at = expires_at\<rparr>"

section \<open>Bundles\<close>

text \<open>A result without accepted state.\<close>

definition publication_refused :: "publish_status \<Rightarrow> bytes option \<Rightarrow> string \<Rightarrow> publication_result" where
  "publication_refused status envelope reason =
     \<lparr>pr_status = status, pr_envelope_bytes = envelope, pr_accepted_state = None,
      pr_reason = Some reason, pr_publication = None\<rparr>"

text \<open>The part of \<^verbatim>\<open>publish_bundle\<close> that follows an approval.\<close>

definition publish_consented ::
    "prims \<Rightarrow> 'n adapter \<Rightarrow> bytes \<Rightarrow> bytes \<Rightarrow> identity_state option \<Rightarrow> int
      \<Rightarrow> (publication_result, 'n adapter_world) prog" where
  "publish_consented P A owner_name envelope previous expires_at =
     bindS (read_state P A (PyBytes owner_name)) (\<lambda>current.
     if \<not> same_state previous current then
       returnS (publication_refused STALE (Some envelope) ''accepted state changed before publication'')
     else
       bindS (expired_at expires_at) (\<lambda>late.
       if late then returnS (publication_refused EXPIRED (Some envelope) ''consent expired'')
       else
         bindS (owner_latched A owner_name) (\<lambda>latched.
         if latched then
           returnS (publication_refused FAILED (Some envelope) ''owner-key rotation is unresolved'')
         else
           bindS (try_put A (make_put owner_name envelope current expires_at)) (\<lambda>outcome.
           (case outcome of
              PutStale \<Rightarrow>
                returnS (publication_refused STALE (Some envelope) ''conditional publication rejected'')
            | PutExpired \<Rightarrow> returnS (publication_refused EXPIRED (Some envelope) ''consent expired'')
            | PutUnclear \<Rightarrow>
                confirm_publication P A owner_name envelope previous
                  ''independent readback did not confirm dispatch''
            | PutDone \<Rightarrow>
                confirm_publication P A owner_name envelope previous
                  ''readback did not confirm exact envelope'')))))"

text \<open>\<open>bundle\<close> is \<open>None\<close> for an argument of another class, here and below.\<close>

definition publish_bundle ::
    "prims \<Rightarrow> 'n adapter \<Rightarrow> identity_bundle option \<Rightarrow> 'n consent_handler \<Rightarrow> consent_args
      \<Rightarrow> (publication_result, 'n adapter_world) prog" where
  "publish_bundle P A bundle consent args =
     (case bundle of
        None \<Rightarrow> raiseS InvalidIdentityRequest
      | Some b \<Rightarrow>
          thenS (guardS (bd_proofs b = []) InvalidIdentityRequest)
          (bindS (liftS (draft_authorization P (bd_draft b))) (\<lambda>authorization.
           thenS (guardS (is_rotation authorization) InvalidIdentityRequest)
           (bindS (liftS (bundle_finalize P b)) (\<lambda>envelope.
            bindS (liftS (draft_owner_name P (bd_draft b))) (\<lambda>name.
            let owner_name = bytes_of name in
            bindS (owner_latched A owner_name) (\<lambda>latched.
            if latched then
              returnS (publication_refused FAILED (Some envelope) ''owner-key rotation is unresolved'')
            else
              bindS (liftS (draft_previous_state P (bd_draft b))) (\<lambda>previous.
              bindS (read_state P A (PyBytes owner_name)) (\<lambda>current.
              if \<not> same_state previous current then
                returnS (publication_refused STALE (Some envelope)
                           ''accepted state changed before publication'')
              else
                bindS (liftS (draft_sequence P (bd_draft b))) (\<lambda>sequence.
                bindS (liftS (make_transcript args (pykey (draft_operation authorization))
                         (sha256 envelope) sequence
                         (case authorization of
                            Some a \<Rightarrow> Some (au_epoch a)
                          | None \<Rightarrow> (case previous of None \<Rightarrow> None | Some st \<Rightarrow> st_generation st))
                         envelope PyNone None)) (\<lambda>transcript.
                bindS (consent_gate P A owner_name transcript consent) (\<lambda>refused.
                (case refused of
                   Some (status, reason) \<Rightarrow>
                     returnS (publication_refused status (Some envelope) reason)
                 | None \<Rightarrow>
                     publish_consented P A owner_name envelope previous
                       (ct_expires_at transcript))))))))))))))"

definition confirm_bundle ::
    "prims \<Rightarrow> 'n adapter \<Rightarrow> identity_bundle option \<Rightarrow> (publication_result, 'n adapter_world) prog" where
  "confirm_bundle P A bundle =
     (case bundle of
        None \<Rightarrow> raiseS InvalidIdentityRequest
      | Some b \<Rightarrow>
          bindS (liftS (draft_authorization P (bd_draft b))) (\<lambda>authorization.
          thenS (guardS (is_rotation authorization) InvalidIdentityRequest)
          (bindS (liftS (bundle_finalize P b)) (\<lambda>envelope.
           bindS (liftS (draft_previous_state P (bd_draft b))) (\<lambda>previous.
           bindS (liftS (draft_owner_name P (bd_draft b))) (\<lambda>name.
           confirm_publication P A (bytes_of name) envelope previous
             ''readback did not confirm exact envelope''))))))"

section \<open>Transitions that one signer submits\<close>

text \<open>\<^verbatim>\<open>signers.get(signer_id) != signer_public_key\<close>, and the case that there is no
  identifier.\<close>

definition not_signer :: "(pystr \<rightharpoonup> bytes) \<Rightarrow> pyval \<Rightarrow> bytes \<Rightarrow> bool" where
  "not_signer signers signer_id key \<longleftrightarrow>
     (case signer_id of PyStr s \<Rightarrow> signers s \<noteq> Some key | _ \<Rightarrow> True)"

definition validate_transition ::
    "identity_state option \<Rightarrow> authorization \<Rightarrow> pyval \<Rightarrow> bytes \<Rightarrow> unit res" where
  "validate_transition current auth signer_id signer_public_key =
     (case current of
        None \<Rightarrow>
          raise_if (au_operation auth \<noteq> 1 \<or> au_epoch auth \<noteq> 1 \<or> au_predecessor auth \<noteq> zero_bytes 32)
            InvalidIdentityRequest
          (bindE (require_complete_2_of_3 auth) (\<lambda>_.
           raise_if (not_signer (signer_map (au_signers auth)) signer_id signer_public_key)
             InvalidIdentityRequest (Inr ())))
      | Some cur \<Rightarrow>
          if au_operation auth = 5 then
            if st_signer_set cur = [] then
              raise_if (au_epoch auth \<noteq> 1 \<or> au_threshold auth \<noteq> 2 \<or> length (au_signers auth) \<noteq> 3
                        \<or> signer_id \<noteq> PyNone \<or> signer_public_key \<noteq> st_owner_public_key cur)
                InvalidIdentityRequest (Inr ())
            else
              raise_if (Some (au_epoch auth) \<noteq> st_generation cur
                        \<or> Some (au_threshold auth) \<noteq> st_threshold cur
                        \<or> au_signers auth \<noteq> st_signer_set cur
                        \<or> not_signer (dict_of (st_signer_set cur)) signer_id signer_public_key)
                InvalidIdentityRequest (Inr ())
          else if st_signer_set cur = [] then
            raise_if (au_operation auth \<noteq> 4 \<or> au_epoch auth \<noteq> 1
                      \<or> au_predecessor auth \<noteq> st_state_hash cur) InvalidIdentityRequest
            (bindE (require_complete_2_of_3 auth) (\<lambda>_.
             raise_if (signer_public_key \<noteq> st_owner_public_key cur) InvalidIdentityRequest
             (raise_if (not_signer (signer_map (au_signers auth)) signer_id signer_public_key)
               InvalidIdentityRequest (Inr ()))))
          else
            raise_if (signer_id = PyNone) InvalidIdentityRequest
            (if au_operation auth = 2 then
               raise_if (Some (au_epoch auth) \<noteq> st_generation cur
                         \<or> Some (au_threshold auth) \<noteq> st_threshold cur) InvalidIdentityRequest
               (raise_if (au_signers auth \<noteq> st_signer_set cur) InvalidIdentityRequest
               (raise_if (not_signer (dict_of (st_signer_set cur)) signer_id signer_public_key)
                 InvalidIdentityRequest (Inr ())))
             else if au_operation auth = 3 then
               raise_if (au_epoch auth \<le> or_zero (st_generation cur)) InvalidIdentityRequest
               (bindE (require_complete_2_of_3 auth) (\<lambda>_.
                raise_if (au_signers auth = st_signer_set cur) InvalidIdentityRequest
                (raise_if (not_signer (dict_of (st_signer_set cur)) signer_id signer_public_key)
                  InvalidIdentityRequest (Inr ()))))
             else Inl InvalidIdentityRequest))"

text \<open>Python's \<^verbatim>\<open>==\<close> on decoded values: numbers compare by value, dictionaries without
  their order.\<close>

definition num_text :: "pyval \<Rightarrow> pystr option" where
  "num_text v =
     (case v of
        PyInt i \<Rightarrow> Some (show_int i @ str_of ''.0'')
      | PyBool b \<Rightarrow> Some (show_int (if b then 1 else 0) @ str_of ''.0'')
      | PyFloat t \<Rightarrow> Some t
      | _ \<Rightarrow> None)"

lemma size_fst_dict: "kv \<in> set d \<Longrightarrow> size (fst kv) < size (PyDict d)"
proof (induction d)
  case (Cons p d)
  then show ?case by (cases p) auto
qed simp

function (sequential) pyeq :: "pyval \<Rightarrow> pyval \<Rightarrow> bool" where
  "pyeq (PyList xs) (PyList ys) \<longleftrightarrow>
     length xs = length ys \<and> list_all (\<lambda>(x, y). pyeq x y) (zip xs ys)"
| "pyeq (PyDict d) (PyDict e) \<longleftrightarrow>
     length d = length e
     \<and> list_all (\<lambda>kv. list_ex (\<lambda>lw. pyeq (fst kv) (fst lw) \<and> pyeq (snd kv) (snd lw)) e) d"
| "pyeq v w \<longleftrightarrow>
     (case (num_text v, num_text w) of (Some a, Some b) \<Rightarrow> a = b | _ \<Rightarrow> v = w)"
  by pat_completeness auto

termination pyeq
proof (relation "measure (\<lambda>(v, _). size v)", goal_cases)
  case (2 xs ys z x y)
  then show ?case using size_elem_list [of x xs] by (auto dest: set_zip_leftD)
next
  case (3 d e kv lw)
  then show ?case using size_fst_dict [of kv d] by simp
next
  case (4 d e kv lw)
  then show ?case using size_snd_dict [of kv d] by simp
qed simp


section \<open>Signing\<close>

text \<open>A call on a capability.  When it was invalidated, its callback removes it from the
  set of its session; no other session holds it.\<close>

definition signer_call ::
    "nat \<Rightarrow> (signer_state \<Rightarrow> 'a res \<times> bool \<times> signer_state) \<Rightarrow> ('a, world) prog" where
  "signer_call c f w =
     (case f (w_signer w) of
        (r, called, s) \<Rightarrow>
          (case r of Inl e \<Rightarrow> Raise e | Inr x \<Rightarrow> Ret x,
           w\<lparr>w_signer := s,
             w_wallets :=
               (if called
                then map (\<lambda>wa. wa\<lparr>wa_capabilities := removeAll c (wa_capabilities wa)\<rparr>) (w_wallets w)
                else w_wallets w)\<rparr>))"

definition capability_public_key :: "nat \<Rightarrow> (bytes, world) prog" where
  "capability_public_key c = getS (\<lambda>w. cap_public_key (cap_at (w_signer w) c))"

definition capability_is_active :: "nat \<Rightarrow> (bool, world) prog" where
  "capability_is_active c =
     bindS monotonic_now (\<lambda>now.
     signer_call c (\<lambda>s. case cap_is_active now c s of (b, called, s') \<Rightarrow> (Inr b, called, s')))"

definition capability_invalidate :: "nat \<Rightarrow> (unit, world) prog" where
  "capability_invalidate c =
     signer_call c (\<lambda>s. case invalidate_unlocked c s of (called, s') \<Rightarrow> (Inr (), called, s'))"

definition capability_sign :: "prims \<Rightarrow> nat \<Rightarrow> bytes \<Rightarrow> (bytes, world) prog" where
  "capability_sign P c update =
     bindS monotonic_now (\<lambda>now. signer_call c (sign_identity_update P (PyBytes update) now c))"

datatype sign_outcome = Signed bytes | SignExpired | SignFailed

type_synonym 'n signer_factory = "(nat, 'n adapter_world) prog"

text \<open>The \<^verbatim>\<open>try\<close> block around the signer, once the factory has made one.\<close>

definition sign_with ::
    "prims \<Rightarrow> bytes \<Rightarrow> int \<Rightarrow> bytes \<Rightarrow> nat \<Rightarrow> (sign_outcome, 'n adapter_world) prog" where
  "sign_with P key expires_at update c =
     bindS (on_world (capability_public_key c)) (\<lambda>public_key.
     thenS (guardS (public_key \<noteq> key) InvalidIdentityRequest)
     (bindS (expired_at expires_at) (\<lambda>late.
      bindS (if late then returnS False else on_world (capability_is_active c)) (\<lambda>active.
      if \<not> active then thenS (on_world (capability_invalidate c)) (returnS SignExpired)
      else
        bindS (on_world (capability_sign P c update)) (\<lambda>sig.
        thenS (guardS (length sig \<noteq> 64) InvalidIdentityRequest)
        (bindS (liftS (verify_signature P key update sig)) (\<lambda>_. returnS (Signed sig))))))))"

definition sign_update ::
    "prims \<Rightarrow> 'n signer_factory \<Rightarrow> bytes \<Rightarrow> int \<Rightarrow> bytes \<Rightarrow> (sign_outcome, 'n adapter_world) prog" where
  "sign_update P signer_factory key expires_at update =
     bindS (exceptS (bindS signer_factory (\<lambda>c. returnS (Some c))) (\<lambda>_. returnS None)) (\<lambda>signer.
     (case signer of
        None \<Rightarrow> returnS SignFailed
      | Some c \<Rightarrow>
          exceptS (sign_with P key expires_at update c)
            (\<lambda>_. thenS (on_world (capability_invalidate c)) (returnS SignFailed))))"

section \<open>Submissions\<close>

text \<open>The argument \<^verbatim>\<open>draft\<close>: absent, of another class, or a draft.\<close>

datatype draft_arg = NoDraft | OtherObject | Draft identity_draft

record submission_args =
  sa_owner_name :: pyval
  sa_owner_public_key :: pyval
  sa_signer_public_key :: pyval
  sa_operation :: pyval
  sa_authorization :: "pydict option"
  sa_signer_id :: pyval
  sa_draft :: draft_arg

text \<open>What the checks that precede the consent establish.\<close>

record submission =
  sm_owner_name :: bytes
  sm_owner_public_key :: bytes
  sm_signer_public_key :: bytes
  sm_signer_id :: pyval
  sm_current :: "identity_state option"
  sm_auth :: "authorization option"
  sm_update :: bytes
  sm_draft :: "identity_draft option"

text \<open>The draft must be the one that the accepted state and the arguments give.\<close>

definition check_draft_argument ::
    "prims \<Rightarrow> submission_args \<Rightarrow> bytes \<Rightarrow> bytes \<Rightarrow> identity_state option \<Rightarrow> identity_draft option res" where
  "check_draft_argument P args owner_name owner_public_key current =
     (case sa_draft args of
        NoDraft \<Rightarrow> Inr None
      | OtherObject \<Rightarrow> Inl InvalidIdentityRequest
      | Draft d \<Rightarrow>
          raise_if (dr_previous_state_envelope d \<noteq> map_option st_envelope_bytes current)
            InvalidIdentityRequest
          (raise_if (dr_previous_state_history d \<noteq> state_history current) InvalidIdentityRequest
          (bindE (draft_owner_name P d) (\<lambda>name.
           raise_if (name \<noteq> PyBytes owner_name) InvalidIdentityRequest
           (bindE (draft_owner_public_key P d) (\<lambda>key.
            raise_if (key \<noteq> PyBytes owner_public_key) InvalidIdentityRequest
            (bindE (draft_authorization P d) (\<lambda>authorization.
             raise_if (case (authorization, sa_authorization args) of
                         (None, None) \<Rightarrow> False
                       | (Some a, Some given) \<Rightarrow> \<not> pyeq (PyDict (auth_dict a)) (PyDict given)
                       | _ \<Rightarrow> True) InvalidIdentityRequest
             (bindE (draft_sequence P d) (\<lambda>sequence.
              raise_if (sequence \<noteq> next_sequence current) InvalidIdentityRequest
              (Inr (Some d))))))))))))"

text \<open>The checks of a submission with an authorization map; the result is the normalized
  map.\<close>

definition check_authorized_submission ::
    "submission_args \<Rightarrow> pydict \<Rightarrow> bytes \<Rightarrow> bytes \<Rightarrow> identity_state option \<Rightarrow> authorization res" where
  "check_authorized_submission args given owner_public_key signer_public_key current =
     bindE (validate_authorization (PyDict given)) (\<lambda>auth.
     raise_if (sa_operation args \<noteq> pykey (operation_name (au_operation auth))) InvalidIdentityRequest
     (raise_if (case current of None \<Rightarrow> False
                | Some cur \<Rightarrow> st_owner_public_key cur \<noteq> owner_public_key \<and> au_operation auth \<noteq> 5)
        InvalidIdentityRequest
     (raise_if (au_operation auth = 5 \<and> sa_draft args = NoDraft) InvalidIdentityRequest
     (raise_if (case current of None \<Rightarrow> au_predecessor auth \<noteq> zero_bytes 32
                | Some cur \<Rightarrow> au_predecessor auth \<noteq> st_state_hash cur) InvalidIdentityRequest
     (raise_if (\<not> (au_operation auth = 5
                    \<and> (case current of None \<Rightarrow> False | Some cur \<Rightarrow> st_signer_set cur = []))
                \<and> (case sa_signer_id args of PyStr s \<Rightarrow> s = [] | _ \<Rightarrow> True)) InvalidIdentityRequest
     (bindE (validate_transition current auth (sa_signer_id args) signer_public_key) (\<lambda>_.
      Inr auth)))))))"

definition check_legacy_submission ::
    "submission_args \<Rightarrow> bytes \<Rightarrow> bytes \<Rightarrow> identity_state option \<Rightarrow> unit res" where
  "check_legacy_submission args owner_public_key signer_public_key current =
     raise_if (case current of None \<Rightarrow> False
               | Some cur \<Rightarrow> st_owner_public_key cur \<noteq> owner_public_key \<or> st_signer_set cur \<noteq> [])
       InvalidIdentityRequest
     (raise_if (signer_public_key \<noteq> owner_public_key) InvalidIdentityRequest
     (raise_if (sa_signer_id args \<noteq> PyNone) InvalidIdentityRequest (Inr ())))"

text \<open>The checks of \<^verbatim>\<open>submit_identity\<close> between reading the state and the consent.\<close>

definition check_submission ::
    "prims \<Rightarrow> submission_args \<Rightarrow> bytes \<Rightarrow> bytes \<Rightarrow> bytes \<Rightarrow> identity_state option \<Rightarrow> submission res" where
  "check_submission P args owner_name owner_public_key signer_public_key current =
     bindE (check_draft_argument P args owner_name owner_public_key current) (\<lambda>draft.
     bindE
       (case sa_authorization args of
          None \<Rightarrow>
            bindE (check_legacy_submission args owner_public_key signer_public_key current) (\<lambda>_.
            Inr None)
        | Some given \<Rightarrow>
            bindE (check_authorized_submission args given owner_public_key signer_public_key current)
              (\<lambda>auth. Inr (Some auth))) (\<lambda>auth.
     bindE (build_identity_update P (PyBytes owner_name) (PyBytes owner_public_key)
              (PyInt (next_sequence current)) (map_option auth_dict auth)) (\<lambda>update.
     raise_if (case draft of None \<Rightarrow> False | Some d \<Rightarrow> update \<noteq> dr_signed_update_bytes d)
       InvalidIdentityRequest
     (Inr \<lparr>sm_owner_name = owner_name, sm_owner_public_key = owner_public_key,
           sm_signer_public_key = signer_public_key, sm_signer_id = sa_signer_id args,
           sm_current = current, sm_auth = auth, sm_update = update, sm_draft = draft\<rparr>))))"

text \<open>A result with a status and a reason only.\<close>

definition submission_result_of ::
    "publish_status \<Rightarrow> consent_transcript \<Rightarrow> string \<Rightarrow> submission_result" where
  "submission_result_of status transcript reason =
     \<lparr>sr_status = status, sr_transcript = transcript, sr_envelope_bytes = None,
      sr_signed_update_bytes = None, sr_proof_bytes = None, sr_accepted_state = None,
      sr_reason = Some reason, sr_draft = None, sr_identity_proof = None\<rparr>"

definition versioned_envelope :: "prims \<Rightarrow> bytes \<Rightarrow> pyval \<Rightarrow> bytes \<Rightarrow> bytes res" where
  "versioned_envelope P update signer_id sig =
     canonical P (PyDict [(PyInt 1, PyInt 1), (PyInt 2, PyBytes update),
       (PyInt 3, PyList [PyDict [(PyInt 1, signer_id), (PyInt 2, PyBytes sig)]])])"

definition proof_bytes :: "prims \<Rightarrow> pyval \<Rightarrow> bytes \<Rightarrow> bytes res" where
  "proof_bytes P signer_id sig =
     canonical P (PyDict [(PyInt 1, signer_id), (PyInt 2, PyBytes sig)])"

definition proof_ready ::
    "submission \<Rightarrow> consent_transcript \<Rightarrow> string \<Rightarrow> bytes \<Rightarrow> identity_draft \<Rightarrow> identity_proof
      \<Rightarrow> submission_result" where
  "proof_ready sm transcript reason data draft prf =
     (submission_result_of PROOF_READY transcript reason)
       \<lparr>sr_signed_update_bytes := Some (sm_update sm), sr_proof_bytes := Some data,
        sr_draft := Some draft, sr_identity_proof := Some prf\<rparr>"

text \<open>The detached proof of a draft, and of an update that needs more than one signer.\<close>

definition draft_proof ::
    "prims \<Rightarrow> submission \<Rightarrow> consent_transcript \<Rightarrow> identity_draft \<Rightarrow> bytes \<Rightarrow> submission_result res" where
  "draft_proof P sm transcript draft sig =
     bindE (make_proof (sm_signer_id sm) (PyBytes (sm_signer_public_key sm)) (PyBytes sig)) (\<lambda>prf.
     bindE (if sm_signer_id sm = PyNone then Inr sig else proof_bytes P (sm_signer_id sm) sig) (\<lambda>data.
     Inr (proof_ready sm transcript ''draft proof ready'' data draft prf)))"

definition threshold_proof ::
    "prims \<Rightarrow> submission \<Rightarrow> consent_transcript \<Rightarrow> bytes \<Rightarrow> submission_result res" where
  "threshold_proof P sm transcript sig =
     raise_if (sm_signer_id sm = PyNone) InvalidIdentityRequest
     (bindE (proof_bytes P (sm_signer_id sm) sig) (\<lambda>data.
      bindE (make_draft P (PyBytes (sm_update sm)) (state_envelope (sm_current sm))
               (map PyBytes (state_history (sm_current sm)))) (\<lambda>draft.
      bindE (make_proof (sm_signer_id sm) (PyBytes (sm_signer_public_key sm)) (PyBytes sig)) (\<lambda>prf.
      Inr (proof_ready sm transcript ''threshold bundle required'' data draft prf)))))"

definition single_envelope :: "prims \<Rightarrow> submission \<Rightarrow> bytes \<Rightarrow> bytes res" where
  "single_envelope P sm sig =
     (case sm_auth sm of
        None \<Rightarrow> legacy_envelope P (sm_update sm) sig
      | Some _ \<Rightarrow>
          raise_if (sm_signer_id sm = PyNone) InvalidIdentityRequest
            (versioned_envelope P (sm_update sm) (sm_signer_id sm) sig))"

text \<open>The result of a write, with the state that the readback accepted.\<close>

definition submission_written ::
    "publish_status \<Rightarrow> consent_transcript \<Rightarrow> bytes \<Rightarrow> identity_state option \<Rightarrow> string option
      \<Rightarrow> submission_result" where
  "submission_written status transcript envelope accepted reason =
     \<lparr>sr_status = status, sr_transcript = transcript, sr_envelope_bytes = Some envelope,
      sr_signed_update_bytes = None, sr_proof_bytes = None, sr_accepted_state = accepted,
      sr_reason = reason, sr_draft = None, sr_identity_proof = None\<rparr>"

definition confirmed_status :: "identity_state option \<Rightarrow> publish_status" where
  "confirmed_status accepted = (if accepted = None then UNKNOWN else CONFIRMED)"

text \<open>The write of an update that one signature completes.\<close>

definition publish_single ::
    "prims \<Rightarrow> 'n adapter \<Rightarrow> submission \<Rightarrow> consent_transcript \<Rightarrow> bytes
      \<Rightarrow> (submission_result, 'n adapter_world) prog" where
  "publish_single P A sm transcript envelope =
     bindS (try_put A (make_put (sm_owner_name sm) envelope (sm_current sm)
                         (ct_expires_at transcript))) (\<lambda>outcome.
     (case outcome of
        PutStale \<Rightarrow>
          returnS (submission_written STALE transcript envelope None
                     (Some ''conditional publication rejected''))
      | PutExpired \<Rightarrow>
          returnS (submission_written EXPIRED transcript envelope None (Some ''consent expired''))
      | PutUnclear \<Rightarrow>
          bindS (confirm_envelope P A (PyBytes (sm_owner_name sm)) envelope (sm_current sm))
            (\<lambda>accepted. returnS (submission_written (confirmed_status accepted) transcript envelope
                        accepted (Some ''independent readback required'')))
      | PutDone \<Rightarrow>
          bindS (confirm_envelope P A (PyBytes (sm_owner_name sm)) envelope (sm_current sm))
            (\<lambda>accepted. returnS (submission_written (confirmed_status accepted) transcript envelope
                        accepted
                        (if accepted = None then Some ''readback did not confirm exact envelope''
                         else None)))))"

text \<open>\<^verbatim>\<open>complete_submission\<close>: what follows an approval.\<close>

definition complete_submission ::
    "prims \<Rightarrow> 'n adapter \<Rightarrow> submission \<Rightarrow> consent_transcript \<Rightarrow> 'n signer_factory
      \<Rightarrow> (submission_result, 'n adapter_world) prog" where
  "complete_submission P A sm transcript signer_factory =
     bindS (read_state P A (PyBytes (sm_owner_name sm))) (\<lambda>latest.
     if \<not> same_state (sm_current sm) latest then
       returnS (submission_result_of STALE transcript ''accepted state changed before signing'')
     else
       bindS (expired_at (ct_expires_at transcript)) (\<lambda>late.
       if late then returnS (submission_result_of EXPIRED transcript ''consent expired'')
       else
         bindS (sign_update P signer_factory (sm_signer_public_key sm) (ct_expires_at transcript)
                  (sm_update sm)) (\<lambda>signed.
         (case signed of
            SignExpired \<Rightarrow> returnS (submission_result_of EXPIRED transcript ''consent expired'')
          | SignFailed \<Rightarrow> returnS (submission_result_of FAILED transcript ''signing failed'')
          | Signed sig \<Rightarrow>
              bindS (read_state P A (PyBytes (sm_owner_name sm))) (\<lambda>latest.
              if \<not> same_state (sm_current sm) latest then
                returnS ((submission_result_of STALE transcript
                            ''accepted state changed before publication'')
                           \<lparr>sr_signed_update_bytes := Some (sm_update sm)\<rparr>)
              else
                bindS (expired_at (ct_expires_at transcript)) (\<lambda>late.
                if late then
                  returnS ((submission_result_of EXPIRED transcript ''consent expired'')
                             \<lparr>sr_signed_update_bytes := Some (sm_update sm)\<rparr>)
                else
                  (case sm_draft sm of
                     Some draft \<Rightarrow> liftS (draft_proof P sm transcript draft sig)
                   | None \<Rightarrow>
                       if (case sm_auth sm of None \<Rightarrow> False | Some a \<Rightarrow> 1 < au_threshold a)
                       then liftS (threshold_proof P sm transcript sig)
                       else
                         bindS (liftS (single_envelope P sm sig)) (\<lambda>envelope.
                         publish_single P A sm transcript envelope))))))))"

definition submit_identity ::
    "prims \<Rightarrow> 'n adapter \<Rightarrow> submission_args \<Rightarrow> 'n signer_factory \<Rightarrow> 'n consent_handler
      \<Rightarrow> consent_args \<Rightarrow> (submission_result, 'n adapter_world) prog" where
  "submit_identity P A args signer_factory consent cargs =
     bindS (liftS (validate_owner_name (sa_owner_name args))) (\<lambda>owner_name.
     bindS (owner_latched A owner_name) (\<lambda>latched.
     thenS (guardS latched InvalidIdentityRequest)
     (bindS (liftS (require_bytes (sa_owner_public_key args) (Some 32) False)) (\<lambda>owner_public_key.
      bindS (liftS (require_bytes (sa_signer_public_key args) (Some 32) False)) (\<lambda>signer_public_key.
      bindS (read_state P A (PyBytes owner_name)) (\<lambda>current.
      bindS (liftS (check_submission P args owner_name owner_public_key signer_public_key current))
        (\<lambda>sm.
      bindS (liftS (make_transcript cargs (sa_operation args) (sha256 (sm_update sm))
               (next_sequence current)
               (case sm_auth sm of
                  Some a \<Rightarrow> Some (au_epoch a)
                | None \<Rightarrow> (case current of None \<Rightarrow> None | Some cur \<Rightarrow> st_generation cur))
               (sm_update sm) (sa_signer_id args) (Some signer_public_key))) (\<lambda>transcript.
      bindS (consent_gate P A owner_name transcript consent) (\<lambda>refused.
      (case refused of
         Some (status, reason) \<Rightarrow> returnS (submission_result_of status transcript reason)
       | None \<Rightarrow>
           bindS (owner_latched A owner_name) (\<lambda>latched.
           if latched then
             returnS (submission_result_of FAILED transcript ''owner-key rotation is unresolved'')
           else complete_submission P A sm transcript signer_factory)))))))))))"

definition sign_draft ::
    "prims \<Rightarrow> 'n adapter \<Rightarrow> identity_draft option \<Rightarrow> pyval \<Rightarrow> pyval \<Rightarrow> 'n signer_factory
      \<Rightarrow> 'n consent_handler \<Rightarrow> consent_args \<Rightarrow> (submission_result, 'n adapter_world) prog" where
  "sign_draft P A draft signer_public_key signer_id signer_factory consent cargs =
     (case draft of
        None \<Rightarrow> raiseS InvalidIdentityRequest
      | Some d \<Rightarrow>
          bindS (liftS (draft_owner_name P d)) (\<lambda>name.
          bindS (owner_latched A (bytes_of name)) (\<lambda>latched.
          thenS (guardS latched InvalidIdentityRequest)
          (bindS (liftS (draft_authorization P d)) (\<lambda>authorization.
           bindS (liftS (draft_owner_public_key P d)) (\<lambda>key.
           submit_identity P A
             \<lparr>sa_owner_name = name, sa_owner_public_key = key,
              sa_signer_public_key = signer_public_key,
              sa_operation = pykey (draft_operation authorization),
              sa_authorization = map_option auth_dict authorization,
              sa_signer_id = signer_id, sa_draft = Draft d\<rparr>
             signer_factory consent cargs))))))"

text \<open>\<^verbatim>\<open>IdentityBundle.from_submission\<close>.\<close>

definition bundle_from_submission :: "submission_result \<Rightarrow> identity_bundle res" where
  "bundle_from_submission result =
     (case (sr_draft result, sr_identity_proof result) of
        (Some draft, Some prf) \<Rightarrow>
          raise_if (sr_status result \<noteq> PROOF_READY) InvalidIdentityRequest (make_bundle draft [prf])
      | _ \<Rightarrow> Inl InvalidIdentityRequest)"

end
