(* ===== verification/Registry_Rotation.thy ===== *)
theory Registry_Rotation
  imports Registry_Publish
begin

text \<open>
  The owner-key rotation of \<^verbatim>\<open>RegistryAdapter\<close>: the preparation of a one-use publication,
  its dispatch with a permit of the wallet, and the confirmation that a wallet
  finalizes with.
\<close>

section \<open>Preparation\<close>

text \<open>What follows an approval: the environment and the state are checked again, and the
  publication is made.\<close>

definition prepare_consented ::
    "prims \<Rightarrow> 'n adapter \<Rightarrow> identity_bundle \<Rightarrow> bytes \<Rightarrow> bytes \<Rightarrow> identity_state \<Rightarrow> pystr \<Rightarrow> int
      \<Rightarrow> (publication_result, 'n adapter_world) prog" where
  "prepare_consented P A b owner_name envelope previous environment expires_at =
     bindS (rotation_environment_matches A (Some environment)) (\<lambda>matches.
     if \<not> matches then
       returnS (publication_refused FAILED None ''rotation environment mismatch'')
     else
       bindS (read_state P A (PyBytes owner_name)) (\<lambda>current.
       bindS (rotation_environment_matches A (Some environment)) (\<lambda>matches.
       if \<not> matches then
         returnS (publication_refused FAILED None ''rotation environment mismatch'')
       else if \<not> same_state (Some previous) current then
         returnS (publication_refused STALE (Some envelope)
                    ''accepted state changed before publication'')
       else
         bindS (expired_at expires_at) (\<lambda>late.
         if late then returnS (publication_refused EXPIRED (Some envelope) ''consent expired'')
         else
           bindS (getS aw_objects) (\<lambda>object.
           thenS (modifyS (\<lambda>w. w\<lparr>aw_objects := Suc object\<rparr>))
             (returnS
                \<lparr>pr_status = READY, pr_envelope_bytes = Some envelope, pr_accepted_state = None,
                 pr_reason = None,
                 pr_publication = Some
                   \<lparr>pub_id = object, pub_environment = environment, pub_bundle = b,
                    pub_envelope_bytes = envelope, pub_previous_state = previous,
                    pub_expires_at = expires_at, pub_adapter_token = ad_token A,
                    pub_latch_registry = ad_token A\<rparr>\<rparr>))))))"

text \<open>From the first read of the state to the approval.\<close>

definition prepare_reviewed ::
    "prims \<Rightarrow> 'n adapter \<Rightarrow> identity_bundle \<Rightarrow> bytes \<Rightarrow> authorization \<Rightarrow> pystr
      \<Rightarrow> 'n consent_handler \<Rightarrow> consent_args \<Rightarrow> (publication_result, 'n adapter_world) prog" where
  "prepare_reviewed P A b owner_name auth environment consent args =
     bindS (liftS (bundle_finalize P b)) (\<lambda>envelope.
     bindS (liftS (draft_previous_state P (bd_draft b))) (\<lambda>previous.
     (case previous of
        None \<Rightarrow> raiseS InvalidIdentityRequest
      | Some prev \<Rightarrow>
          bindS (read_state P A (PyBytes owner_name)) (\<lambda>current.
          bindS (rotation_environment_matches A (Some environment)) (\<lambda>matches.
          if \<not> matches then
            returnS (publication_refused FAILED None ''rotation environment mismatch'')
          else if \<not> same_state previous current then
            returnS (publication_refused STALE (Some envelope)
                       ''accepted state changed before publication'')
          else
            bindS (liftS (draft_sequence P (bd_draft b))) (\<lambda>sequence.
            bindS (liftS (make_transcript args (pykey ''owner-key-rotation'') (sha256 envelope)
                     sequence (Some (au_epoch auth)) envelope PyNone None)) (\<lambda>transcript.
            bindS (consent_gate P A owner_name transcript consent) (\<lambda>refused.
            (case refused of
               Some (status, reason) \<Rightarrow>
                 returnS (publication_refused status (Some envelope) reason)
             | None \<Rightarrow>
                 prepare_consented P A b owner_name envelope prev environment
                   (ct_expires_at transcript))))))))))"

definition prepare_owner_key_rotation_publication ::
    "prims \<Rightarrow> 'n adapter \<Rightarrow> identity_bundle option \<Rightarrow> 'n consent_handler \<Rightarrow> consent_args
      \<Rightarrow> (publication_result, 'n adapter_world) prog" where
  "prepare_owner_key_rotation_publication P A bundle consent args =
     (case bundle of
        None \<Rightarrow> raiseS InvalidIdentityRequest
      | Some b \<Rightarrow>
          bindS (liftS (draft_owner_name P (bd_draft b))) (\<lambda>name.
          bindS (owner_latched A (bytes_of name)) (\<lambda>latched.
          if latched then
            returnS (publication_refused FAILED None ''owner-key rotation is unresolved'')
          else
            bindS (liftS (draft_authorization P (bd_draft b))) (\<lambda>authorization.
            (case authorization of
               None \<Rightarrow> raiseS InvalidIdentityRequest
             | Some auth \<Rightarrow>
                 thenS (guardS (au_operation auth \<noteq> 5) InvalidIdentityRequest)
                 (bindS (rotation_transport_available A) (\<lambda>available.
                  if \<not> available then
                    returnS (publication_refused FAILED None
                               ''rotation transport capability unavailable'')
                  else
                    (case ca_environment args of
                       PyStr environment \<Rightarrow>
                         bindS (rotation_environment_matches A (Some environment)) (\<lambda>matches.
                         if \<not> valid_registry_environment (PyStr environment) \<or> \<not> matches then
                           returnS (publication_refused FAILED None ''rotation environment mismatch'')
                         else
                           prepare_reviewed P A b (bytes_of name) auth environment consent args)
                     | _ \<Rightarrow>
                         returnS (publication_refused FAILED None
                                    ''rotation environment mismatch'')))))))))"

section \<open>Confirmation\<close>

text \<open>The checks of the state behind the candidate envelope against the intent.\<close>

definition confirms_successor :: "prims \<Rightarrow> rotation_intent \<Rightarrow> identity_state \<Rightarrow> bool res" where
  "confirms_successor P intent state =
     bindE (decode_signed_update P (PyBytes (st_signed_update_bytes state)))
       (\<lambda>(_, _, sequence, authorization).
     Inr (case authorization of
            None \<Rightarrow> False
          | Some a \<Rightarrow>
              au_operation a = 5 \<and> au_predecessor a = ri_predecessor_state_hash intent
              \<and> st_owner_name state = ri_owner_name intent
              \<and> st_owner_public_key state = ri_successor_owner_public_key intent
              \<and> sequence = ri_sequence intent))"

definition confirms_predecessor :: "rotation_intent \<Rightarrow> identity_state \<Rightarrow> identity_state \<Rightarrow> bool" where
  "confirms_predecessor intent state predecessor \<longleftrightarrow>
     st_owner_public_key predecessor = ri_predecessor_owner_public_key intent
     \<and> st_state_hash predecessor = ri_predecessor_state_hash intent
     \<and> st_sequence state = st_sequence predecessor + 1"

text \<open>The \<^verbatim>\<open>try\<close> block that verifies the candidate and its predecessor.\<close>

definition verify_candidate ::
    "prims \<Rightarrow> 'n adapter \<Rightarrow> rotation_intent \<Rightarrow> pyval \<Rightarrow> (identity_state option, 'n adapter_world) prog" where
  "verify_candidate P A intent envelope =
     bindS (parse_state_with_history P A (ri_owner_name intent) envelope (ri_environment intent))
       (\<lambda>state.
     bindS (liftS (confirms_successor P intent state)) (\<lambda>ok.
     if \<not> ok then returnS None
     else
       bindS (rotation_environment_matches A (ri_environment intent)) (\<lambda>matches.
       if \<not> matches then returnS None
       else
         bindS (on_net (tr_get_by_hash (ad_transport A) (bytes_hex (ri_owner_name intent))
                          (ri_predecessor_state_hash intent))) (\<lambda>predecessor_envelope.
         if \<not> is_PyBytes predecessor_envelope then returnS None
         else
           bindS (parse_state_with_history P A (ri_owner_name intent) predecessor_envelope
                    (ri_environment intent)) (\<lambda>predecessor.
           returnS (if confirms_predecessor intent state predecessor then Some state else None))))))"

definition adapter_register ::
    "'n adapter \<Rightarrow> rotation_intent \<Rightarrow> (bool, 'n adapter_world) prog" where
  "adapter_register A intent =
     on_world (rotation_step (\<lambda>s.
       case latch_register (intent_fields intent) False (rs_latches s (ad_token A)) of
         (b, m) \<Rightarrow> (Inr b, set_latches (ad_token A) m s)))"

definition make_confirmation ::
    "'n adapter \<Rightarrow> rotation_intent \<Rightarrow> pystr \<Rightarrow> identity_state \<Rightarrow> rotation_confirmation" where
  "make_confirmation A intent environment state =
     \<lparr>rc_environment = environment, rc_owner_name = ri_owner_name intent,
      rc_predecessor_owner_public_key = ri_predecessor_owner_public_key intent,
      rc_successor_owner_public_key = ri_successor_owner_public_key intent,
      rc_predecessor_state_hash = ri_predecessor_state_hash intent,
      rc_sequence = ri_sequence intent, rc_envelope_hash = ri_envelope_hash intent,
      rc_state_hash = st_state_hash state, rc_sealed = True,
      rc_latch_registry = ad_token A\<rparr>"

text \<open>\<open>intent\<close> is \<open>None\<close> for an argument of another class.\<close>

definition confirm_owner_key_rotation ::
    "prims \<Rightarrow> 'n adapter \<Rightarrow> rotation_intent option
      \<Rightarrow> (rotation_confirmation option, 'n adapter_world) prog" where
  "confirm_owner_key_rotation P A found =
     (case found of
        None \<Rightarrow> raiseS InvalidIdentityRequest
      | Some intent \<Rightarrow>
          bindS (adapter_register A intent) (\<lambda>registered.
          thenS (guardS (\<not> registered) InvalidIdentityRequest)
          (case ri_environment intent of
             None \<Rightarrow> returnS None
           | Some environment \<Rightarrow>
               bindS (rotation_environment_matches A (Some environment)) (\<lambda>matches.
               bindS (rotation_transport_available A) (\<lambda>available.
               if \<not> matches \<or> \<not> available then returnS None
               else
                 bindS
                   (exceptS
                      (on_net (tr_get_remote (ad_transport A) (bytes_hex (ri_owner_name intent))))
                      (\<lambda>_. returnS PyNone)) (\<lambda>remote.
                 bindS (rotation_environment_matches A (Some environment)) (\<lambda>matches.
                 if \<not> matches \<or> \<not> is_PyBytes remote
                   \<or> sha256 (bytes_of remote) \<noteq> ri_envelope_hash intent then returnS None
                 else
                   bindS (exceptS (verify_candidate P A intent remote) (\<lambda>_. returnS None))
                     (\<lambda>verified.
                   (case verified of
                      None \<Rightarrow> returnS None
                    | Some state \<Rightarrow>
                        bindS (rotation_environment_matches A (Some environment)) (\<lambda>matches.
                        returnS
                          (if matches then Some (make_confirmation A intent environment state)
                           else None)))))))))))"

section \<open>Dispatch\<close>

definition dispatch_result_of ::
    "publish_status \<Rightarrow> string \<Rightarrow> dispatch_result" where
  "dispatch_result_of status reason =
     \<lparr>dp_status = status, dp_confirmation = None, dp_rejection = None, dp_reason = Some reason\<rparr>"

text \<open>The answer of \<^verbatim>\<open>confirm_owner_key_rotation\<close> as a result.\<close>

definition confirmation_or_unknown ::
    "prims \<Rightarrow> 'n adapter \<Rightarrow> rotation_intent \<Rightarrow> string \<Rightarrow> (dispatch_result, 'n adapter_world) prog" where
  "confirmation_or_unknown P A intent reason =
     bindS (confirm_owner_key_rotation P A (Some intent)) (\<lambda>confirmation.
     returnS
       (case confirmation of
          None \<Rightarrow> dispatch_result_of UNKNOWN reason
        | Some c \<Rightarrow> \<lparr>dp_status = CONFIRMED, dp_confirmation = Some c, dp_rejection = None,
                    dp_reason = None\<rparr>))"

text \<open>\<^verbatim>\<open>prewrite_result\<close>: the last two arguments are \<^verbatim>\<open>candidate_observed_locally\<close> and
  \<^verbatim>\<open>clearable_rejection\<close>.\<close>

definition prewrite_result ::
    "prims \<Rightarrow> 'n adapter \<Rightarrow> rotation_publication \<Rightarrow> rotation_intent \<Rightarrow> publish_status \<Rightarrow> string
      \<Rightarrow> bool \<Rightarrow> bool \<Rightarrow> (dispatch_result, 'n adapter_world) prog" where
  "prewrite_result P A p intent status reason observed_locally clearable =
     bindS (rotation_environment_matches A (ri_environment intent)) (\<lambda>matches.
     if \<not> matches then returnS (dispatch_result_of UNKNOWN ''rotation environment mismatch'')
     else
       bindS
         (exceptS
            (bindS (on_net (tr_get_remote (ad_transport A) (bytes_hex (ri_owner_name intent))))
               (\<lambda>v. returnS (Some v)))
            (\<lambda>_. returnS None)) (\<lambda>remote.
       (case remote of
          None \<Rightarrow>
            returnS (dispatch_result_of UNKNOWN
                       ''independent readback unavailable after pre-write rejection'')
        | Some v \<Rightarrow>
            bindS (rotation_environment_matches A (ri_environment intent)) (\<lambda>matches.
            if \<not> matches then returnS (dispatch_result_of UNKNOWN ''rotation environment mismatch'')
            else if \<not> is_PyBytes v then
              returnS (dispatch_result_of UNKNOWN
                         ''independent readback unavailable after pre-write rejection'')
            else if observed_locally \<or> sha256 (bytes_of v) = ri_envelope_hash intent then
              confirmation_or_unknown P A intent
                ''candidate observed but independent confirmation incomplete''
            else if \<not> clearable then
              returnS (dispatch_result_of UNKNOWN
                         ''pre-write outcome cannot safely clear the durable intent'')
            else
              bindS (rotation_environment_matches A (ri_environment intent)) (\<lambda>matches.
              if \<not> matches then
                returnS (dispatch_result_of UNKNOWN ''rotation environment mismatch'')
              else
                bindS (getS aw_objects) (\<lambda>object.
                thenS (modifyS (\<lambda>w. w\<lparr>aw_objects := Suc object\<rparr>))
                (bindS (liftS (make_rejection True status object p)) (\<lambda>rejection.
                 returnS \<lparr>dp_status = status, dp_confirmation = None,
                          dp_rejection = Some rejection, dp_reason = Some reason\<rparr>))))))))"

text \<open>The write of a publication and what becomes of it.\<close>

definition dispatch_write ::
    "prims \<Rightarrow> 'n adapter \<Rightarrow> rotation_publication \<Rightarrow> rotation_intent \<Rightarrow> bytes
      \<Rightarrow> (dispatch_result, 'n adapter_world) prog" where
  "dispatch_write P A p intent owner_name =
     bindS (try_put A (make_put owner_name (pub_envelope_bytes p) (Some (pub_previous_state p))
                         (pub_expires_at p))) (\<lambda>outcome.
     (case outcome of
        PutStale \<Rightarrow>
          prewrite_result P A p intent STALE ''conditional publication rejected'' False False
      | PutExpired \<Rightarrow> prewrite_result P A p intent EXPIRED ''consent expired'' False True
      | PutUnclear \<Rightarrow>
          confirmation_or_unknown P A intent ''independent readback did not confirm dispatch''
      | PutDone \<Rightarrow>
          confirmation_or_unknown P A intent ''readback did not confirm exact envelope''))"

text \<open>\<^verbatim>\<open>except IdentityAdapterError\<close>.\<close>

definition adapter_error :: "exn \<Rightarrow> bool" where
  "adapter_error e \<longleftrightarrow>
     e \<in> {InvalidIdentityState, InvalidIdentityRequest, TransportFailure, StalePublication,
          ExpiredPublication}"

text \<open>The part under the lock of the owner.\<close>

definition dispatch_latched ::
    "prims \<Rightarrow> 'n adapter \<Rightarrow> rotation_publication \<Rightarrow> rotation_intent \<Rightarrow> bytes
      \<Rightarrow> (dispatch_result, 'n adapter_world) prog" where
  "dispatch_latched P A p intent owner_name =
     bindS (getS (\<lambda>w. is_latched (rs_latches (w_rotation (aw_world w)) (ad_token A))
                        (intent_fields intent))) (\<lambda>latched.
     thenS (guardS (\<not> latched) InvalidIdentityRequest)
     (bindS (rotation_transport_available A) (\<lambda>available.
      if \<not> available then
        prewrite_result P A p intent FAILED ''rotation transport capability unavailable'' False False
      else
        bindS
          (exceptS
             (bindS (read_state P A (PyBytes owner_name)) (\<lambda>st. returnS (Some st)))
             (\<lambda>e. if adapter_error e then returnS None else raiseS e)) (\<lambda>found.
        (case found of
           None \<Rightarrow>
             prewrite_result P A p intent FAILED ''pre-write state validation failed'' False False
         | Some current \<Rightarrow>
             if \<not> same_state (Some (pub_previous_state p)) current then
               prewrite_result P A p intent STALE ''accepted state changed before publication''
                 (case current of
                    None \<Rightarrow> False
                  | Some cur \<Rightarrow> sha256 (st_envelope_bytes cur) = ri_envelope_hash intent)
                 False
             else
               bindS (expired_at (pub_expires_at p)) (\<lambda>late.
               if late then prewrite_result P A p intent EXPIRED ''consent expired'' False True
               else
                 bindS (rotation_environment_matches A (ri_environment intent)) (\<lambda>matches.
                 if \<not> matches then
                   returnS (dispatch_result_of UNKNOWN ''rotation environment mismatch'')
                 else dispatch_write P A p intent owner_name)))))))"

text \<open>The guard of \<^verbatim>\<open>dispatch_owner_key_rotation\<close>, whose last condition consumes the
  publication.\<close>

definition dispatch_permitted ::
    "prims \<Rightarrow> 'n adapter \<Rightarrow> rotation_publication \<Rightarrow> rotation_intent \<Rightarrow> (bool, 'n adapter_world) prog" where
  "dispatch_permitted P A p intent =
     bindS (liftS (publication_matches_intent P p intent)) (\<lambda>matches.
     bindS (getS (\<lambda>w. is_dispatch_ready (rs_latches (w_rotation (aw_world w)) (ad_token A))
                        (intent_fields intent))) (\<lambda>ready.
     if \<not> matches \<or> \<not> ready then returnS False
     else
       on_world (rotation_step (\<lambda>s. case consume_for p (ad_token A) s of (b, s') \<Rightarrow> (Inr b, s')))))"

text \<open>A permit that is authentic has an intent.\<close>

definition dispatch_owner_key_rotation ::
    "prims \<Rightarrow> 'n adapter \<Rightarrow> rotation_publication option \<Rightarrow> rotation_permit option
      \<Rightarrow> (dispatch_result, 'n adapter_world) prog" where
  "dispatch_owner_key_rotation P A publication permit =
     (case (publication, permit) of
        (Some p, Some pm) \<Rightarrow>
          (case (permit_authentic pm, rp_intent pm) of
             (True, Some intent) \<Rightarrow>
               bindS (dispatch_permitted P A p intent) (\<lambda>permitted.
               thenS (guardS (\<not> permitted) InvalidIdentityRequest)
               (bindS (rotation_environment_matches A (ri_environment intent)) (\<lambda>matches.
                if \<not> matches then
                  returnS (dispatch_result_of UNKNOWN ''rotation environment mismatch'')
                else
                  bindS (liftS (draft_owner_name P (bd_draft (pub_bundle p)))) (\<lambda>name.
                  dispatch_latched P A p intent (bytes_of name)))))
           | _ \<Rightarrow> raiseS InvalidIdentityRequest)
      | _ \<Rightarrow> raiseS InvalidIdentityRequest)"

end
