(* ===== verification/Evolution.thy ===== *)
theory Evolution
  imports Atomic_Write
begin

text \<open>
  Frame reasoning: a program whose basic calls change the state only along a
  reflexive and transitive relation changes it only along that relation,
  whatever its outcome.
\<close>

definition evolves :: "('s \<Rightarrow> 's \<Rightarrow> bool) \<Rightarrow> ('a, 's) prog \<Rightarrow> bool" where
  "evolves R m \<longleftrightarrow> (\<forall>s. R s (snd (m s)))"

lemma evolvesD: "evolves R m \<Longrightarrow> m s = (r, s') \<Longrightarrow> R s s'"
  unfolding evolves_def by (metis snd_conv)

lemma evolves_always: "evolves R m \<Longrightarrow> always m (\<lambda>r s'. R s s') s"
  by (simp add: evolves_def always_def)

lemma evolves_mono: "evolves R m \<Longrightarrow> (\<And>s s'. R s s' \<Longrightarrow> R' s s') \<Longrightarrow> evolves R' m"
  by (simp add: evolves_def)

lemma evolves_modifyS: "(\<And>s. R s (f s)) \<Longrightarrow> evolves R (modifyS f)"
  by (simp add: evolves_def)

locale evolution =
  fixes R :: "'s \<Rightarrow> 's \<Rightarrow> bool"
  assumes evo_refl: "R s s"
    and evo_trans: "R s t \<Longrightarrow> R t u \<Longrightarrow> R s u"
begin

lemma evo_pure:
  "evolves R (returnS x)" "evolves R (raiseS e)" "evolves R (getS f)" "evolves R (liftS r)"
  "evolves R (guardS c e)"
  by (simp_all add: evolves_def evo_refl liftS_def split: sum.split)

lemma evo_bindS: "evolves R m \<Longrightarrow> (\<And>x. evolves R (f x)) \<Longrightarrow> evolves R (bindS m f)"
  by (auto simp: evolves_def bindS_def split: prod.splits outcome.splits)
    (metis evo_trans snd_conv)+

lemma evo_exceptS: "evolves R m \<Longrightarrow> (\<And>e. evolves R (h e)) \<Longrightarrow> evolves R (exceptS m h)"
  by (auto simp: evolves_def exceptS_def split: prod.splits outcome.splits)
    (metis evo_trans snd_conv)+

lemma evo_finallyS:
  assumes "evolves R m" and "evolves R f"
  shows "evolves R (finallyS m f)"
proof -
  have "finallyS m f = bindS (\<lambda>s. case m s of (Killed, t) \<Rightarrow> (Killed, t) | (r, t) \<Rightarrow> (Ret r, t))
      (\<lambda>r. case r of Ret x \<Rightarrow> bindS f (\<lambda>_. returnS x) | Raise e \<Rightarrow> bindS f (\<lambda>_. raiseS e)
            | Killed \<Rightarrow> raiseS PyException)"
    by (rule ext) (simp add: finallyS_def bindS_def split: prod.split outcome.split)
  moreover have "evolves R (\<lambda>s. case m s of (Killed, t) \<Rightarrow> (Killed, t) | (r, t) \<Rightarrow> (Ret r, t))"
    using assms(1) by (auto simp: evolves_def split: prod.split outcome.split) (metis snd_conv)+
  ultimately show ?thesis
    using assms(2) by (auto intro!: evo_bindS evo_pure split: outcome.split)
qed

lemma evo_cases:
  "evolves R m \<Longrightarrow> evolves R n \<Longrightarrow> evolves R (if c then m else n)"
  "evolves R m \<Longrightarrow> (\<And>x. evolves R (f x)) \<Longrightarrow> evolves R (case y of None \<Rightarrow> m | Some x \<Rightarrow> f x)"
  "(\<And>x y. evolves R (g x y)) \<Longrightarrow> evolves R (case z of (x, y) \<Rightarrow> g x y)"
  "(\<And>e. evolves R (p e)) \<Longrightarrow> (\<And>x. evolves R (q x)) \<Longrightarrow> evolves R (case u of Inl e \<Rightarrow> p e | Inr x \<Rightarrow> q x)"
  by (auto split: option.split prod.split sum.split)

lemmas evo_intros = evo_pure evo_bindS evo_exceptS evo_finallyS evo_cases

end

text \<open>A step \<open>S\<close> that may be taken once among steps of \<open>R\<close>.  What runs before it may be
  known from its result.\<close>

locale once = evolution +
  fixes S :: "'s \<Rightarrow> 's \<Rightarrow> bool"
  assumes once_weaken: "R s t \<Longrightarrow> S s t"
    and once_before: "R s t \<Longrightarrow> S t u \<Longrightarrow> S s u"
    and once_after: "S s t \<Longrightarrow> R t u \<Longrightarrow> S s u"
begin

lemma once_none: "evolves R m \<Longrightarrow> evolves S m"
  by (erule evolves_mono) (rule once_weaken)

lemma once_bind:
  assumes "evolves R m" and "\<And>x s s'. m s = (Ret x, s') \<Longrightarrow> evolves S (f x)"
  shows "evolves S (bindS m f)"
  unfolding evolves_def
proof
  fix s
  show "S s (snd (bindS m f s))"
    using assms(1) assms(2) [of s] once_weaken once_before
    by (auto simp: evolves_def bindS_def split: prod.split outcome.split) (metis snd_conv)+
qed

lemma once_then:
  assumes "evolves S m" and "\<And>x. evolves R (f x)"
  shows "evolves S (bindS m f)"
  using assms once_after
  by (auto simp: evolves_def bindS_def split: prod.split outcome.split) (metis snd_conv)+

lemma once_except:
  assumes "evolves S m" and "\<And>e. evolves R (h e)"
  shows "evolves S (exceptS m h)"
  using assms once_after
  by (auto simp: evolves_def exceptS_def split: prod.split outcome.split) (metis snd_conv)+

end

section \<open>Writing changes only the disk\<close>

definition disk_step :: "'x disk_scheme \<Rightarrow> 'x disk_scheme \<Rightarrow> bool" where
  "disk_step w w' \<longleftrightarrow>
     (\<exists>n. w' = w\<lparr>dk_files := dk_files w', dk_faults := drop n (dk_faults w)\<rparr>)"

definition stage_step :: "'x disk_scheme \<times> stage \<Rightarrow> 'x disk_scheme \<times> stage \<Rightarrow> bool" where
  "stage_step s s' \<longleftrightarrow> disk_step (fst s) (fst s')"

lemma disk_step_refl: "disk_step w w"
  unfolding disk_step_def by (rule exI [of _ 0]) simp

lemma disk_step_trans: "disk_step w1 w2 \<Longrightarrow> disk_step w2 w3 \<Longrightarrow> disk_step w1 w3"
  unfolding disk_step_def by (cases w1; cases w2; cases w3) (auto intro: exI [of _ "_ + _"])

interpretation dsk: evolution disk_step
  using disk_step_refl disk_step_trans by unfold_locales blast+

interpretation stg: evolution stage_step
  unfolding stage_step_def using disk_step_refl disk_step_trans by unfold_locales blast+

lemma evolves_syscall: "evolves disk_step (syscall op)"
proof -
  have "disk_step w ((drop_fault w)\<lparr>dk_files := fs\<rparr>)" for w :: "'a disk_scheme" and fs
    unfolding disk_step_def drop_fault_def by (rule exI [of _ 1]) (simp add: drop_Suc)
  moreover have "disk_step w (drop_fault w)" for w :: "'a disk_scheme"
    unfolding disk_step_def drop_fault_def by (rule exI [of _ 1]) (simp add: drop_Suc)
  ultimately show ?thesis
    by (auto simp: evolves_def syscall_def Let_def split: fault.split prod.split sum.split)
qed

lemma evolves_on_disk: "evolves disk_step m \<Longrightarrow> evolves stage_step (on_disk m)"
  by (auto simp: evolves_def stage_step_def on_disk_def split: prod.split) (metis snd_conv)

lemma evolves_set_local: "evolves stage_step (set_local f)"
  by (auto simp: set_local_def stage_step_def disk_step_refl intro!: evolves_modifyS)

lemmas stage_frames = evolves_on_disk evolves_syscall evolves_set_local stg.evo_intros

lemma evolves_stage_cleanup: "evolves stage_step (stage_cleanup path)"
  unfolding stage_cleanup_def cleanup_stage_def ignore_os_error_def
  by (intro stage_frames)

lemma evolves_stage_body: "evolves stage_step (stage_body path data replace)"
  unfolding stage_body_def stage_temporary_def fill_temporary_def stage_install_def
  by (intro stage_frames)

lemma evolves_stage_file: "evolves disk_step (stage_file path data replace)"
  unfolding evolves_def stage_file_def
proof
  fix w :: "'a disk_scheme"
  have "evolves stage_step (finallyS (stage_body path data replace :: (nat, 'a disk_scheme \<times> stage) prog)
      (stage_cleanup path))"
    by (rule stg.evo_finallyS [OF evolves_stage_body evolves_stage_cleanup])
  then show "disk_step w (snd (case finallyS (stage_body path data replace) (stage_cleanup path)
      (w, no_stage) of (r, w', uu_) \<Rightarrow> (r, w')))"
    unfolding evolves_def stage_step_def
    by (auto split: prod.split dest!: spec [of _ w] spec [of _ no_stage])
qed

lemmas disk_frames = evolves_syscall evolves_stage_file dsk.evo_intros

lemma evolves_fsync_directory: "evolves disk_step fsync_directory"
  unfolding fsync_directory_def by (intro disk_frames)

lemma evolves_restore: "evolves disk_step (restore_previous_after_failed_sync path previous ino)"
  unfolding restore_previous_after_failed_sync_def undo_install_def false_on_os_error_def
    read_or_none_def
  by (intro disk_frames evolves_fsync_directory)

lemma evolves_atomic_write: "evolves disk_step (atomic_write path data replace)"
  unfolding atomic_write_def previous_content_def path_exists_def
  by (intro disk_frames evolves_fsync_directory evolves_restore)

end
