(* ===== verification/Registry_Facts.thy ===== *)
theory Registry_Facts
  imports Registry_Rotation Evolution Identity_Lineage
begin

text \<open>
  Facts about the registry adapter: what its readings return, what they leave
  alone, what passes the consent gate, and which writes an operation may begin.
\<close>

section \<open>Readings\<close>

text \<open>An observation changes the network and the clock only.\<close>

definition observes :: "'n adapter_world \<Rightarrow> 'n adapter_world \<Rightarrow> bool" where
  "observes w w' \<longleftrightarrow>
     (\<exists>n t. w' = w\<lparr>aw_net := n, aw_world := (aw_world w)\<lparr>w_ticks := t\<rparr>\<rparr>)"

lemma observes_refl: "observes w w"
  unfolding observes_def by (intro exI [of _ "aw_net w"] exI [of _ "w_ticks (aw_world w)"]) simp

lemma observes_trans:
  assumes "observes u v" and "observes v w"
  shows "observes u w"
proof -
  from assms obtain n t m k where "v = u\<lparr>aw_net := n, aw_world := (aw_world u)\<lparr>w_ticks := t\<rparr>\<rparr>"
      "w = v\<lparr>aw_net := m, aw_world := (aw_world v)\<lparr>w_ticks := k\<rparr>\<rparr>"
    by (auto simp: observes_def)
  then show ?thesis unfolding observes_def by (intro exI [of _ m] exI [of _ k]) simp
qed

lemma observes_net: "observes w (w\<lparr>aw_net := n\<rparr>)"
  unfolding observes_def by (intro exI [of _ n] exI [of _ "w_ticks (aw_world w)"]) simp

lemma observes_tick: "observes w (w\<lparr>aw_world := (aw_world w)\<lparr>w_ticks := t\<rparr>\<rparr>)"
  unfolding observes_def by (intro exI [of _ "aw_net w"] exI [of _ t]) simp

interpretation obs: evolution observes
  using observes_refl observes_trans by unfold_locales blast+

lemma observes_fields:
  assumes "observes w w'"
  shows "aw_puts w' = aw_puts w" "aw_replay w' = aw_replay w" "aw_objects w' = aw_objects w"
    "w_rotation (aw_world w') = w_rotation (aw_world w)"
    "w_signer (aw_world w') = w_signer (aw_world w)"
    "w_wallets (aw_world w') = w_wallets (aw_world w)"
  using assms by (auto simp: observes_def)

lemma observes_on_net: "evolves observes (on_net m)"
  by (simp add: evolves_def on_net_def observes_net split: prod.split)

lemma observes_expired_at: "evolves observes (expired_at t)"
  by (simp add: evolves_def expired_at_def on_world_def bindS_def time_now_def observes_tick)

lemma observes_environment: "evolves observes (rotation_environment_matches A e)"
  by (simp add: rotation_environment_matches_def obs.evo_pure)

lemma observes_available: "evolves observes (rotation_transport_available A)"
  by (simp add: rotation_transport_available_def obs.evo_pure)

lemma observes_latched: "evolves observes (owner_latched A name)"
  by (simp add: owner_latched_def obs.evo_pure)

lemmas observe_frames = observes_on_net observes_expired_at observes_environment
  observes_available observes_latched obs.evo_intros

lemma observes_walk: "evolves observes (walk_history P A name env left e)"
proof (induction left arbitrary: e)
  case 0
  show ?case by (subst walk_history.simps, unfold nat.case) (intro observe_frames)
next
  case (Suc left)
  show ?case
    by (subst walk_history.simps, unfold nat.case) (intro observe_frames Suc.IH)
qed

lemma observes_read_state: "evolves observes (read_state P A name)"
  unfolding read_state_def parse_state_with_history_def by (intro observe_frames observes_walk)

lemma observes_confirm_envelope: "evolves observes (confirm_envelope P A name e prev)"
  unfolding confirm_envelope_def by (intro observe_frames)

lemma observes_confirm_publication: "evolves observes (confirm_publication P A name e prev reason)"
  unfolding confirm_publication_def by (intro observe_frames observes_confirm_envelope)

lemma observes_verify_candidate: "evolves observes (verify_candidate P A intent e)"
  unfolding verify_candidate_def parse_state_with_history_def
  by (intro observe_frames observes_walk)

section \<open>The walk along the history\<close>

lemma walk_history_chain:
  assumes "walk_history P A name env left e w = (Ret st, w')"
  shows "\<exists>history. length history \<le> left \<and> parse_history P name (e # history) = Inr (Some st)"
  using assms
proof (induction left arbitrary: e st w w')
  case 0
  then show ?case
    by (subst (asm) walk_history.simps)
      (auto simp: prog_simps split: option.splits intro!: exI [of _ "[]"])
next
  case (Suc left)
  show ?case
  proof (cases "history_authorization P e")
    case (Inr found)
    show ?thesis
    proof (cases found)
      case None
      then show ?thesis
        using Suc.prems Inr by (subst (asm) walk_history.simps)
          (auto simp: prog_simps intro!: exI [of _ "[]"])
    next
      case (Some a)
      from Suc.prems obtain p prev w1 w2 where
          p: "walk_history P A name env left p w1 = (Ret prev, w2)"
        and st: "parse_identity_envelope P name e (Some prev) = Inr st"
        by (subst (asm) walk_history.simps) (auto simp: prog_simps Inr Some)
      from Suc.IH [OF p] obtain h where "length h \<le> left"
        "parse_history P name (p # h) = Inr (Some prev)" by blast
      with st show ?thesis by (intro exI [of _ "p # h"]) simp
    qed
  next
    case (Inl x)
    with Suc.prems show ?thesis by (subst (asm) walk_history.simps) (simp add: bindS_def)
  qed
qed

lemma parse_chain_history:
  "e \<noteq> PyNone \<Longrightarrow> parse_previous_state_chain P name e h = parse_history P name (e # h)"
  by (simp add: parse_previous_state_chain_def)

lemma parse_history_nonempty: "parse_history P name (e # h) = Inr (Some st) \<Longrightarrow> e \<noteq> PyNone"
  by (auto simp: res_simps parse_identity_envelope_def)

lemma state_with_history_chain:
  assumes "parse_state_with_history P A name e env w = (Ret st, w')"
  shows "\<exists>history. length history \<le> MAX_PREDECESSOR_DEPTH
    \<and> parse_previous_state_chain P name e history = Inr (Some st)"
  using walk_history_chain [OF assms [unfolded parse_state_with_history_def]]
  by (metis parse_chain_history parse_history_nonempty)

lemma read_state_chain:
  assumes "read_state P A (PyBytes name) w = (Ret (Some st), w')"
  shows "\<exists>history. length history \<le> MAX_PREDECESSOR_DEPTH
    \<and> parse_previous_state_chain P name (PyBytes (st_envelope_bytes st)) history = Inr (Some st)"
proof -
  from assms obtain e w1 where
    "parse_state_with_history P A name e None w1 = (Ret st, w')"
    by (auto simp: read_state_def prog_simps res_simps split: if_splits)
  then obtain h where h: "length h \<le> MAX_PREDECESSOR_DEPTH"
    "parse_previous_state_chain P name e h = Inr (Some st)"
    using state_with_history_chain by blast
  with parse_previous_state_chain_lineage [OF h(2)] show ?thesis by metis
qed

section \<open>The consent gate\<close>

text \<open>Some run of the handler approved exactly this transcript.\<close>

definition approved :: "'n consent_handler \<Rightarrow> consent_transcript \<Rightarrow> bool" where
  "approved consent t \<longleftrightarrow> (\<exists>w w'. consent t w = (Ret (pykey ''approved''), w'))"

lemma normalize_approved [simp]: "normalize_consent v = Approved \<longleftrightarrow> v = pykey ''approved''"
  by (simp add: normalize_consent_def)

lemma run_expired_at:
  "expired_at t w = (Ret (t \<le> w_time (aw_world w) (w_ticks (aw_world w))),
     w\<lparr>aw_world := (aw_world w)\<lparr>w_ticks := Suc (w_ticks (aw_world w))\<rparr>\<rparr>)"
  by (simp add: expired_at_def on_world_def bindS_def time_now_def)

lemma ask_consent_passes:
  assumes "ask_consent t consent w = (Ret None, w')"
  obtains w1 w2 where "observes w w1" and "consent t w1 = (Ret (pykey ''approved''), w2)"
    and "observes w2 w'" and "w_time (aw_world w2) (w_ticks (aw_world w2)) < ct_expires_at t"
proof -
  from assms obtain w1 w2 where "expired_at (ct_expires_at t) w = (Ret False, w1)"
      and c: "consent t w1 = (Ret (pykey ''approved''), w2)"
      and e: "expired_at (ct_expires_at t) w2 = (Ret False, w')"
    by (auto simp: ask_consent_def prog_simps split: if_splits)
  moreover from e have "w_time (aw_world w2) (w_ticks (aw_world w2)) < ct_expires_at t"
    by (auto simp: run_expired_at)
  ultimately show ?thesis using that evolvesD [OF observes_expired_at] by blast
qed

lemma consent_gate_passes:
  assumes "consent_gate P A name t consent w = (Ret None, w')"
  obtains w1 w2 w3 where "reserve_replay_nonce P A name t w = (Ret True, w1)" and "observes w1 w2"
    and "consent t w2 = (Ret (pykey ''approved''), w3)" and "observes w3 w'"
    and "w_time (aw_world w3) (w_ticks (aw_world w3)) < ct_expires_at t"
proof -
  from assms obtain w1 where r: "reserve_replay_nonce P A name t w = (Ret True, w1)"
    and k: "ask_consent t consent w1 = (Ret None, w')"
    by (auto simp: consent_gate_def prog_simps split: if_splits)
  then show ?thesis using that by (elim ask_consent_passes) blast
qed

lemma consent_gate_approved: "consent_gate P A name t consent w = (Ret None, w') \<Longrightarrow> approved consent t"
  by (elim consent_gate_passes) (auto simp: approved_def)

lemma reserve_memory:
  assumes "ad_replay A = None" and "reserve_replay_nonce P A name t w = (Ret True, w')"
  obtains key where "replay_key P name (ct_authenticated_origin t) (ct_environment t)
      (ct_replay_nonce t) = Inr key"
    and "key \<notin> aw_replay w" and "w' = w\<lparr>aw_replay := insert key (aw_replay w)\<rparr>"
  using assms
  by (auto simp: reserve_replay_nonce_def replay_consume_def memory_consume_def prog_simps
      split: if_splits)

lemma reserve_memory_spent:
  assumes "ad_replay A = None" and "key \<in> aw_replay w"
    and "replay_key P name (ct_authenticated_origin t) (ct_environment t) (ct_replay_nonce t) = Inr key"
  shows "consent_gate P A name t consent w = (Ret (Some (FAILED, ''replay rejected'')), w)"
  using assms
  by (simp add: consent_gate_def reserve_replay_nonce_def replay_consume_def memory_consume_def
      bindS_def exceptS_def)

section \<open>Writes\<close>

definition no_write :: "'n adapter_world \<Rightarrow> 'n adapter_world \<Rightarrow> bool" where
  "no_write w w' \<longleftrightarrow> aw_puts w' = aw_puts w"

text \<open>At most one write was begun, and it satisfies \<open>Q\<close>.\<close>

definition one_write :: "(put_call \<Rightarrow> bool) \<Rightarrow> 'n adapter_world \<Rightarrow> 'n adapter_world \<Rightarrow> bool" where
  "one_write Q w w' \<longleftrightarrow>
     aw_puts w' = aw_puts w \<or> (\<exists>c. Q c \<and> aw_puts w' = aw_puts w @ [c])"

interpretation quiet_write: evolution no_write
  by unfold_locales (simp_all add: no_write_def)

interpretation wr: once no_write "one_write Q" for Q
  by unfold_locales (auto simp: no_write_def one_write_def)

lemma no_write_observes: "evolves observes m \<Longrightarrow> evolves no_write m"
  by (erule evolves_mono) (simp add: no_write_def observes_fields)

lemma no_write_on_world: "evolves no_write (on_world m)"
  by (simp add: evolves_def on_world_def no_write_def split: prod.split)

lemmas write_frames = quiet_write.evo_intros no_write_on_world
  no_write_observes [OF observes_on_net] no_write_observes [OF observes_expired_at]
  no_write_observes [OF observes_environment] no_write_observes [OF observes_available]
  no_write_observes [OF observes_latched] no_write_observes [OF observes_read_state]
  no_write_observes [OF observes_confirm_envelope] no_write_observes [OF observes_confirm_publication]
  no_write_observes [OF observes_verify_candidate]

lemma no_write_reserve: "evolves no_write (reserve_replay_nonce P A name t)"
proof -
  have "evolves no_write (replay_consume A key)" for key
  proof (cases "ad_replay A")
    case None
    then show ?thesis
      by (auto simp: evolves_def replay_consume_def no_write_def memory_consume_def)
  qed (simp add: replay_consume_def write_frames)
  then show ?thesis unfolding reserve_replay_nonce_def by (intro write_frames)
qed

lemma no_write_gate:
  assumes "\<And>t. evolves no_write (consent t)"
  shows "evolves no_write (consent_gate P A name t consent)"
  unfolding consent_gate_def ask_consent_def by (intro write_frames no_write_reserve assms)

lemma try_put_once: "evolves (one_write ((=) c)) (try_put A c)"
proof -
  have "evolves (one_write ((=) c)) (modifyS (\<lambda>w. w\<lparr>aw_puts := aw_puts w @ [c]\<rparr>))"
    by (rule evolves_modifyS) (simp add: one_write_def)
  then show ?thesis
    unfolding try_put_def transport_put_def
    by (intro wr.once_except wr.once_then write_frames)
qed

lemmas write_pure = quiet_write.evo_pure [THEN wr.once_none]

lemma one_write_mono: "evolves (one_write Q) m \<Longrightarrow> (\<And>c. Q c \<Longrightarrow> Q' c) \<Longrightarrow> evolves (one_write Q') m"
  by (erule evolves_mono) (auto simp: one_write_def)

lemma try_put_writes: "Q c \<Longrightarrow> evolves (one_write Q) (try_put A c)"
  by (rule one_write_mono [OF try_put_once]) simp

lemma put_then:
  "Q c \<Longrightarrow> (\<And>x. evolves no_write (f x)) \<Longrightarrow> evolves (one_write Q) (bindS (try_put A c) f)"
  by (intro wr.once_then try_put_writes)

lemma evolves_put:
  "evolves R a \<Longrightarrow> evolves R b \<Longrightarrow> evolves R c \<Longrightarrow> evolves R d \<Longrightarrow> evolves R (case x of
     PutDone \<Rightarrow> a | PutStale \<Rightarrow> b | PutExpired \<Rightarrow> c | PutUnclear \<Rightarrow> d)"
  by (cases x) simp_all

lemma evolves_if:
  "(c \<Longrightarrow> evolves R m) \<Longrightarrow> (\<not> c \<Longrightarrow> evolves R n) \<Longrightarrow> evolves R (if c then m else n)"
  by simp

lemma evolves_option:
  "(y = None \<Longrightarrow> evolves R m) \<Longrightarrow> (\<And>x. y = Some x \<Longrightarrow> evolves R (f x)) \<Longrightarrow>
    evolves R (case y of None \<Rightarrow> m | Some x \<Rightarrow> f x)"
  by (simp split: option.split)

lemma make_transcript_fields:
  assumes "make_transcript args op h n g e i k = Inr t"
  shows "ct_review_payload t = e" "ct_payload_hash t = h" "sha256 e = h" "ct_sequence t = n"
    "ca_expires_at args = PyInt (ct_expires_at t)" "ca_environment args = PyStr (ct_environment t)"
    "ct_generation t = g" "ct_signer_public_key t = k" "op = PyStr (ct_operation t)"
  using assms
  by (auto simp: make_transcript_def require_text_def res_simps split: pyval.splits)

lemma publish_consented_once:
  assumes "\<And>cur. same_state prev cur \<Longrightarrow> Q (make_put name e cur expires)"
  shows "evolves (one_write Q) (publish_consented P A name e prev expires)"
  unfolding publish_consented_def
  by (intro put_then wr.once_bind evolves_if evolves_put write_frames write_pure assms) simp

text \<open>A write that publishes a bundle: its envelope, against the state the bundle was drafted
  on, approved and with the approved deadline.\<close>

definition approved_publication ::
    "prims \<Rightarrow> identity_bundle \<Rightarrow> 'n consent_handler \<Rightarrow> put_call \<Rightarrow> bool" where
  "approved_publication P b consent c \<longleftrightarrow>
     (\<exists>t name prev.
        approved consent t \<and> ct_review_payload t = put_envelope_cbor c
        \<and> ct_expires_at t = put_expires_at c
        \<and> bundle_finalize P b = Inr (put_envelope_cbor c)
        \<and> draft_owner_name P (bd_draft b) = Inr name
        \<and> put_owner_name_hex c = bytes_hex (bytes_of name)
        \<and> draft_previous_state P (bd_draft b) = Inr prev
        \<and> put_expected_state_hash c = map_option st_state_hash prev)"

lemma same_state_hash: "same_state a b \<Longrightarrow> map_option st_state_hash b = map_option st_state_hash a"
  by (auto simp: same_state_def split: option.splits)

lemma publish_bundle_once:
  assumes "\<And>t. evolves no_write (consent t)"
  shows "evolves (one_write (approved_publication P b consent))
    (publish_bundle P A (Some b) consent args)"
  unfolding publish_bundle_def option.case Let_def
proof (intro wr.once_bind evolves_if evolves_option write_frames write_pure no_write_gate assms,
    goal_cases)
  case (1 u1 s1 s1' auth s2 s2' u2 s3 s3' e s4 s4' name s5 s5' latched s6 s6' prev s7 s7' cur s8 s8'
      sequence s9 s9' t s10 s10' refused s11 s11')
  then show ?case
    by (intro publish_consented_once)
      (auto simp: approved_publication_def make_put_def prog_simps dest!: consent_gate_approved
        make_transcript_fields(1) same_state_hash intro!: exI [of _ t])
next
  case (2 u1 s1 s1' auth s2 s2' u2 s3 s3' e s4 s4' name s5 s5' latched s6 s6' prev s7 s7' cur s8 s8'
      sequence s9 s9' t s10 s10' refused s11 s11' r)
  then show ?case by (cases r) (simp add: write_frames wr.once_none)
qed

section \<open>Submissions\<close>

lemma evolves_sign:
  "(\<And>sig. x = Signed sig \<Longrightarrow> evolves R (f sig)) \<Longrightarrow> evolves R a \<Longrightarrow> evolves R b \<Longrightarrow>
    evolves R (case x of Signed sig \<Rightarrow> f sig | SignExpired \<Rightarrow> a | SignFailed \<Rightarrow> b)"
  by (cases x) simp_all

lemma no_write_sign_update:
  assumes "evolves no_write factory"
  shows "evolves no_write (sign_update P factory key expires update)"
  unfolding sign_update_def sign_with_def by (intro write_frames assms)

lemma sign_update_signed:
  assumes "sign_update P factory key expires update w = (Ret (Signed sig), w')"
  shows "length sig = 64 \<and> ed25519_verify P key (sha256 update) sig"
  using assms
  by (auto simp: sign_update_def sign_with_def prog_simps res_simps split: if_splits option.splits)

lemma publish_single_once:
  assumes "Q (make_put (sm_owner_name sm) e (sm_current sm) (ct_expires_at t))"
  shows "evolves (one_write Q) (publish_single P A sm t e)"
  unfolding publish_single_def by (intro put_then evolves_put write_frames assms)

lemma complete_submission_once:
  assumes "evolves no_write factory"
    and "\<And>sig e. \<lbrakk>length sig = 64; ed25519_verify P (sm_signer_public_key sm) (sha256 (sm_update sm)) sig;
        single_envelope P sm sig = Inr e; sm_draft sm = None\<rbrakk>
      \<Longrightarrow> Q (make_put (sm_owner_name sm) e (sm_current sm) (ct_expires_at t))"
  shows "evolves (one_write Q) (complete_submission P A sm t factory)"
  unfolding complete_submission_def
proof (intro wr.once_bind evolves_if evolves_option evolves_sign write_frames write_pure
    no_write_sign_update assms(1), goal_cases)
  case (1 latest s1 s1' late s2 s2' signed s3 s3' sig latest2 s4 s4' late2 s5 s5' e s6 s6')
  then show ?case
    by (intro publish_single_once assms(2)) (auto simp: prog_simps dest!: sign_update_signed)
qed

text \<open>A write that publishes an update under one signature: the update was reviewed and
  approved, and the signature in the envelope verifies under the signer's key.\<close>

definition approved_submission ::
    "prims \<Rightarrow> submission_args \<Rightarrow> 'n consent_handler \<Rightarrow> put_call \<Rightarrow> bool" where
  "approved_submission P args consent c \<longleftrightarrow>
     (\<exists>t key sig.
        approved consent t \<and> sa_signer_public_key args = PyBytes key
        \<and> ct_signer_public_key t = Some key \<and> ct_expires_at t = put_expires_at c
        \<and> ed25519_verify P key (sha256 (ct_review_payload t)) sig
        \<and> (legacy_envelope P (ct_review_payload t) sig = Inr (put_envelope_cbor c)
           \<or> versioned_envelope P (ct_review_payload t) (sa_signer_id args) sig
               = Inr (put_envelope_cbor c)))"

lemma check_submission_fields:
  assumes "check_submission P args name owner key current = Inr sm"
  shows "sm_owner_name sm = name" "sm_signer_public_key sm = key" "sm_current sm = current"
    "sm_signer_id sm = sa_signer_id args"
  using assms by (auto simp: check_submission_def res_simps)

lemma single_envelope_cases:
  "single_envelope P sm sig = Inr e \<Longrightarrow>
    legacy_envelope P (sm_update sm) sig = Inr e
    \<or> versioned_envelope P (sm_update sm) (sm_signer_id sm) sig = Inr e"
  by (auto simp: single_envelope_def res_simps split: option.splits)

lemma submit_identity_once:
  assumes "\<And>t. evolves no_write (consent t)" and "evolves no_write factory"
  shows "evolves (one_write (approved_submission P args consent))
    (submit_identity P A args factory consent cargs)"
  unfolding submit_identity_def
proof (intro wr.once_bind evolves_if evolves_option write_frames write_pure no_write_gate assms(1),
    goal_cases)
  case (1 name s1 s1' l1 s2 s2' u s3 s3' owner s4 s4' key s5 s5' current s6 s6' sm s7 s7' t s8 s8'
      refused s9 s9' l2 s10 s10')
  then have c: "check_submission P args name owner key current = Inr sm"
      and k: "sa_signer_public_key args = PyBytes key"
      and ap: "approved consent t"
    by (auto simp: prog_simps res_simps dest!: consent_gate_approved)
  from 1 obtain op h n g where
    m: "make_transcript cargs op h n g (sm_update sm) (sa_signer_id args) (Some key) = Inr t"
    by (auto simp: prog_simps)
  note rv = make_transcript_fields(1) [OF m] and sk = make_transcript_fields(8) [OF m]
  show ?case
    by (intro complete_submission_once assms(2))
      (auto simp: approved_submission_def make_put_def check_submission_fields [OF c] rv sk k
        intro!: exI [of _ t] ap dest!: single_envelope_cases)
next
  case (2 name s1 s1' l1 s2 s2' u s3 s3' owner s4 s4' key s5 s5' current s6 s6' sm s7 s7' t s8 s8'
      refused s9 s9' r)
  then show ?case by (cases r) (simp add: write_pure)
qed

end
