(* ===== verification/Registry_Reading.thy ===== *)
theory Registry_Reading
  imports Registry_Facts
begin

text \<open>
  How the registry adapter reads: the number of fetches behind a state, the
  reading of a transport that serves what it holds, and the evidence behind a
  confirmed publication.
\<close>

section \<open>The number of fetches\<close>

text \<open>A measure of the network grew by at most \<open>k\<close>.\<close>

definition grows :: "('n \<Rightarrow> nat) \<Rightarrow> nat \<Rightarrow> 'n adapter_world \<Rightarrow> 'n adapter_world \<Rightarrow> bool" where
  "grows f k w w' \<longleftrightarrow> f (aw_net w') \<le> f (aw_net w) + k"

interpretation still: evolution "grows f 0" for f
  by unfold_locales (auto simp: grows_def)

lemma grows_add:
  assumes "evolves (grows f j) m" and "\<And>x. evolves (grows f k) (g x)"
  shows "evolves (grows f (j + k)) (bindS m g)"
  unfolding evolves_def
proof
  fix w
  obtain r w1 where m: "m w = (r, w1)" by fastforce
  then have j: "f (aw_net w1) \<le> f (aw_net w) + j"
    using evolvesD [OF assms(1)] by (simp add: grows_def)
  have "f (aw_net (snd (g x w1))) \<le> f (aw_net w1) + k" for x
    using assms(2) [of x] by (simp add: evolves_def grows_def)
  then have "f (aw_net (snd (g x w1))) \<le> f (aw_net w) + (j + k)" for x
    using j by (metis (no_types, lifting) add.assoc add_le_mono1 le_trans)
  with j m show "grows f (j + k) w (snd (bindS m g w))"
    by (simp add: grows_def bindS_def trans_le_add1 split: outcome.split)
qed

lemma grows_more: "evolves (grows f j) m \<Longrightarrow> j \<le> k \<Longrightarrow> evolves (grows f k) m"
  by (erule evolves_mono) (simp add: grows_def)

lemma grows_fetch:
  assumes "\<And>hex h n. f (snd (tr_get_by_hash T hex h n)) \<le> f n + 1"
  shows "evolves (grows f 1) (exceptS (on_net (tr_get_by_hash T hex h)) (\<lambda>_. raiseS e))"
  using assms [of hex h]
  by (auto simp: evolves_def grows_def exceptS_def on_net_def split: prod.split outcome.split)
    (metis snd_conv)+

lemma walk_history_grows:
  assumes "\<And>hex h n. f (snd (tr_get_by_hash (ad_transport A) hex h n)) \<le> f n + 1"
  shows "evolves (grows f left) (walk_history P A name env left e)"
proof (induction left arbitrary: e)
  case 0
  show ?case by (subst walk_history.simps, unfold nat.case) (intro still.evo_intros)
next
  case (Suc left)
  have p: "evolves (grows f 0) (rotation_environment_matches A env)"
    by (simp add: rotation_environment_matches_def still.evo_pure)
  have fetch: "evolves (grows f (1 + (0 + (left + 0))))
      (bindS (exceptS (on_net (tr_get_by_hash (ad_transport A) (bytes_hex name) (au_predecessor auth)))
           (\<lambda>_. raiseS TransportFailure)) (\<lambda>predecessor.
         thenS (guardS (predecessor = PyNone) InvalidIdentityState)
          (bindS (walk_history P A name env left predecessor) (\<lambda>state.
             liftS (parse_identity_envelope P name e (Some state))))))" for auth
    by (intro grows_add grows_fetch assms Suc.IH still.evo_pure)
  have "evolves (grows f (0 + (0 + (0 + (1 + (0 + (left + 0)))))))
      (walk_history P A name env (Suc left) e)"
    by (subst walk_history.simps, unfold nat.case, rule grows_add [OF still.evo_pure(4)])
      (intro still.evo_cases evolves_option grows_add p still.evo_pure fetch
        grows_more [OF still.evo_pure(4)] still.evo_cases(1), simp)
  then show ?case by simp
qed

section \<open>Transports that serve what they hold\<close>

text \<open>Reading returns the current envelope of the owner, or the archived one, and changes
  neither.\<close>

definition serves ::
    "'n transport \<Rightarrow> ('n \<Rightarrow> pystr \<Rightarrow> bytes option) \<Rightarrow> ('n \<Rightarrow> pystr \<Rightarrow> bytes \<Rightarrow> bytes option) \<Rightarrow> bool" where
  "serves T cur arch \<longleftrightarrow>
     (\<forall>hex n. \<exists>n'. tr_get T hex n = (Ret (optional_bytes (cur n hex)), n')
        \<and> cur n' = cur n \<and> arch n' = arch n)
     \<and> (\<forall>hex h n. \<exists>n'. tr_get_by_hash T hex h n = (Ret (optional_bytes (arch n hex h)), n')
        \<and> cur n' = cur n \<and> arch n' = arch n)"

text \<open>The archive holds the history of an envelope, up to an anchor.\<close>

fun chain_served :: "(bytes \<Rightarrow> bytes option) \<Rightarrow> prims \<Rightarrow> bytes \<Rightarrow> bytes list \<Rightarrow> bool" where
  "chain_served arch P e [] \<longleftrightarrow> history_authorization P (PyBytes e) = Inr None"
| "chain_served arch P e (p # h) \<longleftrightarrow>
     (case history_authorization P (PyBytes e) of
        Inr (Some a) \<Rightarrow> arch (au_predecessor a) = Some p
      | _ \<Rightarrow> False)
     \<and> chain_served arch P p h"

definition outcome_of :: "identity_state option res \<Rightarrow> identity_state outcome" where
  "outcome_of r =
     (case r of Inl e \<Rightarrow> Raise e | Inr None \<Rightarrow> Raise InvalidIdentityState | Inr (Some st) \<Rightarrow> Ret st)"

lemma parse_history_Some: "parse_history P name (e # h) = Inr x \<Longrightarrow> \<exists>st. x = Some st"
  by (auto simp: res_simps)

lemma walk_served:
  assumes "serves (ad_transport A) cur arch"
    and "chain_served (arch (aw_net w) (bytes_hex name)) P e h"
  shows "fst (walk_history P A name None left (PyBytes e) w) =
    (if length h \<le> left then outcome_of (parse_history P name (map PyBytes (e # h)))
     else Raise InvalidIdentityState)"
  using assms(2)
proof (induction h arbitrary: e left w)
  case Nil
  then show ?case
    by (subst walk_history.simps)
      (auto simp: bindS_def liftS_def outcome_of_def bindE_def split: sum.split)
next
  case (Cons p h)
  then obtain a where a: "history_authorization P (PyBytes e) = Inr (Some a)"
      "arch (aw_net w) (bytes_hex name) (au_predecessor a) = Some p"
    by (auto split: sum.splits option.splits)
  show ?case
  proof (cases left)
    case 0
    then show ?thesis by (subst walk_history.simps) (simp add: a bindS_def)
  next
    case (Suc left')
    from assms(1) a(2) obtain n where g: "tr_get_by_hash (ad_transport A) (bytes_hex name)
          (au_predecessor a) (aw_net w) = (Ret (PyBytes p), n)" "arch n = arch (aw_net w)"
      unfolding serves_def optional_bytes_def by (metis option.simps(5))
    let ?w = "w\<lparr>aw_net := n\<rparr>"
    have s: "chain_served (arch (aw_net ?w) (bytes_hex name)) P p h"
      using Cons.prems g(2) by simp
    have k: "fst (walk_history P A name None (Suc left') (PyBytes e) w) =
        fst (bindS (walk_history P A name None left' (PyBytes p)) (\<lambda>state.
          liftS (parse_identity_envelope P name (PyBytes e) (Some state))) ?w)"
      by (subst walk_history.simps) (simp add: a bindS_def exceptS_def on_net_def g)
    have step: "fst (bindS m (\<lambda>x. liftS (q x)) v) = (case fst (m v) of Ret x \<Rightarrow>
        (case q x of Inl e \<Rightarrow> Raise e | Inr y \<Rightarrow> Ret y) | Raise e \<Rightarrow> Raise e | Killed \<Rightarrow> Killed)"
      for m :: "(identity_state, 'a adapter_world) prog" and q v
      by (auto simp: bindS_def liftS_def split: prod.split outcome.split sum.split)
    show ?thesis
      unfolding Suc k step Cons.IH [OF s]
      by (cases "parse_history P name (map PyBytes (p # h))")
        (auto simp: outcome_of_def bindE_def split: sum.splits)
  qed
qed

section \<open>Confirmed publications\<close>

definition returns :: "('a \<Rightarrow> bool) \<Rightarrow> ('a, 's) prog \<Rightarrow> bool" where
  "returns Q m \<longleftrightarrow> (\<forall>s x s'. m s = (Ret x, s') \<longrightarrow> Q x)"

lemma returnsD: "returns Q m \<Longrightarrow> m s = (Ret x, s') \<Longrightarrow> Q x"
  by (auto simp: returns_def)

lemma returns_bind:
  assumes "\<And>x s s'. m s = (Ret x, s') \<Longrightarrow> returns Q (f x)"
  shows "returns Q (bindS m f)"
  using assms unfolding returns_def by (auto simp: bindS_Ret) blast

lemma returns_pure: "Q x \<Longrightarrow> returns Q (returnS x)" "returns Q (raiseS e)"
  by (simp_all add: returns_def)

lemma returns_cases:
  "(c \<Longrightarrow> returns Q m) \<Longrightarrow> (\<not> c \<Longrightarrow> returns Q n) \<Longrightarrow> returns Q (if c then m else n)"
  "(y = None \<Longrightarrow> returns Q m) \<Longrightarrow> (\<And>x. y = Some x \<Longrightarrow> returns Q (f x)) \<Longrightarrow>
    returns Q (case y of None \<Rightarrow> m | Some x \<Rightarrow> f x)"
  "returns Q a \<Longrightarrow> returns Q b \<Longrightarrow> returns Q c' \<Longrightarrow> returns Q d \<Longrightarrow> returns Q (case z of
     PutDone \<Rightarrow> a | PutStale \<Rightarrow> b | PutExpired \<Rightarrow> c' | PutUnclear \<Rightarrow> d)"
  by (auto split: option.split put_outcome.split)

text \<open>The transport returned the envelope, and it was accepted on top of a lineage.\<close>

definition read_back ::
    "prims \<Rightarrow> 'n adapter \<Rightarrow> bytes \<Rightarrow> bytes \<Rightarrow> identity_state \<Rightarrow> bool" where
  "read_back P A name e st \<longleftrightarrow>
     (\<exists>n n'. tr_get (ad_transport A) (bytes_hex name) n = (Ret (PyBytes e), n'))
     \<and> lineage P st \<and> st_owner_name st = name \<and> st_envelope_bytes st = e"

definition owned :: "prims \<Rightarrow> bytes \<Rightarrow> identity_state option \<Rightarrow> bool" where
  "owned P name prev \<longleftrightarrow> (\<forall>st. prev = Some st \<longrightarrow> lineage P st \<and> st_owner_name st = name)"

lemma confirm_envelope_Some:
  assumes "confirm_envelope P A (PyBytes name) e prev w = (Ret (Some st), w')"
    and "owned P name prev"
  shows "read_back P A name e st"
proof -
  let ?get = "tr_get (ad_transport A) (bytes_hex name)"
  from assms(1) obtain w1 where
      c: "exceptS (bindS (on_net ?get) (\<lambda>candidate.
           if candidate = PyNone then returnS None
           else bindS (liftS (parse_identity_envelope P name candidate prev)) (\<lambda>state.
                returnS (Some state)))) (\<lambda>_. returnS None) w1 = (Ret (Some st), w')"
      and e: "st_envelope_bytes st = e"
    by (auto simp: confirm_envelope_def bindS_Ret liftS_Ret res_simps split: option.splits if_splits)
  then obtain candidate w2 where g: "on_net ?get w1 = (Ret candidate, w2)"
      and p: "parse_identity_envelope P name candidate prev = Inr st"
    by (auto simp: exceptS_Ret bindS_Ret liftS_Ret split: if_splits)
  from g have "\<exists>n n'. ?get n = (Ret candidate, n')"
    by (auto simp: on_net_def split: prod.splits)
  moreover have "candidate = PyBytes e \<and> st_owner_name st = name"
    using parse_identity_envelope_cases [OF p] e by auto
  moreover have "lineage P st"
    using p assms(2) [unfolded owned_def] by (rule parse_identity_envelope_lineage)
  ultimately show ?thesis using e by (auto simp: read_back_def)
qed

lemma gate_never_confirms:
  "returns (\<lambda>refused. \<forall>status reason. refused = Some (status, reason) \<longrightarrow> status \<noteq> CONFIRMED)
    (consent_gate P A name t consent)"
  unfolding consent_gate_def ask_consent_def
  by (intro returns_bind returns_cases returns_pure)
    (auto simp: decision_status_def split: consent_decision.splits)

lemma draft_previous_owned:
  assumes "draft_previous_state P d = Inr prev" and "draft_owner_name P d = Inr name"
  shows "owned P (bytes_of name) prev"
  unfolding owned_def
proof (intro allI impI)
  fix st
  assume "prev = Some st"
  with assms have "parse_previous_state_chain P (bytes_of name)
      (optional_bytes (dr_previous_state_envelope d)) (map PyBytes (dr_previous_state_history d))
      = Inr (Some st)" by (simp add: draft_previous_state_def)
  from parse_previous_state_chain_lineage [OF this]
  show "lineage P st \<and> st_owner_name st = bytes_of name" by simp
qed

text \<open>A result is \<^verbatim>\<open>CONFIRMED\<close> only with the state that the readback accepted.\<close>

definition confirmed_soundly ::
    "prims \<Rightarrow> 'n adapter \<Rightarrow> bytes \<Rightarrow> bytes \<Rightarrow> publication_result \<Rightarrow> bool" where
  "confirmed_soundly P A name e r \<longleftrightarrow>
     (if pr_status r = CONFIRMED
      then \<exists>st. pr_accepted_state r = Some st \<and> read_back P A name e st
      else pr_accepted_state r = None)"

lemma refused_soundly:
  "status \<noteq> CONFIRMED \<Longrightarrow> confirmed_soundly P A name e (publication_refused status env reason)"
  by (simp add: confirmed_soundly_def publication_refused_def)

lemma confirm_publication_soundly:
  assumes "owned P name prev"
  shows "returns (confirmed_soundly P A name e) (confirm_publication P A name e prev reason)"
  unfolding confirm_publication_def
proof (rule returns_bind)
  fix accepted s s'
  assume "confirm_envelope P A (PyBytes name) e prev s = (Ret accepted, s')"
  then show "returns (confirmed_soundly P A name e) (returnS
      \<lparr>pr_status = if accepted = None then UNKNOWN else CONFIRMED, pr_envelope_bytes = Some e,
       pr_accepted_state = accepted, pr_reason = if accepted = None then Some reason else None,
       pr_publication = None\<rparr>)"
    using confirm_envelope_Some [OF _ assms]
    by (cases accepted) (auto simp: confirmed_soundly_def intro!: returns_pure)
qed

lemma publish_consented_soundly:
  assumes "owned P name prev"
  shows "returns (confirmed_soundly P A name e) (publish_consented P A name e prev expires)"
  unfolding publish_consented_def
  by (intro returns_bind returns_cases returns_pure refused_soundly confirm_publication_soundly assms)
    simp_all


lemma publish_bundle_soundly:
  "returns (\<lambda>r. \<exists>e name. bundle_finalize P b = Inr e \<and> draft_owner_name P (bd_draft b) = Inr name
      \<and> confirmed_soundly P A (bytes_of name) e r) (publish_bundle P A (Some b) consent args)"
  unfolding publish_bundle_def option.case Let_def
proof (intro returns_bind returns_cases, goal_cases)
  case (1 u1 s1 s1' auth s2 s2' u2 s3 s3' e s4 s4' name s5 s5' latched s6 s6')
  then show ?case by (intro returns_pure) (auto simp: prog_simps intro: refused_soundly)
next
  case (2 u1 s1 s1' auth s2 s2' u2 s3 s3' e s4 s4' name s5 s5' latched s6 s6' prev s7 s7' cur s8 s8')
  then show ?case by (intro returns_pure) (auto simp: prog_simps intro: refused_soundly)
next
  case (3 u1 s1 s1' auth s2 s2' u2 s3 s3' e s4 s4' name s5 s5' latched s6 s6' prev s7 s7' cur s8 s8'
      sequence s9 s9' t s10 s10' refused s11 s11')
  then have "returns (confirmed_soundly P A (bytes_of name) e)
      (publish_consented P A (bytes_of name) e prev (ct_expires_at t))"
    by (intro publish_consented_soundly draft_previous_owned [of P "bd_draft b"])
      (simp_all add: prog_simps)
  with 3 show ?case by (auto simp: returns_def prog_simps)
next
  case (4 u1 s1 s1' auth s2 s2' u2 s3 s3' e s4 s4' name s5 s5' latched s6 s6' prev s7 s7' cur s8 s8'
      sequence s9 s9' t s10 s10' refused s11 s11' r)
  then have "fst r \<noteq> CONFIRMED"
    using returnsD [OF gate_never_confirms] by (metis prod.collapse)
  with 4 show ?case
    by (cases r) (auto simp: prog_simps returns_def intro: refused_soundly)
qed

text \<open>The same for a submission.\<close>

definition submitted_soundly :: "prims \<Rightarrow> 'n adapter \<Rightarrow> bytes \<Rightarrow> submission_result \<Rightarrow> bool" where
  "submitted_soundly P A name r \<longleftrightarrow>
     (sr_status r = CONFIRMED \<longrightarrow>
        (\<exists>e st. sr_envelope_bytes r = Some e \<and> sr_accepted_state r = Some st
           \<and> read_back P A name e st))"

lemma submitted_other:
  "status \<noteq> CONFIRMED \<Longrightarrow> submitted_soundly P A name (submission_result_of status t reason)"
  "status \<noteq> CONFIRMED \<Longrightarrow> submitted_soundly P A name
     ((submission_result_of status t reason)\<lparr>sr_signed_update_bytes := u\<rparr>)"
  "status \<noteq> CONFIRMED \<Longrightarrow> submitted_soundly P A name (submission_written status t e accepted r)"
  by (simp_all add: submitted_soundly_def submission_result_of_def submission_written_def)

lemma proof_not_confirmed:
  "draft_proof P sm t draft sig = Inr r \<Longrightarrow> sr_status r = PROOF_READY"
  "threshold_proof P sm t sig = Inr r \<Longrightarrow> sr_status r = PROOF_READY"
  by (auto simp: draft_proof_def threshold_proof_def proof_ready_def submission_result_of_def res_simps)

lemma publish_single_soundly:
  assumes "owned P (sm_owner_name sm) (sm_current sm)"
  shows "returns (submitted_soundly P A (sm_owner_name sm)) (publish_single P A sm t e)"
proof -
  have "submitted_soundly P A (sm_owner_name sm)
      (submission_written (confirmed_status accepted) t e accepted reason)"
    if "confirm_envelope P A (PyBytes (sm_owner_name sm)) e (sm_current sm) w = (Ret accepted, w')"
    for accepted reason w w'
    using confirm_envelope_Some [OF _ assms] that
    by (cases accepted)
      (auto simp: submitted_soundly_def submission_written_def confirmed_status_def)
  then show ?thesis
    unfolding publish_single_def
    by (intro returns_bind returns_cases(3) returns_pure) (auto intro: submitted_other(3))
qed

lemma complete_submission_soundly:
  assumes "owned P (sm_owner_name sm) (sm_current sm)"
  shows "returns (submitted_soundly P A (sm_owner_name sm)) (complete_submission P A sm t factory)"
proof -
  have s: "(\<And>sig. x = Signed sig \<Longrightarrow> returns Q (f sig)) \<Longrightarrow> returns Q a \<Longrightarrow> returns Q b \<Longrightarrow>
      returns Q (case x of Signed sig \<Rightarrow> f sig | SignExpired \<Rightarrow> a | SignFailed \<Rightarrow> b)"
    for x Q f a b
    by (cases x) simp_all
  have l: "(\<And>r. m = Inr r \<Longrightarrow> submitted_soundly P A n r) \<Longrightarrow> returns (submitted_soundly P A n) (liftS m)"
    for m n
    by (auto simp: returns_def liftS_Ret)
  show ?thesis
    unfolding complete_submission_def
    by (intro returns_bind returns_cases s l returns_pure submitted_other publish_single_soundly assms)
      (auto simp: submitted_soundly_def dest!: proof_not_confirmed)
qed

lemma read_state_owned:
  assumes "read_state P A (PyBytes name) w = (Ret current, w')"
  shows "owned P name current"
  using read_state_chain assms parse_previous_state_chain_lineage
  unfolding owned_def by metis

lemma submit_identity_soundly:
  "returns (\<lambda>r. \<exists>name. sa_owner_name args = PyBytes name \<and> submitted_soundly P A name r)
    (submit_identity P A args factory consent cargs)"
  unfolding submit_identity_def
proof (intro returns_bind returns_cases, goal_cases)
  case (1 name s1 s1' l1 s2 s2' u s3 s3' owner s4 s4' key s5 s5' current s6 s6' sm s7 s7' t s8 s8'
      refused s9 s9' l2 s10 s10')
  then show ?case
    by (intro returns_pure) (auto simp: prog_simps res_simps intro: submitted_other)
next
  case (2 name s1 s1' l1 s2 s2' u s3 s3' owner s4 s4' key s5 s5' current s6 s6' sm s7 s7' t s8 s8'
      refused s9 s9' l2 s10 s10')
  then have c: "check_submission P args name owner key current = Inr sm"
      and n: "sa_owner_name args = PyBytes name" by (auto simp: prog_simps res_simps)
  have "owned P (sm_owner_name sm) (sm_current sm)"
    using read_state_owned 2 by (auto simp: check_submission_fields [OF c])
  from complete_submission_soundly [OF this, of A t factory] show ?case
    by (auto simp: returns_def check_submission_fields [OF c] n)
next
  case (3 name s1 s1' l1 s2 s2' u s3 s3' owner s4 s4' key s5 s5' current s6 s6' sm s7 s7' t s8 s8'
      refused s9 s9' r)
  then have "fst r \<noteq> CONFIRMED"
    using returnsD [OF gate_never_confirms] by (metis prod.collapse)
  with 3 show ?case
    by (cases r) (auto simp: prog_simps res_simps returns_def intro: submitted_other)
qed

end
