(* ===== verification/Registry_Rotation_Facts.thy ===== *)
theory Registry_Rotation_Facts
  imports Registry_Facts Rotation_Latch_Facts
begin

text \<open>
  Facts about the rotation operations of the registry adapter: the evidence
  behind a confirmation, the writes of a dispatch and the rejections that it
  may return.
\<close>

section \<open>Confirmations\<close>

lemma latch_register_latches:
  "latch_register f ready m = (True, m') \<Longrightarrow> is_latched m' f"
  by (auto simp: latch_register_def is_latched_def register_conflict_def split: option.splits if_splits)

lemma adapter_register_Ret:
  assumes "adapter_register A intent w = (Ret ok, w')"
  obtains m where
    "latch_register (intent_fields intent) False (rs_latches (w_rotation (aw_world w)) (ad_token A)) = (ok, m)"
    "w' = w\<lparr>aw_world := (aw_world w)\<lparr>w_rotation :=
       set_latches (ad_token A) m (w_rotation (aw_world w))\<rparr>\<rparr>"
  using assms
  by (auto simp: adapter_register_def on_world_def rotation_step_def split: prod.splits)

lemma adapter_register_latches:
  assumes "adapter_register A intent w = (Ret True, w')"
  shows "is_latched (rs_latches (w_rotation (aw_world w')) (ad_token A)) (intent_fields intent)"
proof -
  from assms obtain m where "latch_register (intent_fields intent) False
        (rs_latches (w_rotation (aw_world w)) (ad_token A)) = (True, m)"
      and "w' = w\<lparr>aw_world := (aw_world w)\<lparr>w_rotation :=
        set_latches (ad_token A) m (w_rotation (aw_world w))\<rparr>\<rparr>"
    by (rule adapter_register_Ret)
  then show ?thesis using latch_register_latches by (auto simp: set_latches_def)
qed

text \<open>What the state behind a candidate envelope shows about an intent.\<close>

definition rotated_to :: "prims \<Rightarrow> rotation_intent \<Rightarrow> identity_state \<Rightarrow> bool" where
  "rotated_to P intent st \<longleftrightarrow>
     lineage P st \<and> st_owner_name st = ri_owner_name intent
     \<and> st_owner_public_key st = ri_successor_owner_public_key intent
     \<and> (\<exists>pred. lineage P pred \<and> st_owner_name pred = ri_owner_name intent
          \<and> st_owner_public_key pred = ri_predecessor_owner_public_key intent
          \<and> st_state_hash pred = ri_predecessor_state_hash intent
          \<and> st_sequence st = st_sequence pred + 1)"

lemma state_with_history_lineage:
  assumes "parse_state_with_history P A name e env w = (Ret st, w')"
  shows "lineage P st \<and> st_owner_name st = name \<and> e = PyBytes (st_envelope_bytes st)"
  using state_with_history_chain [OF assms] parse_previous_state_chain_lineage by metis

lemma verify_candidate_sound:
  assumes "verify_candidate P A intent e w = (Ret (Some st), w')"
  shows "rotated_to P intent st \<and> e = PyBytes (st_envelope_bytes st)"
proof -
  from assms obtain w1 pe w2 pred w3 where
      st: "parse_state_with_history P A (ri_owner_name intent) e (ri_environment intent) w
        = (Ret st, w1)"
      and ok: "confirms_successor P intent st = Inr True"
      and pred: "parse_state_with_history P A (ri_owner_name intent) pe (ri_environment intent) w2
        = (Ret pred, w3)" and cp: "confirms_predecessor intent st pred"
    by (auto simp: verify_candidate_def prog_simps split: if_splits)
  from ok have "st_owner_public_key st = ri_successor_owner_public_key intent"
    by (auto simp: confirms_successor_def res_simps split: option.splits prod.splits)
  with cp state_with_history_lineage [OF st] state_with_history_lineage [OF pred] show ?thesis
    by (auto simp: rotated_to_def confirms_predecessor_def)
qed

lemma confirm_rotation_sound:
  assumes "confirm_owner_key_rotation P A (Some intent) w = (Ret (Some c), w')"
  obtains env st n n' where "ri_environment intent = Some env"
    and "c = make_confirmation A intent env st" and "rotated_to P intent st"
    and "tr_get_remote (ad_transport A) (bytes_hex (ri_owner_name intent)) n
      = (Ret (PyBytes (st_envelope_bytes st)), n')"
    and "sha256 (st_envelope_bytes st) = ri_envelope_hash intent"
    and "is_latched (rs_latches (w_rotation (aw_world w')) (ad_token A)) (intent_fields intent)"
proof -
  from assms obtain w1 env w2 remote w3 w4 w5 st where
      reg: "adapter_register A intent w = (Ret True, w1)"
      and env: "ri_environment intent = Some env"
      and s12: "rotation_environment_matches A (Some env) w1 = (Ret True, w2)"
      and s23: "rotation_transport_available A w2 = (Ret True, w3)"
      and rem: "exceptS (on_net (tr_get_remote (ad_transport A) (bytes_hex (ri_owner_name intent))))
        (\<lambda>_. returnS PyNone) w3 = (Ret remote, w4)"
      and byt: "is_PyBytes remote" "sha256 (bytes_of remote) = ri_envelope_hash intent"
      and ver: "exceptS (verify_candidate P A intent remote) (\<lambda>_. returnS None) w4 = (Ret (Some st), w5)"
      and rest: "w' = w5" and c: "c = make_confirmation A intent env st"
    by (auto simp: confirm_owner_key_rotation_def prog_simps rotation_environment_matches_def
        rotation_transport_available_def split: option.splits if_splits)
  from ver have v: "verify_candidate P A intent remote w4 = (Ret (Some st), w5)"
    by (auto simp: exceptS_Ret)
  note snd = verify_candidate_sound [OF v]
  from rem byt(1) obtain n n' where
    "tr_get_remote (ad_transport A) (bytes_hex (ri_owner_name intent)) n = (Ret remote, n')"
    by (auto simp: exceptS_Ret on_net_def split: prod.splits)
  moreover have "observes w1 w'"
    using evolvesD [OF observes_environment s12] evolvesD [OF observes_available s23]
      evolvesD [OF observes_verify_candidate v]
      evolvesD [OF obs.evo_exceptS [OF observes_on_net obs.evo_pure(1)] rem]
    unfolding rest by (blast intro: observes_trans)
  then have "is_latched (rs_latches (w_rotation (aw_world w')) (ad_token A)) (intent_fields intent)"
    using adapter_register_latches [OF reg] by (simp add: observes_fields(4))
  ultimately show ?thesis
    using that [OF env c] snd byt(2) by (auto simp: bytes_of_def)
qed

lemma make_confirmation_matches:
  "ri_environment intent = Some env \<Longrightarrow>
    confirmation_matches_intent (make_confirmation A intent env st) intent"
  by (simp add: confirmation_matches_intent_def make_confirmation_def confirmation_fields_def
      intent_fields_def env_value_def)

lemma confirm_rotation_latched:
  assumes "confirm_owner_key_rotation P A (Some intent) w = (Ret (Some c), w')"
  shows "confirmation_is_latched c intent (w_rotation (aw_world w'))"
  using assms
  by (elim confirm_rotation_sound)
    (simp add: confirmation_is_latched_def make_confirmation_matches, simp add: make_confirmation_def)

section \<open>Writes of a dispatch\<close>

lemma no_write_confirm: "evolves no_write (confirm_owner_key_rotation P A intent)"
  unfolding confirm_owner_key_rotation_def adapter_register_def by (intro write_frames)

lemma no_write_confirmation: "evolves no_write (confirmation_or_unknown P A intent reason)"
  unfolding confirmation_or_unknown_def by (intro write_frames no_write_confirm)

lemma no_write_prewrite:
  "evolves no_write (prewrite_result P A p intent status reason observed clearable)"
proof -
  have "evolves no_write (modifyS (\<lambda>w. w\<lparr>aw_objects := n\<rparr>))" for n
    by (rule evolves_modifyS) (simp add: no_write_def)
  then show ?thesis
    unfolding prewrite_result_def by (intro write_frames no_write_confirmation)
qed

lemma dispatch_latched_once:
  "evolves (one_write ((=) (make_put name (pub_envelope_bytes p) (Some (pub_previous_state p))
      (pub_expires_at p)))) (dispatch_latched P A p intent name)"
  unfolding dispatch_latched_def dispatch_write_def
  by (intro put_then wr.once_bind evolves_if evolves_option evolves_put write_frames write_pure
      wr.once_none [OF no_write_prewrite] no_write_prewrite no_write_confirmation refl)

text \<open>A run that passes the guard of the dispatch.\<close>

lemma dispatch_permitted_True:
  assumes "dispatch_permitted P A p intent w = (Ret True, w')"
  shows "publication_matches_intent P p intent = Inr True
    \<and> is_dispatch_ready (rs_latches (w_rotation (aw_world w)) (ad_token A)) (intent_fields intent)
    \<and> pub_adapter_token p = ad_token A \<and> pub_id p \<notin> rs_consumed (w_rotation (aw_world w))
    \<and> w' = w\<lparr>aw_world := (aw_world w)\<lparr>w_rotation := (w_rotation (aw_world w))
         \<lparr>rs_consumed := insert (pub_id p) (rs_consumed (w_rotation (aw_world w)))\<rparr>\<rparr>\<rparr>"
  using assms
  by (auto simp: dispatch_permitted_def prog_simps on_world_def rotation_step_def consume_for_def
      split: if_splits prod.splits)

lemma dispatch_passed:
  assumes "dispatch_owner_key_rotation P A (Some p) (Some pm) w = (r, w')"
  obtains (refused) e where "r = Raise e" and "aw_puts w' = aw_puts w"
  | (passed) intent w1 where "permit_authentic pm" and "rp_intent pm = Some intent"
      and "dispatch_permitted P A p intent w = (Ret True, w1)"
proof (cases "permit_authentic pm")
  case False
  with assms refused show ?thesis by (auto simp: dispatch_owner_key_rotation_def)
next
  case True
  then obtain intent where i: "rp_intent pm = Some intent" by (auto simp: permit_authentic_def)
  have nw: "evolves no_write (dispatch_permitted P A p intent)"
    unfolding dispatch_permitted_def by (intro write_frames)
  obtain x w1 where d: "dispatch_permitted P A p intent w = (x, w1)" by fastforce
  then have pw: "aw_puts w1 = aw_puts w" using evolvesD [OF nw] by (simp add: no_write_def)
  have k: "x \<noteq> Killed"
    using d by (auto simp: dispatch_permitted_def bindS_def liftS_def on_world_def rotation_step_def
        consume_for_def split: prod.splits outcome.splits sum.splits if_splits)
  show ?thesis
  proof (cases "x = Ret True")
    case True
    with passed [OF \<open>permit_authentic pm\<close> i] d show ?thesis by simp
  next
    case False
    with assms k d True i have "\<exists>e. r = Raise e" "w' = w1"
      by (auto simp: dispatch_owner_key_rotation_def bindS_def split: outcome.splits prod.splits if_splits)
    with pw refused show ?thesis by auto
  qed
qed

text \<open>No step of a dispatch makes a consumed publication fresh again.\<close>

definition spends :: "'n adapter_world \<Rightarrow> 'n adapter_world \<Rightarrow> bool" where
  "spends w w' \<longleftrightarrow> rs_consumed (w_rotation (aw_world w)) \<subseteq> rs_consumed (w_rotation (aw_world w'))"

interpretation spd: evolution spends
  by unfold_locales (auto simp: spends_def)

lemma spends_observes: "evolves observes m \<Longrightarrow> evolves spends m"
  by (erule evolves_mono) (simp add: spends_def observes_fields)

lemma spends_register: "evolves spends (adapter_register A intent)"
  by (simp add: evolves_def spends_def adapter_register_def on_world_def rotation_step_def
      set_latches_def split: prod.split)

lemmas spend_frames = spd.evo_intros spends_register
  spends_observes [OF observes_on_net] spends_observes [OF observes_expired_at]
  spends_observes [OF observes_environment] spends_observes [OF observes_available]
  spends_observes [OF observes_read_state] spends_observes [OF observes_verify_candidate]

lemma spends_confirmation: "evolves spends (confirmation_or_unknown P A intent reason)"
  unfolding confirmation_or_unknown_def confirm_owner_key_rotation_def by (intro spend_frames)

lemma spends_dispatch_latched: "evolves spends (dispatch_latched P A p intent name)"
proof -
  have put: "evolves spends (try_put A c)" for c
    unfolding try_put_def transport_put_def
    by (intro spend_frames evolves_modifyS) (simp add: spends_def)
  have "evolves spends (prewrite_result P A p intent status reason observed clearable)"
    for status reason observed clearable
    unfolding prewrite_result_def
    by (intro spend_frames spends_confirmation evolves_modifyS) (simp add: spends_def)
  then show ?thesis
    unfolding dispatch_latched_def dispatch_write_def
    by (intro spend_frames spends_confirmation put evolves_put)
qed

lemma dispatch_consumes:
  assumes "dispatch_owner_key_rotation P A (Some p) (Some pm) w = (r, w')"
    and "rp_intent pm = Some intent" and "permit_authentic pm"
    and "dispatch_permitted P A p intent w = (Ret True, w1)"
  shows "spends w1 w' \<and> (aw_puts w' = aw_puts w \<or> (\<exists>name.
      draft_owner_name P (bd_draft (pub_bundle p)) = Inr name
      \<and> aw_puts w' = aw_puts w @ [make_put (bytes_of name) (pub_envelope_bytes p)
          (Some (pub_previous_state p)) (pub_expires_at p)]))"
proof -
  let ?rest = "bindS (rotation_environment_matches A (ri_environment intent)) (\<lambda>matches.
      if \<not> matches then returnS (dispatch_result_of UNKNOWN ''rotation environment mismatch'')
      else bindS (liftS (draft_owner_name P (bd_draft (pub_bundle p)))) (\<lambda>name.
        dispatch_latched P A p intent (bytes_of name)))"
  let ?Q = "\<lambda>c. \<exists>name. draft_owner_name P (bd_draft (pub_bundle p)) = Inr name
      \<and> c = make_put (bytes_of name) (pub_envelope_bytes p) (Some (pub_previous_state p))
          (pub_expires_at p)"
  from assms have run: "?rest w1 = (r, w')"
    by (simp add: dispatch_owner_key_rotation_def bindS_def)
  have o: "evolves (one_write ?Q) ?rest"
    by (intro wr.once_bind evolves_if write_frames write_pure
        one_write_mono [OF dispatch_latched_once]) (auto simp: prog_simps)
  have sp: "evolves spends ?rest"
    by (intro spend_frames spends_dispatch_latched)
  have "aw_puts w1 = aw_puts w"
    using dispatch_permitted_True [OF assms(4)] by simp
  with evolvesD [OF o run] evolvesD [OF sp run] show ?thesis by (auto simp: one_write_def)
qed

section \<open>Rejections\<close>

text \<open>The remote read that precedes a rejection found another envelope.\<close>

definition candidate_absent :: "'n adapter \<Rightarrow> rotation_intent \<Rightarrow> bool" where
  "candidate_absent A intent \<longleftrightarrow>
     (\<exists>e n n'. tr_get_remote (ad_transport A) (bytes_hex (ri_owner_name intent)) n = (Ret (PyBytes e), n')
        \<and> sha256 e \<noteq> ri_envelope_hash intent)"

lemma confirmation_no_rejection:
  "confirmation_or_unknown P A intent reason w = (Ret d, w') \<Longrightarrow> dp_rejection d = None"
  by (auto simp: confirmation_or_unknown_def prog_simps dispatch_result_of_def split: option.splits)

lemma tried_remote:
  assumes "exceptS (bindS (on_net m) (\<lambda>v. returnS (Some v))) (\<lambda>_. returnS None) w = (Ret (Some v), w')"
  shows "\<exists>n n'. m n = (Ret v, n')"
  using assms by (auto simp: prog_simps on_net_def split: prod.splits)

lemma prewrite_rejection:
  assumes "prewrite_result P A p intent status reason observed clearable w = (Ret d, w')"
    and "dp_rejection d = Some rj"
  shows "clearable \<and> status = EXPIRED \<and> dp_status d = EXPIRED \<and> rj_publication rj = p
    \<and> rj_sealed rj \<and> candidate_absent A intent"
proof -
  obtain matches w1 where m: "rotation_environment_matches A (ri_environment intent) w = (Ret matches, w1)"
    by (simp add: rotation_environment_matches_def)
  from assms m obtain remote w2 where
      t: "exceptS (bindS (on_net (tr_get_remote (ad_transport A) (bytes_hex (ri_owner_name intent))))
        (\<lambda>v. returnS (Some v))) (\<lambda>_. returnS None) w1 = (Ret remote, w2)"
    and "matches"
    by (cases matches) (auto simp: prewrite_result_def bindS_Ret dispatch_result_of_def)
  with assms m obtain v where v: "remote = Some v"
    by (cases remote) (auto simp: prewrite_result_def bindS_Ret dispatch_result_of_def)
  have "is_PyBytes v \<and> sha256 (bytes_of v) \<noteq> ri_envelope_hash intent \<and> clearable
      \<and> status = EXPIRED \<and> dp_status d = EXPIRED \<and> rj_publication rj = p \<and> rj_sealed rj"
    using assms m t \<open>matches\<close>
    by (auto simp: prewrite_result_def bindS_Ret v dispatch_result_of_def liftS_Ret make_rejection_def
        res_simps dest!: confirmation_no_rejection split: if_splits)
  moreover from this tried_remote [OF t [unfolded v]] have "candidate_absent A intent"
    by (auto simp: candidate_absent_def is_PyBytes_iff bytes_of_def) blast
  ultimately show ?thesis by simp
qed

lemma dispatch_write_rejection:
  assumes "dispatch_write P A p intent name w = (Ret d, w')" and "dp_rejection d = Some rj"
  shows "dp_status d = EXPIRED \<and> rj_publication rj = p \<and> rj_sealed rj \<and> candidate_absent A intent
    \<and> (\<exists>c n n'. tr_put (ad_transport A) c n = (Raise ExpiredPublication, n'))"
proof -
  from assms obtain outcome w1 where
      t: "try_put A (make_put name (pub_envelope_bytes p) (Some (pub_previous_state p))
        (pub_expires_at p)) w = (Ret outcome, w1)"
      and k: "(case outcome of
          PutStale \<Rightarrow> prewrite_result P A p intent STALE ''conditional publication rejected'' False False
        | PutExpired \<Rightarrow> prewrite_result P A p intent EXPIRED ''consent expired'' False True
        | PutUnclear \<Rightarrow>
            confirmation_or_unknown P A intent ''independent readback did not confirm dispatch''
        | PutDone \<Rightarrow> confirmation_or_unknown P A intent ''readback did not confirm exact envelope'')
        w1 = (Ret d, w')"
    unfolding dispatch_write_def bindS_Ret by blast
  from k assms(2) have e: "outcome = PutExpired"
    by (cases outcome) (auto dest: prewrite_rejection confirmation_no_rejection)
  note put = t [unfolded e] and pre = k [unfolded e put_outcome.case]
  from put have "\<exists>c n n'. tr_put (ad_transport A) c n = (Raise ExpiredPublication, n')"
    by (auto simp: try_put_def transport_put_def exceptS_def bindS_def on_net_def
        split: prod.splits outcome.splits if_splits)
  with prewrite_rejection [OF pre assms(2)] show ?thesis by simp
qed

text \<open>What a rejection of a dispatch from \<open>w\<close> to \<open>w'\<close> rests on.\<close>

definition safe_rejection ::
    "'n adapter \<Rightarrow> rotation_publication \<Rightarrow> rotation_intent \<Rightarrow> dispatch_result \<Rightarrow> rotation_rejection
      \<Rightarrow> 'n adapter_world \<Rightarrow> 'n adapter_world \<Rightarrow> bool" where
  "safe_rejection A p intent d rj w w' \<longleftrightarrow>
     dp_status d = EXPIRED \<and> rj_publication rj = p \<and> rj_sealed rj \<and> candidate_absent A intent
     \<and> (aw_puts w' = aw_puts w
        \<or> (\<exists>c n n'. tr_put (ad_transport A) c n = (Raise ExpiredPublication, n')))"

definition rejects_safely ::
    "'n adapter \<Rightarrow> rotation_publication \<Rightarrow> rotation_intent \<Rightarrow> (dispatch_result, 'n adapter_world) prog
      \<Rightarrow> bool" where
  "rejects_safely A p intent m \<longleftrightarrow>
     (\<forall>w d w' rj. m w = (Ret d, w') \<longrightarrow> dp_rejection d = Some rj
        \<longrightarrow> safe_rejection A p intent d rj w w')"

lemma rejects_bind:
  assumes "evolves no_write m" and "\<And>x. rejects_safely A p intent (f x)"
  shows "rejects_safely A p intent (bindS m f)"
  unfolding rejects_safely_def
proof (intro allI impI)
  fix w d w' rj
  assume "bindS m f w = (Ret d, w')" and r: "dp_rejection d = Some rj"
  then obtain x w1 where m: "m w = (Ret x, w1)" and f: "f x w1 = (Ret d, w')"
    by (auto simp: bindS_Ret)
  have "safe_rejection A p intent d rj w1 w'"
    using assms(2) [of x] f r unfolding rejects_safely_def by blast
  with evolvesD [OF assms(1) m] show "safe_rejection A p intent d rj w w'"
    by (simp add: safe_rejection_def no_write_def)
qed

lemma rejects_pure:
  "rejects_safely A p intent (returnS (dispatch_result_of status reason))"
  "rejects_safely A p intent (raiseS e)"
  by (simp_all add: rejects_safely_def dispatch_result_of_def)

lemma rejects_cases:
  "rejects_safely A p intent m \<Longrightarrow> rejects_safely A p intent n \<Longrightarrow>
    rejects_safely A p intent (if c then m else n)"
  "rejects_safely A p intent m \<Longrightarrow> (\<And>x. rejects_safely A p intent (f x)) \<Longrightarrow>
    rejects_safely A p intent (case y of None \<Rightarrow> m | Some x \<Rightarrow> f x)"
  by (simp_all split: option.split)

lemma rejects_prewrite:
  "rejects_safely A p intent (prewrite_result P A p intent status reason observed clearable)"
  unfolding rejects_safely_def safe_rejection_def
  using prewrite_rejection evolvesD [OF no_write_prewrite] by (metis no_write_def)

lemma rejects_write: "rejects_safely A p intent (dispatch_write P A p intent name)"
  unfolding rejects_safely_def safe_rejection_def using dispatch_write_rejection by blast

lemma rejects_dispatch_latched: "rejects_safely A p intent (dispatch_latched P A p intent name)"
  unfolding dispatch_latched_def
  by (intro rejects_bind rejects_pure rejects_cases rejects_prewrite rejects_write write_frames)

end
