(* ===== verification/Py_Json_Facts.thy ===== *)
theory Py_Json_Facts
  imports Py_Json
begin

text \<open>
  The JSON round trip: reading the text that was written for a value gives the
  value with its dictionaries in key order, for every value whose nesting is
  within the reader's limit.
\<close>

section \<open>Numerals\<close>

lemma show_nat_digits: "list_all is_digit (show_nat n)"
proof (induction n rule: show_nat.induct)
  case (1 n)
  have "is_digit (48 + n mod 10)" "n < 10 \<Longrightarrow> is_digit (48 + n)"
    by (auto simp: is_digit_def)
  with 1 show ?case by (subst show_nat.simps) simp
qed

lemma show_nat_not_Nil [simp]: "show_nat n \<noteq> []"
  by (subst show_nat.simps) simp

lemma digits_value_snoc: "digits_value (s @ [c]) = 10 * digits_value s + (c - 48)"
  by (simp add: digits_value_def)

lemma digits_value_show [simp]: "digits_value (show_nat n) = n"
proof (induction n rule: show_nat.induct)
  case (1 n)
  show ?case
  proof (cases "n < 10")
    case True
    then show ?thesis by (subst show_nat.simps) (simp add: digits_value_def)
  next
    case False
    then have "show_nat n = show_nat (n div 10) @ [48 + n mod 10]"
      by (subst show_nat.simps) simp
    then show ?thesis using 1 [OF False] by (simp add: digits_value_snoc)
  qed
qed

lemma show_nat_head: "hd (show_nat n) = 48 \<longleftrightarrow> n = 0"
proof (induction n rule: show_nat.induct)
  case (1 n)
  show ?case
  proof (cases "n < 10")
    case True
    then show ?thesis by (subst show_nat.simps) simp
  next
    case False
    then have "show_nat n = show_nat (n div 10) @ [48 + n mod 10]"
      by (subst show_nat.simps) simp
    then show ?thesis using 1 [OF False] False by simp
  qed
qed

lemma show_nat_hd_digit: "is_digit (hd (show_nat n))"
  using show_nat_digits [of n] by (cases "show_nat n") simp_all

text \<open>What may follow a value.\<close>

definition stops :: "pystr \<Rightarrow> bool" where
  "stops rest \<longleftrightarrow> rest = [] \<or> hd rest = 44 \<or> hd rest = 93 \<or> hd rest = 125"

lemma stops_simps [simp]: "stops []" "stops (44 # r)" "stops (93 # r)" "stops (125 # r)"
  by (simp_all add: stops_def)

lemma stops_not_digit: "stops rest \<Longrightarrow> dropWhile is_digit rest = rest \<and> takeWhile is_digit rest = []"
  by (cases rest) (auto simp: stops_def is_digit_def)

lemma int_digits_show:
  assumes "stops rest"
  shows "int_digits (show_nat n @ rest) = (show_nat n, rest)"
proof (cases "n = 0")
  case True
  then show ?thesis by (simp add: int_digits_def show_nat.simps)
next
  case False
  then have "hd (show_nat n) \<noteq> 48" by (simp add: show_nat_head)
  then obtain c cs where c: "show_nat n = c # cs" "c \<noteq> 48"
    by (cases "show_nat n") auto
  have d: "\<forall>x \<in> set (show_nat n). is_digit x"
    using show_nat_digits [of n] by (simp add: list_all_iff)
  have "takeWhile is_digit (show_nat n @ rest) = show_nat n"
    "dropWhile is_digit (show_nat n @ rest) = rest"
    using d stops_not_digit [OF assms]
    by (simp_all only: takeWhile_append2 dropWhile_append2 append_Nil2)
  then show ?thesis using c by (simp add: int_digits_def)
qed

lemma scan_fraction_stops: "stops rest \<Longrightarrow> scan_fraction rest = ([], rest)"
  by (auto simp: scan_fraction_def stops_def split: list.splits)

lemma scan_exponent_stops: "stops rest \<Longrightarrow> scan_exponent rest = (None, rest)"
  by (auto simp: scan_exponent_def stops_def split: list.splits)

lemma scan_number_show:
  assumes "stops rest" and "length (show_nat (nat \<bar>i\<bar>)) \<le> MAX_INT_DIGITS"
  shows "scan_number (show_int i @ rest) = Inr (PyInt i, rest)"
proof (cases "i < 0")
  case True
  then have "nat \<bar>i\<bar> = nat (- i)" by simp
  then show ?thesis
    using assms True
    by (simp add: scan_number_def show_int_def int_digits_show scan_fraction_stops
        scan_exponent_stops Let_def)
next
  case False
  have "hd (show_nat (nat i) @ rest) \<noteq> 45"
    using show_nat_hd_digit [of "nat i"] by (simp add: is_digit_def)
  then show ?thesis
    using assms False
    by (simp add: scan_number_def show_int_def int_digits_show scan_fraction_stops
        scan_exponent_stops Let_def)
qed

lemma show_int_start:
  "\<exists>c r. show_int i = c # r \<and> (is_digit c \<or> c = 45 \<and> (\<exists>d r'. r = d # r' \<and> is_digit d))"
proof -
  obtain c r where "show_nat (nat \<bar>i\<bar>) = c # r" "is_digit c"
    using show_nat_hd_digit [of "nat \<bar>i\<bar>"] by (cases "show_nat (nat \<bar>i\<bar>)") auto
  then show ?thesis by (cases "i < 0") (simp_all add: show_int_def)
qed

lemma strip_prefix_other: "s \<noteq> [] \<Longrightarrow> hd s \<noteq> of_char c \<Longrightarrow> strip_prefix (c # p) s = None"
  by (cases s) (auto simp: strip_prefix_def str_of_def)

lemma strip_prefix_second:
  "d \<noteq> of_char c' \<Longrightarrow> strip_prefix (c # c' # p) (a # d # r) = None"
  by (auto simp: strip_prefix_def str_of_def)

lemma strip_prefix_same: "strip_prefix p (str_of p @ r) = Some r"
  by (simp add: strip_prefix_def)

lemma scan_scalar_int:
  assumes "stops rest" and "length (show_nat (nat \<bar>i\<bar>)) \<le> MAX_INT_DIGITS"
  shows "scan_scalar (show_int i @ rest) = Inr (PyInt i, rest)"
proof -
  obtain c r where c: "show_int i = c # r"
      "is_digit c \<or> c = 45 \<and> (\<exists>d r'. r = d # r' \<and> is_digit d)"
    using show_int_start [of i] by (elim exE conjE)
  have lt: "c < 58" using c(2) by (auto simp: is_digit_def)
  have "strip_prefix ''-Infinity'' (c # r @ rest) = None"
  proof (cases "is_digit c")
    case True
    then show ?thesis by (intro strip_prefix_other) (auto simp: is_digit_def)
  next
    case False
    then obtain d r' where "r = d # r'" "is_digit d" using c(2) by blast
    then show ?thesis by (simp add: strip_prefix_second is_digit_def)
  qed
  moreover have "strip_prefix ''null'' (c # r @ rest) = None"
    "strip_prefix ''true'' (c # r @ rest) = None" "strip_prefix ''false'' (c # r @ rest) = None"
    "strip_prefix ''NaN'' (c # r @ rest) = None" "strip_prefix ''Infinity'' (c # r @ rest) = None"
    using lt by (simp_all add: strip_prefix_other)
  ultimately show ?thesis
    using scan_number_show [OF assms] c(1) by (simp add: scan_scalar_def)
qed

lemma scan_scalar_lit:
  "scan_scalar (str_of ''null'' @ r) = Inr (PyNone, r)"
  "scan_scalar (str_of ''true'' @ r) = Inr (PyBool True, r)"
  "scan_scalar (str_of ''false'' @ r) = Inr (PyBool False, r)"
  by (simp_all add: scan_scalar_def strip_prefix_def str_of_def)

section \<open>Strings\<close>

lemma hex_value_digit: "d < 16 \<Longrightarrow> hex_value (hex_digit d) = Some d"
  by (auto simp: hex_value_def hex_digit_def)

lemma scan_escape_hex:
  assumes "c < 32"
  shows "scan_escape (117 # 48 # 48 # hex_digit (c div 16) # hex_digit (c mod 16) # r) = Some (c, r)"
proof -
  have "hex4 48 48 (hex_digit (c div 16)) (hex_digit (c mod 16)) = Some c"
    using assms by (simp add: hex4_def hex_value_digit) (simp add: hex_value_def)
  then show ?thesis using assms by (simp add: scan_escape_def)
qed

lemma scan_string_escape:
  "scan_string (json_escape c @ r) = map_option (\<lambda>(s, r'). (c # s, r')) (scan_string r)"
  by (auto simp: json_escape_def scan_escape_hex)
    (simp_all add: scan_escape_def simple_escape_def)

lemma scan_string_json: "scan_string (concat (map json_escape s) @ 34 # rest) = Some (s, rest)"
  by (induction s) (simp_all add: scan_string_escape del: scan_string.simps(2), simp)

section \<open>Values\<close>

fun json_plain :: "pyval \<Rightarrow> bool" where
  "json_plain (PyInt i) = (length (show_nat (nat \<bar>i\<bar>)) \<le> MAX_INT_DIGITS)"
| "json_plain (PyList xs) = list_all json_plain xs"
| "json_plain (PyDict d) =
     (list_all (\<lambda>kv. is_PyStr (fst kv) \<and> json_plain (snd kv)) d \<and> distinct (map fst d))"
| "json_plain (PyFloat t) = False"
| "json_plain (PyBytes b) = False"
| "json_plain (PyOther n) = False"
| "json_plain _ = True"

fun nesting :: "pyval \<Rightarrow> nat" where
  "nesting (PyList xs) = Suc (Max (insert 0 (set (map nesting xs))))"
| "nesting (PyDict d) = Suc (Max (insert 0 (set (map (\<lambda>kv. nesting (snd kv)) d))))"
| "nesting _ = 0"

abbreviation dtext :: "pyval \<Rightarrow> pystr" where
  "dtext v \<equiv> projr (json_dumps v)"

lemma json_dumps_plain: "json_plain v \<Longrightarrow> json_dumps v = Inr (dtext v)"
proof -
  have "json_plain v \<Longrightarrow> \<exists>t. json_dumps v = Inr t"
  proof (induction v rule: json_dumps.induct)
    case (6 xs)
    then have "mapE json_dumps xs = Inr (map dtext xs)"
      by (intro mapE_all_Inr) (force simp: list_all_iff)
    then show ?case by simp
  next
    case (7 d)
    have "mapE (\<lambda>kv. bindE (json_dumps (snd kv)) (\<lambda>t.
               (case fst kv of PyStr k \<Rightarrow> Inr (k, json_string k @ 58 # t) | _ \<Rightarrow> Inl PyTypeError))) d
        = Inr (map (\<lambda>kv. (key_text (fst kv), json_string (key_text (fst kv)) @ 58 # dtext (snd kv))) d)"
    proof (rule mapE_all_Inr)
      fix kv assume kv: "kv \<in> set d"
      then have "json_plain (snd kv)" "\<exists>k. fst kv = PyStr k"
        using 7(2) by (auto simp: list_all_iff is_PyStr_iff)
      then obtain t k where "json_dumps (snd kv) = Inr t" "fst kv = PyStr k"
        using 7(1) [OF kv] by blast
      then show "bindE (json_dumps (snd kv)) (\<lambda>t.
          (case fst kv of PyStr k \<Rightarrow> Inr (k, json_string k @ 58 # t) | _ \<Rightarrow> Inl PyTypeError))
        = Inr (key_text (fst kv), json_string (key_text (fst kv)) @ 58 # dtext (snd kv))" by simp
    qed
    then show ?case by simp
  qed (auto simp: raise_if_def)
  then show "json_plain v \<Longrightarrow> json_dumps v = Inr (dtext v)" by fastforce
qed

lemma json_dumps_list:
  assumes "json_plain (PyList xs)"
  shows "dtext (PyList xs) = 91 # join_comma (map dtext xs) @ [93]"
proof -
  have "mapE json_dumps xs = Inr (map dtext xs)"
    using assms by (intro mapE_all_Inr json_dumps_plain) (auto simp: list_all_iff)
  then show ?thesis by simp
qed

definition member_text :: "pyval \<times> pyval \<Rightarrow> pystr" where
  "member_text kv = json_string (key_text (fst kv)) @ 58 # dtext (snd kv)"

lemma json_dumps_dict:
  assumes "json_plain (PyDict d)"
  shows "dtext (PyDict d) =
     123 # join_comma (map member_text (sort_key entry_key d)) @ [125]"
proof -
  have "mapE (\<lambda>kv. bindE (json_dumps (snd kv)) (\<lambda>t.
             (case fst kv of PyStr k \<Rightarrow> Inr (k, json_string k @ 58 # t) | _ \<Rightarrow> Inl PyTypeError))) d
      = Inr (map (\<lambda>kv. (key_text (fst kv), member_text kv)) d)"
  proof (rule mapE_all_Inr)
    fix kv assume "kv \<in> set d"
    then have "json_plain (snd kv)" and k: "\<exists>k. fst kv = PyStr k"
      using assms by (auto simp: list_all_iff is_PyStr_iff)
    then obtain t where "json_dumps (snd kv) = Inr t" using json_dumps_plain by blast
    then show "bindE (json_dumps (snd kv)) (\<lambda>t.
        (case fst kv of PyStr k \<Rightarrow> Inr (k, json_string k @ 58 # t) | _ \<Rightarrow> Inl PyTypeError))
      = Inr (key_text (fst kv), member_text kv)" using k by (auto simp: member_text_def)
  qed
  then show ?thesis by (simp add: sort_key_map comp_def)
qed

text \<open>The first character of a value's text: a value never starts with white space and
  never with a closing bracket.\<close>

lemma dtext_start:
  assumes "json_plain v"
  obtains c r where "dtext v = c # r" and "\<not> is_ws c" and "c \<noteq> 93" and "c < 128"
proof (cases v)
  case (PyInt i)
  then show ?thesis
    using that assms show_int_start [of i] by (auto simp: is_ws_def is_digit_def raise_if_def)
next
  case (PyList xs)
  then show ?thesis using that assms json_dumps_list [of xs] by (auto simp: is_ws_def)
next
  case (PyDict d)
  then show ?thesis using that assms json_dumps_dict [of d] by (auto simp: is_ws_def)
next
  case (PyBool b)
  then show ?thesis using that by (cases b) (auto simp: str_of_def is_ws_def)
qed (use that assms in \<open>auto simp: str_of_def is_ws_def json_string_def\<close>)

lemma skip_ws_dtext: "json_plain v \<Longrightarrow> skip_ws (dtext v @ r) = dtext v @ r"
  by (metis dtext_start append_Cons dropWhile.simps(2) skip_ws_def)

lemma skip_ws_Cons [simp]: "\<not> is_ws c \<Longrightarrow> skip_ws (c # r) = c # r"
  by (simp add: skip_ws_def)

lemma not_ws [simp]: "\<not> is_ws 34" "\<not> is_ws 44" "\<not> is_ws 58" "\<not> is_ws 93" "\<not> is_ws 125"
  by (simp_all add: is_ws_def)

definition reads :: "(pystr \<Rightarrow> (pyval \<times> pystr) res) \<Rightarrow> pyval \<Rightarrow> bool" where
  "reads value v \<longleftrightarrow> (\<forall>rest. stops rest \<longrightarrow> value (dtext v @ rest) = Inr (norm_value v, rest))"

lemma readsD: "reads value v \<Longrightarrow> stops rest \<Longrightarrow> value (dtext v @ rest) = Inr (norm_value v, rest)"
  by (simp add: reads_def)

lemma skip_ws_join:
  assumes "json_plain x"
  shows "skip_ws (join_comma (dtext x # ts) @ r) = join_comma (dtext x # ts) @ r"
  using skip_ws_dtext [OF assms] by (cases ts) simp_all

lemma scan_elements_join:
  assumes "xs \<noteq> []" and "list_all json_plain xs" and "list_all (reads value) xs"
    and "length xs \<le> n"
  shows "scan_elements value n (join_comma (map dtext xs) @ 93 # rest)
    = Inr (map norm_value xs, rest)"
  using assms
proof (induction xs arbitrary: n)
  case (Cons x xs)
  then obtain m where n: "n = Suc m" by (cases n) auto
  show ?case
  proof (cases xs)
    case Nil
    then show ?thesis using Cons.prems n by (simp add: readsD)
  next
    case (Cons y ys)
    have "scan_elements value m (skip_ws (join_comma (map dtext xs) @ 93 # rest))
        = Inr (map norm_value xs, rest)"
      using Cons.IH [of m] Cons.prems Cons n skip_ws_join [of y] by simp
    then show ?thesis using Cons.prems Cons n by (simp add: readsD)
  qed
qed simp

lemma scan_key_json:
  assumes "json_plain v"
  shows "scan_key (json_string k @ 58 # dtext v @ r) = Inr (k, dtext v @ r)"
  by (simp add: scan_key_def json_string_def scan_string_json skip_ws_dtext [OF assms])

lemma dset_new: "k \<notin> dkeys d \<Longrightarrow> dset d k v = d @ [(k, v)]"
  by (induction d k v rule: dset.induct) (auto simp: dkeys_def)

lemma skip_ws_members:
  "skip_ws (join_comma (member_text kv # ts) @ r) = join_comma (member_text kv # ts) @ r"
  by (cases ts) (auto simp: member_text_def json_string_def)

lemma scan_members_join:
  assumes "d \<noteq> []" and "list_all (\<lambda>kv. is_PyStr (fst kv) \<and> json_plain (snd kv)) d"
    and "list_all (\<lambda>kv. reads value (snd kv)) d" and "length d \<le> n"
    and "distinct (map fst (acc @ d))"
  shows "scan_members value n (join_comma (map member_text d) @ 125 # rest) acc
    = Inr (acc @ map (\<lambda>kv. (fst kv, norm_value (snd kv))) d, rest)"
  using assms
proof (induction d arbitrary: n acc)
  case (Cons kv d)
  then obtain m where n: "n = Suc m" by (cases n) auto
  obtain k v where kv: "kv = (PyStr k, v)"
    using Cons.prems by (cases kv) (auto simp: is_PyStr_iff)
  have v: "json_plain v" "reads value v" using Cons.prems kv by simp_all
  have new: "dset acc (PyStr k) (norm_value v) = acc @ [(PyStr k, norm_value v)]"
    using Cons.prems kv by (intro dset_new) (auto simp: dkeys_def)
  show ?case
  proof (cases d)
    case Nil
    then show ?thesis
      using n v new by (simp add: kv member_text_def scan_key_json readsD)
  next
    case (Cons kv' d')
    have "scan_members value m (skip_ws (join_comma (map member_text d) @ 125 # rest))
        (acc @ [(PyStr k, norm_value v)])
      = Inr (acc @ [(PyStr k, norm_value v)] @ map (\<lambda>kv. (fst kv, norm_value (snd kv))) d, rest)"
      using Cons.IH [of m "acc @ [(PyStr k, norm_value v)]"] Cons.prems Cons n kv
        skip_ws_members [of kv'] by simp
    then show ?thesis
      using n v new Cons by (simp add: kv member_text_def [of "(PyStr k, v)"] scan_key_json readsD)
  qed
qed simp

lemma length_join: "length xs \<le> length (join_comma xs)" if "\<forall>x \<in> set xs. x \<noteq> []"
  using that
proof (induction xs rule: join_comma.induct)
  case (2 x)
  then show ?case by (cases x) auto
qed auto

section \<open>The round trip\<close>

lemma nesting_elem: "x \<in> set xs \<Longrightarrow> nesting (PyList xs) \<le> Suc k \<Longrightarrow> nesting x \<le> k"
  by simp

lemma nesting_member: "kv \<in> set d \<Longrightarrow> nesting (PyDict d) \<le> Suc k \<Longrightarrow> nesting (snd kv) \<le> k"
  by simp

lemma scan_once_open:
  "scan_once (Suc k) (91 # 93 # rest) = Inr (PyList [], rest)"
  "scan_once (Suc k) (123 # 125 # rest) = Inr (PyDict [], rest)"
  by (simp_all add: scan_once.simps)

lemma reads_list:
  assumes p: "json_plain (PyList xs)" and "\<forall>x \<in> set xs. reads (scan_once k) x"
  shows "reads (scan_once (Suc k)) (PyList xs)"
  unfolding reads_def
proof (intro allI impI)
  fix rest assume "stops rest"
  show "scan_once (Suc k) (dtext (PyList xs) @ rest) = Inr (norm_value (PyList xs), rest)"
  proof (cases xs)
    case Nil
    then show ?thesis by (simp add: scan_once_open)
  next
    case (Cons x ys)
    define r where "r = join_comma (map dtext xs) @ 93 # rest"
    have px: "json_plain x" "list_all json_plain xs" using p Cons by simp_all
    then obtain c t where c: "dtext x = c # t" "\<not> is_ws c" "c \<noteq> 93" using dtext_start by blast
    have r: "skip_ws r = r" "r \<noteq> []" "hd r \<noteq> 93"
      using skip_ws_join [OF px(1)] Cons c by (simp_all add: r_def) (cases ys, auto)
    have ne: "\<forall>t \<in> set (map dtext xs). t \<noteq> []"
      using px(2) by (auto simp: list_all_iff elim!: dtext_start)
    have "length xs \<le> length r"
      using length_join [OF ne] by (simp add: r_def)
    then have "scan_elements (scan_once k) (length r) r = Inr (map norm_value xs, rest)"
      unfolding r_def using assms(2) px(2) Cons
      by (intro scan_elements_join) (simp_all add: list_all_iff)
    then have "scan_once (Suc k) (91 # r) = Inr (norm_value (PyList xs), rest)"
      using r by (simp add: scan_once.simps)
    then show ?thesis by (simp add: json_dumps_list [OF p] r_def del: json_dumps.simps)
  qed
qed

lemma member_text_start: "\<exists>t. join_comma (map member_text (kv # d)) = 34 # t"
  by (cases d) (simp_all add: member_text_def json_string_def)

lemma reads_dict:
  assumes p: "json_plain (PyDict d)" and "\<forall>kv \<in> set d. reads (scan_once k) (snd kv)"
  shows "reads (scan_once (Suc k)) (PyDict d)"
  unfolding reads_def
proof (intro allI impI)
  fix rest assume "stops rest"
  define e where "e = sort_key entry_key d"
  have set_e: "set e = set d" and dist: "distinct (map fst e)"
    using p by (simp_all add: e_def distinct_map)
  show "scan_once (Suc k) (dtext (PyDict d) @ rest) = Inr (norm_value (PyDict d), rest)"
  proof (cases e)
    case Nil
    then have "d = []" using set_e by simp
    then show ?thesis by (simp add: scan_once_open)
  next
    case (Cons kv e')
    define r where "r = join_comma (map member_text e) @ 125 # rest"
    obtain t where "r = 34 # t" using member_text_start [of kv e'] Cons by (auto simp: r_def)
    then have r: "skip_ws r = r" "r \<noteq> []" "hd r \<noteq> 125" by simp_all
    have "\<forall>t \<in> set (map member_text e). t \<noteq> []" by (auto simp: member_text_def json_string_def)
    then have "length e \<le> length r" using length_join by (fastforce simp: r_def)
    then have "scan_members (scan_once k) (length r) r [] =
        Inr ([] @ map (\<lambda>kv. (fst kv, norm_value (snd kv))) e, rest)"
      unfolding r_def using assms(2) p Cons dist set_e
      by (intro scan_members_join) (simp_all add: list_all_iff)
    then have "scan_once (Suc k) (123 # r) = Inr (norm_value (PyDict d), rest)"
      using r by (simp add: scan_once.simps norm_value_dict e_def del: norm_value.simps)
    then show ?thesis by (simp add: json_dumps_dict [OF p] r_def e_def del: json_dumps.simps)
  qed
qed

lemma reads_scan_once: "json_plain v \<Longrightarrow> nesting v \<le> d \<Longrightarrow> reads (scan_once d) v"
proof (induction v arbitrary: d rule: json_dumps.induct)
  case (3 i)
  obtain c r where "show_int i = c # r" "c \<noteq> 34" "c \<noteq> 91" "c \<noteq> 123"
    using show_int_start [of i] by (auto simp: is_digit_def)
  then show ?case
    using 3 scan_scalar_int [of _ i] by (simp add: reads_def scan_once.simps)
next
  case (5 s)
  then show ?case by (simp add: reads_def scan_once.simps json_string_def scan_string_json)
next
  case (6 xs)
  from 6(3) obtain k where d: "d = Suc k" by (cases d) simp_all
  have "reads (scan_once k) x" if "x \<in> set xs" for x
    using 6(1) [OF that] 6(2) nesting_elem [OF that 6(3) [unfolded d]] that by (simp add: list_all_iff)
  then show ?case using 6(2) d reads_list by blast
next
  case (7 dd)
  from 7(3) obtain k where d: "d = Suc k" by (cases d) simp_all
  have "reads (scan_once k) (snd kv)" if "kv \<in> set dd" for kv
    using 7(1) [OF that] 7(2) nesting_member [OF that 7(3) [unfolded d]] that by (simp add: list_all_iff)
  then show ?case using 7(2) d reads_dict by blast
next
  case 1
  then show ?case using scan_scalar_lit(1) by (simp add: reads_def scan_once.simps str_of_def)
next
  case (2 b)
  then show ?case
    using scan_scalar_lit(2,3) by (cases b) (simp_all add: reads_def scan_once.simps str_of_def)
qed simp_all

lemma json_loads_dumps:
  assumes "json_plain v" and "nesting v \<le> limit" and "json_dumps v = Inr t"
  shows "json_loads limit t = Inr (norm_value v)"
proof -
  have t: "t = dtext v" using assms(3) by simp
  obtain c r where c: "dtext v = c # r" "\<not> is_ws c" "c < 128"
    using dtext_start [OF assms(1)] by blast
  have "scan_once limit (dtext v @ []) = Inr (norm_value v, [])"
    using reads_scan_once [OF assms(1,2)] by (simp add: readsD del: append_Nil2)
  then show ?thesis
    unfolding t json_loads_def using c by (simp add: skip_ws_def)
qed

end
