(* ===== verification/Container_Facts.thy ===== *)
theory Container_Facts
  imports Container_Format Py_Json_Facts
begin

text \<open>
  The container format: an envelope that was built from a password, a key and
  a payload is read back from its file and unlocked with that password, and
  every buffer that held a password, a key-encryption key or a plaintext is
  zero afterwards.
\<close>

section \<open>Dictionary order does not matter\<close>

definition norm_dict :: "pydict \<Rightarrow> pydict" where
  "norm_dict d = map (\<lambda>kv. (fst kv, norm_value (snd kv))) (sort_key entry_key d)"

lemma norm_value_PyDict: "norm_value (PyDict d) = PyDict (norm_dict d)"
  by (simp add: norm_value_dict norm_dict_def del: norm_value.simps)

definition text_keys :: "pydict \<Rightarrow> bool" where
  "text_keys d \<longleftrightarrow> list_all (\<lambda>kv. is_PyStr (fst kv)) d \<and> distinct (map fst d)"

lemma json_plain_text_keys: "json_plain (PyDict d) \<Longrightarrow> text_keys d"
  by (auto simp: text_keys_def list_all_iff)

lemma dget_map: "dget (map (\<lambda>kv. (fst kv, f (snd kv))) d) k = map_option f (dget d k)"
  by (induction d) auto

lemma dget_norm_dict:
  assumes "distinct (map fst d)"
  shows "dget (norm_dict d) k = map_option norm_value (dget d k)"
proof -
  have "map_of (sort_key entry_key d) = map_of d"
    using assms by (subst map_of_inject_set) (simp_all add: distinct_map)
  then show ?thesis by (simp add: norm_dict_def dget_map) (simp add: dget_def)
qed

lemma dget_none_norm_dict:
  "distinct (map fst d) \<Longrightarrow> dget_none (norm_dict d) k = norm_value (dget_none d k)"
  by (simp add: dget_none_def dget_norm_dict split: option.split)

lemma fst_norm_dict: "map fst (norm_dict d) = map fst (sort_key entry_key d)"
  by (simp add: norm_dict_def)

lemma dkeys_norm_dict: "dkeys (norm_dict d) = dkeys d"
  unfolding dkeys_def fst_norm_dict by simp

lemma distinct_norm_dict: "distinct (map fst (norm_dict d)) \<longleftrightarrow> distinct (map fst d)"
  by (simp add: fst_norm_dict distinct_map)

lemma sort_norm_dict: "sort_key entry_key (norm_dict d) = norm_dict d"
proof -
  have "sorted (map entry_key (norm_dict d))"
    by (simp add: norm_dict_def comp_def sorted_sort_key [unfolded])
  then show ?thesis by (simp add: sort_key_eq_self_iff)
qed

lemma norm_value_idem [simp]: "norm_value (norm_value v) = norm_value v"
proof (induction v rule: norm_value.induct)
  case (2 d)
  have "norm_dict (norm_dict d) = norm_dict d"
    unfolding norm_dict_def [of "norm_dict d"] sort_norm_dict
    using 2 by (auto simp: norm_dict_def intro!: map_idI)
  then show ?case by (simp only: norm_value_PyDict)
qed auto

lemma json_plain_norm [simp]: "json_plain (norm_value v) = json_plain v"
proof (induction v rule: norm_value.induct)
  case (2 d)
  have "set (norm_dict d) = (\<lambda>kv. (fst kv, norm_value (snd kv))) ` set d"
    by (simp add: norm_dict_def)
  then show ?case
    unfolding norm_value_PyDict using 2
    by (auto simp: list_all_iff distinct_norm_dict)
qed (auto simp: list_all_iff)

lemma dtext_norm: "json_plain v \<Longrightarrow> dtext (norm_value v) = dtext v"
proof (induction v rule: norm_value.induct)
  case (1 xs)
  have "dtext (norm_value x) = dtext x" if "x \<in> set xs" for x
    using 1(1) [OF that] 1(2) that by (simp add: list_all_iff)
  then have "map dtext (map norm_value xs) = map dtext xs" by simp
  moreover have "json_plain (PyList (map norm_value xs))"
    using 1(2) json_plain_norm [of "PyList xs"] by simp
  ultimately show ?case
    unfolding norm_value.simps(1) using json_dumps_list 1(2) by metis
next
  case (2 d)
  have "dtext (norm_value (snd kv)) = dtext (snd kv)" if "kv \<in> set d" for kv
    using 2(1) [OF that] 2(2) that by (simp add: list_all_iff)
  then have "map member_text (norm_dict d) = map member_text (sort_key entry_key d)"
    by (simp add: norm_dict_def member_text_def)
  moreover have "json_plain (PyDict (norm_dict d))"
    using 2(2) json_plain_norm [of "PyDict d"] unfolding norm_value_PyDict by blast
  ultimately show ?case
    unfolding norm_value_PyDict using json_dumps_dict 2(2) sort_norm_dict by metis
qed simp_all

lemma json_dumps_cong:
  assumes "json_plain v" and "json_plain u" and "norm_value v = norm_value u"
  shows "json_dumps v = json_dumps u"
proof -
  have "dtext v = dtext u" using assms dtext_norm by metis
  moreover obtain t where "json_dumps v = Inr t" using json_dumps_plain [OF assms(1)] by blast
  moreover obtain t' where "json_dumps u = Inr t'" using json_dumps_plain [OF assms(2)] by blast
  ultimately show ?thesis by simp
qed

lemma canonical_json_cong:
  assumes "json_plain v" and "json_plain u" and "norm_value v = norm_value u"
  shows "canonical_json v = canonical_json u"
  using json_dumps_cong [OF assms] by (simp add: canonical_json_def)

lemma canonical_json_Inr:
  "canonical_json v = Inr b \<longleftrightarrow> (\<exists>t. json_dumps v = Inr t \<and> utf8_encode t = Some b)"
  by (auto simp: canonical_json_def res_simps split: option.splits)

text \<open>Reading back what \<^verbatim>\<open>_canonical_json\<close> wrote.\<close>

lemma loads_text_canonical:
  assumes "canonical_json v = Inr b" and "json_plain v" and "nesting v \<le> limit"
  shows "loads_text limit b = Inr (norm_value v)"
proof -
  obtain t where "json_dumps v = Inr t" "utf8_encode t = Some b"
    using assms(1) by (auto simp: canonical_json_Inr)
  then show ?thesis
    using json_loads_dumps [OF assms(2,3)] utf8_decode_encode by (simp add: loads_text_def)
qed

section \<open>Encoded payloads are JSON\<close>

fun json_tree :: "pyval \<Rightarrow> bool" where
  "json_tree (PyList xs) = list_all json_tree xs"
| "json_tree (PyDict d) =
     (list_all (\<lambda>kv. is_PyStr (fst kv) \<and> json_tree (snd kv)) d \<and> distinct (map fst d))"
| "json_tree (PyFloat t) = False"
| "json_tree (PyBytes b) = False"
| "json_tree (PyOther n) = False"
| "json_tree _ = True"

lemma json_dumps_tree: "json_dumps v = Inr t \<Longrightarrow> json_tree v \<Longrightarrow> json_plain v"
proof (induction v arbitrary: t rule: json_dumps.induct)
  case (6 xs)
  then obtain ts where ts: "mapE json_dumps xs = Inr ts" by (auto simp: res_simps)
  have "json_plain x" if x: "x \<in> set xs" for x
  proof -
    obtain u where "json_dumps x = Inr u"
      using ts x by (auto simp: mapE_Inr_iff list_all2_conv_all_nth in_set_conv_nth)
    then show ?thesis using 6(1) [OF x] 6(3) x by (auto simp: list_all_iff)
  qed
  then show ?case by (simp add: list_all_iff)
next
  case (7 d)
  then obtain items where items: "mapE (\<lambda>kv. bindE (json_dumps (snd kv)) (\<lambda>t.
      (case fst kv of PyStr k \<Rightarrow> Inr (k, json_string k @ 58 # t) | _ \<Rightarrow> Inl PyTypeError))) d = Inr items"
    by (auto simp: res_simps)
  have "json_plain (snd kv)" if kv: "kv \<in> set d" for kv
  proof -
    obtain u where "json_dumps (snd kv) = Inr u"
      using items kv by (fastforce simp: mapE_Inr_iff list_all2_conv_all_nth in_set_conv_nth res_simps)
    then show ?thesis using 7(1) [OF kv] 7(3) kv by (auto simp: list_all_iff)
  qed
  then show ?case using 7(3) by (simp add: list_all_iff)
qed (auto simp: res_simps)

lemma norm_tagged: "norm_value (tagged kind e) = tagged kind (norm_value e)"
  by (simp add: tagged_def str_of_def)

lemma json_tree_tagged: "json_tree (tagged kind e) = json_tree e"
  by (simp add: tagged_def)

lemma encode_value_tree: "encode_value v = Inr e \<Longrightarrow> json_tree e \<and> norm_value e = e"
proof (induction v arbitrary: e rule: encode_value.induct)
  case (6 xs)
  then obtain ys where ys: "mapE encode_value xs = Inr ys" "e = tagged ''list'' (PyList ys)"
    by (auto simp: res_simps)
  have y: "json_tree y \<and> norm_value y = y" if "y \<in> set ys" for y
    using mapE_result [OF ys(1) that] 6(1) by blast
  then have "map norm_value ys = ys" by (intro map_idI) blast
  then show ?case
    using y by (simp add: ys(2) norm_tagged json_tree_tagged list_all_iff)
next
  case (7 d)
  from 7(2) obtain items where items:
    "mapE (\<lambda>kv. case fst kv of
                PyStr k \<Rightarrow> bindE (encode_value (snd kv)) (\<lambda>e. Inr (PyList [PyStr k, e]))
              | _ \<Rightarrow> Inl InvalidContainer) d = Inr items"
    and e: "e = tagged ''map'' (PyList (sort_key item_key items))"
    unfolding encode_value.simps(7) bindE_Inr_iff by auto
  have y: "json_tree y \<and> norm_value y = y" if mem: "y \<in> set items" for y
  proof -
    obtain kv k e' where "kv \<in> set d" "fst kv = PyStr k" "encode_value (snd kv) = Inr e'"
      "y = PyList [PyStr k, e']"
      using mapE_result [OF items mem] by (auto simp: res_simps case_res_simps)
    then show ?thesis using 7(1) by auto
  qed
  then have "map norm_value (sort_key item_key items) = sort_key item_key items"
    by (intro map_idI) simp
  then show ?case
    using y by (simp add: e norm_tagged json_tree_tagged list_all_iff)
qed (auto simp: tagged_def str_of_def)

section \<open>Sealed parts\<close>

lemma b64_decode_encode_value:
  "b64_decode (PyStr (b64_encode b)) None = Inr b"
  "length b = n \<Longrightarrow> b64_decode (PyStr (b64_encode b)) (Some n) = Inr b"
  using b64_encode_ascii [of b] b64_decode_encode [of b] by (auto simp: b64_decode_def)

lemmas envelope_items = dget_none_def sub_dict_def make_envelope_def sealed_part_def aead_info_def
  kdf_header_def dget_Cons dget_Nil

lemma sealed_part_plain:
  "json_plain (PyDict (sealed_part (aead_info nonce, ciphertext, tag)))"
  by (simp add: sealed_part_def aead_info_def)

lemma show_nat_small: "n < 10 ^ Suc k \<Longrightarrow> length (show_nat n) \<le> Suc k"
proof (induction k arbitrary: n)
  case 0
  then show ?case by (subst show_nat.simps) simp
next
  case (Suc k)
  have "n div 10 < 10 ^ Suc k" using Suc.prems by (simp add: less_mult_imp_div_less)
  then show ?case using Suc.IH by (subst show_nat.simps) simp
qed

lemma kdf_plain: "json_plain (PyDict (kdf_header salt))"
  using show_nat_small [of "KDF_MEMORY_KIB" 4] show_nat_small [of "KDF_TIME_COST" 0]
    show_nat_small [of "KDF_PARALLELISM" 0]
  by (simp add: kdf_header_def MAX_INT_DIGITS_def format_constants)

lemma envelope_plain:
  assumes "json_plain (PyDict kdf)" and "json_plain (PyDict w)" and "json_plain (PyDict p)"
  shows "json_plain (PyDict (make_envelope kdf w p))"
  using assms show_nat_small [of 2 0]
  by (simp add: make_envelope_def MAX_INT_DIGITS_def format_constants)

section \<open>The form of an envelope\<close>

text \<open>A sealed part by nonce, ciphertext and tag.\<close>

type_synonym sealed_bytes = "bytes \<times> bytes \<times> bytes"

definition sealed_dict :: "sealed_bytes \<Rightarrow> pydict" where
  "sealed_dict = (\<lambda>(nonce, ciphertext, tag). sealed_part (aead_info nonce, ciphertext, tag))"

definition sealed_lengths :: "sealed_bytes \<Rightarrow> bool" where
  "sealed_lengths = (\<lambda>(nonce, ciphertext, tag). length nonce = NONCE_LENGTH \<and> length tag = TAG_LENGTH)"

definition has_form :: "pydict \<Rightarrow> bytes \<Rightarrow> sealed_bytes \<Rightarrow> sealed_bytes \<Rightarrow> bool" where
  "has_form env salt wrapped sealed \<longleftrightarrow>
     json_plain (PyDict env)
     \<and> norm_dict env = norm_dict (make_envelope (kdf_header salt) (sealed_dict wrapped) (sealed_dict sealed))
     \<and> length salt = SALT_LENGTH \<and> sealed_lengths wrapped \<and> sealed_lengths sealed"

lemma distinct_envelope: "distinct (map fst (make_envelope k u v))"
  by (simp add: make_envelope_def)

lemma distinct_sealed: "distinct (map fst (sealed_dict x))"
  by (cases x) (simp add: sealed_dict_def sealed_part_def aead_info_def)

lemma distinct_kdf: "distinct (map fst (kdf_header salt))"
  by (simp add: kdf_header_def)

lemma form_distinct: "has_form env salt u v \<Longrightarrow> distinct (map fst env)"
  by (simp add: has_form_def)

lemma form_item:
  assumes "has_form env salt u v"
  shows "norm_value (dget_none env k) =
    norm_value (dget_none (make_envelope (kdf_header salt) (sealed_dict u) (sealed_dict v)) k)"
  using assms dget_none_norm_dict [OF form_distinct [OF assms], of k]
    dget_none_norm_dict [OF distinct_envelope, of "kdf_header salt" "sealed_dict u" "sealed_dict v" k]
  by (simp add: has_form_def)

lemma norm_PyDictD: "norm_value x = PyDict d \<Longrightarrow> \<exists>e. x = PyDict e"
  by (cases x) auto

lemma form_sub:
  assumes "has_form env salt u v"
  shows "norm_dict (sub_dict env ''kdf'') = norm_dict (kdf_header salt)"
    "norm_dict (sub_dict env ''wrap'') = norm_dict (sealed_dict u)"
    "norm_dict (sub_dict env ''payload'') = norm_dict (sealed_dict v)"
proof -
  have sub: "norm_dict (sub_dict env k) = norm_dict d"
    if "norm_value (dget_none env (pykey k)) = norm_value (PyDict d)" for k d
    using that norm_PyDictD [of "dget_none env (pykey k)"]
    by (auto simp: sub_dict_def norm_value_PyDict simp del: norm_value.simps)
  show "norm_dict (sub_dict env ''kdf'') = norm_dict (kdf_header salt)"
    "norm_dict (sub_dict env ''wrap'') = norm_dict (sealed_dict u)"
    "norm_dict (sub_dict env ''payload'') = norm_dict (sealed_dict v)"
    using form_item [OF assms]
    by (auto intro!: sub simp: dget_none_def make_envelope_def simp del: norm_value.simps)
qed

lemma sub_plain: "json_plain (PyDict env) \<Longrightarrow> json_plain (PyDict (sub_dict env k))"
proof -
  assume p: "json_plain (PyDict env)"
  show ?thesis
  proof (cases "dget_none env (pykey k)")
    case (PyDict e)
    then have "(pykey k, PyDict e) \<in> set env"
      by (auto simp: dget_none_def split: option.splits dest: dget_Some_mem)
    then show ?thesis using p PyDict by (fastforce simp: sub_dict_def list_all_iff)
  qed (simp_all add: sub_dict_def)
qed

lemma item_norm:
  assumes "json_plain (PyDict e)" and "norm_dict e = norm_dict d" and "distinct (map fst d)"
  shows "norm_value (dget_none e k) = norm_value (dget_none d k)"
  using assms dget_none_norm_dict [of e k] dget_none_norm_dict [OF assms(3), of k] by simp

lemma norm_PyStr: "norm_value x = PyStr s \<longleftrightarrow> x = PyStr s"
  by (cases x) auto

lemma sealed_dict_items:
  "dget_none (sealed_dict x) (pykey ''algorithm'') = pykey ''xchacha20-poly1305''"
  "dget_none (sealed_dict x) (pykey ''nonce'') = PyStr (b64_encode (fst x))"
  "dget_none (sealed_dict x) (pykey ''ciphertext'') = PyStr (b64_encode (fst (snd x)))"
  "dget_none (sealed_dict x) (pykey ''tag'') = PyStr (b64_encode (snd (snd x)))"
  by (cases x; simp add: sealed_dict_def sealed_part_def aead_info_def dget_none_def)+

lemma kdf_items:
  "dget_none (kdf_header salt) (pykey ''algorithm'') = pykey ''argon2id''"
  "dget_none (kdf_header salt) (pykey ''memory_kib'') = PyInt (int KDF_MEMORY_KIB)"
  "dget_none (kdf_header salt) (pykey ''time_cost'') = PyInt (int KDF_TIME_COST)"
  "dget_none (kdf_header salt) (pykey ''parallelism'') = PyInt (int KDF_PARALLELISM)"
  "dget_none (kdf_header salt) (pykey ''salt'') = PyStr (b64_encode salt)"
  by (simp_all add: kdf_header_def dget_none_def)

lemma form_strings:
  assumes "has_form env salt u v"
  shows "dget_none (sub_dict env ''kdf'') (pykey ''salt'') = PyStr (b64_encode salt)"
    and "sealed_info (sub_dict env ''wrap'') = aead_info (fst u)"
    and "dget_none (sub_dict env ''wrap'') (pykey ''ciphertext'') = PyStr (b64_encode (fst (snd u)))"
    and "dget_none (sub_dict env ''wrap'') (pykey ''tag'') = PyStr (b64_encode (snd (snd u)))"
    and "sealed_info (sub_dict env ''payload'') = aead_info (fst v)"
    and "dget_none (sub_dict env ''payload'') (pykey ''ciphertext'') = PyStr (b64_encode (fst (snd v)))"
    and "dget_none (sub_dict env ''payload'') (pykey ''tag'') = PyStr (b64_encode (snd (snd v)))"
proof -
  have p: "json_plain (PyDict env)" using assms by (simp add: has_form_def)
  note sub = form_sub [OF assms]
  have sealed: "sealed_info e = aead_info (fst x)
      \<and> dget_none e (pykey ''ciphertext'') = PyStr (b64_encode (fst (snd x)))
      \<and> dget_none e (pykey ''tag'') = PyStr (b64_encode (snd (snd x)))"
    if "json_plain (PyDict e)" "norm_dict e = norm_dict (sealed_dict x)" for e x
    using item_norm [OF that distinct_sealed, of "pykey ''algorithm''"]
      item_norm [OF that distinct_sealed, of "pykey ''nonce''"]
      item_norm [OF that distinct_sealed, of "pykey ''ciphertext''"]
      item_norm [OF that distinct_sealed, of "pykey ''tag''"]
    by (simp add: sealed_info_def aead_info_def sealed_dict_items norm_PyStr)
  show "dget_none (sub_dict env ''kdf'') (pykey ''salt'') = PyStr (b64_encode salt)"
    using item_norm [OF sub_plain [OF p] sub(1) distinct_kdf, of "pykey ''salt''"]
    by (simp add: kdf_items norm_PyStr)
  show "sealed_info (sub_dict env ''wrap'') = aead_info (fst u)"
    "dget_none (sub_dict env ''wrap'') (pykey ''ciphertext'') = PyStr (b64_encode (fst (snd u)))"
    "dget_none (sub_dict env ''wrap'') (pykey ''tag'') = PyStr (b64_encode (snd (snd u)))"
    using sealed [OF sub_plain [OF p] sub(2)] by simp_all
  show "sealed_info (sub_dict env ''payload'') = aead_info (fst v)"
    "dget_none (sub_dict env ''payload'') (pykey ''ciphertext'') = PyStr (b64_encode (fst (snd v)))"
    "dget_none (sub_dict env ''payload'') (pykey ''tag'') = PyStr (b64_encode (snd (snd v)))"
    using sealed [OF sub_plain [OF p] sub(3)] by simp_all
qed

section \<open>Parsing what was serialized\<close>

lemma nesting_norm [simp]: "nesting (norm_value v) = nesting v"
proof (induction v rule: norm_value.induct)
  case (1 xs)
  then have "(\<lambda>x. nesting (norm_value x)) ` set xs = nesting ` set xs" by (intro image_cong) simp_all
  then show ?case by (simp add: image_image)
next
  case (2 d)
  have "(\<lambda>kv. nesting (snd kv)) ` set (norm_dict d) = (\<lambda>kv. nesting (snd kv)) ` set d"
    using 2 by (force simp: norm_dict_def image_iff)
  then show ?case unfolding norm_value_PyDict by simp
qed simp_all

lemma form_nesting:
  assumes "has_form env salt u v"
  shows "nesting (PyDict env) \<le> 2"
proof -
  have "nesting (norm_value (PyDict env)) =
      nesting (norm_value (PyDict (make_envelope (kdf_header salt) (sealed_dict u) (sealed_dict v))))"
    using assms unfolding norm_value_PyDict has_form_def by simp
  then have "nesting (PyDict env) =
      nesting (PyDict (make_envelope (kdf_header salt) (sealed_dict u) (sealed_dict v)))"
    unfolding nesting_norm .
  then show ?thesis
    by (cases u; cases v)
      (simp add: make_envelope_def kdf_header_def sealed_dict_def sealed_part_def aead_info_def)
qed

lemma norm_PyInt: "norm_value x = PyInt i \<longleftrightarrow> x = PyInt i"
  by (cases x) auto

lemma check_kdf_norm:
  assumes "length salt = SALT_LENGTH"
  shows "check_kdf (PyDict (norm_dict (kdf_header salt))) = Inr ()"
proof -
  have "dkeys (norm_dict (kdf_header salt)) = {pykey ''algorithm'', pykey ''memory_kib'', pykey ''time_cost'',
                                pykey ''parallelism'', pykey ''salt''}"
    by (simp add: dkeys_norm_dict) (simp add: kdf_header_def dkeys_def)
  then show ?thesis
    using assms
    by (simp add: check_kdf_def dget_none_norm_dict [OF distinct_kdf] kdf_items equals_int_def
        b64_decode_encode_value)
qed

lemma check_sealed_norm:
  assumes "sealed_lengths x"
  shows "check_sealed (PyDict (norm_dict (sealed_dict x))) = Inr ()"
proof -
  have "dkeys (norm_dict (sealed_dict x)) =
      {pykey ''algorithm'', pykey ''nonce'', pykey ''ciphertext'', pykey ''tag''}"
    by (cases x) (simp add: dkeys_norm_dict, simp add: sealed_dict_def sealed_part_def aead_info_def dkeys_def)
  then show ?thesis
    using assms
    by (cases x) (simp add: check_sealed_def dget_none_norm_dict [OF distinct_sealed] sealed_dict_items
        sealed_lengths_def b64_decode_encode_value)
qed

lemma envelope_dget:
  "dget_none (make_envelope k u v) (pykey ''format'') = pykey FORMAT"
  "dget_none (make_envelope k u v) (pykey ''version'') = PyInt CURRENT_FORMAT_VERSION"
  "dget_none (make_envelope k u v) (pykey ''kdf'') = PyDict k"
  "dget_none (make_envelope k u v) (pykey ''wrap'') = PyDict u"
  "dget_none (make_envelope k u v) (pykey ''payload'') = PyDict v"
  by (simp_all add: make_envelope_def dget_none_def)

lemma parse_serialize:
  assumes form: "has_form env salt u v" and raw: "serialize env = Inr raw"
    and size: "length raw \<le> MAX_CONTAINER_BYTES" and limit: "2 \<le> limit"
  shows "parse_container limit raw CURRENT_FORMAT_VERSION = Inr (norm_dict env)"
proof -
  let ?E = "make_envelope (kdf_header salt) (sealed_dict u) (sealed_dict v)"
  have n: "norm_dict env = norm_dict ?E" and plain: "json_plain (PyDict env)"
    and len: "length salt = SALT_LENGTH" "sealed_lengths u" "sealed_lengths v"
    using form by (simp_all add: has_form_def)
  have "nesting (PyDict env) \<le> limit" using form_nesting [OF form] limit by linarith
  then have loads: "loads_text limit raw = Inr (PyDict (norm_dict env))"
    using loads_text_canonical [OF raw [unfolded serialize_def] plain]
    unfolding norm_value_PyDict by blast
  have keys: "dkeys (norm_dict ?E) =
      {pykey ''format'', pykey ''version'', pykey ''kdf'', pykey ''wrap'', pykey ''payload''}"
    by (simp add: dkeys_norm_dict) (simp add: make_envelope_def dkeys_def)
  have items: "dget_none (norm_dict ?E) k = norm_value (dget_none ?E k)" for k
    by (rule dget_none_norm_dict [OF distinct_envelope])
  show ?thesis
    using size
    by (simp add: parse_container_def loads n keys items envelope_dget norm_value_PyDict
        check_kdf_norm len check_sealed_norm del: norm_value.simps(2))
qed

lemma norm_dict_cong:
  assumes "map (\<lambda>kv. (fst kv, norm_value (snd kv))) d = map (\<lambda>kv. (fst kv, norm_value (snd kv))) e"
  shows "norm_dict d = norm_dict e"
proof -
  have "norm_value (PyDict d) = norm_value (PyDict e)" unfolding norm_value.simps(2) assms ..
  then show ?thesis unfolding norm_value_PyDict by simp
qed

lemma norm_dict_cong3:
  assumes "norm_dict a = norm_dict b"
  shows "norm_dict [(pykey ''format'', f), (pykey ''version'', v), (pykey k, PyDict a)] =
    norm_dict [(pykey ''format'', f), (pykey ''version'', v), (pykey k, PyDict b)]"
  using assms
  by (intro norm_dict_cong) (simp add: norm_value_PyDict del: norm_value.simps(2))

lemma make_envelope_cong:
  assumes "norm_dict a = norm_dict b"
  shows "norm_dict (make_envelope a u v) = norm_dict (make_envelope b u v)"
  using assms
  by (intro norm_dict_cong) (simp add: make_envelope_def norm_value_PyDict del: norm_value.simps(2))

lemma aad_plain:
  assumes "json_plain (PyDict a)" and "k \<noteq> ''format''" and "k \<noteq> ''version''"
  shows "json_plain (PyDict [(pykey ''format'', pykey FORMAT),
    (pykey ''version'', PyInt CURRENT_FORMAT_VERSION), (pykey k, PyDict a)])"
  using assms show_nat_small [of 2 0]
  by (simp add: MAX_INT_DIGITS_def CURRENT_FORMAT_VERSION_def)

lemma wrap_aad_cong:
  assumes "json_plain (PyDict a)" and "json_plain (PyDict b)" and "norm_dict a = norm_dict b"
  shows "wrap_aad a CURRENT_FORMAT_VERSION = wrap_aad b CURRENT_FORMAT_VERSION"
proof -
  have k: "''kdf'' \<noteq> ''format''" "''kdf'' \<noteq> ''version''" by simp_all
  have "norm_value (PyDict [(pykey ''format'', pykey FORMAT),
      (pykey ''version'', PyInt CURRENT_FORMAT_VERSION), (pykey ''kdf'', PyDict a)]) =
    norm_value (PyDict [(pykey ''format'', pykey FORMAT),
      (pykey ''version'', PyInt CURRENT_FORMAT_VERSION), (pykey ''kdf'', PyDict b)])"
    unfolding norm_value_PyDict norm_dict_cong3 [OF assms(3)] ..
  then show ?thesis
    unfolding wrap_aad_def
    by (rule canonical_json_cong [OF aad_plain [OF assms(1) k] aad_plain [OF assms(2) k]])
qed

section \<open>Unlocking what was sealed\<close>

text \<open>\<open>seals P password dek payload env\<close>: under the password, the envelope opens to the key
  and, under the key, to the encoding of the payload.\<close>

definition seals :: "prims \<Rightarrow> pystr \<Rightarrow> bytes \<Rightarrow> pydict \<Rightarrow> pydict \<Rightarrow> bool" where
  "seals P password dek payload env \<longleftrightarrow>
     (\<exists>salt u v secret kek aad1 aad2 encoded.
        has_form env salt u v \<and> length dek = KEY_LENGTH
        \<and> utf8_encode password = Some secret \<and> argon2id P secret salt = Some kek
        \<and> wrap_aad (kdf_header salt) CURRENT_FORMAT_VERSION = Inr aad1
        \<and> aead_decrypt P kek (fst u) aad1 (fst (snd u)) (snd (snd u)) = Some dek
        \<and> payload_aad (aead_info (fst v)) CURRENT_FORMAT_VERSION = Inr aad2
        \<and> bindE (encode_value (PyDict payload)) canonical_json = Inr encoded
        \<and> aead_decrypt P dek (fst v) aad2 (fst (snd v)) (snd (snd v)) = Some encoded)"

lemma sealsI:
  assumes "has_form env salt (n1, c1, t1) (n2, c2, t2)" and "length dek = 32"
    and "utf8_encode password = Some secret" and "argon2id P secret salt = Some kek"
    and "wrap_aad (kdf_header salt) CURRENT_FORMAT_VERSION = Inr a1"
    and "aead_decrypt P kek n1 a1 c1 t1 = Some dek"
    and "payload_aad (aead_info n2) CURRENT_FORMAT_VERSION = Inr a2"
    and "bindE (encode_value (PyDict payload)) canonical_json = Inr encoded"
    and "aead_decrypt P dek n2 a2 c2 t2 = Some encoded"
  shows "seals P password dek payload env"
  unfolding seals_def
  by (rule exI [of _ salt], rule exI [of _ "(n1, c1, t1)"], rule exI [of _ "(n2, c2, t2)"],
      rule exI [of _ secret], rule exI [of _ kek], rule exI [of _ a1], rule exI [of _ a2],
      rule exI [of _ encoded]) (use assms in \<open>simp add: KEY_LENGTH_def\<close>)

lemma aead_info_items:
  "dget_none (aead_info nonce) (pykey ''algorithm'') = pykey ''xchacha20-poly1305''"
  "dget_none (aead_info nonce) (pykey ''nonce'') = PyStr (b64_encode nonce)"
  by (simp_all add: aead_info_def dget_none_def)

lemma open_sealed_Inr:
  assumes "length nonce = NONCE_LENGTH" and "aead_decrypt P key nonce aad c t = Some b"
  shows "open_sealed P key c t (aead_info nonce) aad = Inr b"
  using assms by (simp add: open_sealed_def aead_info_items b64_decode_encode_value)

text \<open>The run of the key derivation: the password buffer is zero, the key follows it.\<close>

lemma run_derive_kek:
  assumes "utf8_encode password = Some secret" and "argon2id P secret salt = Some kek"
  shows "derive_kek P password salt w =
    (Ret (length (w_bufs w) + 1), w\<lparr>w_bufs := w_bufs w @ [zero_bytes (length secret), kek]\<rparr>)"
  using assms
  by (simp add: derive_kek_def bindS_def exceptS_def finallyS_def nth_append list_update_append)

lemma decode_plaintext_encoded:
  assumes "bindE (encode_value (PyDict payload)) canonical_json = Inr encoded"
    and "payload_ok (PyDict payload)" and "nesting (enc (PyDict payload)) \<le> limit"
  shows "decode_plaintext limit encoded = Inr (norm_dict payload)"
proof -
  obtain e where e: "encode_value (PyDict payload) = Inr e" "canonical_json e = Inr encoded"
    using assms(1) by (auto simp: res_simps)
  obtain t where t: "json_dumps e = Inr t" using e(2) by (auto simp: canonical_json_Inr)
  have tree: "json_plain e" "norm_value e = e"
    using encode_value_tree [OF e(1)] json_dumps_tree [OF t] by simp_all
  have "loads_text limit encoded = Inr e"
    using loads_text_canonical [OF e(2) tree(1)] assms(3) e(1) tree(2) by simp
  moreover have "decode_value e = Inr (PyDict (norm_dict payload))"
    using decode_encode_ok [OF assms(2)] e(1) norm_value_PyDict [of payload] by simp
  ultimately show ?thesis by (simp add: decode_plaintext_def)
qed

lemma run_decode_payload:
  assumes form: "has_form env salt u v"
    and aad: "payload_aad (aead_info (fst v)) version = Inr aad"
    and dec: "aead_decrypt P dek (fst v) aad (fst (snd v)) (snd (snd v)) = Some encoded"
    and plain: "decode_plaintext (w_recursion_limit w) encoded = Inr payload"
  shows "decode_payload P env dek version w =
    (Ret payload, w\<lparr>w_bufs := w_bufs w @ [zero_bytes (length encoded)]\<rparr>)"
proof -
  have len: "length (fst v) = NONCE_LENGTH" "length (snd (snd v)) = TAG_LENGTH"
    using form by (auto simp: has_form_def sealed_lengths_def split: prod.splits)
  show ?thesis
    using form_strings [OF form] aad plain open_sealed_Inr [OF len(1) dec]
    by (simp add: decode_payload_def Let_def bindS_def finallyS_def b64_decode_encode_value len
        nth_append list_update_append)
qed

lemma norm_dict_idem [simp]: "norm_dict (norm_dict d) = norm_dict d"
  using norm_value_idem [of "PyDict d"] unfolding norm_value_PyDict by simp

lemma has_form_norm: "has_form env salt u v \<Longrightarrow> has_form (norm_dict env) salt u v"
  using json_plain_norm [of "PyDict env"] unfolding norm_value_PyDict by (simp add: has_form_def)

lemma seals_norm: "seals P password dek payload env \<Longrightarrow> seals P password dek payload (norm_dict env)"
  unfolding seals_def using has_form_norm by blast

lemma run_unwrap_dek:
  assumes form: "has_form env salt u v"
    and aad: "wrap_aad (kdf_header salt) CURRENT_FORMAT_VERSION = Inr aad"
    and dec: "aead_decrypt P kek (fst u) aad (fst (snd u)) (snd (snd u)) = Some dek"
  shows "unwrap_dek P env kek CURRENT_FORMAT_VERSION = Inr dek"
proof -
  have len: "length (fst u) = NONCE_LENGTH" "length (snd (snd u)) = TAG_LENGTH"
    using form by (auto simp: has_form_def sealed_lengths_def split: prod.splits)
  have "wrap_aad (sub_dict env ''kdf'') CURRENT_FORMAT_VERSION = Inr aad"
    using wrap_aad_cong [OF sub_plain kdf_plain form_sub(1) [OF form]] aad form
    by (simp add: has_form_def)
  then show ?thesis
    using form_strings [OF form] open_sealed_Inr [OF len(1) dec]
    by (simp add: unwrap_dek_def Let_def b64_decode_encode_value len)
qed

text \<open>Unlocking succeeds; the password, the key-encryption key and the plaintext are wiped, and
  only the data-encryption key stays.\<close>

lemma run_unlock_envelope:
  assumes "seals P password dek payload env" and "payload_ok (PyDict payload)"
    and "nesting (enc (PyDict payload)) \<le> w_recursion_limit w"
  shows "\<exists>l m n. unlock_envelope P env password CURRENT_FORMAT_VERSION w =
    (Ret (length (w_bufs w) + 2, norm_dict payload),
     w\<lparr>w_bufs := w_bufs w @ [zero_bytes l, zero_bytes m, dek, zero_bytes n]\<rparr>)"
proof -
  obtain salt u v secret kek aad1 aad2 encoded where s:
    "has_form env salt u v" "length dek = KEY_LENGTH"
    "utf8_encode password = Some secret" "argon2id P secret salt = Some kek"
    "wrap_aad (kdf_header salt) CURRENT_FORMAT_VERSION = Inr aad1"
    "aead_decrypt P kek (fst u) aad1 (fst (snd u)) (snd (snd u)) = Some dek"
    "payload_aad (aead_info (fst v)) CURRENT_FORMAT_VERSION = Inr aad2"
    "bindE (encode_value (PyDict payload)) canonical_json = Inr encoded"
    "aead_decrypt P dek (fst v) aad2 (fst (snd v)) (snd (snd v)) = Some encoded"
    using assms(1) unfolding seals_def by blast
  have salt: "length salt = SALT_LENGTH" using s(1) by (simp add: has_form_def)
  note dec = decode_plaintext_encoded [OF s(8) assms(2)]
  have "unlock_envelope P env password CURRENT_FORMAT_VERSION w =
    (Ret (length (w_bufs w) + 2, norm_dict payload),
     w\<lparr>w_bufs := w_bufs w @ [zero_bytes (length secret), zero_bytes (length kek), dek,
                              zero_bytes (length encoded)]\<rparr>)"
    using form_strings(1) [OF s(1)] salt s(2) assms(3)
    by (simp add: unlock_envelope_def bindS_def finallyS_def exceptS_def b64_decode_encode_value
        run_derive_kek [OF s(3,4)] run_unwrap_dek [OF s(1,5,6)] nth_append list_update_append
        run_decode_payload [OF s(1,7,9) dec])
  then show ?thesis by blast
qed

section \<open>Building an envelope\<close>

lemma length_seal:
  assumes "aead_ok P" and "length key = 32" and "length nonce = 24"
    and "aead_encrypt P key nonce aad b = Some (c, t)"
  shows "length t = TAG_LENGTH" and "aead_decrypt P key nonce aad c t = Some b"
  using assms unfolding aead_ok_def TAG_LENGTH_def by (metis option.inject prod.inject)+

definition random_ok :: "world \<Rightarrow> bool" where
  "random_ok w \<longleftrightarrow> (\<forall>i n. length (w_random w i n) = n)"

lemma make_envelope_form:
  assumes "length salt = SALT_LENGTH" and "sealed_lengths u" and "sealed_lengths v"
  shows "has_form (make_envelope (kdf_header salt) (sealed_dict u) (sealed_dict v)) salt u v"
  using assms envelope_plain [OF kdf_plain, of "sealed_dict u" "sealed_dict v" salt] sealed_part_plain
  by (cases u; cases v) (simp add: has_form_def sealed_dict_def)

lemma make_payload_Ret:
  assumes "make_payload P dek payload version w = (Ret x, w')" and "random_ok w"
  obtains nonce c t aad encoded where "x = (aead_info nonce, c, t)" and "length nonce = NONCE_LENGTH"
    and "bindE (encode_value (PyDict payload)) canonical_json = Inr encoded"
    and "payload_aad (aead_info nonce) version = Inr aad"
    and "aead_encrypt P dek nonce aad encoded = Some (c, t)"
    and "w' = w\<lparr>w_draws := Suc (w_draws w)\<rparr>"
proof -
  define nonce where "nonce = w_random w (w_draws w) NONCE_LENGTH"
  have len: "length nonce = NONCE_LENGTH" using assms(2) by (simp add: nonce_def random_ok_def)
  obtain encoded where enc: "bindE (encode_value (PyDict payload)) canonical_json = Inr encoded"
    using assms(1) by (cases "bindE (encode_value (PyDict payload)) canonical_json")
      (auto simp: make_payload_def bindS_def)
  obtain aad where aad: "payload_aad (aead_info nonce) version = Inr aad"
    using assms(1) enc len
    by (cases "payload_aad (aead_info nonce) version")
      (auto simp: make_payload_def bindS_def Let_def exceptS_def aead_info_items
        b64_decode_encode_value simp flip: nonce_def)
  obtain c t where ct: "aead_encrypt P dek nonce aad encoded = Some (c, t)"
    using assms(1) enc len aad
    by (cases "aead_encrypt P dek nonce aad encoded")
      (auto simp: make_payload_def bindS_def Let_def exceptS_def aead_info_items
        b64_decode_encode_value simp flip: nonce_def)
  have "x = (aead_info nonce, c, t) \<and> w' = w\<lparr>w_draws := Suc (w_draws w)\<rparr>"
    using assms(1) enc len aad ct
    by (auto simp: make_payload_def bindS_def Let_def exceptS_def aead_info_items
        b64_decode_encode_value simp flip: nonce_def)
  then show thesis using that len enc aad ct by blast
qed

lemma wrap_dek_Ret:
  assumes "wrap_dek P kek dek kdf version w = (Ret x, w')" and "random_ok w"
  obtains nonce c t aad where "x = (aead_info nonce, c, t)" and "length nonce = NONCE_LENGTH"
    and "wrap_aad kdf version = Inr aad" and "aead_encrypt P kek nonce aad dek = Some (c, t)"
    and "w' = w\<lparr>w_draws := Suc (w_draws w)\<rparr>"
  using assms
  by (cases "wrap_aad kdf version")
    (auto simp: wrap_dek_def bindS_def seal_def random_ok_def split: option.splits prod.splits)

lemma derive_kek_cases:
  obtains secret kek where "utf8_encode password = Some secret" "argon2id P secret salt = Some kek"
    | w' where "derive_kek P password salt w = (Raise UnlockFailed, w')"
  by (cases "utf8_encode password"; cases "argon2id P (the (utf8_encode password)) salt")
    (auto simp: derive_kek_def bindS_def exceptS_def finallyS_def nth_append)

lemma build_v2_envelope_Ret:
  assumes run: "build_v2_envelope P password dek kdf payload w = (Ret env, w')"
    and ok: "aead_ok P" "argon2_ok P" "random_ok w" and len: "length dek = 32" "length salt = SALT_LENGTH"
    and kdf: "json_plain (PyDict kdf)" "norm_dict kdf = norm_dict (kdf_header salt)"
  shows "seals P password dek payload env"
    and "\<exists>l m. w' = w\<lparr>w_draws := w_draws w + 2, w_bufs := w_bufs w @ [zero_bytes l, zero_bytes m]\<rparr>"
proof -
  have salt: "b64_decode (dget_none kdf (pykey ''salt'')) (Some SALT_LENGTH) = Inr salt"
    using item_norm [OF kdf distinct_kdf, of "pykey ''salt''"] len(2)
    by (simp add: kdf_items norm_PyStr b64_decode_encode_value)
  obtain secret kek where pw: "utf8_encode password = Some secret" "argon2id P secret salt = Some kek"
  proof (cases rule: derive_kek_cases [where password = password and P = P and salt = salt and w = w])
    case (2 w1)
    then show ?thesis using run salt by (simp add: build_v2_envelope_def bindS_def)
  qed (rule that)
  have kek: "length kek = 32" using ok(2) pw len(2) unfolding argon2_ok_def SALT_LENGTH_def
    by (metis option.inject)
  define a where "a = Suc (length (w_bufs w))"
  define w1 where "w1 = w\<lparr>w_bufs := w_bufs w @ [zero_bytes (length secret), kek]\<rparr>"
  have w1: "random_ok w1" "w_bufs w1 ! a = kek"
    using ok(3) by (simp_all add: w1_def random_ok_def a_def nth_append)
  obtain x1 w2 x2 where wrap: "wrap_dek P kek dek kdf CURRENT_FORMAT_VERSION w1 = (Ret x1, w2)"
    and make: "make_payload P dek payload CURRENT_FORMAT_VERSION
      (w2\<lparr>w_bufs := (w_bufs w2)[a := zero_bytes (length (w_bufs w2 ! a))]\<rparr>) = (Ret x2, w')"
    and env: "env = make_envelope kdf (sealed_part x1) (sealed_part x2)"
    using run salt run_derive_kek [OF pw, of w] w1
    by (auto simp: build_v2_envelope_def prog_simps simp flip: w1_def a_def)
  obtain n1 c1 t1 a1 where x1: "x1 = (aead_info n1, c1, t1)" "length n1 = NONCE_LENGTH"
    "wrap_aad kdf CURRENT_FORMAT_VERSION = Inr a1" "aead_encrypt P kek n1 a1 dek = Some (c1, t1)"
    "w2 = w1\<lparr>w_draws := Suc (w_draws w1)\<rparr>"
    using wrap_dek_Ret [OF wrap w1(1)] by blast
  define w3 where "w3 = w2\<lparr>w_bufs := (w_bufs w2)[a := zero_bytes (length (w_bufs w2 ! a))]\<rparr>"
  have w3: "random_ok w3" using w1(1) x1(5) by (simp add: w3_def random_ok_def)
  obtain n2 c2 t2 a2 encoded where x2: "x2 = (aead_info n2, c2, t2)" "length n2 = NONCE_LENGTH"
    "bindE (encode_value (PyDict payload)) canonical_json = Inr encoded"
    "payload_aad (aead_info n2) CURRENT_FORMAT_VERSION = Inr a2"
    "aead_encrypt P dek n2 a2 encoded = Some (c2, t2)"
    and w': "w' = w3\<lparr>w_draws := Suc (w_draws w3)\<rparr>"
    by (rule make_payload_Ret [OF make [folded w3_def] w3], rule that)
  note d1 = length_seal [OF ok(1) kek x1(2) [unfolded NONCE_LENGTH_def] x1(4)]
  note d2 = length_seal [OF ok(1) len(1) x2(2) [unfolded NONCE_LENGTH_def] x2(5)]
  have "norm_dict env =
      norm_dict (make_envelope (kdf_header salt) (sealed_dict (n1, c1, t1)) (sealed_dict (n2, c2, t2)))"
    using make_envelope_cong [OF kdf(2)] by (simp add: env x1(1) x2(1) sealed_dict_def)
  then have form: "has_form env salt (n1, c1, t1) (n2, c2, t2)"
    using envelope_plain [OF kdf(1)] sealed_part_plain len(2) d1 d2 x1(2) x2(2)
    by (simp add: has_form_def env x1(1) x2(1) sealed_lengths_def)
  have "wrap_aad (kdf_header salt) CURRENT_FORMAT_VERSION = Inr a1"
    using wrap_aad_cong [OF kdf(1) kdf_plain kdf(2)] x1(3) by simp
  from sealsI [OF form len(1) pw this d1(2) x2(4,3) d2(2)]
  show "seals P password dek payload env" .
  show "\<exists>l m. w' = w\<lparr>w_draws := w_draws w + 2, w_bufs := w_bufs w @ [zero_bytes l, zero_bytes m]\<rparr>"
    unfolding w' w3_def x1(5) w1_def a_def
    by (rule exI [of _ "length secret"], rule exI [of _ "length kek"])
      (simp add: list_update_append nth_append)
qed

end
