(* ===== verification/Atomic_Write_Facts.thy ===== *)
theory Atomic_Write_Facts
  imports Atomic_Write
begin

text \<open>
  What a reader of the target can see after a write, whatever system calls
  fail and wherever the process dies: the old content or the new one, and
  which of the two each outcome stands for.
\<close>

section \<open>Genuine faults\<close>

text \<open>A fault list of a directory that no other process touches: a call works, fails with
  an I/O error or another exception, or never returns.\<close>

definition quiet_fault :: "fault \<Rightarrow> bool" where
  "quiet_fault f =
     (case f of
        NoFault \<Rightarrow> True | Fault e \<Rightarrow> e = PyOSError \<or> e = PyException
      | Interfere g \<Rightarrow> False | Kill \<Rightarrow> True)"

definition quiet :: "'x disk_scheme \<Rightarrow> bool" where
  "quiet w \<longleftrightarrow> list_all quiet_fault (dk_faults w)"

definition files_ok :: "files \<Rightarrow> bool" where
  "files_ok fs \<longleftrightarrow> (\<forall>p i. fs_names fs p = Some i \<longrightarrow> i < fs_next fs)
     \<and> (\<forall>n. fs_names fs (Temp n) \<noteq> None \<longrightarrow> n < fs_next fs)"

text \<open>Only temporary files differ.\<close>

definition unchanged :: "files \<Rightarrow> files \<Rightarrow> bool" where
  "unchanged fs fs' \<longleftrightarrow>
     files_ok fs' \<and> fs_next fs \<le> fs_next fs'
     \<and> (\<forall>q. fs_names fs' (Path q) = fs_names fs (Path q))
     \<and> (\<forall>i < fs_next fs. fs_data fs' i = fs_data fs i)"

text \<open>The target names a new inode with the data; nothing else differs.\<close>

definition installed :: "files \<Rightarrow> pystr \<Rightarrow> nat \<Rightarrow> bytes \<Rightarrow> files \<Rightarrow> bool" where
  "installed fs p ino data fs' \<longleftrightarrow>
     files_ok fs' \<and> fs_next fs \<le> fs_next fs' \<and> fs_next fs \<le> ino
     \<and> fs_names fs' (Path p) = Some ino \<and> fs_data fs' ino = data \<and> ino \<in> fs_synced fs'
     \<and> (\<forall>q. q \<noteq> p \<longrightarrow> fs_names fs' (Path q) = fs_names fs (Path q))
     \<and> (\<forall>i < fs_next fs. fs_data fs' i = fs_data fs i)"

lemma unchanged_refl: "files_ok fs \<Longrightarrow> unchanged fs fs"
  by (simp add: unchanged_def)

lemma unchanged_trans: "unchanged fs fs' \<Longrightarrow> unchanged fs' fs'' \<Longrightarrow> unchanged fs fs''"
  by (auto simp: unchanged_def)

lemma unchanged_content: "files_ok fs \<Longrightarrow> unchanged fs fs' \<Longrightarrow> content fs' (Path q) = content fs (Path q)"
  by (auto simp: unchanged_def content_def files_ok_def split: option.splits)
    (metis (no_types, lifting) map_option_cong)

lemma installed_content: "installed fs p ino data fs' \<Longrightarrow> content fs' (Path p) = Some data"
  by (simp add: installed_def content_def)

lemma installed_new: "installed fs p ino data fs' \<Longrightarrow> fs_next fs \<le> ino"
  by (simp add: installed_def)

lemma installed_content_other:
  "files_ok fs \<Longrightarrow> installed fs p ino data fs' \<Longrightarrow> q \<noteq> p \<Longrightarrow>
     content fs' (Path q) = content fs (Path q)"
  by (auto simp: installed_def content_def files_ok_def split: option.splits)
    (metis (no_types, lifting) map_option_cong)

section \<open>Single calls\<close>

text \<open>A call in a quiet directory works, raises without effect, or is the last one.\<close>

lemma always_syscall:
  assumes "quiet w"
    and "quiet (drop_fault w) \<Longrightarrow>
      (case op (dk_files w) of
         (Inl e, fs) \<Rightarrow> Q (Raise e) ((drop_fault w)\<lparr>dk_files := fs\<rparr>)
       | (Inr x, fs) \<Rightarrow> Q (Ret x) ((drop_fault w)\<lparr>dk_files := fs\<rparr>))"
    and "\<And>e. quiet (drop_fault w) \<Longrightarrow> e = PyOSError \<or> e = PyException \<Longrightarrow> Q (Raise e) (drop_fault w)"
    and "Q Killed (drop_fault w)"
  shows "always (syscall op) Q w"
proof -
  have q: "quiet (drop_fault w)"
    using assms(1) by (cases "dk_faults w") (auto simp: quiet_def drop_fault_def)
  have f: "quiet_fault (next_fault w)"
    using assms(1) by (cases "dk_faults w") (auto simp: quiet_def next_fault_def quiet_fault_def)
  show ?thesis
    using f assms(2-4) q
    by (cases "next_fault w")
      (auto simp: always_def syscall_def Let_def quiet_fault_def split: prod.splits sum.splits)
qed

lemma files_drop_fault [simp]: "dk_files (drop_fault w) = dk_files w"
  by (simp add: drop_fault_def)

lemma quiet_files [simp]: "quiet (w\<lparr>dk_files := fs\<rparr>) \<longleftrightarrow> quiet w"
  by (simp add: quiet_def)

lemma always_on_disk [simp]:
  "always (on_disk m) Q (w, l) \<longleftrightarrow> always m (\<lambda>r w'. Q r (w', l)) w"
  by (simp add: always_def on_disk_def split: prod.split)

lemma always_set_local [simp]: "always (set_local f) Q (w, l) \<longleftrightarrow> Q (Ret ()) (w, f l)"
  by (simp add: set_local_def)

lemma always_ignore_os_error [simp]:
  "always (ignore_os_error m) Q s \<longleftrightarrow>
     always m (\<lambda>r s'. case r of
                 Ret x \<Rightarrow> Q (Ret x) s'
               | Raise e \<Rightarrow> if is_os_error e then Q (Ret ()) s' else Q (Raise e) s'
               | Killed \<Rightarrow> Q Killed s') s"
  unfolding ignore_os_error_def always_exceptS
  by (rule arg_cong [of _ _ "\<lambda>Q. always m Q s"]) (auto simp: fun_eq_iff split: outcome.split)

section \<open>Staging\<close>

text \<open>The state of the stage between its steps: \<open>fs\<close> is the directory at the start.\<close>

definition staging :: "files \<Rightarrow> 'x disk_scheme \<times> stage \<Rightarrow> bool" where
  "staging fs s \<longleftrightarrow>
     quiet (fst s) \<and> unchanged fs (dk_files (fst s)) \<and> \<not> sg_linked_target (snd s)
     \<and> (case sg_temporary_path (snd s) of
          None \<Rightarrow> True | Some q \<Rightarrow> \<exists>n. q = Temp n \<and> fs_next fs \<le> n)"

lemma always_nop:
  assumes "quiet w" and "\<And>w'. quiet w' \<Longrightarrow> dk_files w' = dk_files w \<Longrightarrow> Q (Ret ()) w'"
    and "\<And>w' e. quiet w' \<Longrightarrow> dk_files w' = dk_files w \<Longrightarrow> Q (Raise e) w'"
    and "\<And>w'. dk_files w' = dk_files w \<Longrightarrow> Q Killed w'"
  shows "always (syscall os_nop) Q w"
  using assms by (intro always_syscall) (simp_all add: os_nop_def)

definition temp_at :: "files \<Rightarrow> nat \<Rightarrow> 'x disk_scheme \<Rightarrow> bool" where
  "temp_at fs ino w \<longleftrightarrow>
     quiet w \<and> unchanged fs (dk_files w) \<and> fs_names (dk_files w) (Temp ino) = Some ino
     \<and> fs_next fs \<le> ino"

lemma temp_at_same:
  "temp_at fs ino w \<Longrightarrow> quiet w' \<Longrightarrow> dk_files w' = dk_files w \<Longrightarrow> temp_at fs ino w'"
  by (simp add: temp_at_def)

lemma always_temp_nop:
  assumes "temp_at fs ino w"
    and "\<And>w'. temp_at fs ino w' \<Longrightarrow> dk_files w' = dk_files w \<Longrightarrow> Q (Ret ()) w'"
    and "\<And>w' e. temp_at fs ino w' \<Longrightarrow> Q (Raise e) w'"
    and "\<And>w'. unchanged fs (dk_files w') \<Longrightarrow> Q Killed w'"
  shows "always (syscall os_nop) Q w"
proof (rule always_nop)
  show "quiet w" using assms(1) by (simp add: temp_at_def)
  show "Q Killed w'" if "dk_files w' = dk_files w" for w' :: "'a disk_scheme"
    using assms(1) assms(4) [of w'] that by (simp add: temp_at_def)
qed (use assms(1-3) temp_at_same in blast)+

lemma unchanged_write:
  "unchanged fs fs' \<Longrightarrow> fs_next fs \<le> ino \<Longrightarrow> unchanged fs (snd (os_write ino data fs'))"
  by (auto simp: unchanged_def os_write_def files_ok_def)

lemma unchanged_mkstemp:
  "files_ok fs \<Longrightarrow> os_mkstemp fs = (Inr (name, ino), fs') \<Longrightarrow>
     unchanged fs fs' \<and> name = Temp ino \<and> ino = fs_next fs \<and> fs_names fs' name = Some ino"
  by (fastforce simp: unchanged_def os_mkstemp_def files_ok_def Let_def less_Suc_eq
      split: if_splits)

lemma unchanged_fsync: "unchanged fs fs' \<Longrightarrow> unchanged fs (snd (os_fsync ino fs'))"
  by (simp add: unchanged_def os_fsync_def files_ok_def)

lemma always_temp_write:
  assumes "temp_at fs ino w"
    and "\<And>w'. temp_at fs ino w' \<Longrightarrow> fs_data (dk_files w') ino = data \<Longrightarrow> Q (Ret ()) w'"
    and "\<And>w' e. temp_at fs ino w' \<Longrightarrow> Q (Raise e) w'"
    and "\<And>w'. unchanged fs (dk_files w') \<Longrightarrow> Q Killed w'"
  shows "always (syscall (os_write ino data)) Q w"
proof (rule always_syscall)
  show "case os_write ino data (dk_files w) of
      (Inl e, fs) \<Rightarrow> Q (Raise e) (drop_fault w\<lparr>dk_files := fs\<rparr>)
    | (Inr x, fs) \<Rightarrow> Q (Ret x) (drop_fault w\<lparr>dk_files := fs\<rparr>)" if "quiet (drop_fault w)"
    using assms(1,2) that unchanged_write [of fs "dk_files w" ino data]
    by (simp add: temp_at_def os_write_def)
qed (use assms in \<open>auto simp: temp_at_def\<close>)

lemma always_temp_fsync:
  assumes "temp_at fs ino w"
    and "\<And>w'. temp_at fs ino w' \<Longrightarrow> fs_data (dk_files w') = fs_data (dk_files w) \<Longrightarrow>
       ino \<in> fs_synced (dk_files w') \<Longrightarrow> Q (Ret ()) w'"
    and "\<And>w' e. temp_at fs ino w' \<Longrightarrow> Q (Raise e) w'"
    and "\<And>w'. unchanged fs (dk_files w') \<Longrightarrow> Q Killed w'"
  shows "always (syscall (os_fsync ino)) Q w"
proof (rule always_syscall)
  show "case os_fsync ino (dk_files w) of
      (Inl e, fs) \<Rightarrow> Q (Raise e) (drop_fault w\<lparr>dk_files := fs\<rparr>)
    | (Inr x, fs) \<Rightarrow> Q (Ret x) (drop_fault w\<lparr>dk_files := fs\<rparr>)" if "quiet (drop_fault w)"
    using assms(1,2) that unchanged_fsync [of fs "dk_files w" ino]
    by (simp add: temp_at_def os_fsync_def)
qed (use assms in \<open>auto simp: temp_at_def\<close>)

lemmas wp = prod.case sum.case outcome.case always_bindS always_on_disk always_set_local
  always_returnS always_exceptS always_finallyS

lemma fill_temporary_spec:
  assumes "temp_at fs ino w"
  shows "always (fill_temporary ino data)
    (\<lambda>r s. case r of
       Ret _ \<Rightarrow> temp_at fs ino (fst s) \<and> snd s = l\<lparr>sg_fd := False\<rparr>
         \<and> fs_data (dk_files (fst s)) ino = data \<and> ino \<in> fs_synced (dk_files (fst s))
     | Raise e \<Rightarrow> temp_at fs ino (fst s) \<and> (\<exists>b. snd s = l\<lparr>sg_fd := b\<rparr>)
     | Killed \<Rightarrow> unchanged fs (dk_files (fst s))) (w, l)"
proof -
  have "l = l\<lparr>sg_fd := sg_fd l\<rparr>" by simp
  then have l: "\<exists>b. l = l\<lparr>sg_fd := b\<rparr>" "\<exists>b. l\<lparr>sg_fd := False\<rparr> = l\<lparr>sg_fd := b\<rparr>" by blast+
  show ?thesis
    unfolding fill_temporary_def wp
    by (rule always_temp_nop [OF assms], unfold wp, erule always_temp_nop, unfold wp,
        erule always_temp_write, unfold wp, erule always_temp_nop, unfold wp,
        erule always_temp_fsync, unfold wp, erule always_temp_nop, unfold wp,
        erule always_temp_nop) (simp_all add: l)
qed

lemma stage_temporary_spec:
  assumes "files_ok fs" and "quiet w" and "dk_files w = fs"
  shows "always (stage_temporary data)
    (\<lambda>r s. case r of
       Ret (name, ino) \<Rightarrow>
         temp_at fs ino (fst s) \<and> name = Temp ino
         \<and> snd s = no_stage\<lparr>sg_temporary_path := Some name\<rparr>
         \<and> fs_data (dk_files (fst s)) ino = data
         \<and> ino \<in> fs_synced (dk_files (fst s))
     | Raise e \<Rightarrow> staging fs s
     | Killed \<Rightarrow> unchanged fs (dk_files (fst s))) (w, no_stage)"
proof -
  obtain ino fs1 where mk: "os_mkstemp fs = (Inr (Temp ino, ino), fs1)"
    by (simp add: os_mkstemp_def Let_def)
  then have fs1: "unchanged fs fs1" "ino = fs_next fs" "fs_names fs1 (Temp ino) = Some ino"
    using unchanged_mkstemp [OF assms(1) mk] by blast+
  show ?thesis
    unfolding stage_temporary_def always_bindS always_on_disk
  proof (rule always_syscall [OF assms(2)], goal_cases)
    case 1
    have "temp_at fs ino (drop_fault w\<lparr>dk_files := fs1\<rparr>)"
      using 1 fs1 by (simp add: temp_at_def)
    then show ?case
      unfolding assms(3) mk wp
      by (rule always_mono [OF fill_temporary_spec])
        (auto simp: no_stage_def staging_def temp_at_def split: outcome.splits)
  qed (use assms in \<open>auto simp: staging_def no_stage_def unchanged_refl\<close>)
qed

text \<open>Installing the temporary file: by rename it is all or nothing; by link the target is
  never replaced, and a failure after the link leaves the stage marked as linked.\<close>

lemma stage_replace_spec:
  assumes t: "temp_at fs ino w" and d: "fs_data (dk_files w) ino = data" "ino \<in> fs_synced (dk_files w)"
  shows "always (stage_install (Path p) True (Temp ino))
    (\<lambda>r s. case r of
       Ret _ \<Rightarrow> quiet (fst s) \<and> installed fs p ino data (dk_files (fst s))
         \<and> snd s = l\<lparr>sg_temporary_path := None\<rparr>
     | Raise e \<Rightarrow> temp_at fs ino (fst s) \<and> snd s = l
     | Killed \<Rightarrow> unchanged fs (dk_files (fst s))) (w, l)"
  unfolding stage_install_def if_True wp
proof (rule always_syscall, goal_cases)
  case 2
  then show ?case
    using t d
    by (auto simp: temp_at_def os_replace_def installed_def unchanged_def files_ok_def
        split: if_splits)
qed (use t in \<open>auto simp: temp_at_def\<close>)

text \<open>After the link: the target names the temporary inode.\<close>

definition linked_at :: "files \<Rightarrow> pystr \<Rightarrow> nat \<Rightarrow> bytes \<Rightarrow> 'x disk_scheme \<Rightarrow> bool" where
  "linked_at fs p ino data w \<longleftrightarrow>
     quiet w \<and> fs_names fs (Path p) = None \<and> installed fs p ino data (dk_files w)
     \<and> fs_names (dk_files w) (Temp ino) = Some ino"

lemma stage_link_spec:
  assumes t: "temp_at fs ino w" and d: "fs_data (dk_files w) ino = data" "ino \<in> fs_synced (dk_files w)"
  shows "always (stage_install (Path p) False (Temp ino))
    (\<lambda>r s. case r of
       Ret _ \<Rightarrow> quiet (fst s) \<and> fs_names fs (Path p) = None
         \<and> installed fs p ino data (dk_files (fst s))
         \<and> snd s = l\<lparr>sg_temporary_path := None, sg_linked_target := False\<rparr>
     | Raise e \<Rightarrow> temp_at fs ino (fst s) \<and> snd s = l
         \<or> linked_at fs p ino data (fst s) \<and> snd s = l\<lparr>sg_linked_target := True\<rparr>
     | Killed \<Rightarrow> unchanged fs (dk_files (fst s))
         \<or> fs_names fs (Path p) = None \<and> installed fs p ino data (dk_files (fst s))) (w, l)"
  unfolding stage_install_def if_False wp
proof (rule always_syscall, goal_cases)
  case 2
  show ?case
  proof (cases "fs_names fs (Path p)")
    case None
    define fs1 where "fs1 = (dk_files w)\<lparr>fs_names := (fs_names (dk_files w))(Path p \<mapsto> ino)\<rparr>"
    have link: "os_link (Temp ino) (Path p) (dk_files w) = (Inr (), fs1)"
      using t None by (simp add: os_link_def temp_at_def unchanged_def fs1_def)
    have l1: "linked_at fs p ino data (drop_fault w\<lparr>dk_files := fs1\<rparr>)"
      using 2 t d None
      by (auto simp: linked_at_def temp_at_def fs1_def installed_def unchanged_def files_ok_def)
    show ?thesis
      unfolding link wp
    proof (rule always_syscall, goal_cases)
      case 2
      then show ?case
        using l1
        by (auto simp: linked_at_def os_unlink_def installed_def files_ok_def split: if_splits)
    qed (use l1 in \<open>auto simp: linked_at_def\<close>)
  next
    case (Some i)
    then have "os_link (Temp ino) (Path p) (dk_files w) = (Inl PyFileExistsError, dk_files w)"
      using t by (simp add: os_link_def temp_at_def unchanged_def)
    then show ?thesis using 2 t by (simp add: temp_at_def)
  qed
qed (use t in \<open>auto simp: temp_at_def\<close>)

section \<open>Cleaning up\<close>

text \<open>A program keeps \<open>I\<close> if from a quiet directory with \<open>I\<close> every outcome has \<open>I\<close>, and every
  outcome but death is quiet; \<open>pr\<close> finds the disk in the state.\<close>

definition kept :: "('s \<Rightarrow> 'x disk_scheme) \<Rightarrow> (files \<Rightarrow> bool) \<Rightarrow> 'a outcome \<Rightarrow> 's \<Rightarrow> bool" where
  "kept pr I r s \<longleftrightarrow> I (dk_files (pr s)) \<and> (r \<noteq> Killed \<longrightarrow> quiet (pr s))"

definition keeps :: "('s \<Rightarrow> 'x disk_scheme) \<Rightarrow> (files \<Rightarrow> bool) \<Rightarrow> ('a, 's) prog \<Rightarrow> bool" where
  "keeps pr I m \<longleftrightarrow> (\<forall>s. quiet (pr s) \<and> I (dk_files (pr s)) \<longrightarrow> always m (kept pr I) s)"

lemma unchanged_unlink_temp:
  "unchanged fs fs' \<Longrightarrow> fs_next fs \<le> n \<Longrightarrow> unchanged fs (snd (os_unlink (Temp n) fs'))"
  by (auto simp: unchanged_def os_unlink_def files_ok_def split: option.splits)

lemma installed_unlink_temp:
  "installed fs p ino data fs' \<Longrightarrow> installed fs p ino data (snd (os_unlink (Temp n) fs'))"
  by (auto simp: installed_def os_unlink_def files_ok_def split: option.splits)

lemma keeps_syscall:
  fixes op :: "files \<Rightarrow> 'r res \<times> files"
  assumes "\<And>fs. I fs \<Longrightarrow> I (snd (op fs))"
  shows "keeps (\<lambda>w :: 'x disk_scheme. w) I (syscall op)"
  unfolding keeps_def
proof (intro allI impI)
  fix w :: "'x disk_scheme"
  assume "quiet w \<and> I (dk_files w)"
  then show "always (syscall op) (kept (\<lambda>w. w) I) w"
    using assms [of "dk_files w"]
    by (intro always_syscall) (auto simp: kept_def split: prod.splits sum.splits)
qed

lemma keeps_on_disk: "keeps (\<lambda>w. w) I m \<Longrightarrow> keeps fst I (on_disk m)"
  by (auto simp: keeps_def kept_def [abs_def])

lemma keeps_returnS: "keeps pr I (returnS x)"
  by (simp add: keeps_def kept_def)

lemma keeps_raiseS: "keeps pr I (raiseS e)"
  by (simp add: keeps_def kept_def)

lemma keeps_bindS:
  assumes "keeps pr I m" and "\<And>x. keeps pr I (f x)"
  shows "keeps pr I (bindS m f)"
  unfolding keeps_def always_bindS
proof (intro allI impI)
  fix s
  assume "quiet (pr s) \<and> I (dk_files (pr s))"
  then have "always m (kept pr I) s" using assms(1) unfolding keeps_def by blast
  then show "always m (\<lambda>r s'. case r of
        Ret x \<Rightarrow> always (f x) (kept pr I) s'
      | Raise e \<Rightarrow> kept pr I (Raise e) s' | Killed \<Rightarrow> kept pr I Killed s') s"
    by (rule always_mono) (use assms(2) in \<open>auto simp: keeps_def kept_def split: outcome.split\<close>)
qed

lemma keeps_exceptS:
  assumes "keeps pr I m" and "\<And>e. keeps pr I (h e)"
  shows "keeps pr I (exceptS m h)"
  unfolding keeps_def always_exceptS
proof (intro allI impI)
  fix s
  assume "quiet (pr s) \<and> I (dk_files (pr s))"
  then have "always m (kept pr I) s" using assms(1) unfolding keeps_def by blast
  then show "always m (\<lambda>r s'. case r of
        Ret x \<Rightarrow> kept pr I (Ret x) s'
      | Raise e \<Rightarrow> always (h e) (kept pr I) s' | Killed \<Rightarrow> kept pr I Killed s') s"
    by (rule always_mono) (use assms(2) in \<open>auto simp: keeps_def kept_def split: outcome.split\<close>)
qed

lemma keeps_finallyS:
  fixes m :: "('r, 's) prog"
  assumes "keeps pr I m" and "keeps pr I f"
  shows "keeps pr I (finallyS m f)"
proof -
  have f: "always f (\<lambda>r' s''. case r' of
      Ret _ \<Rightarrow> kept pr I r s'' | Raise e \<Rightarrow> kept pr I (Raise e) s'' | Killed \<Rightarrow> kept pr I Killed s'') s"
    if "quiet (pr s)" "I (dk_files (pr s))" "r \<noteq> Killed" for r :: "'r outcome" and s
  proof (rule always_mono)
    show "always f (kept pr I) s" using assms(2) that unfolding keeps_def by blast
  qed (auto simp: kept_def split: outcome.splits)
  show ?thesis
    unfolding keeps_def always_finallyS
  proof (intro allI impI)
    fix s
    assume "quiet (pr s) \<and> I (dk_files (pr s))"
    then have "always m (kept pr I) s" using assms(1) unfolding keeps_def by blast
    then show "always m (\<lambda>r s'. case r of
        Killed \<Rightarrow> kept pr I Killed s'
      | _ \<Rightarrow> always f (\<lambda>r' s''. case r' of
               Ret _ \<Rightarrow> kept pr I r s'' | Raise e \<Rightarrow> kept pr I (Raise e) s''
             | Killed \<Rightarrow> kept pr I Killed s'') s') s"
    proof (rule always_mono, goal_cases)
      case (1 r s')
      then have "I (dk_files (pr s'))" "r \<noteq> Killed \<Longrightarrow> quiet (pr s')" by (auto simp: kept_def)
      with f [of s' r] show ?case
        by (cases r) (simp_all, simp add: kept_def)
    qed
  qed
qed

lemma keeps_ignore_os_error: "keeps pr I m \<Longrightarrow> keeps pr I (ignore_os_error m)"
  unfolding ignore_os_error_def by (intro keeps_exceptS) (auto intro: keeps_returnS keeps_raiseS)

lemma keeps_if: "keeps pr I m \<Longrightarrow> keeps pr I m' \<Longrightarrow> keeps pr I (if c then m else m')"
  by simp

lemmas keeps_intros = keeps_returnS keeps_raiseS keeps_bindS keeps_exceptS keeps_finallyS
  keeps_ignore_os_error keeps_on_disk keeps_if

lemma keeps_nop: "keeps (\<lambda>w. w) I (syscall os_nop)"
  by (rule keeps_syscall) (simp add: os_nop_def)

lemma keeps_reads:
  "keeps (\<lambda>w. w) I (syscall (os_samefile q q'))" "keeps (\<lambda>w. w) I (syscall (os_lstat q))"
  "keeps (\<lambda>w. w) I (syscall (os_read_bytes q))" "keeps (\<lambda>w. w) I (syscall (os_exists q))"
  by (rule keeps_syscall,
      simp add: os_samefile_def os_lstat_def os_read_bytes_def os_exists_def split: option.split)+

text \<open>The clean-up in a given stage.\<close>

lemma keeps_cleanup:
  fixes w :: "'x disk_scheme"
  assumes "sg_temporary_path l = None \<or>
      (\<exists>name. sg_temporary_path l = Some name
         \<and> (\<forall>fs. I fs \<longrightarrow> I (snd (os_unlink name fs)))
         \<and> (sg_linked_target l \<longrightarrow> (\<forall>fs. I fs \<longrightarrow> I (snd (os_unlink (Path p) fs)))))"
    and "quiet w" and "I (dk_files w)"
  shows "always (stage_cleanup (Path p)) (kept fst I) (w, l)"
proof -
  have "keeps fst I (cleanup_stage (Path p) l :: (unit, 'x disk_scheme \<times> stage) prog)"
  proof (cases "sg_temporary_path l")
    case None
    then show ?thesis by (auto simp: cleanup_stage_def intro!: keeps_nop keeps_intros)
  next
    case (Some name)
    then have name: "keeps (\<lambda>w. w) I (syscall (os_unlink name))"
      and link: "sg_linked_target l \<Longrightarrow> keeps (\<lambda>w. w) I (syscall (os_unlink (Path p)))"
      using assms(1) by (auto intro: keeps_syscall)
    show ?thesis
      unfolding cleanup_stage_def Some option.case
      by (cases "sg_linked_target l")
        (simp_all only: if_True if_False,
          (intro keeps_intros keeps_nop keeps_reads name link; assumption)+)
  qed
  then show ?thesis
    using assms(2,3) by (simp add: stage_cleanup_def keeps_def)
qed

section \<open>Staging a file\<close>

text \<open>The target after staging: untouched, or the new inode under a name that was free or
  may be replaced.\<close>

definition staged :: "files \<Rightarrow> pystr \<Rightarrow> bytes \<Rightarrow> bool \<Rightarrow> files \<Rightarrow> bool" where
  "staged fs p data replace fs' \<longleftrightarrow>
     unchanged fs fs'
     \<or> \<not> replace \<and> fs_names fs (Path p) = None \<and> (\<exists>ino. installed fs p ino data fs')"

lemma staged_unlink_path:
  assumes "staged fs p data False fs'" and "fs_names fs (Path p) = None"
  shows "staged fs p data False (snd (os_unlink (Path p) fs'))"
  using assms
  by (auto simp: staged_def unchanged_def installed_def os_unlink_def files_ok_def
      split: option.splits)

lemma staged_unlink_temp:
  assumes "staged fs p data replace fs'" and "fs_next fs \<le> n"
  shows "staged fs p data replace (snd (os_unlink (Temp n) fs'))"
  using assms unchanged_unlink_temp installed_unlink_temp unfolding staged_def by blast

lemma always_stage_file:
  "always (stage_file p data replace) Q w \<longleftrightarrow>
     always (finallyS (stage_body p data replace) (stage_cleanup p))
       (\<lambda>r s. Q r (fst s)) (w, no_stage)"
  by (simp add: always_def stage_file_def split: prod.split)

lemma stage_body_spec:
  assumes "files_ok fs" and "quiet w" and "dk_files w = fs"
  shows "always (stage_body (Path p) data replace)
    (\<lambda>r s. case r of
       Ret ino \<Rightarrow> quiet (fst s) \<and> installed fs p ino data (dk_files (fst s))
         \<and> (\<not> replace \<longrightarrow> fs_names fs (Path p) = None) \<and> snd s = no_stage
     | Raise e \<Rightarrow> quiet (fst s) \<and> staged fs p data replace (dk_files (fst s))
         \<and> (sg_linked_target (snd s) \<longrightarrow> fs_names fs (Path p) = None \<and> \<not> replace)
         \<and> (sg_temporary_path (snd s) = None
            \<or> (\<exists>n. sg_temporary_path (snd s) = Some (Temp n) \<and> fs_next fs \<le> n))
     | Killed \<Rightarrow> staged fs p data replace (dk_files (fst s))) (w, no_stage)"
  (is "always _ ?Q _")
proof -
  have install: "always (stage_install (Path p) replace (Temp ino))
      (\<lambda>r s'. case r of Ret _ \<Rightarrow> ?Q (Ret ino) s' | Raise e \<Rightarrow> ?Q (Raise e) s' | Killed \<Rightarrow> ?Q Killed s')
      (w', no_stage\<lparr>sg_temporary_path := Some (Temp ino)\<rparr>)"
    if t: "temp_at fs ino w'" "fs_data (dk_files w') ino = data" "ino \<in> fs_synced (dk_files w')"
    for ino w'
  proof (cases replace)
    case True
    then have r: "replace = True" by simp
    show ?thesis
      unfolding r
      by (rule always_mono [OF stage_replace_spec [OF t]])
        (auto simp: staged_def temp_at_def no_stage_def split: outcome.splits)
  next
    case False
    then have r: "replace = False" by simp
    show ?thesis
      unfolding r
      by (rule always_mono [OF stage_link_spec [OF t]])
        (auto simp: staged_def temp_at_def linked_at_def no_stage_def installed_new
          split: outcome.splits)
  qed
  show ?thesis
    unfolding stage_body_def always_bindS
  proof (rule always_mono [OF stage_temporary_spec [OF assms]], goal_cases)
    case (1 r s)
    show ?case
    proof (cases r)
      case (Ret x)
      then obtain ino w' where x: "x = (Temp ino, ino)"
        and s: "s = (w', no_stage\<lparr>sg_temporary_path := Some (Temp ino)\<rparr>)"
        and w': "temp_at fs ino w'" "fs_data (dk_files w') ino = data"
          "ino \<in> fs_synced (dk_files w')"
        using 1 by (cases x; cases s) auto
      show ?thesis
        unfolding Ret x s outcome.case prod.case always_bindS always_returnS
        by (rule install [OF w', unfolded outcome.case])
    qed (use 1 in \<open>auto simp: staging_def staged_def split: option.splits\<close>)
  qed
qed

lemma stage_file_spec:
  assumes "files_ok fs" and "quiet w" and "dk_files w = fs"
  shows "always (stage_file (Path p) data replace)
    (\<lambda>r w'. case r of
       Ret ino \<Rightarrow> quiet w' \<and> installed fs p ino data (dk_files w')
         \<and> (\<not> replace \<longrightarrow> fs_names fs (Path p) = None)
     | Raise e \<Rightarrow> quiet w' \<and> staged fs p data replace (dk_files w')
     | Killed \<Rightarrow> staged fs p data replace (dk_files w')) w"
  unfolding always_stage_file always_finallyS
proof (rule always_mono [OF stage_body_spec [OF assms]], goal_cases)
  case (1 r s)
  then show ?case
  proof (cases r)
    case (Raise e)
    obtain w' l where s: "s = (w', l)" by fastforce
    have "always (stage_cleanup (Path p)) (kept fst (staged fs p data replace)) (w', l)"
      by (rule keeps_cleanup)
        (use 1 Raise s in \<open>auto intro: staged_unlink_temp staged_unlink_path\<close>)
    then show ?thesis
      unfolding Raise s outcome.case by (rule always_mono) (auto simp: kept_def split: outcome.splits)
  qed (auto simp: stage_cleanup_def cleanup_stage_def no_stage_def)
qed

section \<open>Writing\<close>

text \<open>What may be seen during a write: the other files as before, the target old or new.\<close>

definition old_or_new :: "files \<Rightarrow> pystr \<Rightarrow> bytes \<Rightarrow> files \<Rightarrow> bool" where
  "old_or_new fs p data fs' \<longleftrightarrow>
     files_ok fs' \<and> (\<forall>q. q \<noteq> p \<longrightarrow> content fs' (Path q) = content fs (Path q))
     \<and> (content fs' (Path p) = content fs (Path p) \<or> content fs' (Path p) = Some data)"

definition durable :: "pystr \<Rightarrow> bytes \<Rightarrow> files \<Rightarrow> bool" where
  "durable p data fs \<longleftrightarrow>
     (\<exists>ino. fs_names fs (Path p) = Some ino \<and> fs_dir fs (Path p) = Some ino \<and> fs_data fs ino = data
        \<and> ino \<in> fs_synced fs)"

lemma unchanged_old_or_new:
  assumes "files_ok fs" and "unchanged fs fs'"
  shows "old_or_new fs p data fs'"
  using unchanged_content [OF assms] assms(2) by (simp add: old_or_new_def unchanged_def)

lemma installed_old_or_new:
  assumes "files_ok fs" and "installed fs p ino data fs'"
  shows "old_or_new fs p data fs'"
  using installed_content [OF assms(2)] installed_content_other [OF assms] assms(2)
  by (simp add: old_or_new_def installed_def)

lemma staged_old_or_new: "files_ok fs \<Longrightarrow> staged fs p data replace fs' \<Longrightarrow> old_or_new fs p data fs'"
  using unchanged_old_or_new installed_old_or_new unfolding staged_def by blast

lemma old_or_new_cong:
  assumes "old_or_new fs p data fs1" and "files_ok fs2"
    and "\<And>q. content fs2 (Path q) = content fs1 (Path q)"
  shows "old_or_new fs p data fs2"
  using assms by (simp add: old_or_new_def)

lemma keeps_fsync_directory:
  assumes "\<And>fs d. I fs \<Longrightarrow> I (fs\<lparr>fs_dir := d\<rparr>)"
  shows "keeps (\<lambda>w. w) I fsync_directory"
proof -
  have "keeps (\<lambda>w. w) I (syscall os_fsync_dir)"
    using assms by (intro keeps_syscall) (simp add: os_fsync_dir_def)
  then show ?thesis
    unfolding fsync_directory_def by (intro keeps_intros keeps_nop)
qed

lemma content_dir [simp]: "content (fs\<lparr>fs_dir := d\<rparr>) q = content fs q"
  by (simp add: content_def)

lemma files_ok_dir [simp]: "files_ok (fs\<lparr>fs_dir := d\<rparr>) \<longleftrightarrow> files_ok fs"
  by (simp add: files_ok_def)

lemma old_or_new_dir: "old_or_new fs p data fs' \<Longrightarrow> old_or_new fs p data (fs'\<lparr>fs_dir := d\<rparr>)"
  by (simp add: old_or_new_def)

lemma fsync_directory_spec:
  assumes "quiet w"
  shows "always fsync_directory
    (\<lambda>r w'. (\<exists>d. dk_files w' = (dk_files w)\<lparr>fs_dir := d\<rparr>)
       \<and> (r \<noteq> Killed \<longrightarrow> quiet w')
       \<and> (r = Ret () \<longrightarrow> fs_dir (dk_files w') = fs_names (dk_files w'))) w"
proof -
  have same: "\<exists>d. fs = fs\<lparr>fs_dir := d\<rparr>" "\<exists>d'. fs\<lparr>fs_dir := d\<rparr> = fs\<lparr>fs_dir := d'\<rparr>"
    for fs :: files and d
    by (rule exI [of _ "fs_dir fs"], simp) blast
  show ?thesis
    unfolding fsync_directory_def wp
    by (rule always_nop [OF assms], unfold wp, rule always_syscall, assumption,
        unfold os_fsync_dir_def prod.case sum.case outcome.case;
        (rule always_nop)?) (auto simp: same)
qed

lemma read_or_none_spec:
  assumes "quiet w"
  shows "always (read_or_none q)
    (\<lambda>r w'. dk_files w' = dk_files w \<and> (r \<noteq> Killed \<longrightarrow> quiet w')
       \<and> (\<forall>c. r = Ret c \<longrightarrow> c = content (dk_files w) q)) w"
  unfolding read_or_none_def wp
  by (rule always_syscall [OF assms])
    (auto simp: os_read_bytes_def split: option.splits)

text \<open>Undoing an installation: from the new content the target stays new or becomes the
  previous content.\<close>

lemma keeps_stage_previous:
  assumes "files_ok fs" and "content fs (Path p) = Some previous"
  shows "keeps (\<lambda>w. w) (old_or_new fs p data) (stage_file (Path p) previous True)"
  unfolding keeps_def
proof (intro allI impI)
  fix w :: "'a disk_scheme"
  assume w: "quiet w \<and> old_or_new fs p data (dk_files w)"
  then have ok: "files_ok (dk_files w)" by (simp add: old_or_new_def)
  show "always (stage_file (Path p) previous True) (kept (\<lambda>w. w) (old_or_new fs p data)) w"
  proof (rule always_mono [OF stage_file_spec [OF ok]], goal_cases)
    case (3 r w')
    have "old_or_new fs p data (dk_files w')" if "unchanged (dk_files w) (dk_files w')"
      using that w unchanged_content [OF ok that]
      by (auto simp: unchanged_def intro: old_or_new_cong)
    moreover have "old_or_new fs p data (dk_files w')"
      if "installed (dk_files w) p ino previous (dk_files w')" for ino
      using that w assms(2) installed_content [OF that] installed_content_other [OF ok that]
      by (simp add: old_or_new_def installed_def)
    ultimately show ?case
      using 3 by (auto simp: kept_def staged_def split: outcome.splits)
  qed (use w in simp_all)
qed

lemma keeps_undo_install:
  assumes "files_ok fs" and "previous = content fs (Path p)"
  shows "keeps (\<lambda>w. w) (old_or_new fs p data) (undo_install (Path p) previous installed_ino)"
proof -
  have "keeps (\<lambda>w. w) (old_or_new fs p data)
     (case previous of
        None \<Rightarrow> syscall (os_unlink (Path p))
      | Some data \<Rightarrow> bindS (stage_file (Path p) data True) (\<lambda>_. returnS ()))"
  proof (cases previous)
    case None
    have "keeps (\<lambda>w. w) (old_or_new fs p data) (syscall (os_unlink (Path p)))"
      by (rule keeps_syscall)
        (use assms(2) None in \<open>auto simp: old_or_new_def os_unlink_def content_def files_ok_def
          split: option.splits\<close>)
    then show ?thesis by (simp add: None)
  next
    case (Some b)
    then show ?thesis
      using assms by (auto intro!: keeps_intros keeps_stage_previous)
  qed
  then show ?thesis
    unfolding undo_install_def
    by (intro keeps_intros keeps_reads) (auto intro!: keeps_intros split: sum.split)
qed

lemma keeps_read_or_none: "keeps (\<lambda>w. w) I (read_or_none q)"
  unfolding read_or_none_def by (intro keeps_intros keeps_reads)

lemma keeps_restore:
  assumes "files_ok fs" and "previous = content fs (Path p)"
  shows "keeps (\<lambda>w. w) (old_or_new fs p data)
    (restore_previous_after_failed_sync (Path p) previous installed_ino)"
  unfolding restore_previous_after_failed_sync_def false_on_os_error_def
  by (intro keeps_intros keeps_undo_install [OF assms] keeps_read_or_none keeps_fsync_directory
      old_or_new_dir)

text \<open>What a program ensures when it returns.\<close>

definition ensures ::
    "(files \<Rightarrow> bool) \<Rightarrow> ('a \<Rightarrow> 'x disk_scheme \<Rightarrow> bool) \<Rightarrow> ('a, 'x disk_scheme) prog \<Rightarrow> bool" where
  "ensures I Q m \<longleftrightarrow> (\<forall>w x w'. quiet w \<and> I (dk_files w) \<longrightarrow> m w = (Ret x, w') \<longrightarrow> Q x w')"

lemma ensures_returnS: "(\<And>w. Q x w) \<Longrightarrow> ensures I Q (returnS x)"
  by (simp add: ensures_def)

lemma ensures_raiseS: "ensures I Q (raiseS e)"
  by (simp add: ensures_def)

lemma ensures_if: "ensures I Q m \<Longrightarrow> ensures I Q m' \<Longrightarrow> ensures I Q (if c then m else m')"
  by simp

lemma keepsD:
  "keeps (\<lambda>w. w) I m \<Longrightarrow> quiet w \<and> I (dk_files w) \<Longrightarrow> m w = (r, w') \<Longrightarrow>
     I (dk_files w') \<and> (r \<noteq> Killed \<longrightarrow> quiet w')"
  by (auto simp: keeps_def kept_def always_def)

lemma ensures_bindS:
  assumes "keeps (\<lambda>w. w) I m" and "\<And>x. ensures I Q (f x)"
  shows "ensures I Q (bindS m f)"
  unfolding ensures_def
proof (intro allI impI)
  fix w x w'
  assume w: "quiet w \<and> I (dk_files w)" and run: "bindS m f w = (Ret x, w')"
  then obtain y w1 where "m w = (Ret y, w1)" "f y w1 = (Ret x, w')"
    by (auto simp: bindS_def split: prod.splits outcome.splits)
  then show "Q x w'" using keepsD [OF assms(1) w] assms(2) [of y] by (auto simp: ensures_def)
qed

lemma ensures_exceptS:
  assumes "keeps (\<lambda>w. w) I m" and "ensures I Q m" and "\<And>e. ensures I Q (h e)"
  shows "ensures I Q (exceptS m h)"
  unfolding ensures_def
proof (intro allI impI)
  fix w x w'
  assume w: "quiet w \<and> I (dk_files w)" and run: "exceptS m h w = (Ret x, w')"
  then consider "m w = (Ret x, w')" | e w1 where "m w = (Raise e, w1)" "h e w1 = (Ret x, w')"
    by (auto simp: exceptS_def split: prod.splits outcome.splits)
  then show "Q x w'"
    using w keepsD [OF assms(1) w] assms(2,3) by cases (auto simp: ensures_def)
qed

text \<open>\<^verbatim>\<open>True\<close> is returned only with the previous content in place.\<close>

lemma ensures_last_read:
  "ensures I (\<lambda>b w. b \<longrightarrow> content (dk_files w) q = previous)
     (bindS (read_or_none q) (\<lambda>c. returnS (c = previous)))"
  unfolding ensures_def
proof (intro allI impI)
  fix w x w'
  assume "quiet w \<and> I (dk_files w)" and x
    and run: "bindS (read_or_none q) (\<lambda>c. returnS (c = previous)) w = (Ret x, w')"
  then obtain c where "read_or_none q w = (Ret c, w')" "c = previous"
    by (auto simp: bindS_def split: prod.splits outcome.splits)
  then show "content (dk_files w') q = previous"
    using alwaysD [OF read_or_none_spec] \<open>quiet w \<and> I (dk_files w)\<close> by fastforce
qed

lemma restore_True:
  assumes "files_ok fs" and "previous = content fs (Path p)"
  shows "ensures (old_or_new fs p data) (\<lambda>b w. b \<longrightarrow> content (dk_files w) (Path p) = previous)
    (restore_previous_after_failed_sync (Path p) previous ino)"
  unfolding restore_previous_after_failed_sync_def false_on_os_error_def
  by (intro ensures_bindS ensures_exceptS ensures_if ensures_returnS ensures_raiseS
      ensures_last_read keeps_undo_install [OF assms] keeps_intros keeps_read_or_none
      keeps_fsync_directory old_or_new_dir) simp_all

section \<open>Which exceptions a program raises\<close>

definition raises :: "('s \<Rightarrow> 'x disk_scheme) \<Rightarrow> (exn \<Rightarrow> bool) \<Rightarrow> ('a, 's) prog \<Rightarrow> bool" where
  "raises pr E m \<longleftrightarrow>
     (\<forall>s. quiet (pr s) \<longrightarrow>
        always m (\<lambda>r s'. (\<forall>e. r = Raise e \<longrightarrow> E e) \<and> (r \<noteq> Killed \<longrightarrow> quiet (pr s'))) s)"

definition io_error :: "exn \<Rightarrow> bool" where
  "io_error e \<longleftrightarrow> is_os_error e \<or> e = PyException"

lemma io_error_simps [simp]:
  "io_error PyOSError" "io_error PyException" "io_error PyFileNotFoundError"
  "io_error PyFileExistsError"
  by (simp_all add: io_error_def is_os_error_def)

lemma raises_syscall:
  assumes "\<And>fs e fs'. op fs = (Inl e, fs') \<Longrightarrow> E e" and "E PyOSError" and "E PyException"
  shows "raises (\<lambda>w. w) E (syscall op)"
  unfolding raises_def
  by (intro allI impI always_syscall) (use assms in \<open>auto split: prod.splits sum.splits\<close>)

lemma raises_calls:
  "raises (\<lambda>w. w) io_error (syscall os_nop)" "raises (\<lambda>w. w) io_error (syscall os_mkstemp)"
  "raises (\<lambda>w. w) io_error (syscall (os_write i d))" "raises (\<lambda>w. w) io_error (syscall (os_fsync i))"
  "raises (\<lambda>w. w) io_error (syscall (os_replace p q))" "raises (\<lambda>w. w) io_error (syscall (os_link p q))"
  "raises (\<lambda>w. w) io_error (syscall (os_unlink p))" "raises (\<lambda>w. w) io_error (syscall (os_lstat p))"
  "raises (\<lambda>w. w) io_error (syscall (os_samefile p q))"
  "raises (\<lambda>w. w) io_error (syscall (os_read_bytes p))"
  "raises (\<lambda>w. w) io_error (syscall (os_exists p))" "raises (\<lambda>w. w) io_error (syscall os_fsync_dir)"
  by (rule raises_syscall,
      auto simp: os_nop_def os_mkstemp_def os_write_def os_fsync_def os_replace_def os_link_def
        os_unlink_def os_lstat_def os_samefile_def os_read_bytes_def os_exists_def os_fsync_dir_def
        Let_def split: option.splits if_splits)+

lemma raisesD:
  "raises pr E m \<Longrightarrow> quiet (pr s) \<Longrightarrow> m s = (r, s') \<Longrightarrow>
     (\<forall>e. r = Raise e \<longrightarrow> E e) \<and> (r \<noteq> Killed \<longrightarrow> quiet (pr s'))"
  by (auto simp: raises_def always_def)

lemma raises_returnS: "raises pr E (returnS x)"
  by (simp add: raises_def)

lemma raises_raiseS: "E e \<Longrightarrow> raises pr E (raiseS e)"
  by (simp add: raises_def)

lemma raises_if: "(c \<Longrightarrow> raises pr E m) \<Longrightarrow> (\<not> c \<Longrightarrow> raises pr E m') \<Longrightarrow> raises pr E (if c then m else m')"
  by simp

lemma raises_bindS:
  assumes "raises pr E m" and "\<And>x. raises pr E (f x)"
  shows "raises pr E (bindS m f)"
  unfolding raises_def
proof (intro allI impI)
  fix s assume s: "quiet (pr s)"
  obtain r s' where m: "m s = (r, s')" by fastforce
  show "always (bindS m f) (\<lambda>r s'. (\<forall>e. r = Raise e \<longrightarrow> E e) \<and> (r \<noteq> Killed \<longrightarrow> quiet (pr s'))) s"
    using raisesD [OF assms(1) s m] assms(2) m
    by (cases r) (auto simp: raises_def always_def bindS_def)
qed

lemma raises_exceptS:
  assumes "raises pr G m" and "\<And>e. G e \<Longrightarrow> raises pr E (h e)"
  shows "raises pr E (exceptS m h)"
  unfolding raises_def
proof (intro allI impI)
  fix s assume s: "quiet (pr s)"
  obtain r s' where m: "m s = (r, s')" by fastforce
  show "always (exceptS m h) (\<lambda>r s'. (\<forall>e. r = Raise e \<longrightarrow> E e) \<and> (r \<noteq> Killed \<longrightarrow> quiet (pr s'))) s"
    using raisesD [OF assms(1) s m] assms(2) m
    by (cases r) (auto simp: raises_def always_def exceptS_def)
qed

lemma raises_finallyS:
  assumes "raises pr E m" and "raises pr E f"
  shows "raises pr E (finallyS m f)"
  unfolding raises_def
proof (intro allI impI)
  fix s assume s: "quiet (pr s)"
  obtain r s' where m: "m s = (r, s')" by fastforce
  obtain r2 s2 where f: "f s' = (r2, s2)" by fastforce
  show "always (finallyS m f) (\<lambda>r s'. (\<forall>e. r = Raise e \<longrightarrow> E e) \<and> (r \<noteq> Killed \<longrightarrow> quiet (pr s'))) s"
    using raisesD [OF assms(1) s m] raisesD [OF assms(2) _ f] m f
    by (cases r; cases r2) (auto simp: always_def finallyS_def bindS_def)
qed

lemma raises_on_disk: "raises (\<lambda>w. w) E m \<Longrightarrow> raises fst E (on_disk m)"
  by (auto simp: raises_def)

lemma raises_set_local: "raises fst E (set_local f)"
  by (auto simp: raises_def)

lemma raises_getS: "raises pr E (getS f)"
  by (simp add: raises_def)

lemma raises_ignore: "raises pr io_error m \<Longrightarrow> raises pr io_error (ignore_os_error m)"
  unfolding ignore_os_error_def
  by (rule raises_exceptS [where G = io_error]) (auto intro: raises_returnS raises_raiseS)

lemma raises_prod: "(\<And>a b. raises pr E (f a b)) \<Longrightarrow> raises pr E (case x of (a, b) \<Rightarrow> f a b)"
  by (cases x) simp

lemma raises_option:
  "(x = None \<Longrightarrow> raises pr E m) \<Longrightarrow> (\<And>a. x = Some a \<Longrightarrow> raises pr E (f a)) \<Longrightarrow>
     raises pr E (case x of None \<Rightarrow> m | Some a \<Rightarrow> f a)"
  by (cases x) simp_all

lemma raises_sum:
  "(\<And>a. x = Inl a \<Longrightarrow> raises pr E (f a)) \<Longrightarrow> (\<And>a. x = Inr a \<Longrightarrow> raises pr E (g a)) \<Longrightarrow>
     raises pr E (case x of Inl a \<Rightarrow> f a | Inr a \<Rightarrow> g a)"
  by (cases x) simp_all

lemmas raises_intros = raises_returnS raises_bindS raises_finallyS raises_on_disk raises_set_local
  raises_getS raises_ignore raises_prod raises_option raises_sum raises_if raises_calls

lemma raises_stage_file:
  "raises (\<lambda>w. w) io_error (stage_file p data replace :: (nat, 'x disk_scheme) prog)"
proof -
  have "raises fst io_error
      (finallyS (stage_body p data replace) (stage_cleanup p) :: (nat, 'x disk_scheme \<times> stage) prog)"
    unfolding stage_body_def stage_temporary_def fill_temporary_def stage_install_def
      stage_cleanup_def cleanup_stage_def
    by (intro raises_intros)
  then show ?thesis by (simp add: raises_def always_stage_file del: always_finallyS)
qed

lemma raises_fsync_directory: "raises (\<lambda>w. w) io_error fsync_directory"
  unfolding fsync_directory_def by (intro raises_intros)

lemma raises_read_or_none: "raises (\<lambda>w. w) io_error (read_or_none p)"
  unfolding read_or_none_def
  by (rule raises_exceptS [where G = io_error], intro raises_intros)
    (auto intro: raises_returnS raises_raiseS)

lemma io_errorD: "io_error e \<Longrightarrow> \<not> is_os_error e \<Longrightarrow> e = PyException"
  by (simp add: io_error_def)

lemma raises_undo_install: "raises (\<lambda>w. w) (\<lambda>e. e = PyException) (undo_install p previous ino)"
proof -
  have find: "raises (\<lambda>w. w) (\<lambda>e. e = PyException)
     (exceptS (bindS (syscall (os_lstat p)) (\<lambda>ino. returnS (Inr ino)))
        (\<lambda>e. if e = PyFileNotFoundError then returnS (Inl (previous = None))
             else if is_os_error e then returnS (Inl False) else raiseS e))"
    by (rule raises_exceptS [where G = io_error], intro raises_intros)
      (auto intro: raises_returnS raises_raiseS dest: io_errorD)
  have undo: "raises (\<lambda>w. w) (\<lambda>e. e = PyException)
     (exceptS
       (thenS (case previous of
                 None \<Rightarrow> syscall (os_unlink p)
               | Some data \<Rightarrow> bindS (stage_file p data True) (\<lambda>_. returnS ())) (returnS True))
       (\<lambda>e. if e = PyFileNotFoundError then returnS (previous = None)
            else if is_os_error e \<or> is_value_error e \<or> is_wallet_error e then returnS True
            else raiseS e))"
    by (rule raises_exceptS [where G = io_error], intro raises_intros raises_stage_file)
      (auto intro: raises_returnS raises_raiseS dest: io_errorD)
  show ?thesis
    unfolding undo_install_def by (intro raises_intros find undo)
qed

lemma raises_false_on_os_error:
  assumes "raises (\<lambda>w. w) io_error m"
  shows "raises (\<lambda>w. w) (\<lambda>e. e = PyException) (false_on_os_error m)"
  unfolding false_on_os_error_def
  by (rule raises_exceptS [OF assms]) (auto intro: raises_returnS raises_raiseS dest: io_errorD)

lemma raises_restore:
  "raises (\<lambda>w. w) (\<lambda>e. e = PyException) (restore_previous_after_failed_sync p previous ino)"
  unfolding restore_previous_after_failed_sync_def
  by (intro raises_intros raises_undo_install raises_read_or_none raises_fsync_directory
      raises_false_on_os_error)

section \<open>The write as a whole\<close>

lemma previous_content_spec:
  assumes "quiet w"
  shows "always (previous_content q replace)
    (\<lambda>r w'. dk_files w' = dk_files w \<and> (r \<noteq> Killed \<longrightarrow> quiet w')
       \<and> (\<forall>c. r = Ret c \<longrightarrow> c = (if replace then content (dk_files w) q else None))
       \<and> r \<noteq> Raise StorageOutcomeUnknown) w"
proof (cases replace)
  case True
  have read: "always (syscall (os_read_bytes q)) (\<lambda>r w'. case r of
      Ret b \<Rightarrow> dk_files w' = dk_files w \<and> quiet w' \<and> Some b = content (dk_files w) q
    | Raise e \<Rightarrow> dk_files w' = dk_files w \<and> quiet w' \<and> e \<noteq> StorageOutcomeUnknown
    | Killed \<Rightarrow> dk_files w' = dk_files w) w'"
    if "quiet w'" "dk_files w' = dk_files w" for w' :: "'a disk_scheme"
    using that
    by (intro always_syscall) (auto simp: os_read_bytes_def split: option.split)
  show ?thesis
    unfolding previous_content_def path_exists_def if_True wp using True
    apply simp
    apply (rule always_syscall [OF assms])
    subgoal
      apply (auto simp: os_exists_def)
      subgoal for y by (rule always_mono [OF read]) (auto split: outcome.splits)
      subgoal by (simp add: content_def)
      done
    subgoal by (auto simp: is_value_error_def)
    subgoal by simp
    done
next
  case False
  then show ?thesis using assms by (simp add: previous_content_def)
qed

text \<open>A failure that the code recognizes, other than the one that reports an unknown outcome;
  \<^verbatim>\<open>PyException\<close> stands for an exception of no class that storage code handles.\<close>

definition safe_failure :: "unit outcome \<Rightarrow> bool" where
  "safe_failure r \<longleftrightarrow> (\<exists>e. r = Raise e \<and> e \<noteq> StorageOutcomeUnknown \<and> e \<noteq> PyException)"

lemma safe_failure_simps [simp]:
  "\<not> safe_failure (Ret ())" "\<not> safe_failure Killed"
  "safe_failure (Raise e) \<longleftrightarrow> e \<noteq> StorageOutcomeUnknown \<and> e \<noteq> PyException"
  by (simp_all add: safe_failure_def)

text \<open>The outcome of a write.  A write that returns is on disk under the target name; a
  recognized failure of a replacing write left the target as it was; in every other case the
  target has the old content or the new one.\<close>

definition write_outcome :: "files \<Rightarrow> pystr \<Rightarrow> bytes \<Rightarrow> bool \<Rightarrow> unit outcome \<Rightarrow> files \<Rightarrow> bool" where
  "write_outcome fs p data replace r fs' \<longleftrightarrow>
     old_or_new fs p data fs'
     \<and> (r = Ret () \<longrightarrow> content fs' (Path p) = Some data \<and> durable p data fs')
     \<and> (replace \<and> safe_failure r \<longrightarrow> content fs' (Path p) = content fs (Path p))
     \<and> (\<not> replace \<and> fs_names fs (Path p) \<noteq> None \<longrightarrow>
          r \<noteq> Ret () \<and> content fs' (Path p) = content fs (Path p))"


lemma restore_spec:
  assumes "files_ok fs" and "quiet w" and "old_or_new fs p data (dk_files w)"
    and "previous = content fs (Path p)"
  shows "always (restore_previous_after_failed_sync (Path p) previous ino)
    (\<lambda>r w'. old_or_new fs p data (dk_files w')
       \<and> (r = Ret True \<longrightarrow> content (dk_files w') (Path p) = previous)
       \<and> (\<forall>e. r = Raise e \<longrightarrow> e = PyException)) w"
proof -
  obtain r w' where run: "restore_previous_after_failed_sync (Path p) previous ino w = (r, w')"
    by fastforce
  have "old_or_new fs p data (dk_files w')"
    using keepsD [OF keeps_restore [OF assms(1,4)] _ run] assms(2,3) by blast
  moreover have "\<forall>e. r = Raise e \<longrightarrow> e = PyException"
    using raisesD [OF raises_restore _ run] assms(2) by blast
  moreover have "content (dk_files w') (Path p) = previous" if "r = Ret True"
    using restore_True [OF assms(1,4), of data ino] assms(2,3) run that
    unfolding ensures_def by blast
  ultimately show ?thesis by (simp add: always_def run)
qed

lemma sync_or_restore:
  assumes fs: "files_ok fs" and w: "quiet w" "installed fs p ino data (dk_files w)"
    and prev: "previous = content fs (Path p)"
  shows "always
    (exceptS fsync_directory
       (\<lambda>e. if is_os_error e then
              bindS (restore_previous_after_failed_sync (Path p) previous ino) (\<lambda>ok.
              raiseS (if ok then StorageFailure else StorageOutcomeUnknown))
            else raiseS e))
    (\<lambda>r w'. old_or_new fs p data (dk_files w')
       \<and> (r = Ret () \<longrightarrow> content (dk_files w') (Path p) = Some data \<and> durable p data (dk_files w'))
       \<and> (safe_failure r \<longrightarrow> content (dk_files w') (Path p) = content fs (Path p))
       \<and> (\<forall>e. r = Raise e \<longrightarrow> \<not> is_os_error e \<and> \<not> is_value_error e)) w"
proof -
  have new: "old_or_new fs p data (dk_files w)" using installed_old_or_new [OF fs w(2)] .
  have restore: "always (restore_previous_after_failed_sync (Path p) previous ino)
      (\<lambda>r w''. case r of
         Ret ok \<Rightarrow> old_or_new fs p data (dk_files w'')
           \<and> (ok \<longrightarrow> content (dk_files w'') (Path p) = content fs (Path p))
       | Raise e \<Rightarrow> old_or_new fs p data (dk_files w'') \<and> e = PyException
       | Killed \<Rightarrow> old_or_new fs p data (dk_files w'')) w'"
    if "quiet w'" "old_or_new fs p data (dk_files w')" for w' :: "'a disk_scheme"
    by (rule always_mono [OF restore_spec [OF fs that prev]]) (auto simp: prev split: outcome.split)
  show ?thesis
    unfolding always_exceptS
  proof (rule always_mono [OF always_conj [OF fsync_directory_spec [OF w(1)]
          raises_fsync_directory [unfolded raises_def, rule_format, OF w(1)]]], goal_cases)
    case (1 r w')
    then obtain d where d: "dk_files w' = (dk_files w)\<lparr>fs_dir := d\<rparr>" by blast
    have new': "old_or_new fs p data (dk_files w')" using old_or_new_dir [OF new] by (simp add: d)
    show ?case
    proof (cases r)
      case (Ret x)
      then show ?thesis
        using 1 new' w(2) by (auto simp: d installed_def content_def durable_def)
    next
      case (Raise e)
      show ?thesis
      proof (cases "is_os_error e")
        case True
        have "quiet w'" using 1 Raise by simp
        then show ?thesis
          unfolding Raise using True
          by (simp, intro always_mono [OF restore [OF _ new']])
            (auto simp: is_os_error_def is_value_error_def split: outcome.splits if_splits)
      next
        case False
        then have "e = PyException" using 1 Raise io_errorD by auto
        then show ?thesis
          unfolding Raise using new' by (simp add: is_os_error_def is_value_error_def)
      qed
    qed (simp add: new')
  qed
qed

text \<open>The write, every outcome.\<close>

lemma write_outcome_unchanged:
  assumes "files_ok fs" and "unchanged fs fs'" and "r \<noteq> Ret ()"
  shows "write_outcome fs p data replace r fs'"
  using unchanged_old_or_new [OF assms(1,2)] unchanged_content [OF assms(1,2)] assms(3)
  by (simp add: write_outcome_def)

lemma write_outcome_staged:
  assumes "files_ok fs" and "staged fs p data replace fs'" and "r \<noteq> Ret ()"
  shows "write_outcome fs p data replace r fs'"
proof (cases "unchanged fs fs'")
  case True
  then show ?thesis using write_outcome_unchanged assms by blast
next
  case False
  then show ?thesis
    using assms staged_old_or_new [OF assms(1,2)] by (auto simp: staged_def write_outcome_def)
qed

lemma atomic_write_outcome:
  assumes fs: "files_ok fs" and w: "quiet w" "dk_files w = fs"
  shows "always (atomic_write (Path p) data replace)
    (\<lambda>r w'. write_outcome fs p data replace r (dk_files w')) w"
  unfolding atomic_write_def always_bindS
proof (rule always_mono [OF previous_content_spec [OF w(1)]], goal_cases)
  case (1 r w1)
  then have w1: "dk_files w1 = fs" using w(2) by simp
  show ?case
  proof (cases r)
    case (Ret previous)
    have q1: "quiet w1" using 1 Ret by simp
    show ?thesis
      unfolding Ret outcome.case
    proof (subst always_exceptS, subst always_bindS, rule always_mono [OF always_conj [OF stage_file_spec [OF fs q1 w1]
            raises_stage_file [unfolded raises_def, rule_format, OF q1]]], goal_cases)
      case (1 r' w2)
      show ?case
      proof (cases r')
        case (Ret ino)
        then have s: "quiet w2" "installed fs p ino data (dk_files w2)"
          and free: "\<not> replace \<longrightarrow> fs_names fs (Path p) = None" using 1 by simp_all
        have "previous = content fs (Path p)"
          using \<open>r = Ret previous\<close> \<open>dk_files w1 = dk_files w \<and> _\<close> w(2) free
          by (auto simp: content_def)
        from sync_or_restore [OF fs s this] show ?thesis
          unfolding Ret outcome.case
          by (rule always_mono)
            (use free in \<open>auto simp: write_outcome_def split: outcome.split\<close>)
      next
        case (Raise e)
        then show ?thesis
          using 1 write_outcome_staged [OF fs] by simp
      next
        case Killed
        then show ?thesis using 1 write_outcome_staged [OF fs] by simp
      qed
    qed
  qed (use w1 fs in \<open>simp_all add: write_outcome_unchanged unchanged_refl\<close>)
qed

end
