(* ===== verification/Wallet_Facts.thy ===== *)
theory Wallet_Facts
  imports Wallet_Operations Container_Facts Evolution Atomic_Write_Facts Signer_Facts
begin

text \<open>
  Sessions: what locking erases, when a session is expired, and the invariant
  that ties an open session to what its container would reopen to.
\<close>

section \<open>Session access\<close>

lemma run_session [simp]:
  "get_wallet h w = (Ret (w_wallets w ! h), w)"
  "put_wallet h f w = (Ret (), w\<lparr>w_wallets := (w_wallets w)[h := f (w_wallets w ! h)]\<rparr>)"
  "set_secret h a w = (Ret (), w\<lparr>w_wallet_secrets := (w_wallet_secrets w)(h := a)\<rparr>)"
  "set_pending h a w = (Ret (), w\<lparr>w_pending_secrets := (w_pending_secrets w)(h := a)\<rparr>)"
  by (simp_all add: get_wallet_def put_wallet_def set_secret_def set_pending_def)

lemma run_clock [simp]:
  "monotonic_now w = (Ret (w_monotonic w (w_ticks w)), w\<lparr>w_ticks := Suc (w_ticks w)\<rparr>)"
  "time_now w = (Ret (w_time w (w_ticks w)), w\<lparr>w_ticks := Suc (w_ticks w)\<rparr>)"
  by (simp_all add: monotonic_now_def time_now_def)

section \<open>Locking\<close>

definition wiped :: "nat option \<Rightarrow> bytes list \<Rightarrow> bytes list" where
  "wiped a bs = (case a of None \<Rightarrow> bs | Some i \<Rightarrow> bs[i := zero_bytes (length (bs ! i))])"

lemma run_wipe_option [simp]: "wipe_option a w = (Ret (), w\<lparr>w_bufs := wiped a (w_bufs w)\<rparr>)"
  by (cases a) (simp_all add: wipe_option_def wiped_def)

definition drop_caps :: "nat list \<Rightarrow> signer_state \<Rightarrow> signer_state" where
  "drop_caps cs s = foldl (\<lambda>s c. snd (invalidate_unlocked c s)) s cs"

definition locked_wallet :: "wallet \<Rightarrow> wallet" where
  "locked_wallet wa =
     wa\<lparr>wa_capabilities := [], wa_dek := None, wa_payload := [], wa_envelope := []\<rparr>"

lemma run_invalidate_capabilities [simp]:
  "invalidate_capabilities h w =
     (Ret (), w\<lparr>w_signer := drop_caps (wa_capabilities (w_wallets w ! h)) (w_signer w),
               w_wallets := (w_wallets w)[h := (w_wallets w ! h)\<lparr>wa_capabilities := []\<rparr>]\<rparr>)"
  by (simp add: invalidate_capabilities_def bindS_def drop_caps_def)

definition locked_world :: "nat \<Rightarrow> world \<Rightarrow> world" where
  "locked_world h w =
     w\<lparr>w_signer := drop_caps (wa_capabilities (w_wallets w ! h)) (w_signer w),
       w_wallets := (w_wallets w)[h := locked_wallet (w_wallets w ! h)],
       w_wallet_secrets := (w_wallet_secrets w)(h := None),
       w_pending_secrets := (w_pending_secrets w)(h := None),
       w_bufs := wiped (wa_dek (w_wallets w ! h)) (wiped (w_pending_secrets w h)
                   (wiped (w_wallet_secrets w h) (w_bufs w)))\<rparr>"

lemma run_wallet_lock [simp]:
  assumes "h < length (w_wallets w)"
  shows "wallet_lock h w = (Ret (), locked_world h w)"
  using assms by (simp add: wallet_lock_def bindS_def locked_world_def locked_wallet_def del: fun_upd_apply)

text \<open>No secret of the session is left: the three buffers are zero, the tables have no
  entry, and the signing keys of its capabilities are gone.\<close>

definition zeroed :: "bytes \<Rightarrow> bool" where
  "zeroed b \<longleftrightarrow> b = zero_bytes (length b)"

lemma zeroed_zero_bytes [simp]: "zeroed (zero_bytes n)"
  by (simp add: zeroed_def zero_bytes_def)

lemma length_wiped [simp]: "length (wiped a bs) = length bs"
  by (simp add: wiped_def split: option.split)

lemma zeroed_wiped: "i < length bs \<Longrightarrow> zeroed (bs ! i) \<or> a = Some i \<Longrightarrow> zeroed (wiped a bs ! i)"
  by (cases "a = Some i") (auto simp: wiped_def nth_list_update_neq split: option.split,
      metis nth_list_update_neq)

lemma drop_caps_inv:
  assumes "signer_inv P s" and "\<forall>c \<in> set cs. c < length (ss_caps s)"
  shows "signer_inv P (drop_caps cs s)
    \<and> (\<forall>d. live (drop_caps cs s) d \<longleftrightarrow> live s d \<and> d \<notin> set cs)
    \<and> length (ss_caps (drop_caps cs s)) = length (ss_caps s)"
  using assms
proof (induction cs arbitrary: s)
  case (Cons c cs)
  have c: "c < length (ss_caps s)" using Cons.prems(2) by simp
  show ?case
    using Cons.IH [of "snd (invalidate_unlocked c s)"] Cons.prems invalidate_inv [OF Cons.prems(1) c]
    by (auto simp: drop_caps_def)
qed (simp add: drop_caps_def)

text \<open>The capabilities of a session exist.\<close>

definition caps_ok :: "prims \<Rightarrow> nat \<Rightarrow> world \<Rightarrow> bool" where
  "caps_ok P h w \<longleftrightarrow>
     h < length (w_wallets w) \<and> signer_inv P (w_signer w)
     \<and> (\<forall>c \<in> set (wa_capabilities (w_wallets w ! h)). c < length (ss_caps (w_signer w)))"

definition erased :: "nat \<Rightarrow> world \<Rightarrow> world \<Rightarrow> bool" where
  "erased h w w' \<longleftrightarrow>
     (\<forall>i < length (w_bufs w).
        Some i \<in> {wa_dek (w_wallets w ! h), w_wallet_secrets w h, w_pending_secrets w h} \<longrightarrow>
        zeroed (w_bufs w' ! i))
     \<and> w_wallet_secrets w' h = None \<and> w_pending_secrets w' h = None
     \<and> w_wallets w' ! h = locked_wallet (w_wallets w ! h)
     \<and> (\<forall>c \<in> set (wa_capabilities (w_wallets w ! h)).
          \<not> live (w_signer w') c \<and> ss_private_keys (w_signer w') c = None)"

lemma erased_locked_world:
  assumes "caps_ok P h w"
  shows "erased h w (locked_world h w)"
proof -
  let ?s = "drop_caps (wa_capabilities (w_wallets w ! h)) (w_signer w)"
  have "signer_inv P ?s" and "\<forall>c \<in> set (wa_capabilities (w_wallets w ! h)). \<not> live ?s c"
    using drop_caps_inv assms by (auto simp: caps_ok_def)
  then have "\<forall>c \<in> set (wa_capabilities (w_wallets w ! h)). \<not> live ?s c \<and> ss_private_keys ?s c = None"
    by (auto simp: signer_inv_def dom_def)
  then show ?thesis
    using assms by (auto simp: erased_def locked_world_def caps_ok_def intro!: zeroed_wiped)
qed

section \<open>Frames\<close>

text \<open>Steps that touch only the disk, the random source, the clocks and the buffers.\<close>

definition scratch_step :: "world \<Rightarrow> world \<Rightarrow> bool" where
  "scratch_step w w' \<longleftrightarrow>
     w' = w\<lparr>dk_files := dk_files w', dk_faults := dk_faults w', w_draws := w_draws w',
            w_ticks := w_ticks w', w_bufs := w_bufs w'\<rparr>"

lemma scratch_step_refl: "scratch_step w w"
  by (simp add: scratch_step_def)

lemma scratch_step_trans: "scratch_step u v \<Longrightarrow> scratch_step v w \<Longrightarrow> scratch_step u w"
  by (cases u; cases v; cases w) (auto simp: scratch_step_def)

interpretation scr: evolution scratch_step
  using scratch_step_refl scratch_step_trans by unfold_locales blast+

lemma scratch_stepD:
  assumes "scratch_step w w'"
  shows "w_auth_failures w' = w_auth_failures w" "w_sleeps w' = w_sleeps w" "w_wallets w' = w_wallets w"
    "w_wallet_secrets w' = w_wallet_secrets w" "w_pending_secrets w' = w_pending_secrets w"
    "w_signer w' = w_signer w" "w_rotation w' = w_rotation w" "w_random w' = w_random w"
    "w_recursion_limit w' = w_recursion_limit w"
  using assms by (cases w; cases w'; simp add: scratch_step_def)+

lemma disk_step_scratch: "disk_step w w' \<Longrightarrow> scratch_step w w'"
  by (cases w; cases w') (auto simp: disk_step_def scratch_step_def)

lemma evolves_calls:
  "evolves scratch_step (token_bytes n)" "evolves scratch_step monotonic_now"
  "evolves scratch_step time_now" "evolves scratch_step (new_buffer b)"
  "evolves scratch_step (read_buffer a)" "evolves scratch_step (wipe_buffer a)"
  "evolves scratch_step (wipe_option x)"
  by (auto simp: evolves_def scratch_step_def)

lemma evolves_disk_calls:
  "evolves scratch_step (syscall op)" "evolves scratch_step (atomic_write path data replace)"
  by (rule evolves_mono [OF evolves_syscall], erule disk_step_scratch)
    (rule evolves_mono [OF evolves_atomic_write], erule disk_step_scratch)

lemmas scratch_frames = evolves_calls evolves_disk_calls scr.evo_intros

lemma evolves_container:
  "evolves scratch_step (derive_kek P password salt)"
  "evolves scratch_step (make_payload P dek payload version)"
  "evolves scratch_step (wrap_dek P kek dek kdf version)"
  "evolves scratch_step (decode_payload P envelope dek version)"
  "evolves scratch_step (read_container path)"
  unfolding derive_kek_def make_payload_def wrap_dek_def seal_def decode_payload_def read_container_def
    Let_def
  by (intro scratch_frames)+

lemma evolves_unlock_envelope: "evolves scratch_step (unlock_envelope P envelope password version)"
  unfolding unlock_envelope_def by (intro scratch_frames evolves_container)

lemma evolves_build_v2_envelope: "evolves scratch_step (build_v2_envelope P password dek kdf payload)"
  unfolding build_v2_envelope_def by (intro scratch_frames evolves_container)

section \<open>Failed attempts\<close>

definition failures :: "pystr \<Rightarrow> world \<Rightarrow> nat" where
  "failures path w = (case w_auth_failures w path of None \<Rightarrow> 0 | Some n \<Rightarrow> n)"

lemma unlock_counted_failed:
  assumes "unlock_counted P path envelope password version w = (Raise UnlockFailed, w')"
  shows "w_auth_failures w' = (w_auth_failures w)(path \<mapsto> min (Suc (failures path w)) 32)"
    and "w_sleeps w' = w_sleeps w @ [unlock_delay (Suc (failures path w))]"
proof -
  obtain r w1 where run: "unlock_envelope P envelope password version w = (r, w1)" by fastforce
  note frame = scratch_stepD [OF evolvesD [OF evolves_unlock_envelope run]]
  have r: "r = Raise UnlockFailed"
    using assms run
    by (cases r) (auto simp: unlock_counted_def bindS_def exceptS_def clear_unlock_failures_def
        split: if_splits prod.splits outcome.splits)
  show "w_auth_failures w' = (w_auth_failures w)(path \<mapsto> min (Suc (failures path w)) 32)"
    "w_sleeps w' = w_sleeps w @ [unlock_delay (Suc (failures path w))]"
    using assms run frame unfolding r
    by (auto simp: unlock_counted_def bindS_def exceptS_def record_unlock_failure_def Let_def
        failures_def)
qed

lemma unlock_counted_succeeds:
  assumes "unlock_counted P path envelope password version w = (Ret r, w')"
  shows "w_auth_failures w' = (w_auth_failures w)(path := None)" and "w_sleeps w' = w_sleeps w"
proof -
  obtain q w1 where run: "unlock_envelope P envelope password version w = (q, w1)" by fastforce
  note frame = scratch_stepD [OF evolvesD [OF evolves_unlock_envelope run]]
  show "w_auth_failures w' = (w_auth_failures w)(path := None)" "w_sleeps w' = w_sleeps w"
    using assms run frame
    by (cases q; auto simp: unlock_counted_def bindS_def exceptS_def clear_unlock_failures_def
        split: if_splits prod.splits outcome.splits)+
qed

text \<open>Unlock attempts on one path that all fail, with reads and writes between them.\<close>

inductive failed_unlocks :: "prims \<Rightarrow> pystr \<Rightarrow> nat \<Rightarrow> world \<Rightarrow> world \<Rightarrow> bool" for P path where
  none_failed: "failed_unlocks P path 0 w w"
| one_more: "failed_unlocks P path n w w1 \<Longrightarrow> scratch_step w1 w2 \<Longrightarrow>
     unlock_counted P path envelope password version w2 = (Raise UnlockFailed, w3) \<Longrightarrow>
     failed_unlocks P path (Suc n) w w3"

lemma unlock_delay_saturates: "unlock_delay (Suc (min n 32)) = unlock_delay (Suc n)"
  by (simp add: unlock_delay_def min_def)

lemma unlock_delay_bounds: "1 / 20 \<le> unlock_delay n" "unlock_delay n \<le> 1 / 2"
  by (simp_all add: unlock_delay_def MAX_AUTH_DELAY_SECONDS_def)

lemma unlock_delay_mono: "m \<le> n \<Longrightarrow> unlock_delay m \<le> unlock_delay n"
  unfolding unlock_delay_def
  by (intro min.mono mult_left_mono power_increasing diff_le_mono order_refl) simp_all

lemma failed_unlocks_count:
  assumes "failed_unlocks P path n w w'" and "w_auth_failures w path = None"
  shows "failures path w' = min n 32
    \<and> w_sleeps w' = w_sleeps w @ map unlock_delay [1..<Suc n]"
  using assms
proof (induction rule: failed_unlocks.induct)
  case (none_failed w)
  then show ?case by (simp add: failures_def)
next
  case (one_more n w w1 w2 envelope password version w3)
  have same: "failures path w2 = min n 32" "w_sleeps w2 = w_sleeps w @ map unlock_delay [1..<Suc n]"
    using one_more scratch_stepD(1,2) [OF one_more.hyps(2)] by (simp_all add: failures_def)
  have "failures path w3 = min (Suc n) 32"
    using unlock_counted_failed(1) [OF one_more.hyps(3)] unfolding same by (simp add: failures_def)
  then show ?case
    using unlock_counted_failed(2) [OF one_more.hyps(3)] unlock_delay_saturates [of n]
    by (simp add: same)
qed

end
