(* ===== verification/Session_Calls.thy ===== *)
theory Session_Calls
  imports Wallet_Facts
begin

text \<open>
  The operations of a session as calls, and the checks every one of them
  starts with: a locked or expired session refuses, and so does a session
  with a stored dispatch intent where the key must not change.
\<close>

text \<open>The answer of a consent callback is a value or an exception.\<close>

datatype session_call =
    UpdatePayload pyval
  | ExportContainer
  | ChangePassword pyval pyval
  | PublicKey
  | CreateSigner "rat option"
  | DispatchIntent
  | PendingPublicKey
  | PrepareRotation
  | ProveRotation "identity_draft option"
  | LatchRotation "identity_bundle option" "rotation_publication option"
  | BindLegacy pyval "pyval res option"
  | FinalizeRotation "rotation_confirmation option"
  | ResolveRejection "rotation_rejection option"
  | CancelRotation

fun run_call :: "prims \<Rightarrow> nat \<Rightarrow> session_call \<Rightarrow> (unit, world) prog" where
  "run_call P h (UpdatePayload v) = update_payload P h v"
| "run_call P h ExportContainer = bindS (export_container h) (\<lambda>_. returnS ())"
| "run_call P h (ChangePassword p c) = change_password P h p c"
| "run_call P h PublicKey = bindS (wallet_public_key P h) (\<lambda>_. returnS ())"
| "run_call P h (CreateSigner t) = bindS (create_signer P h t) (\<lambda>_. returnS ())"
| "run_call P h DispatchIntent = bindS (dispatch_intent h) (\<lambda>_. returnS ())"
| "run_call P h PendingPublicKey = bindS (pending_signing_public_key P h) (\<lambda>_. returnS ())"
| "run_call P h PrepareRotation = bindS (prepare_signing_key_rotation P h) (\<lambda>_. returnS ())"
| "run_call P h (ProveRotation d) = prove_pending_signing_key_rotation P h d"
| "run_call P h (LatchRotation b p) = bindS (latch_rotation P h b p) (\<lambda>_. returnS ())"
| "run_call P h (BindLegacy e answer) =
     bindS (bind_legacy_environment P h e (map_option (\<lambda>r _ _. liftS r) answer)) (\<lambda>_. returnS ())"
| "run_call P h (FinalizeRotation c) = bindS (finalize_signing_key_rotation P h c) (\<lambda>_. returnS ())"
| "run_call P h (ResolveRejection r) = resolve_rotation_rejection P h r"
| "run_call P h CancelRotation = cancel_signing_key_rotation P h"

lemma bindS_assoc: "bindS (bindS m f) g = bindS m (\<lambda>x. bindS (f x) g)"
  by (rule ext) (simp add: bindS_def split: prod.split outcome.split)

lemma call_starts_with_touch: "\<exists>k. run_call P h c = thenS (touch h) k"
  by (cases c)
    (simp_all only: run_call.simps update_payload_def export_container_def change_password_def
      wallet_public_key_def create_signer_def dispatch_intent_def pending_signing_public_key_def
      prepare_signing_key_rotation_def prove_pending_signing_key_rotation_def latch_rotation_def
      bind_legacy_environment_def finalize_signing_key_rotation_def resolve_rotation_rejection_def
      cancel_signing_key_rotation_def bindS_assoc, blast+)

text \<open>The calls that need a session without a stored dispatch intent.\<close>

fun needs_unlatched :: "session_call \<Rightarrow> bool" where
  "needs_unlatched (CreateSigner t) = True"
| "needs_unlatched PrepareRotation = True"
| "needs_unlatched (ProveRotation d) = True"
| "needs_unlatched (LatchRotation b p) = True"
| "needs_unlatched CancelRotation = True"
| "needs_unlatched _ = False"

lemma call_checks_latch:
  "needs_unlatched c \<Longrightarrow> \<exists>k. run_call P h c = thenS (touch h) (thenS (ensure_not_latched h) k)"
  by (cases c)
    (simp_all only: run_call.simps create_signer_def needs_unlatched.simps
      prepare_signing_key_rotation_def prove_pending_signing_key_rotation_def latch_rotation_def
      cancel_signing_key_rotation_def bindS_assoc, blast+)

section \<open>Touching a session\<close>

definition expired :: "nat \<Rightarrow> world \<Rightarrow> bool" where
  "expired h w \<longleftrightarrow>
     wa_inactivity_seconds (w_wallets w ! h)
       \<le> w_monotonic w (w_ticks w) - wa_last_activity (w_wallets w ! h)"

definition touched :: "nat \<Rightarrow> world \<Rightarrow> world" where
  "touched h w =
     w\<lparr>w_ticks := w_ticks w + 2,
       w_wallets := (w_wallets w)[h := (w_wallets w ! h)
         \<lparr>wa_last_activity := w_monotonic w (Suc (w_ticks w))\<rparr>]\<rparr>"

lemma run_touch:
  assumes "h < length (w_wallets w)"
  shows "touch h w =
    (if wa_dek (w_wallets w ! h) = None then (Raise WalletLockedError, w)
     else if expired h w then (Raise WalletLockedError, locked_world h (w\<lparr>w_ticks := Suc (w_ticks w)\<rparr>))
     else (Ret (), touched h w))"
  using assms
  by (auto simp: touch_def require_unlocked_def check_inactivity_def is_unlocked_def bindS_def
      expired_def touched_def split: option.splits)

lemma run_call_refused:
  assumes "h < length (w_wallets w)" and "wa_dek (w_wallets w ! h) = None \<or> expired h w"
  shows "run_call P h c w =
    (Raise WalletLockedError,
     if wa_dek (w_wallets w ! h) = None then w else locked_world h (w\<lparr>w_ticks := Suc (w_ticks w)\<rparr>))"
proof -
  obtain k where "run_call P h c = thenS (touch h) k" using call_starts_with_touch by blast
  then show ?thesis using assms by (auto simp: bindS_def run_touch)
qed

lemma run_call_latched:
  assumes "h < length (w_wallets w)" and "wa_dek (w_wallets w ! h) \<noteq> None" and "\<not> expired h w"
    and "pykey ''rotation_dispatch_intent'' \<in> dkeys (wa_payload (w_wallets w ! h))"
    and "needs_unlatched c"
  shows "run_call P h c w = (Raise RotationInProgress, touched h w)"
proof -
  obtain k where "run_call P h c = thenS (touch h) (thenS (ensure_not_latched h) k)"
    using call_checks_latch [OF assms(5)] by blast
  then show ?thesis
    using assms(1-4) by (simp add: bindS_def run_touch ensure_not_latched_def) (simp add: touched_def)
qed

end
