(* ===== verification/Wallet_Properties.thy ===== *)
theory Wallet_Properties
  imports Session_Calls Cbor_Reference
begin

text \<open>
  Properties of wallet sessions: erasure, refusal of locked, expired and
  latched sessions, and the throttling of failed unlock attempts.
\<close>

section \<open>A concrete session\<close>

definition demo_session :: wallet where
  "demo_session =
     \<lparr>wa_path = [97], wa_dek = Some 0,
      wa_payload = [(pykey ''rotation_dispatch_intent'', PyNone)], wa_envelope = [],
      wa_capabilities = [0], wa_inactivity_seconds = 60, wa_last_activity = 0\<rparr>"

text \<open>A world with one session, whose capability is live; \<open>now\<close> is the time of every reading of
  the clocks.\<close>

definition demo_signer :: signer_state where
  "demo_signer =
     \<lparr>ss_private_keys = [0 \<mapsto> replicate 32 1],
      ss_caps = [\<lparr>cap_handle = Some 0, cap_public_key = the (ed25519_public demo_prims (replicate 32 1)),
                  cap_expires_at = 60, cap_active = True, cap_on_invalidate = True, cap_timer = True\<rparr>]\<rparr>"

definition demo_world :: "rat \<Rightarrow> world" where
  "demo_world now =
     \<lparr>dk_files = \<lparr>fs_names = Map.empty, fs_data = (\<lambda>_. []), fs_next = 0, fs_synced = {}, fs_dir = Map.empty\<rparr>,
      dk_faults = [], w_random = (\<lambda>i n. replicate n (of_nat i)), w_draws = 0, w_approved_csrng = True,
      w_monotonic = (\<lambda>_. now), w_time = (\<lambda>_. 1000), w_ticks = 0, w_recursion_limit = 100,
      w_bufs = [replicate 32 7, replicate 32 1, replicate 32 2], w_auth_failures = Map.empty,
      w_sleeps = [], w_wallet_secrets = [0 \<mapsto> 1], w_pending_secrets = [0 \<mapsto> 2],
      w_signer = demo_signer, w_wallets = [demo_session],
      w_rotation = \<lparr>rs_latches = (\<lambda>_. Map.empty), rs_consumed = {}, rs_claimed = {}\<rparr>\<rparr>"

lemma demo_world_fields [simp]:
  "w_wallets (demo_world now) = [demo_session]" "length (w_bufs (demo_world now)) = 3"
  "w_wallet_secrets (demo_world now) = [0 \<mapsto> 1]" "w_monotonic (demo_world now) i = now"
  "wa_dek demo_session = Some 0" "wa_capabilities demo_session = [0]"
  by (simp_all add: demo_world_def demo_session_def)

lemma demo_signer_inv: "signer_inv demo_prims demo_signer"
  by (auto simp: signer_inv_def demo_signer_def live_def cap_at_def demo_prims_def split: if_splits)

lemma demo_caps_ok: "caps_ok demo_prims 0 (demo_world now)"
  using demo_signer_inv
  by (simp add: caps_ok_def demo_world_def demo_session_def) (simp add: demo_signer_def)

section \<open>Erasure\<close>

lemma erased_buffers:
  "erased h w w' \<Longrightarrow> wa_dek (w_wallets w ! h) = Some i \<Longrightarrow> i < length (w_bufs w) \<Longrightarrow> zeroed (w_bufs w' ! i)"
  "erased h w w' \<Longrightarrow> w_wallet_secrets w h = Some i \<Longrightarrow> i < length (w_bufs w) \<Longrightarrow> zeroed (w_bufs w' ! i)"
  by (auto simp: erased_def)

text \<open>
  C16. Locking erases a session: afterwards the buffers of the data-encryption
  key, of the active seed and of the pending seed hold only zeros, both secret
  tables have no entry for the session, its payload and envelope are empty,
  and every signing capability it gave out is dead with its private key
  removed from the signer's table.
\<close>

theorem lock_erases_session:
  assumes "caps_ok P h w"
  shows "\<exists>w'. wallet_lock h w = (Ret (), w') \<and> erased h w w'"
  using erased_locked_world [OF assms] assms by (simp add: caps_ok_def)

theorem lock_erases_session_witness:
  "zeroed (w_bufs (snd (wallet_lock 0 (demo_world 0))) ! 1)
   \<and> w_wallet_secrets (snd (wallet_lock 0 (demo_world 0))) 0 = None
   \<and> \<not> live (w_signer (snd (wallet_lock 0 (demo_world 0)))) 0"
proof -
  obtain w' where w': "wallet_lock 0 (demo_world 0) = (Ret (), w')" "erased 0 (demo_world 0) w'"
    using lock_erases_session [OF demo_caps_ok] by blast
  from w'(2) have "w_wallet_secrets w' 0 = None \<and> \<not> live (w_signer w') 0" by (simp add: erased_def)
  with erased_buffers(2) [OF w'(2), of 1] w'(1) show ?thesis by simp
qed

section \<open>Refusals\<close>



text \<open>
  C31. While a dispatch intent is stored, the operations that would use or change
  the signing key (a new signer, preparing, proving, latching and cancelling a
  rotation) raise \<^verbatim>\<open>RotationInProgress\<close> and change nothing but the time of the
  last activity: no secret, no file, no envelope, no capability.
\<close>

theorem latched_session_refuses:
  assumes "h < length (w_wallets w)" and "wa_dek (w_wallets w ! h) \<noteq> None" and "\<not> expired h w"
    and "pykey ''rotation_dispatch_intent'' \<in> dkeys (wa_payload (w_wallets w ! h))"
    and "needs_unlatched c"
  shows "run_call P h c w =
    (Raise RotationInProgress,
     w\<lparr>w_ticks := w_ticks w + 2,
       w_wallets := (w_wallets w)[h := (w_wallets w ! h)
         \<lparr>wa_last_activity := w_monotonic w (Suc (w_ticks w))\<rparr>]\<rparr>)"
  using run_call_latched [OF assms] by (simp add: touched_def)

theorem latched_session_refuses_witness:
  "fst (run_call demo_prims 0 CancelRotation (demo_world 59)) = Raise RotationInProgress"
  using latched_session_refuses [of 0 "demo_world 59" CancelRotation demo_prims]
  by (simp add: expired_def demo_session_def dkeys_def del: run_call.simps)

section \<open>Throttling\<close>

text \<open>
  C32. Failed unlock attempts are throttled: the \<open>k\<close>-th failure in a row on a path
  sleeps for a delay that grows with \<open>k\<close>, is at least 50 milliseconds and at
  most half a second, and the stored count saturates at 32 without weakening
  the delay.
\<close>

theorem failed_unlocks_are_throttled:
  assumes "failed_unlocks P path n w w'" and "w_auth_failures w path = None"
  shows "w_sleeps w' = w_sleeps w @ map unlock_delay [1..<Suc n]
    \<and> failures path w' = min n 32
    \<and> (\<forall>k. 1 / 20 \<le> unlock_delay k \<and> unlock_delay k \<le> 1 / 2 \<and> unlock_delay k \<le> unlock_delay (Suc k))"
  using failed_unlocks_count [OF assms] unlock_delay_bounds unlock_delay_mono [of _ "Suc _"] by auto

text \<open>A password with a lone surrogate cannot be encoded, so unlocking fails.\<close>

lemma demo_failed_unlock:
  "\<exists>w'. failed_unlocks demo_prims [97] 1 (demo_world 0) w'"
proof -
  define salt :: bytes where "salt = replicate 16 0"
  have len: "length salt = SALT_LENGTH" by (simp add: salt_def SALT_LENGTH_def)
  define env where "env = [(pykey ''kdf'', PyDict (kdf_header salt))]"
  have item: "dget_none (sub_dict env ''kdf'') (pykey ''salt'') = PyStr (b64_encode salt)"
    by (simp add: env_def sub_dict_def dget_none_def kdf_header_def)
  define pw :: pystr where "pw = [0xD800]"
  have pw: "utf8_encode pw = None" by (simp add: pw_def utf8_encode_char_def is_surrogate_def)
  have "fst (unlock_counted demo_prims [97] env pw 2 (demo_world 0)) = Raise UnlockFailed"
    by (simp add: unlock_counted_def unlock_envelope_def bindS_def exceptS_def derive_kek_def item pw
        b64_decode_encode_value(2) [OF len] record_unlock_failure_def)
  then have "unlock_counted demo_prims [97] env pw 2 (demo_world 0) =
      (Raise UnlockFailed, snd (unlock_counted demo_prims [97] env pw 2 (demo_world 0)))"
    by (metis prod.collapse)
  from one_more [OF none_failed scratch_step_refl this] show ?thesis by auto
qed

theorem failed_unlocks_are_throttled_witness:
  "\<exists>w'. failed_unlocks demo_prims [97] 1 (demo_world 0) w' \<and> w_sleeps w' = [1 / 20]"
proof -
  obtain w' where w': "failed_unlocks demo_prims [97] 1 (demo_world 0) w'"
    using demo_failed_unlock by blast
  moreover have "w_auth_failures (demo_world 0) [97] = None" "w_sleeps (demo_world 0) = []"
    by (simp_all add: demo_world_def)
  ultimately show ?thesis
    using failed_unlocks_are_throttled [OF w'] by (auto simp: unlock_delay_def MAX_AUTH_DELAY_SECONDS_def)
qed

end
