(* ===== verification/Demo_Registry.thy ===== *)
theory Demo_Registry
  imports Registry_Reading Registry_Rotation_Facts Demo_Identity Wallet_Properties
begin

text \<open>
  A registry in memory and an adapter over it, which the witnesses of the
  adapter theorems run: one owner, the envelope that is current and an archive by
  state hash.
\<close>

record demo_net =
  dn_current :: "bytes option"
  dn_archive :: "bytes \<Rightarrow> bytes option"
  dn_fetches :: nat

definition demo_transport :: "demo_net transport" where
  "demo_transport =
     \<lparr>tr_get = (\<lambda>_ n. (Ret (optional_bytes (dn_current n)), n)),
      tr_get_by_hash = (\<lambda>_ h n. (Ret (optional_bytes (dn_archive n h)), n\<lparr>dn_fetches := Suc (dn_fetches n)\<rparr>)),
      tr_get_remote = (\<lambda>_ n. (Ret (optional_bytes (dn_current n)), n)),
      tr_put = (\<lambda>c n. (Ret (), n\<lparr>dn_current := Some (put_envelope_cbor c)\<rparr>)),
      tr_registry_environment = (\<lambda>_. Inr None), tr_supports_rotation = (\<lambda>_. Inr (PyBool True)),
      tr_remote_callable = (\<lambda>_. Inr True)\<rparr>"

definition demo_adapter :: "demo_net adapter" where
  "demo_adapter =
     \<lparr>ad_transport = demo_transport, ad_replay = None, ad_registry_environment = Some (str_of ''main''),
      ad_token = 0\<rparr>"

definition demo_state :: "demo_net \<Rightarrow> demo_net adapter_world" where
  "demo_state n =
     \<lparr>aw_world = demo_world 0, aw_net = n, aw_replay = {}, aw_objects = 0, aw_puts = []\<rparr>"

definition demo_empty :: demo_net where
  "demo_empty = \<lparr>dn_current = None, dn_archive = (\<lambda>_. None), dn_fetches = 0\<rparr>"

definition demo_consent :: "demo_net consent_handler" where
  "demo_consent t = returnS (pykey ''approved'')"

definition demo_cargs :: consent_args where
  "demo_cargs =
     \<lparr>ca_authenticated_origin = PyStr [97], ca_environment = PyStr [98], ca_purpose = PyStr [99],
      ca_capability = PyStr [97], ca_expires_at = PyInt 2000, ca_replay_nonce = PyBytes [1]\<rparr>"

lemma demo_transport_serves: "serves demo_transport (\<lambda>n _. dn_current n) (\<lambda>n _ h. dn_archive n h)"
  by (simp add: serves_def demo_transport_def)

lemma demo_consent_quiet: "evolves no_write (demo_consent t)"
  by (simp add: demo_consent_def quiet_write.evo_pure)

section \<open>The genesis, published\<close>

lemma demo_genesis_draft:
  "draft_authorization demo_prims (bd_draft demo_genesis_bundle) = Inr (Some (demo_auth 1 (zero_bytes 32)))"
  "draft_owner_name demo_prims (bd_draft demo_genesis_bundle) = Inr (PyBytes demo_name)"
  "draft_sequence demo_prims (bd_draft demo_genesis_bundle) = Inr 1"
  "draft_previous_state demo_prims (bd_draft demo_genesis_bundle) = Inr None"
  by (simp_all add: draft_authorization_def draft_owner_name_def draft_sequence_def
      draft_previous_state_def demo_genesis_bundle_def demo_genesis_decode dget_none_def
      parse_previous_state_chain_def optional_bytes_def)

lemma demo_envelope_nonempty: "length u < 2 ^ 64 \<Longrightarrow> demo_envelope u \<noteq> []"
  unfolding demo_envelope_def by (rule cbor_enc_nonempty) (rule demo_outer_plain)

definition demo_transcript :: consent_transcript where
  "demo_transcript =
     \<lparr>ct_authenticated_origin = [97], ct_environment = [98], ct_operation = str_of ''genesis'',
      ct_payload_hash = sha256 (demo_envelope demo_genesis), ct_purpose = [99],
      ct_capability = [97], ct_expires_at = 2000, ct_replay_nonce = [1], ct_sequence = 1,
      ct_generation = Some 1, ct_review_payload = demo_envelope demo_genesis, ct_signer_id = None,
      ct_signer_public_key = None\<rparr>"

lemma demo_make_transcript:
  "make_transcript demo_cargs (pykey (draft_operation (Some (demo_auth 1 (zero_bytes 32)))))
     (sha256 (demo_envelope demo_genesis)) 1 (Some 1) (demo_envelope demo_genesis) PyNone None
   = Inr demo_transcript"
  by (simp add: make_transcript_def demo_cargs_def require_text_def require_uint_def
      require_bytes_def draft_operation_def operation_name_def demo_auth_def demo_transcript_def
      demo_envelope_nonempty [OF demo_genesis_length] str_of_def)


lemma demo_read_empty:
  assumes "\<And>hex. tr_get (ad_transport A) hex (aw_net w) = (Ret PyNone, aw_net w)"
  shows "read_state demo_prims A (PyBytes demo_name) w = (Ret None, w)"
proof -
  have "demo_name \<noteq> []" by (simp add: demo_name_def)
  with assms show ?thesis
    by (simp add: read_state_def validate_owner_name_def bindS_def exceptS_def on_net_def raise_if_def)
qed

lemma demo_get_empty:
  "dn_current n = None \<Longrightarrow> tr_get (ad_transport demo_adapter) hex n = (Ret PyNone, n)"
  by (simp add: demo_adapter_def demo_transport_def optional_bytes_def)

lemma demo_not_latched: "owner_latched A name (demo_state n) = (Ret False, demo_state n)"
  by (simp add: owner_latched_def is_owner_latched_def demo_state_def demo_world_def)

definition demo_tick :: "demo_net adapter_world \<Rightarrow> demo_net adapter_world" where
  "demo_tick w = w\<lparr>aw_world := (aw_world w)\<lparr>w_ticks := Suc (w_ticks (aw_world w))\<rparr>\<rparr>"

definition demo_key_of :: bytes where
  "demo_key_of = sha256 (cbor_enc (PyDict [(PyInt 1, PyBytes demo_name), (PyInt 2, PyStr [97]),
     (PyInt 3, PyStr [98]), (PyInt 4, PyBytes [1])]))"

lemma demo_replay_key: "replay_key demo_prims demo_name [97] [98] [1] = Inr demo_key_of"
  by (simp add: replay_key_def canonical_def demo_name_def demo_key_of_def)

lemma demo_expired_at:
  "w_time (aw_world w) = w_time (demo_world 0) \<Longrightarrow> expired_at 2000 w = (Ret False, demo_tick w)"
  by (simp add: run_expired_at demo_tick_def) (simp add: demo_world_def)

lemma demo_gate:
  assumes "aw_replay w = {}" and "w_time (aw_world w) = w_time (demo_world 0)" and "ad_replay A = None"
  shows "consent_gate demo_prims A demo_name demo_transcript demo_consent w
    = (Ret None, demo_tick (demo_tick (w\<lparr>aw_replay := {demo_key_of}\<rparr>)))"
proof -
  have "reserve_replay_nonce demo_prims A demo_name demo_transcript w
      = (Ret True, w\<lparr>aw_replay := {demo_key_of}\<rparr>)"
    using assms(1, 3) demo_replay_key
    by (simp add: reserve_replay_nonce_def demo_transcript_def bindS_def replay_consume_def
        memory_consume_def)
  moreover have "ct_expires_at demo_transcript = 2000" by (simp add: demo_transcript_def)
  moreover have "expired_at 2000 (w\<lparr>aw_replay := {demo_key_of}\<rparr>)
      = (Ret False, demo_tick (w\<lparr>aw_replay := {demo_key_of}\<rparr>))"
    using assms(2) by (intro demo_expired_at) simp
  moreover have "expired_at 2000 (demo_tick (w\<lparr>aw_replay := {demo_key_of}\<rparr>))
      = (Ret False, demo_tick (demo_tick (w\<lparr>aw_replay := {demo_key_of}\<rparr>)))"
    using assms(2) by (intro demo_expired_at) (simp add: demo_tick_def)
  ultimately show ?thesis
    by (simp add: consent_gate_def ask_consent_def bindS_def exceptS_def demo_consent_def)
qed

text \<open>The state in which the genesis is approved, and what then follows.\<close>

definition demo_approved :: "demo_net adapter_world" where
  "demo_approved = demo_tick (demo_tick ((demo_state demo_empty)\<lparr>aw_replay := {demo_key_of}\<rparr>))"

lemma demo_approved_fields:
  "aw_net demo_approved = demo_empty" "w_time (aw_world demo_approved) = w_time (demo_world 0)"
  "aw_puts demo_approved = []" "rs_latches (w_rotation (aw_world (demo_tick demo_approved))) t = Map.empty"
  "aw_net (demo_tick demo_approved) = demo_empty" "aw_puts (demo_tick demo_approved) = []"
  by (simp_all add: demo_approved_def demo_tick_def demo_state_def demo_world_def)

lemma demo_publish_approved:
  assumes "\<And>hex. tr_get (ad_transport A) hex demo_empty = (Ret PyNone, demo_empty)"
    and "ad_replay A = None"
  shows "publish_bundle demo_prims A (Some demo_genesis_bundle) demo_consent demo_cargs
      (demo_state demo_empty)
    = publish_consented demo_prims A demo_name (demo_envelope demo_genesis) None 2000 demo_approved"
proof -
  have gate: "consent_gate demo_prims A demo_name demo_transcript demo_consent
      (demo_state demo_empty) = (Ret None, demo_approved)"
    unfolding demo_approved_def by (rule demo_gate) (simp_all add: demo_state_def assms(2))
  have epoch: "au_epoch (demo_auth 1 (zero_bytes 32)) = 1"
      and ex: "ct_expires_at demo_transcript = 2000"
    by (simp_all add: demo_auth_def demo_transcript_def)
  have "read_state demo_prims A (PyBytes demo_name) (demo_state demo_empty)
      = (Ret None, demo_state demo_empty)"
    using assms(1) by (intro demo_read_empty) (simp add: demo_state_def)
  moreover have "\<not> is_rotation (Some (demo_auth 1 (zero_bytes 32)))" "bd_proofs demo_genesis_bundle \<noteq> []"
    by (simp_all add: is_rotation_def demo_auth_def demo_genesis_bundle_def demo_proofs_def)
  ultimately show ?thesis
    using gate demo_make_transcript demo_not_latched
    by (simp add: publish_bundle_def demo_genesis_draft demo_genesis_finalize bindS_def
        bytes_of_def same_state_def epoch ex)
qed

lemma demo_publish_put:
  assumes "\<And>hex. tr_get (ad_transport A) hex demo_empty = (Ret PyNone, demo_empty)"
  shows "publish_consented demo_prims A demo_name (demo_envelope demo_genesis) None 2000 demo_approved
    = bindS (try_put A (make_put demo_name (demo_envelope demo_genesis) None 2000)) (\<lambda>outcome.
        case outcome of
          PutStale \<Rightarrow> returnS (publication_refused STALE (Some (demo_envelope demo_genesis))
            ''conditional publication rejected'')
        | PutExpired \<Rightarrow> returnS (publication_refused EXPIRED (Some (demo_envelope demo_genesis))
            ''consent expired'')
        | PutUnclear \<Rightarrow> confirm_publication demo_prims A demo_name (demo_envelope demo_genesis) None
            ''independent readback did not confirm dispatch''
        | PutDone \<Rightarrow> confirm_publication demo_prims A demo_name (demo_envelope demo_genesis) None
            ''readback did not confirm exact envelope'') (demo_tick demo_approved)"
proof -
  have "read_state demo_prims A (PyBytes demo_name) demo_approved = (Ret None, demo_approved)"
    using assms by (intro demo_read_empty) (simp add: demo_approved_fields)
  moreover have "expired_at 2000 demo_approved = (Ret False, demo_tick demo_approved)"
    by (rule demo_expired_at) (simp add: demo_approved_fields)
  moreover have "owner_latched A demo_name (demo_tick demo_approved) = (Ret False, demo_tick demo_approved)"
    by (simp add: owner_latched_def is_owner_latched_def demo_approved_fields)
  ultimately show ?thesis
    by (simp add: publish_consented_def same_state_def bindS_def)
qed

text \<open>The write of the genesis.\<close>

definition demo_put :: put_call where
  "demo_put = make_put demo_name (demo_envelope demo_genesis) None 2000"

lemma demo_publish:
  "\<exists>st w'. publish_bundle demo_prims demo_adapter (Some demo_genesis_bundle) demo_consent demo_cargs
     (demo_state demo_empty)
   = (Ret \<lparr>pr_status = CONFIRMED, pr_envelope_bytes = Some (demo_envelope demo_genesis),
          pr_accepted_state = Some st, pr_reason = None, pr_publication = None\<rparr>, w')
   \<and> aw_puts w' = [demo_put]"
proof -
  define w2 where "w2 = (demo_tick demo_approved)\<lparr>aw_puts := [demo_put],
    aw_net := demo_empty\<lparr>dn_current := Some (demo_envelope demo_genesis)\<rparr>\<rparr>"
  have get: "tr_get (ad_transport demo_adapter) hex demo_empty = (Ret PyNone, demo_empty)" for hex
    by (rule demo_get_empty) (simp add: demo_empty_def)
  have put: "try_put demo_adapter demo_put (demo_tick demo_approved) = (Ret PutDone, w2)"
    by (simp add: try_put_def transport_put_def exceptS_def bindS_def on_net_def demo_adapter_def
        demo_transport_def w2_def demo_approved_fields demo_put_def make_put_def)
  obtain st where st: "parse_identity_envelope demo_prims demo_name
      (PyBytes (demo_envelope demo_genesis)) None = Inr st"
    using demo_genesis_parse by blast
  have e: "st_envelope_bytes st = demo_envelope demo_genesis"
    using parse_identity_envelope_cases [OF st] by auto
  have "confirm_envelope demo_prims demo_adapter (PyBytes demo_name) (demo_envelope demo_genesis)
      None w2 = (Ret (Some st), w2)"
    using st e by (simp add: confirm_envelope_def validate_owner_name_def bindS_def exceptS_def
        on_net_def demo_adapter_def demo_transport_def optional_bytes_def raise_if_def w2_def)
      (simp add: demo_name_def)
  with put [unfolded demo_put_def] have "publish_consented demo_prims demo_adapter demo_name
      (demo_envelope demo_genesis) None 2000 demo_approved
    = (Ret \<lparr>pr_status = CONFIRMED, pr_envelope_bytes = Some (demo_envelope demo_genesis),
          pr_accepted_state = Some st, pr_reason = None, pr_publication = None\<rparr>, w2)"
    unfolding demo_publish_put [OF get] by (simp add: bindS_def confirm_publication_def)
  with demo_publish_approved [OF get] show ?thesis by (simp add: w2_def demo_adapter_def)
qed

end
