(* ===== verification/Registry_Properties.thy ===== *)
theory Registry_Properties
  imports Demo_Registry Identity_Properties
begin

text \<open>
  The properties of the registry adapter, each with a run of the adapter in
  memory that it applies to.
\<close>

section \<open>Reading\<close>

text \<open>
  C10. Whatever the transport answers, a state that \<^verbatim>\<open>read_state\<close> returns is an
  authorized lineage of the requested owner, from an anchor to the envelope
  that the transport holds, and it rests on at most 1024 predecessors.
\<close>

theorem read_state_is_lineage:
  assumes "read_state P A (PyBytes name) w = (Ret (Some st), w')"
  shows "lineage P st \<and> st_owner_name st = name
    \<and> (\<exists>history. length history \<le> MAX_PREDECESSOR_DEPTH
         \<and> parse_previous_state_chain P name (PyBytes (st_envelope_bytes st)) history = Inr (Some st))"
  using read_state_chain [OF assms] parse_previous_state_chain_lineage by blast

definition demo_filled :: demo_net where
  "demo_filled =
     \<lparr>dn_current = Some (demo_envelope demo_next),
      dn_archive = [sha256 demo_genesis \<mapsto> demo_envelope demo_genesis], dn_fetches = 0\<rparr>"

lemma demo_history_authorization:
  assumes "length u < 2 ^ 64" and "decode_signed_update demo_prims (PyBytes u) = Inr (rec, pay, n, Some a)"
  shows "history_authorization demo_prims (PyBytes (demo_envelope u))
    = Inr (if au_operation a \<in> {2, 3, 4, 5} then Some a else None)"
proof -
  have "require_canonical demo_prims (PyBytes (demo_envelope u)) = Inr (PyDict (demo_outer u))"
    using demo_outer_plain [OF assms(1)] unfolding demo_envelope_def
    by (intro require_canonical_dumps) simp_all
  moreover have "int_item (demo_outer u) 1 = PyInt 1" "int_item (demo_outer u) 2 = PyBytes u"
    by (simp_all add: int_item_def demo_outer_def int_key_def)
  ultimately show ?thesis using assms(2) by (simp add: history_authorization_def)
qed

lemma demo_chain_served:
  "chain_served (dn_archive demo_filled) demo_prims (demo_envelope demo_next) [demo_envelope demo_genesis]"
  using demo_history_authorization [OF demo_next_length demo_next_decode]
    demo_history_authorization [OF demo_genesis_length demo_genesis_decode]
  by (simp add: demo_filled_def) (simp add: demo_auth_def)

lemma demo_next_history:
  "\<exists>st. parse_history demo_prims demo_name (map PyBytes [demo_envelope demo_next, demo_envelope demo_genesis])
     = Inr (Some st) \<and> st_envelope_bytes st = demo_envelope demo_next"
proof -
  obtain prev where p: "parse_identity_envelope demo_prims demo_name
        (PyBytes (demo_envelope demo_genesis)) None = Inr prev"
    and h: "holds_update prev (demo_envelope demo_genesis) demo_name (demo_key 1) 1 demo_genesis
      (Some (demo_auth 1 (zero_bytes 32)))" by (rule demo_genesis_parse)
  from demo_next_parse [OF h] obtain st where st: "parse_identity_envelope demo_prims demo_name
      (PyBytes (demo_envelope demo_next)) (Some prev) = Inr st" by blast
  with parse_identity_envelope_cases [OF st] p show ?thesis by auto
qed

lemma demo_filled_fields [simp]:
  "aw_net (demo_state n) = n" "dn_current demo_filled = Some (demo_envelope demo_next)"
  "ad_transport demo_adapter = demo_transport"
  by (simp_all add: demo_state_def demo_filled_def demo_adapter_def)

lemma demo_read_filled:
  "\<exists>st w'. read_state demo_prims demo_adapter (PyBytes demo_name) (demo_state demo_filled)
     = (Ret (Some st), w') \<and> st_envelope_bytes st = demo_envelope demo_next"
proof -
  obtain st where h: "parse_history demo_prims demo_name
      (map PyBytes (demo_envelope demo_next # [demo_envelope demo_genesis])) = Inr (Some st)"
      and e: "st_envelope_bytes st = demo_envelope demo_next"
    using demo_next_history by auto
  have "fst (walk_history demo_prims demo_adapter demo_name None MAX_PREDECESSOR_DEPTH
      (PyBytes (demo_envelope demo_next)) (demo_state demo_filled))
    = (if length [demo_envelope demo_genesis] \<le> MAX_PREDECESSOR_DEPTH
       then outcome_of (parse_history demo_prims demo_name
         (map PyBytes (demo_envelope demo_next # [demo_envelope demo_genesis])))
       else Raise InvalidIdentityState)"
    by (rule walk_served [OF demo_transport_serves [folded demo_filled_fields(3)]])
      (simp add: demo_chain_served del: chain_served.simps)
  then have "fst (walk_history demo_prims demo_adapter demo_name None MAX_PREDECESSOR_DEPTH
      (PyBytes (demo_envelope demo_next)) (demo_state demo_filled)) = Ret st"
    unfolding h by (simp add: MAX_PREDECESSOR_DEPTH_def outcome_of_def)
  then obtain w' where "walk_history demo_prims demo_adapter demo_name None MAX_PREDECESSOR_DEPTH
      (PyBytes (demo_envelope demo_next)) (demo_state demo_filled) = (Ret st, w')"
    by (metis prod.collapse)
  moreover have "on_net (tr_get demo_transport hex) (demo_state demo_filled)
      = (Ret (PyBytes (demo_envelope demo_next)), demo_state demo_filled)" for hex
    by (simp add: on_net_def demo_transport_def optional_bytes_def)
  moreover have "demo_name \<noteq> []" by (simp add: demo_name_def)
  ultimately have "read_state demo_prims demo_adapter (PyBytes demo_name) (demo_state demo_filled)
      = (Ret (Some st), w')"
    by (simp add: read_state_def validate_owner_name_def raise_if_def bindS_def exceptS_def
        parse_state_with_history_def)
  with e show ?thesis by blast
qed

theorem read_state_is_lineage_witness:
  "\<exists>st w'. read_state demo_prims demo_adapter (PyBytes demo_name) (demo_state demo_filled)
     = (Ret (Some st), w') \<and> lineage demo_prims st \<and> st_envelope_bytes st = demo_envelope demo_next"
  using demo_read_filled read_state_is_lineage by blast


text \<open>
  C36. The walk along the history ends whatever the transport answers, also when it
  answers every request with yet another predecessor: a measure of the network
  that one fetch raises by at most one, such as the number of fetches, is
  raised by at most 1024.
\<close>

theorem history_walk_ends:
  assumes "\<And>hex h n. f (snd (tr_get_by_hash (ad_transport A) hex h n)) \<le> f n + 1"
  shows "f (aw_net (snd (parse_state_with_history P A name e env w)))
    \<le> f (aw_net w) + MAX_PREDECESSOR_DEPTH"
  using walk_history_grows [OF assms, of MAX_PREDECESSOR_DEPTH P name env e]
  by (simp add: parse_state_with_history_def evolves_def grows_def)

text \<open>An archive that knows an answer to every hash.\<close>

definition demo_endless :: demo_net where
  "demo_endless =
     \<lparr>dn_current = None, dn_archive = (\<lambda>_. Some (demo_envelope demo_next)), dn_fetches = 0\<rparr>"

theorem history_walk_ends_witness:
  "dn_fetches (aw_net (snd (parse_state_with_history demo_prims demo_adapter demo_name
     (PyBytes (demo_envelope demo_next)) None (demo_state demo_endless)))) \<le> MAX_PREDECESSOR_DEPTH"
proof -
  have "dn_fetches (snd (tr_get_by_hash (ad_transport demo_adapter) hex h n)) \<le> dn_fetches n + 1"
    for hex h n
    by (simp add: demo_transport_def)
  from history_walk_ends [where f = dn_fetches, OF this, of demo_prims demo_name
      "PyBytes (demo_envelope demo_next)" None "demo_state demo_endless"]
  show ?thesis by (simp add: demo_endless_def)
qed

text \<open>
  C18. The limit is exact.  Over a transport that serves its archive, a history of at
  most 1024 predecessors is read as if the whole chain had been handed to the parser,
  errors included, and one that is longer is refused with \<^verbatim>\<open>InvalidIdentityState\<close>.
\<close>

theorem history_depth_is_exact:
  assumes "serves (ad_transport A) cur arch"
    and "chain_served (arch (aw_net w) (bytes_hex name)) P e history"
  shows "fst (parse_state_with_history P A name (PyBytes e) None w) =
    (if length history \<le> 1024
     then outcome_of (parse_previous_state_chain P name (PyBytes e) (map PyBytes history))
     else Raise InvalidIdentityState)"
  using walk_served [OF assms]
  by (simp add: parse_state_with_history_def parse_chain_history MAX_PREDECESSOR_DEPTH_def)

theorem history_depth_is_exact_witness:
  "fst (parse_state_with_history demo_prims demo_adapter demo_name (PyBytes (demo_envelope demo_next))
      None (demo_state demo_filled))
   = outcome_of (parse_previous_state_chain demo_prims demo_name (PyBytes (demo_envelope demo_next))
      [PyBytes (demo_envelope demo_genesis)])"
proof -
  note s = demo_transport_serves [folded demo_filled_fields(3)]
  have "chain_served (dn_archive (aw_net (demo_state demo_filled))) demo_prims
      (demo_envelope demo_next) [demo_envelope demo_genesis]"
    using demo_chain_served by simp
  from history_depth_is_exact [where w = "demo_state demo_filled" and name = demo_name, OF s this]
  show ?thesis by simp
qed

section \<open>Consent\<close>

text \<open>
  C13. The consent gate opens only when the handler approved exactly this transcript
  before its deadline, and never twice for one replay nonce: once it has opened, it
  rejects every later transcript with the same owner, origin, environment and nonce,
  in any state that still remembers the nonce, without asking the handler.
\<close>

theorem consent_is_single_use:
  assumes "ad_replay A = None" and "consent_gate P A name t consent w = (Ret None, w1)"
    and "\<And>t v v'. snd (consent t v) = v' \<Longrightarrow> aw_replay v \<subseteq> aw_replay v'"
    and "aw_replay w1 \<subseteq> aw_replay w2"
    and "ct_authenticated_origin t' = ct_authenticated_origin t"
    and "ct_environment t' = ct_environment t" and "ct_replay_nonce t' = ct_replay_nonce t"
  shows "(\<exists>v v'. consent t v = (Ret (pykey ''approved''), v')
      \<and> w_time (aw_world v') (w_ticks (aw_world v')) < ct_expires_at t)
    \<and> consent_gate P A name t' consent' w2 = (Ret (Some (FAILED, ''replay rejected'')), w2)"
proof -
  from assms(2) obtain w3 w4 w5 where r: "reserve_replay_nonce P A name t w = (Ret True, w3)"
    and o: "observes w3 w4" "observes w5 w1" and c: "consent t w4 = (Ret (pykey ''approved''), w5)"
      "w_time (aw_world w5) (w_ticks (aw_world w5)) < ct_expires_at t"
    by (rule consent_gate_passes)
  from assms(1) r obtain key where k: "replay_key P name (ct_authenticated_origin t)
        (ct_environment t) (ct_replay_nonce t) = Inr key"
      and w3: "w3 = w\<lparr>aw_replay := insert key (aw_replay w)\<rparr>"
    by (rule reserve_memory)
  have "key \<in> aw_replay w4" using o(1) w3 by (simp add: observes_fields(2))
  moreover have "aw_replay w4 \<subseteq> aw_replay w5" using assms(3) [of t w4 w5] c(1) by simp
  ultimately have "key \<in> aw_replay w2"
    using assms(4) observes_fields(2) [OF o(2)] by auto
  with k assms(5-7) have "consent_gate P A name t' consent' w2
      = (Ret (Some (FAILED, ''replay rejected'')), w2)"
    by (intro reserve_memory_spent [OF assms(1)]) simp_all
  with c show ?thesis by blast
qed

theorem consent_is_single_use_witness:
  "consent_gate demo_prims demo_adapter demo_name demo_transcript demo_consent
     (demo_tick (demo_tick ((demo_state demo_empty)\<lparr>aw_replay := {demo_key_of}\<rparr>)))
   = (Ret (Some (FAILED, ''replay rejected'')),
      demo_tick (demo_tick ((demo_state demo_empty)\<lparr>aw_replay := {demo_key_of}\<rparr>)))"
proof -
  have "consent_gate demo_prims demo_adapter demo_name demo_transcript demo_consent
      (demo_state demo_empty)
    = (Ret None, demo_tick (demo_tick ((demo_state demo_empty)\<lparr>aw_replay := {demo_key_of}\<rparr>)))"
    by (rule demo_gate) (simp_all add: demo_state_def demo_adapter_def)
  from consent_is_single_use [OF _ this, of _ demo_transcript demo_consent] show ?thesis
    by (auto simp: demo_adapter_def demo_consent_def)
qed

section \<open>Writing\<close>

text \<open>
  C11. \<^verbatim>\<open>publish_bundle\<close> begins at most one write, however it ends, and only the write that
  was approved: the envelope is the bundle's own, the handler approved a transcript
  that shows exactly these bytes and this deadline, and the write is conditional on
  the state that the bundle was drafted on.
\<close>

theorem publish_writes_what_was_approved:
  assumes "\<And>t. evolves no_write (consent t)"
  shows "one_write (approved_publication P b consent) w
    (snd (publish_bundle P A (Some b) consent args w))"
  using publish_bundle_once [OF assms] by (simp add: evolves_def)

theorem publish_writes_what_was_approved_witness:
  "approved_publication demo_prims demo_genesis_bundle demo_consent demo_put
   \<and> aw_puts (snd (publish_bundle demo_prims demo_adapter (Some demo_genesis_bundle) demo_consent
       demo_cargs (demo_state demo_empty))) = [demo_put]"
proof -
  have "aw_puts (snd (publish_bundle demo_prims demo_adapter (Some demo_genesis_bundle) demo_consent
      demo_cargs (demo_state demo_empty))) = [demo_put]"
    using demo_publish by force
  moreover have "aw_puts (demo_state demo_empty) = []" by (simp add: demo_state_def)
  ultimately show ?thesis
    using publish_writes_what_was_approved [where P = demo_prims and b = demo_genesis_bundle
        and consent = demo_consent
        and w = "demo_state demo_empty" and A = demo_adapter and args = demo_cargs,
        OF demo_consent_quiet]
    by (auto simp: one_write_def)
qed


text \<open>
  C12. \<^verbatim>\<open>submit_identity\<close> begins at most one write, however it ends, and only one whose
  update the handler reviewed and approved, under the approved deadline, with
  a signature over that update which verifies under the public key that the
  caller named and the transcript showed.
\<close>

theorem submit_writes_what_was_signed:
  assumes "\<And>t. evolves no_write (consent t)" and "evolves no_write factory"
  shows "one_write (approved_submission P args consent) w
    (snd (submit_identity P A args factory consent cargs w))"
  using submit_identity_once [OF assms] by (simp add: evolves_def)

text \<open>A submission of the first legacy record of an owner.\<close>

definition demo_legacy :: submission_args where
  "demo_legacy =
     \<lparr>sa_owner_name = PyBytes demo_name, sa_owner_public_key = PyBytes (demo_key 1),
      sa_signer_public_key = PyBytes (demo_key 1), sa_operation = pykey ''identity.update'',
      sa_authorization = None, sa_signer_id = PyNone, sa_draft = NoDraft\<rparr>"

theorem submit_writes_what_was_signed_witness:
  "one_write (approved_submission demo_prims demo_legacy demo_consent) (demo_state demo_empty)
     (snd (submit_identity demo_prims demo_adapter demo_legacy (on_world (create_signer demo_prims 0 (Some 60)))
        demo_consent demo_cargs (demo_state demo_empty)))"
  by (rule submit_writes_what_was_signed [OF demo_consent_quiet no_write_on_world])

text \<open>
  C17. \<^verbatim>\<open>CONFIRMED\<close> means read back.  When \<^verbatim>\<open>publish_bundle\<close> answers \<^verbatim>\<open>CONFIRMED\<close>, the transport
  returned the exact envelope of the bundle, and the accepted state is the
  state of that envelope, an authorized lineage of the owner; with any other
  answer it reports no accepted state.
\<close>

theorem confirmed_means_read_back:
  assumes "publish_bundle P A (Some b) consent args w = (Ret r, w')"
  shows "\<exists>e name. bundle_finalize P b = Inr e \<and> draft_owner_name P (bd_draft b) = Inr name
    \<and> (if pr_status r = CONFIRMED
       then \<exists>st n n'. pr_accepted_state r = Some st \<and> lineage P st \<and> st_envelope_bytes st = e
         \<and> st_owner_name st = bytes_of name
         \<and> tr_get (ad_transport A) (bytes_hex (bytes_of name)) n = (Ret (PyBytes e), n')
       else pr_accepted_state r = None)"
proof -
  from returnsD [OF publish_bundle_soundly assms] obtain e name where
      "bundle_finalize P b = Inr e" "draft_owner_name P (bd_draft b) = Inr name"
      and "confirmed_soundly P A (bytes_of name) e r" by blast
  then show ?thesis
    by (intro exI [of _ e] exI [of _ name]) (auto simp: confirmed_soundly_def read_back_def,
        blast)
qed

theorem confirmed_means_read_back_witness:
  "\<exists>st w'. publish_bundle demo_prims demo_adapter (Some demo_genesis_bundle) demo_consent demo_cargs
       (demo_state demo_empty)
     = (Ret \<lparr>pr_status = CONFIRMED, pr_envelope_bytes = Some (demo_envelope demo_genesis),
            pr_accepted_state = Some st, pr_reason = None, pr_publication = None\<rparr>, w')
   \<and> lineage demo_prims st \<and> st_envelope_bytes st = demo_envelope demo_genesis"
proof -
  obtain st w' where run: "publish_bundle demo_prims demo_adapter (Some demo_genesis_bundle)
      demo_consent demo_cargs (demo_state demo_empty)
    = (Ret \<lparr>pr_status = CONFIRMED, pr_envelope_bytes = Some (demo_envelope demo_genesis),
            pr_accepted_state = Some st, pr_reason = None, pr_publication = None\<rparr>, w')"
    using demo_publish by blast
  from confirmed_means_read_back [OF run] run show ?thesis
    by (auto simp: demo_genesis_finalize)
qed

section \<open>Rotation\<close>

text \<open>
  C6. A confirmation of an owner-key rotation is evidence.  When
  \<^verbatim>\<open>confirm_owner_key_rotation\<close> mints one, a remote read returned an envelope with the
  hash of the intent, its state is an authorized lineage of the owner that carries
  the successor's key one step after a state with the predecessor's key and hash,
  and the confirmation is bound to the intent and to a latch that the adapter
  now holds, which is what the wallet asks of it when it finalizes.
\<close>

theorem confirmation_is_remote_evidence:
  "case confirm_owner_key_rotation P A (Some intent) w of
     (Ret (Some c), w') \<Rightarrow>
       confirmation_matches_intent c intent
       \<and> confirmation_is_latched c intent (w_rotation (aw_world w'))
       \<and> rc_successor_owner_public_key c = ri_successor_owner_public_key intent
       \<and> (\<exists>st n n'. rotated_to P intent st \<and> rc_state_hash c = st_state_hash st
            \<and> tr_get_remote (ad_transport A) (bytes_hex (ri_owner_name intent)) n
                = (Ret (PyBytes (st_envelope_bytes st)), n')
            \<and> sha256 (st_envelope_bytes st) = ri_envelope_hash intent)
   | _ \<Rightarrow> True"
proof -
  have "confirmation_matches_intent c intent
      \<and> confirmation_is_latched c intent (w_rotation (aw_world w'))
      \<and> rc_successor_owner_public_key c = ri_successor_owner_public_key intent
      \<and> (\<exists>st n n'. rotated_to P intent st \<and> rc_state_hash c = st_state_hash st
           \<and> tr_get_remote (ad_transport A) (bytes_hex (ri_owner_name intent)) n
               = (Ret (PyBytes (st_envelope_bytes st)), n')
           \<and> sha256 (st_envelope_bytes st) = ri_envelope_hash intent)"
    if run: "confirm_owner_key_rotation P A (Some intent) w = (Ret (Some c), w')" for c w'
  proof -
    from run obtain env st n n' where e: "ri_environment intent = Some env"
        and c: "c = make_confirmation A intent env st"
        and st: "rotated_to P intent st"
          "tr_get_remote (ad_transport A) (bytes_hex (ri_owner_name intent)) n
            = (Ret (PyBytes (st_envelope_bytes st)), n')"
          "sha256 (st_envelope_bytes st) = ri_envelope_hash intent"
      by (rule confirm_rotation_sound)
    have "rc_state_hash c = st_state_hash st"
        "rc_successor_owner_public_key c = ri_successor_owner_public_key intent"
      by (simp_all add: c make_confirmation_def)
    with confirm_rotation_latched [OF run] make_confirmation_matches [OF e, of A st] c st
    show ?thesis by blast
  qed
  then show ?thesis by (auto split: prod.split outcome.split option.split)
qed

text \<open>
  C7. A dispatch begins at most one write, and only the one that the wallet latched: the
  permit is authentic, the publication is bound to its intent and was made by
  this adapter, the latch is ready for dispatch, and the publication was fresh and
  is consumed, also in every state that the dispatch may end in.
\<close>

theorem dispatch_writes_latched_publication:
  "let w' = snd (dispatch_owner_key_rotation P A (Some p) (Some pm) w) in
   aw_puts w' = aw_puts w
   \<or> (\<exists>intent name. permit_authentic pm \<and> rp_intent pm = Some intent
        \<and> publication_matches_intent P p intent = Inr True \<and> pub_adapter_token p = ad_token A
        \<and> is_dispatch_ready (rs_latches (w_rotation (aw_world w)) (ad_token A)) (intent_fields intent)
        \<and> pub_id p \<notin> rs_consumed (w_rotation (aw_world w))
        \<and> pub_id p \<in> rs_consumed (w_rotation (aw_world w'))
        \<and> draft_owner_name P (bd_draft (pub_bundle p)) = Inr name
        \<and> aw_puts w' = aw_puts w @ [make_put (bytes_of name) (pub_envelope_bytes p)
            (Some (pub_previous_state p)) (pub_expires_at p)])"
proof -
  obtain r w' where run: "dispatch_owner_key_rotation P A (Some p) (Some pm) w = (r, w')" by fastforce
  from run show ?thesis
  proof (cases rule: dispatch_passed)
    case (refused e)
    then show ?thesis by (simp add: run)
  next
    case (passed intent w1)
    note c = dispatch_consumes [OF run passed(2, 1, 3)] and d = dispatch_permitted_True [OF passed(3)]
    from c d have "pub_id p \<in> rs_consumed (w_rotation (aw_world w'))" by (auto simp: spends_def)
    with c d passed show ?thesis by (auto simp: run Let_def)
  qed
qed


end
