(* ===== verification/Registry_Transport.thy ===== *)
theory Registry_Transport
  imports Registry_Adapter
begin

text \<open>
  \<^verbatim>\<open>registry_transport.py\<close>: the transport of the registry adapter over the DHT of the
  Registry package.  That package is a record of programs over the network.
\<close>

section \<open>Peers\<close>

definition P2P :: pystr where
  "P2P = str_of ''/p2p/''"

definition occurs_at :: "pystr \<Rightarrow> pystr \<Rightarrow> nat \<Rightarrow> bool" where
  "occurs_at pat s i \<longleftrightarrow> take (length pat) (drop i s) = pat"

definition contains :: "pystr \<Rightarrow> pystr \<Rightarrow> bool" where
  "contains pat s \<longleftrightarrow> list_ex (occurs_at pat s) [0..<Suc (length s)]"

text \<open>\<^verbatim>\<open>s.rfind(pat)\<close>; \<open>None\<close> is -1.\<close>

definition rfind :: "pystr \<Rightarrow> pystr \<Rightarrow> nat option" where
  "rfind pat s = find (occurs_at pat s) (rev [0..<Suc (length s)])"

definition pinned_peer_id :: "pystr \<Rightarrow> pystr option" where
  "pinned_peer_id peer =
     (case rfind P2P peer of
        None \<Rightarrow> None
      | Some marker \<Rightarrow>
          (let peer_id = takeWhile (\<lambda>c. c \<noteq> 47) (drop (marker + length P2P) peer)
           in if peer_id = [] then None else Some peer_id))"

section \<open>Construction\<close>

record registry_transport =
  rt_registry_environment :: "pystr option"
  rt_bootstrap_peers :: "pystr list"
  rt_readback_peer :: "pystr option"
  rt_store_path :: pystr
  rt_supports_owner_key_rotation :: bool

text \<open>\<^verbatim>\<open>tuple(bootstrap_peers)\<close>.\<close>

definition peer_elements :: "pyval \<Rightarrow> pyval list res" where
  "peer_elements v =
     (case v of PyList xs \<Rightarrow> Inr xs | PyDict d \<Rightarrow> Inr (map fst d) | _ \<Rightarrow> Inl PyTypeError)"

definition text_of :: "pyval \<Rightarrow> pystr" where
  "text_of v = (case v of PyStr s \<Rightarrow> s | _ \<Rightarrow> [])"

definition check_readback_peer :: "pyval \<Rightarrow> pystr list \<Rightarrow> pystr option res" where
  "check_readback_peer readback_peer peers =
     (if readback_peer = PyNone then Inr None
      else
        (case readback_peer of
           PyStr peer \<Rightarrow>
             raise_if (peer = []) PyValueError
             (case pinned_peer_id peer of
                None \<Rightarrow> Inl PyValueError
              | Some peer_id \<Rightarrow>
                  raise_if (Some peer_id \<in> set (map pinned_peer_id peers)) PyValueError
                    (Inr (Some peer)))
         | _ \<Rightarrow> Inl PyValueError))"

text \<open>\<open>installed\<close> tells whether the Registry package can be imported; a path object is
  given by its text.\<close>

definition make_registry_transport ::
    "bool \<Rightarrow> pyval \<Rightarrow> pyval \<Rightarrow> pyval \<Rightarrow> pyval \<Rightarrow> pyval \<Rightarrow> registry_transport res" where
  "make_registry_transport installed bootstrap_peers store_path readback_peer
       supports_owner_key_rotation registry_environment =
     raise_if (registry_environment \<noteq> PyNone \<and> \<not> valid_registry_environment registry_environment)
       PyValueError
     (case supports_owner_key_rotation of
        PyBool supports \<Rightarrow>
          bindE (peer_elements bootstrap_peers) (\<lambda>elements.
          raise_if (elements = [] \<or> list_ex (\<lambda>e. text_of e = []) elements) PyValueError
          (let peers = map text_of elements in
           raise_if (list_ex (\<lambda>p. \<not> contains P2P p) peers) PyValueError
           (bindE (check_readback_peer readback_peer peers) (\<lambda>readback.
            raise_if (store_path = PyNone \<or> store_path = PyStr []) PyValueError
            (raise_if (\<not> installed) PyImportError
            (case store_path of
               PyStr path \<Rightarrow>
                 Inr \<lparr>rt_registry_environment =
                        (case registry_environment of PyStr s \<Rightarrow> Some s | _ \<Rightarrow> None),
                      rt_bootstrap_peers = peers, rt_readback_peer = readback,
                      rt_store_path = path, rt_supports_owner_key_rotation = supports\<rparr>
             | _ \<Rightarrow> Inl PyTypeError))))))
      | _ \<Rightarrow> Inl PyTypeError)"

section \<open>Calls\<close>

text \<open>The Registry package: \<open>pv_open\<close> builds the node, with the durable store or without,
  and \<open>pv_close\<close> leaves it; the other fields are \<^verbatim>\<open>dht.bootstrap\<close>, the three methods of the
  service and \<^verbatim>\<open>dht.read_remote_identity_envelope\<close>.\<close>

record 'n provider =
  pv_open :: "bool \<Rightarrow> (unit, 'n) prog"
  pv_close :: "(unit, 'n) prog"
  pv_bootstrap :: "pystr \<Rightarrow> (unit, 'n) prog"
  pv_get_identity_envelope :: "pystr \<Rightarrow> (pyval, 'n) prog"
  pv_get_identity_envelope_by_hash :: "pystr \<Rightarrow> bytes \<Rightarrow> (pyval, 'n) prog"
  pv_put_identity_envelope_if_current :: "pystr \<Rightarrow> bytes \<Rightarrow> bytes \<Rightarrow> int \<Rightarrow> (unit, 'n) prog"
  pv_read_remote_identity_envelope :: "pystr \<Rightarrow> (pyval, 'n) prog"

text \<open>The loop over the peers: whether one of them was reached.\<close>

fun connect_peers :: "'n provider \<Rightarrow> pystr list \<Rightarrow> bool \<Rightarrow> (bool, 'n) prog" where
  "connect_peers B [] reached = returnS reached"
| "connect_peers B (peer # peers) reached =
     bindS (exceptS (thenS (pv_bootstrap B peer) (returnS True)) (\<lambda>_. returnS reached))
       (connect_peers B peers)"

definition execute :: "'n provider \<Rightarrow> pystr list \<Rightarrow> bool \<Rightarrow> ('a, 'n) prog \<Rightarrow> ('a, 'n) prog" where
  "execute B peers use_durable_store operation =
     thenS (pv_open B use_durable_store)
       (finallyS
          (bindS (connect_peers B peers False) (\<lambda>connected.
           thenS (guardS (\<not> connected) PyConnectionError) operation))
          (pv_close B))"

definition get_identity_envelope :: "'n provider \<Rightarrow> registry_transport \<Rightarrow> pystr \<Rightarrow> (pyval, 'n) prog" where
  "get_identity_envelope B T owner_name_hex =
     execute B (rt_bootstrap_peers T) True (pv_get_identity_envelope B owner_name_hex)"

definition get_identity_envelope_by_hash ::
    "'n provider \<Rightarrow> registry_transport \<Rightarrow> pystr \<Rightarrow> bytes \<Rightarrow> (pyval, 'n) prog" where
  "get_identity_envelope_by_hash B T owner_name_hex state_hash =
     execute B (rt_bootstrap_peers T) True
       (pv_get_identity_envelope_by_hash B owner_name_hex state_hash)"

text \<open>\<^verbatim>\<open>bytes.fromhex\<close> skips ASCII white space between the pairs of digits.\<close>

fun bytes_fromhex :: "pystr \<Rightarrow> bytes option" where
  "bytes_fromhex [] = Some []"
| "bytes_fromhex (c # s) =
     (if c \<in> {9, 10, 11, 12, 13, 32} then bytes_fromhex s
      else
        (case s of
           [] \<Rightarrow> None
         | d # r \<Rightarrow>
             (case (hex_value c, hex_value d, bytes_fromhex r) of
                (Some x, Some y, Some b) \<Rightarrow> Some (of_nat (16 * x + y) # b)
              | _ \<Rightarrow> None)))"

definition read_remote :: "'n provider \<Rightarrow> pystr \<Rightarrow> (pyval, 'n) prog" where
  "read_remote B owner_name_hex =
     (case bytes_fromhex owner_name_hex of
        None \<Rightarrow> raiseS PyValueError
      | Some owner_name \<Rightarrow>
          pv_read_remote_identity_envelope B (bytes_hex (sha256 owner_name)))"

definition get_remote_identity_envelope ::
    "'n provider \<Rightarrow> registry_transport \<Rightarrow> pystr \<Rightarrow> (pyval, 'n) prog" where
  "get_remote_identity_envelope B T owner_name_hex =
     (case rt_readback_peer T of
        None \<Rightarrow> execute B (rt_bootstrap_peers T) True (read_remote B owner_name_hex)
      | Some peer \<Rightarrow> execute B [peer] False (read_remote B owner_name_hex))"

definition put_identity_envelope ::
    "'n provider \<Rightarrow> registry_transport \<Rightarrow> put_call \<Rightarrow> (unit, 'n) prog" where
  "put_identity_envelope B T c =
     (case put_expected_state_hash c of
        None \<Rightarrow> raiseS StalePublication
      | Some expected \<Rightarrow>
          exceptS
            (execute B (rt_bootstrap_peers T) True
               (pv_put_identity_envelope_if_current B (put_owner_name_hex c) (put_envelope_cbor c)
                  expected (put_expires_at c)))
            (\<lambda>e. raiseS (if e = IdentityStatePreconditionFailed then StalePublication
                         else if e = IdentityPublicationExpired then ExpiredPublication else e)))"

text \<open>The object as the adapter sees it.\<close>

definition as_transport :: "'n provider \<Rightarrow> registry_transport \<Rightarrow> 'n transport" where
  "as_transport B T =
     \<lparr>tr_get = get_identity_envelope B T,
      tr_get_by_hash = get_identity_envelope_by_hash B T,
      tr_get_remote = get_remote_identity_envelope B T,
      tr_put = put_identity_envelope B T,
      tr_registry_environment = (\<lambda>_. Inr (Some (optional_str (rt_registry_environment T)))),
      tr_supports_rotation = (\<lambda>_. Inr (PyBool (rt_supports_owner_key_rotation T))),
      tr_remote_callable = (\<lambda>_. Inr True)\<rparr>"

end
