(* ===== verification/Desktop_Cli.thy ===== *)
theory Desktop_Cli
  imports Wallet_Operations
begin

text \<open>
  \<^verbatim>\<open>desktop_cli.py\<close>: the four commands of the desktop interface, over the sessions of
  \<^verbatim>\<open>container.py\<close>.  Argument parsing is that of the standard library; a parsed
  command line is a value of \<open>command\<close>.
\<close>

section \<open>Terminal\<close>

text \<open>What \<^verbatim>\<open>getpass.getpass\<close> does: text, one of the exceptions that mean there is no secure
  terminal (\<^verbatim>\<open>EOFError\<close>, \<^verbatim>\<open>OSError\<close>, \<^verbatim>\<open>GetPassWarning\<close>), or an interrupt, which no handler of
  the program catches.\<close>

datatype answer = Typed pystr | NoSecureTerminal | Interrupted

text \<open>\<open>cl_special\<close> are the paths that are no regular files; \<open>cl_stdout\<close> tells whether
  \<^verbatim>\<open>print\<close> works.\<close>

record cli =
  cl_world :: world
  cl_isatty :: bool
  cl_answers :: "answer list"
  cl_special :: "pystr set"
  cl_stdout :: bool
  cl_out :: "string list"
  cl_err :: "string list"

definition on_wallet :: "('a, world) prog \<Rightarrow> ('a, cli) prog" where
  "on_wallet m c = (case m (cl_world c) of (r, w) \<Rightarrow> (r, c\<lparr>cl_world := w\<rparr>))"

definition getpass :: "(pystr, cli) prog" where
  "getpass c =
     (let c' = c\<lparr>cl_answers := tl (cl_answers c)\<rparr> in
      (case cl_answers c of
         Typed s # _ \<Rightarrow> (Ret s, c')
       | Interrupted # _ \<Rightarrow> (Killed, c')
       | _ \<Rightarrow> (Raise PyOSError, c')))"

definition read_password :: "(pyval, cli) prog" where
  "read_password =
     bindS (getS cl_isatty) (\<lambda>tty.
     thenS (guardS (\<not> tty) (CliInputError ''password input requires an interactive terminal''))
     (bindS
        (exceptS getpass (\<lambda>_. raiseS (CliInputError ''password input requires a secure terminal'')))
        (\<lambda>s. returnS (PyStr s))))"

text \<open>\<^verbatim>\<open>path.stat()\<close>: whether the file is regular, and its size.\<close>

definition stat_file :: "pystr \<Rightarrow> (bool \<times> nat, cli) prog" where
  "stat_file path =
     bindS (getS cl_special) (\<lambda>special.
     if path \<in> special then thenS (on_wallet (syscall os_nop)) (returnS (False, 0))
     else
       bindS (on_wallet (syscall (os_read_bytes (Path path)))) (\<lambda>b. returnS (True, length b)))"

definition read_backup :: "pystr \<Rightarrow> (bytes, cli) prog" where
  "read_backup path =
     bindS
       (exceptS
          (bindS (stat_file path) (\<lambda>(regular, size).
           thenS (guardS (\<not> regular \<or> size > MAX_CONTAINER_BYTES)
                    (CliInputError ''backup is not a supported regular file''))
           (thenS (on_wallet (syscall os_nop))
             (bindS (on_wallet (syscall (os_read_bytes (Path path)))) (\<lambda>raw.
              returnS (take (MAX_CONTAINER_BYTES + 1) raw))))))
          (\<lambda>e. if is_os_error e then raiseS (CliInputError ''backup could not be read'') else raiseS e))
       (\<lambda>data.
        thenS (guardS (length data > MAX_CONTAINER_BYTES)
                 (CliInputError ''backup exceeds the supported size''))
          (returnS data))"

definition print_out :: "string \<Rightarrow> (unit, cli) prog" where
  "print_out message =
     bindS (getS cl_stdout) (\<lambda>works.
     thenS (guardS (\<not> works) PyOSError)
       (modifyS (\<lambda>c. c\<lparr>cl_out := cl_out c @ [message]\<rparr>)))"

section \<open>Commands\<close>

definition with_locked_session :: "nat \<Rightarrow> string \<Rightarrow> (unit, cli) prog \<Rightarrow> (unit, cli) prog" where
  "with_locked_session h message action =
     finallyS (thenS action (print_out message)) (on_wallet (wallet_lock h))"

text \<open>The default of \<^verbatim>\<open>inactivity_minutes\<close>.\<close>

definition DEFAULT_MINUTES :: pyval where
  "DEFAULT_MINUTES = PyInt 5"

definition run_create :: "prims \<Rightarrow> pystr \<Rightarrow> (unit, cli) prog" where
  "run_create P wallet_path =
     bindS read_password (\<lambda>password.
     bindS read_password (\<lambda>confirmation.
     bindS (on_wallet (create_with_generated_key P wallet_path password confirmation DEFAULT_MINUTES))
       (\<lambda>h. with_locked_session h ''wallet created'' (returnS ()))))"

definition run_import :: "prims \<Rightarrow> pystr \<Rightarrow> pystr \<Rightarrow> (unit, cli) prog" where
  "run_import P wallet_path backup_path =
     bindS (read_backup backup_path) (\<lambda>backup.
     bindS read_password (\<lambda>password.
     bindS (on_wallet (import_container P wallet_path (PyBytes backup) password DEFAULT_MINUTES))
       (\<lambda>h. with_locked_session h ''wallet imported'' (returnS ()))))"

definition write_export :: "nat \<Rightarrow> pystr \<Rightarrow> (unit, cli) prog" where
  "write_export h backup_path =
     on_wallet (bindS (export_container h) (\<lambda>data. atomic_write (Path backup_path) data False))"

definition run_export :: "prims \<Rightarrow> pystr \<Rightarrow> pystr \<Rightarrow> (unit, cli) prog" where
  "run_export P wallet_path backup_path =
     bindS read_password (\<lambda>password.
     bindS (on_wallet (wallet_open P wallet_path password DEFAULT_MINUTES)) (\<lambda>h.
     with_locked_session h ''encrypted backup exported'' (write_export h backup_path)))"

definition run_migrate :: "prims \<Rightarrow> pystr \<Rightarrow> (unit, cli) prog" where
  "run_migrate P wallet_path =
     bindS read_password (\<lambda>password.
     bindS (on_wallet (migrate_container P wallet_path password DEFAULT_MINUTES)) (\<lambda>h.
     with_locked_session h ''wallet migrated to v2'' (returnS ())))"

definition error_message :: "exn \<Rightarrow> string" where
  "error_message e =
     (case e of
        CliInputError m \<Rightarrow> m
      | UnlockFailed \<Rightarrow> ''wallet unlock failed''
      | UnsupportedFormat \<Rightarrow> ''unsupported wallet-container format''
      | InvalidContainer \<Rightarrow> ''invalid wallet container''
      | PasswordPolicyError \<Rightarrow> ''password rejected by wallet policy''
      | StorageOutcomeUnknown \<Rightarrow>
          ''wallet storage outcome is unknown; stop and inspect before continuing''
      | StorageFailure \<Rightarrow> ''wallet storage operation failed''
      | _ \<Rightarrow> if is_wallet_error e then ''wallet operation failed''
             else ''desktop wallet operation failed'')"

definition report_error :: "exn \<Rightarrow> (int, cli) prog" where
  "report_error e =
     thenS (modifyS (\<lambda>c. c\<lparr>cl_err := cl_err c @ [error_message e]\<rparr>)) (returnS 1)"

datatype command =
    Create pystr
  | Import pystr pystr
  | Export pystr pystr
  | Migrate pystr

primrec run_command :: "prims \<Rightarrow> command \<Rightarrow> (unit, cli) prog" where
  "run_command P (Create wallet) = run_create P wallet"
| "run_command P (Import wallet backup) = run_import P wallet backup"
| "run_command P (Export wallet backup) = run_export P wallet backup"
| "run_command P (Migrate wallet) = run_migrate P wallet"

definition cli_main :: "prims \<Rightarrow> command \<Rightarrow> (int, cli) prog" where
  "cli_main P command = exceptS (thenS (run_command P command) (returnS 0)) report_error"

end
