(* ===== verification/Cli_Properties.thy ===== *)
theory Cli_Properties
  imports Desktop_Cli Wallet_Properties
begin

text \<open>
  The desktop interface: the sessions that a command opens are locked when it ends,
  and what it prints is a fixed message.
\<close>

section \<open>Opening a session\<close>






text \<open>A program that opens one session: it returns the index of the session that it added,
  and when it raises, a session that it added is locked.\<close>

definition locked_session :: "wallet \<Rightarrow> bool" where
  "locked_session wa \<longleftrightarrow> wa_dek wa = None \<and> wa_payload wa = [] \<and> wa_envelope wa = []"

lemma locked_session_locked [simp]: "locked_session (locked_wallet wa)"
  by (simp add: locked_session_def locked_wallet_def)

definition opened :: "wallet list \<Rightarrow> nat outcome \<Rightarrow> world \<Rightarrow> bool" where
  "opened ws r w' =
     (case r of
        Ret h \<Rightarrow> h = length ws \<and> (\<exists>wa. w_wallets w' = ws @ [wa])
      | Raise e \<Rightarrow> w_wallets w' = ws \<or> (\<exists>wa. w_wallets w' = ws @ [wa] \<and> locked_session wa)
      | Killed \<Rightarrow> True)"

definition opens_session :: "(nat, world) prog \<Rightarrow> bool" where
  "opens_session m \<longleftrightarrow> (\<forall>w r w'. m w = (r, w') \<longrightarrow> opened (w_wallets w) r w')"






lemma opens_if: "opens_session m \<Longrightarrow> opens_session n \<Longrightarrow> opens_session (if c then m else n)"
  by simp











section \<open>A command\<close>

text \<open>What a command may do before and after the session exists.\<close>

definition silent :: "cli \<Rightarrow> cli \<Rightarrow> bool" where
  "silent c c' \<longleftrightarrow>
     cl_out c' = cl_out c \<and> cl_err c' = cl_err c \<and> w_wallets (cl_world c') = w_wallets (cl_world c)"

definition touches :: "nat \<Rightarrow> cli \<Rightarrow> cli \<Rightarrow> bool" where
  "touches h c c' \<longleftrightarrow>
     cl_out c' = cl_out c \<and> cl_err c' = cl_err c
     \<and> length (w_wallets (cl_world c')) = length (w_wallets (cl_world c))
     \<and> (\<forall>i. i \<noteq> h \<longrightarrow> w_wallets (cl_world c') ! i = w_wallets (cl_world c) ! i)"




lemma silent_touches: "evolves silent m \<Longrightarrow> evolves (touches h) m"
  by (erule evolves_mono) (simp add: silent_def touches_def)























end
