(* ===== verification/Storage_Properties.thy ===== *)
theory Storage_Properties
  imports Atomic_Write_Facts Evolution
begin

text \<open>
  Properties of the atomic write: what a reader can find after any outcome,
  and that a write without faults succeeds.
\<close>

text \<open>
  C9. A write of a container is all or nothing.  In a directory that no other
  process changes, whatever system calls fail and wherever the process dies:
  every other file keeps its content and the target has its old content or
  the new data; if the call returns, the target has the new data and both the
  data and the directory entry were synchronised; if a replacing call raises
  \<^verbatim>\<open>StorageFailure\<close>, the target has its old content; and without \<^verbatim>\<open>replace\<close> an
  existing target is never overwritten.
\<close>

theorem atomic_write_all_or_nothing:
  assumes "files_ok (dk_files w)" and "quiet w" and "atomic_write (Path p) data replace w = (r, w')"
  shows "(\<forall>q. q \<noteq> p \<longrightarrow> content (dk_files w') (Path q) = content (dk_files w) (Path q))
    \<and> (content (dk_files w') (Path p) = content (dk_files w) (Path p)
         \<or> content (dk_files w') (Path p) = Some data)
    \<and> (r = Ret () \<longrightarrow> content (dk_files w') (Path p) = Some data \<and> durable p data (dk_files w'))
    \<and> (replace \<and> r = Raise StorageFailure \<longrightarrow>
         content (dk_files w') (Path p) = content (dk_files w) (Path p))
    \<and> (\<not> replace \<and> fs_names (dk_files w) (Path p) \<noteq> None \<longrightarrow>
         r \<noteq> Ret () \<and> content (dk_files w') (Path p) = content (dk_files w) (Path p))"
  using alwaysD [OF atomic_write_outcome [OF assms(1,2) refl] assms(3)]
  by (simp add: write_outcome_def old_or_new_def)

definition demo_files :: files where
  "demo_files =
     \<lparr>fs_names = [Path [97] \<mapsto> 0], fs_data = (\<lambda>_. [1]), fs_next = 1, fs_synced = {0},
      fs_dir = [Path [97] \<mapsto> 0]\<rparr>"

definition demo_disk :: "fault list \<Rightarrow> disk" where
  "demo_disk faults = \<lparr>dk_files = demo_files, dk_faults = faults\<rparr>"

lemma demo_disk_ok: "files_ok (dk_files (demo_disk faults))"
  by (auto simp: files_ok_def demo_disk_def demo_files_def split: if_splits)

text \<open>The witness has a full disk at the seventh call, a failing clean-up and a process that
  dies at the tenth call.\<close>

theorem atomic_write_all_or_nothing_witness:
  "content (dk_files (snd (atomic_write (Path [97]) [2] True
       (demo_disk (replicate 6 NoFault @ [Fault PyOSError, NoFault, Fault PyOSError, Kill])))))
     (Path [97]) \<in> {Some [1], Some [2]}"
proof -
  have "quiet (demo_disk (replicate 6 NoFault @ [Fault PyOSError, NoFault, Fault PyOSError, Kill]))"
    by (simp add: quiet_def demo_disk_def quiet_fault_def list_all_iff)
  from atomic_write_all_or_nothing [OF demo_disk_ok this prod.collapse [symmetric], of "[97]" "[2]" True]
  show ?thesis
    by (auto simp: demo_disk_def demo_files_def content_def)
qed

section \<open>Writes without faults\<close>

lemma run_syscall:
  fixes w :: "'x disk_scheme"
  assumes "dk_faults w = []"
  shows "syscall op w =
     (case op (dk_files w) of
        (Inl e, fs) \<Rightarrow> (Raise e, w\<lparr>dk_files := fs\<rparr>)
      | (Inr x, fs) \<Rightarrow> (Ret x, w\<lparr>dk_files := fs\<rparr>))"
proof -
  have "drop_fault w = w" using assms by (simp add: drop_fault_def)
  then show ?thesis using assms by (simp add: syscall_def Let_def next_fault_def)
qed

lemmas os_calls = os_nop_def os_mkstemp_def os_write_def os_fsync_def os_replace_def os_link_def
  os_unlink_def os_fsync_dir_def Let_def

lemma run_stage_file:
  assumes "dk_faults w = []" and "replace \<or> fs_names (dk_files w) (Path p) = None"
  shows "\<exists>ino w'. stage_file (Path p) data replace w = (Ret ino, w') \<and> dk_faults w' = []"
  using assms
  by (cases replace)
    (simp_all add: stage_file_def finallyS_def stage_body_def stage_temporary_def fill_temporary_def
      stage_install_def stage_cleanup_def cleanup_stage_def no_stage_def bindS_def on_disk_def
      set_local_def run_syscall os_calls)

lemma run_fsync_directory:
  assumes "dk_faults w = []"
  shows "fsync_directory w = (Ret (), w\<lparr>dk_files := (dk_files w)\<lparr>fs_dir := fs_names (dk_files w)\<rparr>\<rparr>)"
  using assms by (simp add: fsync_directory_def finallyS_def bindS_def run_syscall os_calls)

lemma run_previous_content:
  assumes "dk_faults w = []"
  shows "\<exists>previous. previous_content (Path p) replace w = (Ret previous, w)"
  using assms
  by (cases "fs_names (dk_files w) (Path p)"; cases replace)
    (simp_all add: previous_content_def path_exists_def bindS_def exceptS_def run_syscall os_exists_def
      os_read_bytes_def content_def)

lemma run_atomic_write:
  assumes "dk_faults w = []" and "replace \<or> fs_names (dk_files w) (Path p) = None"
  shows "\<exists>w'. atomic_write (Path p) data replace w = (Ret (), w')"
proof -
  obtain previous where previous: "previous_content (Path p) replace w = (Ret previous, w)"
    using run_previous_content [OF assms(1)] by blast
  obtain ino w1 where stage: "stage_file (Path p) data replace w = (Ret ino, w1)" "dk_faults w1 = []"
    using run_stage_file [OF assms] by blast
  show ?thesis
    by (simp add: atomic_write_def bindS_def exceptS_def previous stage run_fsync_directory)
qed

text \<open>
  C33. Storage makes progress: when no system call fails and the target may be
  written (it is to be replaced, or it does not exist), the write returns, and
  it leaves the new data under the target's name.
\<close>

theorem fault_free_write_succeeds:
  assumes "files_ok (dk_files w)" and "dk_faults w = []"
    and "replace \<or> fs_names (dk_files w) (Path p) = None"
  shows "\<exists>w'. atomic_write (Path p) data replace w = (Ret (), w')
    \<and> content (dk_files w') (Path p) = Some data"
proof -
  obtain w' where w': "atomic_write (Path p) data replace w = (Ret (), w')"
    using run_atomic_write [OF assms(2,3)] by blast
  have "quiet w" using assms(2) by (simp add: quiet_def)
  from alwaysD [OF atomic_write_outcome [OF assms(1) this refl] w'] show ?thesis
    using w' by (simp add: write_outcome_def)
qed

theorem fault_free_write_succeeds_witness:
  "\<exists>w'. atomic_write (Path [98]) [2] False (demo_disk []) = (Ret (), w')
     \<and> content (dk_files w') (Path [98]) = Some [2]"
  using fault_free_write_succeeds [OF demo_disk_ok, of "[]" False "[98]" "[2]"]
  by (simp add: demo_disk_def demo_files_def)

end
