(* ===== verification/Wallet_Vault.thy ===== *)
theory Wallet_Vault
  imports Wallet_Facts
begin

text \<open>
  The invariant of an open session: its envelope is sealed under its key and
  password, and reopening it yields the session's own payload and seeds.
  Every operation that stores a new envelope keeps it.
\<close>

section \<open>Resealing a part of an envelope\<close>

definition wraps :: "prims \<Rightarrow> pystr \<Rightarrow> bytes \<Rightarrow> bytes \<Rightarrow> sealed_bytes \<Rightarrow> bool" where
  "wraps P password dek salt u \<longleftrightarrow>
     (\<exists>secret kek aad. utf8_encode password = Some secret \<and> argon2id P secret salt = Some kek
        \<and> wrap_aad (kdf_header salt) CURRENT_FORMAT_VERSION = Inr aad
        \<and> aead_decrypt P kek (fst u) aad (fst (snd u)) (snd (snd u)) = Some dek)"

definition opens :: "prims \<Rightarrow> bytes \<Rightarrow> pydict \<Rightarrow> sealed_bytes \<Rightarrow> bool" where
  "opens P dek payload v \<longleftrightarrow>
     (\<exists>aad encoded. payload_aad (aead_info (fst v)) CURRENT_FORMAT_VERSION = Inr aad
        \<and> bindE (encode_value (PyDict payload)) canonical_json = Inr encoded
        \<and> aead_decrypt P dek (fst v) aad (fst (snd v)) (snd (snd v)) = Some encoded)"

lemma seals_iff:
  "seals P password dek payload env \<longleftrightarrow>
     (\<exists>salt u v. has_form env salt u v \<and> length dek = KEY_LENGTH
        \<and> wraps P password dek salt u \<and> opens P dek payload v)"
  unfolding seals_def wraps_def opens_def by fast

lemma envelope_cong:
  assumes "norm_dict a = norm_dict a'" and "norm_dict b = norm_dict b'" and "norm_dict c = norm_dict c'"
  shows "norm_dict (make_envelope a b c) = norm_dict (make_envelope a' b' c')"
  using assms
  by (intro norm_dict_cong) (simp add: make_envelope_def norm_value_PyDict del: norm_value.simps(2))

lemma sealed_dict_plain: "json_plain (PyDict (sealed_dict x))"
  using sealed_part_plain by (cases x) (simp add: sealed_dict_def)

lemma form_reseal:
  assumes "has_form env salt u v" and "sealed_lengths v'"
  shows "has_form (make_envelope (kdf_header salt) (sub_dict env ''wrap'') (sealed_dict v')) salt u v'"
  using assms envelope_plain [OF kdf_plain sub_plain sealed_dict_plain]
    envelope_cong [OF refl form_sub(2) [OF assms(1)] refl]
  by (simp add: has_form_def)

lemma form_rewrap:
  assumes "has_form env salt u v" and "sealed_lengths u'" and "length salt' = SALT_LENGTH"
  shows "has_form (make_envelope (kdf_header salt') (sealed_dict u') (sub_dict env ''payload'')) salt' u' v"
  using assms envelope_plain [OF kdf_plain sealed_dict_plain sub_plain]
    envelope_cong [OF refl refl form_sub(3) [OF assms(1)]]
  by (simp add: has_form_def)

lemma make_payload_opens:
  assumes "make_payload P dek payload CURRENT_FORMAT_VERSION w = (Ret x, w')"
    and "aead_ok P" and "random_ok w" and "length dek = 32"
  obtains v where "sealed_part x = sealed_dict v" and "sealed_lengths v" and "opens P dek payload v"
    and "w' = w\<lparr>w_draws := Suc (w_draws w)\<rparr>"
proof -
  obtain nonce c t aad encoded where x: "x = (aead_info nonce, c, t)" "length nonce = NONCE_LENGTH"
    "bindE (encode_value (PyDict payload)) canonical_json = Inr encoded"
    "payload_aad (aead_info nonce) CURRENT_FORMAT_VERSION = Inr aad"
    "aead_encrypt P dek nonce aad encoded = Some (c, t)"
    and w': "w' = w\<lparr>w_draws := Suc (w_draws w)\<rparr>"
    by (rule make_payload_Ret [OF assms(1,3)], rule that)
  note d = length_seal [OF assms(2,4) x(2) [unfolded NONCE_LENGTH_def] x(5)]
  show thesis
    by (rule that [of "(nonce, c, t)"])
      (use x d w' in \<open>auto simp: sealed_dict_def sealed_lengths_def opens_def\<close>)
qed

lemma wrap_dek_wraps:
  assumes "wrap_dek P kek dek (kdf_header salt) CURRENT_FORMAT_VERSION w = (Ret x, w')"
    and "aead_ok P" and "random_ok w" and "length kek = 32"
    and "utf8_encode password = Some secret" and "argon2id P secret salt = Some kek"
  obtains u where "sealed_part x = sealed_dict u" and "sealed_lengths u" and "wraps P password dek salt u"
    and "w' = w\<lparr>w_draws := Suc (w_draws w)\<rparr>"
proof -
  obtain nonce c t aad where x: "x = (aead_info nonce, c, t)" "length nonce = NONCE_LENGTH"
    "wrap_aad (kdf_header salt) CURRENT_FORMAT_VERSION = Inr aad"
    "aead_encrypt P kek nonce aad dek = Some (c, t)"
    and w': "w' = w\<lparr>w_draws := Suc (w_draws w)\<rparr>"
    by (rule wrap_dek_Ret [OF assms(1,3)], rule that)
  note d = length_seal [OF assms(2,4) x(2) [unfolded NONCE_LENGTH_def] x(4)]
  show thesis
    by (rule that [of "(nonce, c, t)"])
      (use x d w' assms(5,6) in \<open>auto simp: sealed_dict_def sealed_lengths_def wraps_def\<close>)
qed

section \<open>Payloads and seeds\<close>

text \<open>The keys of every dictionary in a Python value are different.\<close>

fun genuine :: "pyval \<Rightarrow> bool" where
  "genuine (PyList xs) = list_all genuine xs"
| "genuine (PyDict d) = (list_all (\<lambda>kv. genuine (snd kv)) d \<and> distinct (map fst d))"
| "genuine _ = True"

lemma mapE_elem: "mapE f xs = Inr ys \<Longrightarrow> x \<in> set xs \<Longrightarrow> \<exists>y. f x = Inr y"
  by (induction xs arbitrary: ys) (auto simp: res_simps)

lemma encoded_payload_ok: "encode_value v = Inr e \<Longrightarrow> genuine v \<Longrightarrow> payload_ok v"
proof (induction v arbitrary: e rule: encode_value.induct)
  case (6 xs)
  then obtain ys where "mapE encode_value xs = Inr ys" by (auto simp: res_simps)
  then have "\<exists>y. encode_value x = Inr y" if "x \<in> set xs" for x using that mapE_elem by fast
  then show ?case using 6 by (auto simp: list_all_iff)
next
  case (7 d)
  let ?f = "\<lambda>kv. case fst kv of
      PyStr k \<Rightarrow> bindE (encode_value (snd kv)) (\<lambda>e. Inr (PyList [PyStr k, e]))
    | _ \<Rightarrow> Inl InvalidContainer"
  obtain ys where ys: "mapE ?f d = Inr ys"
    using 7(2) unfolding encode_value.simps(7) by (auto simp: res_simps)
  have "is_PyStr (fst kv) \<and> payload_ok (snd kv)" if kv: "kv \<in> set d" for kv
  proof -
    obtain y where "?f kv = Inr y" using mapE_elem [OF ys kv] by blast
    then obtain k e' where "fst kv = PyStr k" "encode_value (snd kv) = Inr e'"
      by (auto simp: case_res_simps res_simps)
    moreover have "genuine (snd kv)" using 7(3) kv by (simp add: list_all_iff)
    ultimately show ?thesis using 7(1) [OF kv] by simp
  qed
  then show ?case using 7(3) by (simp add: list_all_iff)
qed simp_all

lemma set_norm_dict: "set (norm_dict d) = (\<lambda>kv. (fst kv, norm_value (snd kv))) ` set d"
  by (simp add: norm_dict_def)

lemma encode_norm: "payload_ok v \<Longrightarrow> payload_ok (norm_value v) \<and> encode_value (norm_value v) = encode_value v"
proof (induction v rule: encode_value.induct)
  case (6 xs)
  then have "mapE encode_value (map norm_value xs) = mapE encode_value xs"
    unfolding mapE_map by (intro mapE_cong) (auto simp: list_all_iff)
  with 6 show ?case by (auto simp: list_all_iff)
next
  case (7 d)
  have IH: "payload_ok (norm_value (snd kv)) \<and> encode_value (norm_value (snd kv)) = encode_value (snd kv)"
    if kv: "kv \<in> set d" for kv
  proof -
    obtain k where "fst kv = PyStr k" "payload_ok (snd kv)" by (rule payload_ok_entry [OF 7(2) kv])
    then show ?thesis using 7(1) [OF kv] by blast
  qed
  have ok: "payload_ok (PyDict (norm_dict d))"
    using 7(2) IH by (auto simp: list_all_iff set_norm_dict distinct_norm_dict)
  have "map (\<lambda>kv. PyList [fst kv, enc (snd kv)]) (norm_dict d) =
      map (\<lambda>kv. PyList [fst kv, enc (snd kv)]) (sort_key entry_key d)"
    using IH norm_value_dict [of d] by (auto simp: norm_value_PyDict simp del: norm_value.simps)
  then show ?case
    using ok encode_value_dict [OF 7(2)] encode_value_dict [OF ok]
    unfolding norm_value_PyDict sort_norm_dict by simp
qed simp_all

lemma opens_norm:
  assumes "payload_ok (PyDict payload)"
  shows "opens P dek (norm_dict payload) v \<longleftrightarrow> opens P dek payload v"
  using encode_norm [OF assms] unfolding norm_value_PyDict by (simp add: opens_def)

text \<open>The public fields of a payload fit the seeds.\<close>

definition pair_ok :: "prims \<Rightarrow> bytes \<Rightarrow> pyval \<Rightarrow> bool" where
  "pair_ok P seed public_key \<longleftrightarrow>
     length seed = 32 \<and> is_key_bytes public_key
     \<and> (\<exists>k. public_key_from_seed P seed = Inr k \<and> public_key = PyBytes k)"

definition intent_ok :: "pydict \<Rightarrow> bool" where
  "intent_ok payload \<longleftrightarrow>
     (\<exists>i. intent_from_payload (item payload ''rotation_dispatch_intent'') = Inr i
        \<and> PyBytes (ri_predecessor_owner_public_key i) = item payload ''public_key''
        \<and> PyBytes (ri_successor_owner_public_key i) = item payload ''pending_public_key'')"

definition material :: "prims \<Rightarrow> pydict \<Rightarrow> bytes option \<Rightarrow> bytes option \<Rightarrow> bool" where
  "material P payload seed pending \<longleftrightarrow>
     (case seed of
        None \<Rightarrow> pending = None \<and> item payload ''public_key'' = PyNone
          \<and> item payload ''pending_public_key'' = PyNone
          \<and> pykey ''rotation_dispatch_intent'' \<notin> dkeys payload
      | Some s \<Rightarrow> pair_ok P s (item payload ''public_key'')
          \<and> (case pending of
                None \<Rightarrow> item payload ''pending_public_key'' = PyNone
                  \<and> pykey ''rotation_dispatch_intent'' \<notin> dkeys payload
              | Some p \<Rightarrow> pair_ok P p (item payload ''pending_public_key'')
                  \<and> item payload ''pending_public_key'' \<noteq> item payload ''public_key''
                  \<and> (pykey ''rotation_dispatch_intent'' \<in> dkeys payload \<longrightarrow> intent_ok payload)))"

definition seedless :: "pydict \<Rightarrow> bool" where
  "seedless payload \<longleftrightarrow>
     pykey ''private_seed'' \<notin> dkeys payload \<and> pykey ''pending_private_seed'' \<notin> dkeys payload"

definition with_seeds :: "pydict \<Rightarrow> bytes option \<Rightarrow> bytes option \<Rightarrow> pydict" where
  "with_seeds payload seed pending =
     (let p = (case seed of
                 None \<Rightarrow> payload
               | Some b \<Rightarrow> dset payload (pykey ''private_seed'') (PyBytes b))
      in (case pending of
            None \<Rightarrow> p
          | Some b \<Rightarrow> dset p (pykey ''pending_private_seed'') (PyBytes b)))"

lemma is_key_bytes_iff: "is_key_bytes v \<longleftrightarrow> (\<exists>b. v = PyBytes b \<and> length b = 32)"
  by (cases v) (auto simp: is_key_bytes_def)

lemma validate_pair_iff:
  "validate_seed_public_key_pair P (PyBytes s) k = Inr () \<longleftrightarrow> pair_ok P s k"
  by (cases "public_key_from_seed P s")
    (auto simp: validate_seed_public_key_pair_def pair_ok_def is_key_bytes_def bytes_of_def raise_if_def)

lemma validate_pair_Inr:
  "validate_seed_public_key_pair P v k = Inr u \<Longrightarrow> \<exists>s. v = PyBytes s \<and> pair_ok P s k"
proof -
  assume v: "validate_seed_public_key_pair P v k = Inr u"
  then obtain s where "v = PyBytes s"
    by (auto simp: validate_seed_public_key_pair_def raise_if_Inr_iff is_key_bytes_iff)
  then show ?thesis using v validate_pair_iff by simp
qed

lemma dset_pop: "k \<notin> dkeys d \<Longrightarrow> dpop (dset d k v) k = d"
  by (induction d k v rule: dset.induct) (auto simp: dpop_def dkeys_def)

lemma dpop_dset_other: "k \<noteq> j \<Longrightarrow> dpop (dset d k v) j = dset (dpop d j) k v"
  by (induction d k v rule: dset.induct) (auto simp: dpop_def)

lemma dpop_absent: "k \<notin> dkeys d \<Longrightarrow> dpop d k = d"
  by (auto simp: dpop_def dkeys_def filter_id_conv)

lemma with_seeds_items:
  assumes "seedless payload"
  shows "item (with_seeds payload seed pending) ''private_seed'' = optional_bytes seed"
    and "item (with_seeds payload seed pending) ''pending_private_seed'' = optional_bytes pending"
    and "dpop (dpop (with_seeds payload seed pending) (pykey ''private_seed''))
           (pykey ''pending_private_seed'') = payload"
  using assms
  by (auto simp: with_seeds_def item_def dget_none_def seedless_def dkeys_iff_dget optional_bytes_def
      dset_pop dpop_dset_other dpop_absent split: option.split)

lemma secret_material_complete:
  assumes "rest = dpop (dpop stored (pykey ''private_seed'')) (pykey ''pending_private_seed'')"
    and "material P rest seed pending" and "item stored ''private_seed'' = optional_bytes seed"
    and "item stored ''pending_private_seed'' = optional_bytes pending"
  shows "secret_material P stored = Inr (rest, seed, pending)"
proof (cases seed)
  case None
  then show ?thesis
    using assms(2) by (simp add: secret_material_def Let_def assms(3,4) optional_bytes_def material_def
        flip: assms(1))
next
  case (Some s)
  show ?thesis
  proof (cases pending)
    case None
    then show ?thesis
      using assms(2) \<open>seed = Some s\<close>
      by (simp add: secret_material_def Let_def assms(3,4) optional_bytes_def material_def
          validate_pair_iff [THEN iffD2] bytes_of_def flip: assms(1))
  next
    case (Some p)
    then show ?thesis
      using assms(2) \<open>seed = Some s\<close>
      by (auto simp: secret_material_def Let_def assms(3,4) optional_bytes_def material_def
          validate_pair_iff [THEN iffD2] bytes_of_def intent_ok_def pair_ok_def is_key_bytes_def
          simp flip: assms(1))
  qed
qed

lemma secret_material_with_seeds:
  assumes "seedless payload" and "material P payload seed pending"
  shows "secret_material P (with_seeds payload seed pending) = Inr (payload, seed, pending)"
  using assms by (intro secret_material_complete) (simp_all add: with_seeds_items)

lemma secret_material_sound:
  assumes "secret_material P stored = Inr (rest, seed, pending)"
  shows "rest = dpop (dpop stored (pykey ''private_seed'')) (pykey ''pending_private_seed'')"
    and "material P rest seed pending"
    and "item stored ''private_seed'' = optional_bytes seed"
    and "item stored ''pending_private_seed'' = optional_bytes pending"
    and "seedless rest"
proof -
  let ?rest = "dpop (dpop stored (pykey ''private_seed'')) (pykey ''pending_private_seed'')"
  let ?seed = "item stored ''private_seed''" and ?pending = "item stored ''pending_private_seed''"
  have all: "rest = ?rest \<and> material P rest seed pending \<and> ?seed = optional_bytes seed
      \<and> ?pending = optional_bytes pending"
  proof (cases "?seed = PyNone")
    case True
    then show ?thesis
      using assms
      by (auto simp: secret_material_def Let_def raise_if_Inr_iff material_def optional_bytes_def)
  next
    case False
    then have r: "validate_seed_public_key_pair P ?seed (item ?rest ''public_key'') = Inr ()"
      and fields: "rest = ?rest" "seed = Some (bytes_of ?seed)"
        "pending = (if ?pending = PyNone then None else Some (bytes_of ?pending))"
      and p: "?pending = PyNone \<Longrightarrow> item ?rest ''pending_public_key'' = PyNone"
        "?pending \<noteq> PyNone \<Longrightarrow>
          validate_seed_public_key_pair P ?pending (item ?rest ''pending_public_key'') = Inr ()
          \<and> item ?rest ''pending_public_key'' \<noteq> item ?rest ''public_key''"
      and i: "pykey ''rotation_dispatch_intent'' \<in> dkeys ?rest \<Longrightarrow>
          item ?rest ''pending_public_key'' \<noteq> PyNone \<and> intent_ok ?rest"
      using assms
      by (auto simp: secret_material_def Let_def res_simps raise_if_Inr_iff intent_ok_def
          split: if_splits)
    obtain s where s: "?seed = PyBytes s" "pair_ok P s (item ?rest ''public_key'')"
      using validate_pair_Inr [OF r] by blast
    show ?thesis
    proof (cases "?pending = PyNone")
      case True
      then show ?thesis using s fields p(1) i by (auto simp: material_def optional_bytes_def bytes_of_def)
    next
      case False
      then obtain q where "?pending = PyBytes q" "pair_ok P q (item ?rest ''pending_public_key'')"
        using p(2) validate_pair_Inr by blast
      then show ?thesis
        using s fields p(2) i False by (auto simp: material_def optional_bytes_def bytes_of_def)
    qed
  qed
  then show "rest = ?rest" "material P rest seed pending" "?seed = optional_bytes seed"
    "?pending = optional_bytes pending" by blast+
  show "seedless rest" using all by (simp add: seedless_def)
qed

end
