(* ===== verification/Wallet_Reopen.thy ===== *)
theory Wallet_Reopen
  imports Wallet_Vault Storage_Properties Session_Calls
begin

text \<open>
  What the container of a session holds: a session whose file can be opened
  again with its password, to the same payload and the same seeds.
\<close>

section \<open>Stored payloads in key order\<close>

lemma norm_dict_dpop: "norm_dict (dpop d k) = dpop (norm_dict d) k"
  by (simp add: norm_dict_def dpop_def filter_sort [symmetric] filter_map comp_def)

lemma norm_value_scalar:
  "norm_value v = PyNone \<longleftrightarrow> v = PyNone" "norm_value v = PyBytes b \<longleftrightarrow> v = PyBytes b"
  "norm_value v = PyInt i \<longleftrightarrow> v = PyInt i" "norm_value v = PyStr s \<longleftrightarrow> v = PyStr s"
  by (cases v; simp)+

lemma norm_optional_bytes: "norm_value (optional_bytes b) = optional_bytes b"
  by (cases b) (simp_all add: optional_bytes_def)

lemma item_norm_dict: "distinct (map fst d) \<Longrightarrow> item (norm_dict d) k = norm_value (item d k)"
  by (simp add: item_def dget_none_norm_dict)

lemma distinct_dpop: "distinct (map fst d) \<Longrightarrow> distinct (map fst (dpop d k))"
  by (simp add: dpop_def distinct_map_filter)

lemma intent_key_field_norm: "intent_key_field v = Inr b \<Longrightarrow> norm_value v = v"
  by (cases v) (simp_all add: intent_key_field_def)

lemma environment_norm: "valid_registry_environment v \<Longrightarrow> norm_value v = v"
  by (cases v) (simp_all add: valid_registry_environment_def)

lemma make_intent_norm:
  assumes "make_intent n p s h q e env = Inr i"
  shows "norm_value n = n" "norm_value p = p" "norm_value s = s" "norm_value h = h" "norm_value q = q"
    "norm_value e = e" "norm_value env = env"
  using assms
  by (auto simp: make_intent_def raise_if_Inr_iff res_simps case_res_simps intent_key_field_norm
      dest: intent_key_field_norm environment_norm)

lemma intent_from_payload_norm:
  assumes "intent_from_payload v = Inr i" and "genuine v"
  shows "intent_from_payload (norm_value v) = Inr i"
proof -
  obtain d where v: "v = PyDict d" using assms(1) by (cases v) (simp_all add: intent_from_payload_def)
  have get: "dget_none (norm_dict d) k = norm_value (dget_none d k)" for k
    using assms(2) by (simp add: v dget_none_norm_dict)
  have m: "make_intent (dget_none d (pykey ''owner_name''))
      (dget_none d (pykey ''predecessor_owner_public_key''))
      (dget_none d (pykey ''successor_owner_public_key''))
      (dget_none d (pykey ''predecessor_state_hash'')) (dget_none d (pykey ''sequence''))
      (dget_none d (pykey ''envelope_hash'')) (dget_none d (pykey ''environment'')) = Inr i"
    using assms(1) by (simp add: v intent_from_payload_def raise_if_Inr_iff)
  show ?thesis
    using assms(1) make_intent_norm [OF m] unfolding v norm_value_PyDict
    by (simp add: intent_from_payload_def dkeys_norm_dict get)
qed

lemma pair_ok_bytes: "pair_ok P s k \<Longrightarrow> norm_value k = k"
  by (auto simp: pair_ok_def)

lemma intent_ok_norm:
  assumes "intent_ok d" and "genuine (PyDict d)"
  shows "intent_ok (norm_dict d)"
proof -
  have dist: "distinct (map fst d)" using assms(2) by simp
  have g: "genuine (item d k)" for k
  proof (cases "dget d (pykey k)")
    case (Some v)
    then have "(pykey k, v) \<in> set d" by (simp add: dget_def map_of_SomeD)
    moreover have "\<forall>kv \<in> set d. genuine (snd kv)" using assms(2) by (simp add: list_all_iff)
    ultimately show ?thesis using Some by (auto simp: item_def dget_none_def)
  qed (simp add: item_def dget_none_def)
  obtain i where i: "intent_from_payload (item d ''rotation_dispatch_intent'') = Inr i"
      "PyBytes (ri_predecessor_owner_public_key i) = item d ''public_key''"
      "PyBytes (ri_successor_owner_public_key i) = item d ''pending_public_key''"
    using assms(1) by (auto simp: intent_ok_def)
  show ?thesis
    unfolding intent_ok_def item_norm_dict [OF dist] i(2,3) [symmetric]
    using intent_from_payload_norm [OF i(1) g] by simp
qed

lemma material_norm:
  assumes "material P d seed pending" and "genuine (PyDict d)"
  shows "material P (norm_dict d) seed pending"
proof -
  have dist: "distinct (map fst d)" using assms(2) by simp
  show ?thesis
    using assms(1) intent_ok_norm [OF _ assms(2)]
    by (auto simp: material_def item_norm_dict [OF dist] norm_value_scalar dkeys_norm_dict pair_ok_bytes
        split: option.splits)
qed

lemma genuine_dpop: "genuine (PyDict d) \<Longrightarrow> genuine (PyDict (dpop d k))"
  by (auto simp: dpop_def list_all_iff distinct_map_filter)

lemma secret_material_norm:
  assumes "secret_material P d = Inr (rest, seed, pending)" and "genuine (PyDict d)"
  shows "secret_material P (norm_dict d) = Inr (norm_dict rest, seed, pending)"
proof -
  note m = secret_material_sound [OF assms(1)]
  have dist: "distinct (map fst d)" using assms(2) by simp
  have "genuine (PyDict rest)" unfolding m(1) by (intro genuine_dpop assms(2))
  then have "material P (norm_dict rest) seed pending" by (rule material_norm [OF m(2)])
  then show ?thesis
    by (intro secret_material_complete)
      (simp_all add: m(1,3,4) item_norm_dict [OF dist] norm_dict_dpop norm_optional_bytes)
qed

section \<open>The vault of a session\<close>

text \<open>The seeds of a session, as its buffers hold them.\<close>

definition seed_of :: "nat \<Rightarrow> world \<Rightarrow> bytes option" where
  "seed_of h w = map_option (\<lambda>a. w_bufs w ! a) (w_wallet_secrets w h)"

definition pending_of :: "nat \<Rightarrow> world \<Rightarrow> bytes option" where
  "pending_of h w = map_option (\<lambda>a. w_bufs w ! a) (w_pending_secrets w h)"

text \<open>The buffers of the key and of the seeds exist and are different.\<close>

definition own_buffers :: "nat \<Rightarrow> world \<Rightarrow> bool" where
  "own_buffers h w \<longleftrightarrow>
     (let used = [wa_dek (w_wallets w ! h), w_wallet_secrets w h, w_pending_secrets w h]
      in distinct (filter (\<lambda>a. a \<noteq> None) used)
         \<and> list_all (\<lambda>a. case a of None \<Rightarrow> True | Some i \<Rightarrow> i < length (w_bufs w)) used)"

text \<open>\<open>vault P password stored h w\<close>: the file of session \<open>h\<close> is its envelope, which the
  password opens to the key of the session and to \<open>stored\<close>, and \<open>stored\<close> has the payload and
  the seeds of the session.\<close>

definition vault :: "prims \<Rightarrow> pystr \<Rightarrow> pydict \<Rightarrow> nat \<Rightarrow> world \<Rightarrow> bool" where
  "vault P password stored h w \<longleftrightarrow>
     h < length (w_wallets w) \<and> own_buffers h w \<and> genuine (PyDict stored)
     \<and> (\<exists>a raw. wa_dek (w_wallets w ! h) = Some a
          \<and> seals P password (w_bufs w ! a) stored (wa_envelope (w_wallets w ! h))
          \<and> serialize (wa_envelope (w_wallets w ! h)) = Inr raw
          \<and> content (dk_files w) (Path (wa_path (w_wallets w ! h))) = Some raw)
     \<and> secret_material P stored = Inr (wa_payload (w_wallets w ! h), seed_of h w, pending_of h w)"

lemma run_wallet_init:
  assumes "secret_material P stored = Inr (rest, seed, pending)"
  shows "\<exists>w'. wallet_init P path a stored env m w = (Ret (length (w_wallets w)), w')
    \<and> w_wallets w' = w_wallets w @
        [\<lparr>wa_path = path, wa_dek = Some a, wa_payload = rest, wa_envelope = env, wa_capabilities = [],
          wa_inactivity_seconds = of_int (m * 60), wa_last_activity = w_monotonic w (w_ticks w)\<rparr>]
    \<and> seed_of (length (w_wallets w)) w' = seed \<and> pending_of (length (w_wallets w)) w' = pending
    \<and> dk_files w' = dk_files w \<and> (\<exists>bs. w_bufs w' = w_bufs w @ bs)
    \<and> (a < length (w_bufs w) \<longrightarrow> own_buffers (length (w_wallets w)) w')"
  using assms
  by (cases seed; cases pending)
    (simp_all add: wallet_init_def bindS_def optional_buffer_def seed_of_def pending_of_def own_buffers_def
      Let_def nth_append)

section \<open>Opening\<close>

lemma run_read_envelope:
  assumes "dk_faults w = []" and "content (dk_files w) (Path path) = Some raw"
    and "serialize env = Inr raw" and "has_form env salt u v" and "length raw \<le> MAX_CONTAINER_BYTES"
    and "2 \<le> w_recursion_limit w"
  shows "read_envelope path w = (Ret (norm_dict env), w)"
  using assms parse_serialize [OF assms(4,3,5,6)]
  by (simp add: read_envelope_def read_container_def bindS_def exceptS_def run_syscall os_nop_def
      os_read_bytes_def)

lemma payload_ok_genuine: "payload_ok v \<Longrightarrow> genuine v"
  by (induction v rule: genuine.induct) (auto simp: list_all_iff)

lemma stored_payload_ok:
  assumes "seals P password dek stored env" and "genuine (PyDict stored)"
  shows "payload_ok (PyDict stored)"
proof -
  obtain e where "encode_value (PyDict stored) = Inr e" using assms(1) by (auto simp: seals_def res_simps)
  then show ?thesis using assms(2) by (rule encoded_payload_ok)
qed

lemma serialize_norm:
  assumes "json_plain (PyDict env)"
  shows "serialize (norm_dict env) = serialize env"
proof -
  have "json_plain (PyDict (norm_dict env))"
    using assms json_plain_norm [of "PyDict env"] unfolding norm_value_PyDict by blast
  then show ?thesis
    unfolding serialize_def by (rule canonical_json_cong [OF _ assms])
      (simp add: norm_value_PyDict del: norm_value.simps(2))
qed

text \<open>A container that is sealed under the password opens to what it holds.\<close>

lemma run_wallet_open:
  assumes faults: "dk_faults w = []" and raw: "content (dk_files w) (Path path) = Some raw"
      "serialize env = Inr raw" "length raw \<le> MAX_CONTAINER_BYTES"
    and env: "seals P password dek stored env" and stored: "genuine (PyDict stored)"
      "nesting (enc (PyDict stored)) \<le> w_recursion_limit w" "2 \<le> w_recursion_limit w"
      "secret_material P stored = Inr (rest, seed, pending)"
    and args: "MIN_PASSWORD_LENGTH \<le> length password" "1 \<le> m" "m \<le> 15"
  shows "\<exists>w'. wallet_open P path (PyStr password) (PyInt m) w = (Ret (length (w_wallets w)), w')
    \<and> vault P password (norm_dict stored) (length (w_wallets w)) w'
    \<and> wa_payload (w_wallets w' ! length (w_wallets w)) = norm_dict rest
    \<and> seed_of (length (w_wallets w)) w' = seed \<and> pending_of (length (w_wallets w)) w' = pending"
proof -
  obtain salt u v where form: "has_form env salt u v" using env by (auto simp: seals_def)
  have ok: "payload_ok (PyDict stored)"
    by (rule stored_payload_ok [OF env stored(1)])
  obtain l k n where un: "unlock_envelope P (norm_dict env) password CURRENT_FORMAT_VERSION w =
    (Ret (length (w_bufs w) + 2, norm_dict stored),
     w\<lparr>w_bufs := w_bufs w @ [zero_bytes l, zero_bytes k, dek, zero_bytes n]\<rparr>)"
    using run_unlock_envelope [OF seals_norm [OF env] ok stored(2)] by blast
  let ?bufs = "w_bufs w @ [zero_bytes l, zero_bytes k, dek, zero_bytes n]"
  let ?h = "length (w_wallets w)" and ?a = "length (w_bufs w) + 2" and ?env = "norm_dict env"
  let ?w = "w\<lparr>w_bufs := ?bufs, w_auth_failures := (w_auth_failures w)(path := None)\<rparr>"
  have "wallet_open P path (PyStr password) (PyInt m) w = wallet_init P path ?a (norm_dict stored) ?env m ?w"
    using args un run_read_envelope [OF faults raw(1,2) form raw(3) stored(3)]
    by (simp add: wallet_open_def bindS_def validate_password_def validate_inactivity_def
        unlock_counted_def exceptS_def clear_unlock_failures_def)
  moreover from run_wallet_init [OF secret_material_norm [OF stored(4,1)], of path ?a ?env m ?w]
  obtain w' bs where init: "wallet_init P path ?a (norm_dict stored) ?env m ?w = (Ret ?h, w')"
      "w_wallets w' = w_wallets w @
        [\<lparr>wa_path = path, wa_dek = Some ?a, wa_payload = norm_dict rest, wa_envelope = ?env,
          wa_capabilities = [], wa_inactivity_seconds = of_int (m * 60),
          wa_last_activity = w_monotonic w (w_ticks w)\<rparr>]"
      "seed_of ?h w' = seed" "pending_of ?h w' = pending" "dk_files w' = dk_files w"
      "w_bufs w' = ?bufs @ bs" "own_buffers ?h w'"
    by auto
  moreover have "genuine (PyDict (norm_dict stored))"
    using encode_norm [OF ok] payload_ok_genuine unfolding norm_value_PyDict by blast
  moreover have "seals P password dek (norm_dict stored) ?env"
    using seals_norm [OF env] encode_norm [OF ok] unfolding norm_value_PyDict by (simp add: seals_def)
  moreover have "serialize ?env = Inr raw"
    using serialize_norm form raw(2) unfolding has_form_def by metis
  ultimately show ?thesis
    using raw(1) secret_material_norm [OF stored(4,1)]
    by (simp add: vault_def nth_append)
qed

section \<open>Creating\<close>

lemma atomic_write_stores:
  assumes "atomic_write (Path path) raw replace w = (Ret (), w')" and "files_ok (dk_files w)" and "quiet w"
  shows "content (dk_files w') (Path path) = Some raw"
    and "scratch_step w w' \<and> w_bufs w' = w_bufs w \<and> w_ticks w' = w_ticks w"
proof -
  show "content (dk_files w') (Path path) = Some raw"
    using alwaysD [OF atomic_write_outcome [OF assms(2,3) refl] assms(1)] by (simp add: write_outcome_def)
  have "disk_step w w'" by (rule evolvesD [OF evolves_atomic_write assms(1)])
  then show "scratch_step w w' \<and> w_bufs w' = w_bufs w \<and> w_ticks w' = w_ticks w"
    using disk_step_scratch by (cases w; cases w') (auto simp: disk_step_def)
qed

lemma create_storage_Ret:
  assumes "create_storage P path (PyStr password) confirmation (PyDict d) minutes w = (Ret h, w')"
  obtains env raw w1 w2 m where
    "build_v2_envelope P password (w_random w (w_draws w) KEY_LENGTH)
       (kdf_header (w_random w (Suc (w_draws w)) SALT_LENGTH)) d
       (w\<lparr>w_bufs := w_bufs w @ [w_random w (w_draws w) KEY_LENGTH], w_draws := Suc (Suc (w_draws w))\<rparr>)
     = (Ret env, w1)"
    "serialize env = Inr raw" "atomic_write (Path path) raw False w1 = (Ret (), w2)"
    "wallet_init P path (length (w_bufs w)) d env m w2 = (Ret h, w')"
  using assms
  by (auto simp: create_storage_def prog_simps validate_password_def raise_if_Inr_iff wallet_or_storage_def)

text \<open>The session of a new wallet has its vault.\<close>

lemma create_storage_vault:
  assumes run: "create_storage P path (PyStr password) confirmation (PyDict d) minutes w = (Ret h, w')"
    and ok: "aead_ok P" "argon2_ok P" "random_ok w" "files_ok (dk_files w)" "quiet w"
    and d: "genuine (PyDict d)"
  shows "vault P password d h w'"
proof -
  let ?key = "w_random w (w_draws w) KEY_LENGTH" and ?salt = "w_random w (Suc (w_draws w)) SALT_LENGTH"
  let ?w = "w\<lparr>w_bufs := w_bufs w @ [?key], w_draws := Suc (Suc (w_draws w))\<rparr>"
  from run obtain env raw w1 w2 m where
    build: "build_v2_envelope P password ?key (kdf_header ?salt) d ?w = (Ret env, w1)"
    and raw: "serialize env = Inr raw" and store: "atomic_write (Path path) raw False w1 = (Ret (), w2)"
    and init: "wallet_init P path (length (w_bufs w)) d env m w2 = (Ret h, w')"
    by (rule create_storage_Ret)
  have len: "random_ok ?w" "length ?key = 32" "length ?salt = SALT_LENGTH"
    using ok(3) by (simp_all add: random_ok_def KEY_LENGTH_def)
  note b = build_v2_envelope_Ret [OF build ok(1,2) len kdf_plain refl]
  obtain l n where w1: "w1 = ?w\<lparr>w_draws := w_draws ?w + 2,
      w_bufs := w_bufs ?w @ [zero_bytes l, zero_bytes n]\<rparr>" using b(2) by blast
  have "files_ok (dk_files w1)" "quiet w1" using ok(4,5) by (simp_all add: w1 quiet_def)
  note s = atomic_write_stores [OF store this]
  obtain rest seed pending where sm: "secret_material P d = Inr (rest, seed, pending)"
    using init by (auto simp: wallet_init_def prog_simps)
  have bufs: "w_bufs w2 = w_bufs w @ [?key, zero_bytes l, zero_bytes n]" using s(2) by (simp add: w1)
  from run_wallet_init [OF sm, of path "length (w_bufs w)" env m w2] init bufs s(1) b(1) raw d sm
  show ?thesis
    by (auto simp: vault_def nth_append)
qed

section \<open>Saving\<close>

definition override :: "nat option \<Rightarrow> bytes option \<Rightarrow> world \<Rightarrow> bytes option" where
  "override a b w = (case a of None \<Rightarrow> b | Some i \<Rightarrow> Some (w_bufs w ! i))"

lemma run_read_optional [simp]: "read_optional a w = (Ret (map_option (\<lambda>i. w_bufs w ! i) a), w)"
  by (cases a) (simp_all add: read_optional_def bindS_def)

lemma build_envelope_Ret:
  assumes run: "build_envelope P h payload po ao incl w = (Ret env, w')"
    and v: "vault P password stored h w" and ok: "aead_ok P" "random_ok w"
    and dek: "wa_dek (w_wallets w ! h) = Some a"
  obtains stored' cur where
    "storage_payload payload cur (ao \<noteq> None) (override ao (seed_of h w) w)
       (override po (pending_of h w) w) incl = Inr stored'"
    "override ao (seed_of h w) w \<noteq> None \<and> ao = None \<longrightarrow> cur = item (wa_payload (w_wallets w ! h)) ''public_key''"
    "seals P password (w_bufs w ! a) stored' env" "w' = w\<lparr>w_draws := Suc (w_draws w)\<rparr>"
proof -
  let ?env = "wa_envelope (w_wallets w ! h)" and ?dek = "w_bufs w ! a"
  have s: "seals P password ?dek stored ?env" using v dek by (auto simp: vault_def)
  then obtain salt u p where form: "has_form ?env salt u p" and len: "length ?dek = KEY_LENGTH"
      and wr: "wraps P password ?dek salt u" and "opens P ?dek stored p"
    unfolding seals_iff by blast
  have salt: "b64_decode (dget_none (sub_dict ?env ''kdf'') (pykey ''salt'')) (Some SALT_LENGTH) = Inr salt"
    using form_strings(1) [OF form] form by (simp add: has_form_def b64_decode_encode_value)
  from run dek salt obtain cur stored' sealed where
    st: "storage_payload payload cur (ao \<noteq> None) (override ao (seed_of h w) w)
       (override po (pending_of h w) w) incl = Inr stored'"
    and cur: "override ao (seed_of h w) w \<noteq> None \<and> ao = None \<longrightarrow>
       cur = item (wa_payload (w_wallets w ! h)) ''public_key''"
    and mk: "make_payload P ?dek stored' CURRENT_FORMAT_VERSION w = (Ret sealed, w')"
    and env: "env = make_envelope (kdf_header salt) (sub_dict ?env ''wrap'') (sealed_part sealed)"
    by (cases ao; cases po)
      (auto simp: build_envelope_def prog_simps require_unlocked_def dindex_def item_def dget_none_def
        override_def seed_of_def pending_of_def split: option.splits if_splits)
  from make_payload_opens [OF mk ok] len obtain x where x: "sealed_part sealed = sealed_dict x"
      "sealed_lengths x" "opens P ?dek stored' x" "w' = w\<lparr>w_draws := Suc (w_draws w)\<rparr>"
    by (auto simp: KEY_LENGTH_def)
  have "seals P password ?dek stored' env"
    unfolding seals_iff env x(1) using form_reseal [OF form x(2)] len wr x(3) by blast
  with st cur x(4) show thesis by (intro that)
qed

text \<open>What is stored is the payload with the seeds.\<close>

lemma dset_same: "dget d k = Some v \<Longrightarrow> dset d k v = d"
  by (induction d k v rule: dset.induct) (auto split: if_splits)

lemma dset_item_bytes: "item d k = PyBytes b \<Longrightarrow> dset d (pykey k) (PyBytes b) = d"
  by (auto simp: item_def dget_none_def intro: dset_same split: option.splits)

lemma genuine_dset:
  assumes "genuine (PyDict d)" and "genuine v"
  shows "genuine (PyDict (dset d k v))"
proof -
  have "set (map fst (dset d k v)) = insert k (set (map fst d))
      \<and> (distinct (map fst d) \<longrightarrow> distinct (map fst (dset d k v)))"
    by (induction d k v rule: dset.induct) auto
  moreover have "list_all (\<lambda>kv. genuine (snd kv)) (dset d k v)"
    using assms by (induction d k v rule: dset.induct) auto
  ultimately show ?thesis using assms(1) by simp
qed

lemma pair_ok_item: "pair_ok P s (item d k) \<Longrightarrow> \<exists>b. item d k = PyBytes b"
  by (auto simp: pair_ok_def)

lemma storage_payload_with_seeds:
  assumes "storage_payload payload cur ov seed pending True = Inr stored" and "seedless payload"
    and "material P payload seed pending"
    and "seed \<noteq> None \<and> \<not> ov \<longrightarrow> cur = item payload ''public_key''"
  shows "stored = with_seeds payload seed pending"
proof (cases seed)
  case None
  then show ?thesis
    using assms(1,3) by (simp add: storage_payload_def Let_def with_seeds_def material_def)
next
  case (Some s)
  let ?q = "dset payload (pykey ''private_seed'') (PyBytes s)"
  obtain k where k: "item payload ''public_key'' = PyBytes k"
    using assms(3) Some pair_ok_item by (fastforce simp: material_def split: option.splits)
  have q: "item ?q ''public_key'' = PyBytes k" "item ?q ''pending_public_key'' = item payload ''pending_public_key''"
    using k by (simp_all add: item_def dget_none_def)
  show ?thesis
  proof (cases pending)
    case None
    then show ?thesis
      using assms(1,4) Some k dset_item_bytes [OF q(1)]
      by (cases ov) (simp_all add: storage_payload_def Let_def with_seeds_def)
  next
    case (Some p)
    obtain l where l: "item payload ''pending_public_key'' = PyBytes l"
      using assms(3) Some \<open>seed = Some s\<close> pair_ok_item by (fastforce simp: material_def)
    have "item (dset ?q (pykey ''pending_private_seed'') (PyBytes p)) ''pending_public_key'' = PyBytes l"
      using q(2) l by (simp add: item_def dget_none_def)
    from dset_item_bytes [OF this] show ?thesis
      using assms(1,4) Some \<open>seed = Some s\<close> k dset_item_bytes [OF q(1)] q(2) l
      by (cases ov) (auto simp: storage_payload_def Let_def with_seeds_def raise_if_Inr_iff)
  qed
qed

lemma genuine_with_seeds: "genuine (PyDict payload) \<Longrightarrow> genuine (PyDict (with_seeds payload seed pending))"
  by (auto simp: with_seeds_def intro!: genuine_dset split: option.split simp del: genuine.simps(2))

section \<open>What a vault does not depend on\<close>

definition session_frame :: "nat \<Rightarrow> world \<Rightarrow> world \<Rightarrow> bool" where
  "session_frame h w w' \<longleftrightarrow>
     length (w_wallets w') = length (w_wallets w)
     \<and> wa_path (w_wallets w' ! h) = wa_path (w_wallets w ! h)
     \<and> wa_dek (w_wallets w' ! h) = wa_dek (w_wallets w ! h)
     \<and> wa_payload (w_wallets w' ! h) = wa_payload (w_wallets w ! h)
     \<and> wa_envelope (w_wallets w' ! h) = wa_envelope (w_wallets w ! h)
     \<and> w_wallet_secrets w' h = w_wallet_secrets w h \<and> w_pending_secrets w' h = w_pending_secrets w h
     \<and> w_random w' = w_random w \<and> w_recursion_limit w' = w_recursion_limit w
     \<and> (\<exists>bs. w_bufs w' = w_bufs w @ bs)"

definition vault_frame :: "nat \<Rightarrow> world \<Rightarrow> world \<Rightarrow> bool" where
  "vault_frame h w w' \<longleftrightarrow>
     session_frame h w w' \<and> dk_files w' = dk_files w \<and> (quiet w \<longrightarrow> quiet w')"

interpretation sf: evolution "session_frame h"
  by unfold_locales (auto simp: session_frame_def)

interpretation vf: evolution "vault_frame h"
  by unfold_locales (auto simp: vault_frame_def session_frame_def)

lemma own_buffers_iff:
  "own_buffers h w \<longleftrightarrow>
     (\<forall>a \<in> {wa_dek (w_wallets w ! h), w_wallet_secrets w h, w_pending_secrets w h}.
        case a of None \<Rightarrow> True | Some i \<Rightarrow> i < length (w_bufs w))
     \<and> (wa_dek (w_wallets w ! h) \<noteq> None \<longrightarrow> wa_dek (w_wallets w ! h) \<noteq> w_wallet_secrets w h
          \<and> wa_dek (w_wallets w ! h) \<noteq> w_pending_secrets w h)
     \<and> (w_wallet_secrets w h \<noteq> None \<longrightarrow> w_wallet_secrets w h \<noteq> w_pending_secrets w h)"
  by (auto simp: own_buffers_def Let_def split: option.splits)

lemma frame_seeds:
  assumes "session_frame h w w'" and "own_buffers h w"
  shows "own_buffers h w'" "seed_of h w' = seed_of h w" "pending_of h w' = pending_of h w"
    "wa_dek (w_wallets w ! h) = Some a \<Longrightarrow> w_bufs w' ! a = w_bufs w ! a"
  using assms
  by (auto simp: session_frame_def own_buffers_iff seed_of_def pending_of_def nth_append
      split: option.splits)

lemma vault_framed: "vault P password stored h w \<Longrightarrow> vault_frame h w w' \<Longrightarrow> vault P password stored h w'"
  using frame_seeds [of h w w'] unfolding vault_def
  by (auto simp: vault_frame_def session_frame_def)

lemma persist_envelope_Ret:
  assumes "persist_envelope h env w = (Ret (), w')" and "files_ok (dk_files w)" and "quiet w"
  obtains raw where "serialize env = Inr raw"
    "content (dk_files w') (Path (wa_path (w_wallets w ! h))) = Some raw" "session_frame h w w'"
proof -
  obtain raw where raw: "serialize env = Inr raw"
      and aw: "atomic_write (Path (wa_path (w_wallets w ! h))) raw True w = (Ret (), w')"
    using assms(1) by (auto simp: persist_envelope_def prog_simps)
  note s = atomic_write_stores [OF aw assms(2,3)]
  have "session_frame h w w'"
    using s(2) scratch_stepD [of w w'] by (simp add: session_frame_def)
  with raw s(1) show thesis by (rule that)
qed

text \<open>A store of a new payload with the seeds as they are.\<close>

definition content_set :: "nat \<Rightarrow> pydict \<Rightarrow> pydict \<Rightarrow> world \<Rightarrow> world" where
  "content_set h payload env w =
     w\<lparr>w_wallets := (w_wallets w)[h := (w_wallets w ! h)\<lparr>wa_payload := payload, wa_envelope := env\<rparr>]\<rparr>"

lemma run_set_content [simp]: "set_content h payload env w = (Ret (), content_set h payload env w)"
  by (simp add: set_content_def content_set_def)

lemma content_set_fields [simp]:
  "w_bufs (content_set h payload env w) = w_bufs w" "dk_files (content_set h payload env w) = dk_files w"
  "w_wallet_secrets (content_set h payload env w) = w_wallet_secrets w"
  "w_pending_secrets (content_set h payload env w) = w_pending_secrets w"
  "length (w_wallets (content_set h payload env w)) = length (w_wallets w)"
  "seed_of h (content_set h payload env w) = seed_of h w"
  "pending_of h (content_set h payload env w) = pending_of h w"
  by (simp_all add: content_set_def seed_of_def pending_of_def)

lemma content_set_session [simp]:
  assumes "h < length (w_wallets w)"
  shows "w_wallets (content_set h payload env w) ! h =
      (w_wallets w ! h)\<lparr>wa_payload := payload, wa_envelope := env\<rparr>"
    "own_buffers h (content_set h payload env w) = own_buffers h w"
  using assms by (simp_all add: content_set_def own_buffers_def)

definition device_ok :: "prims \<Rightarrow> world \<Rightarrow> bool" where
  "device_ok P w \<longleftrightarrow> aead_ok P \<and> argon2_ok P \<and> random_ok w \<and> files_ok (dk_files w) \<and> quiet w"

lemma device_framed: "device_ok P w \<Longrightarrow> vault_frame h w w' \<Longrightarrow> device_ok P w'"
  by (simp add: device_ok_def vault_frame_def session_frame_def random_ok_def)

lemma saved:
  assumes v: "vault P password stored h w" and dev: "device_ok P w"
    and build: "build_envelope P h payload po ao incl w = (Ret env, w1)"
    and frame: "h < length (w_wallets w1) \<Longrightarrow> vault_frame h w1 w2"
    and persist: "persist_envelope h env w2 = (Ret (), w3)"
  obtains a stored' cur raw where "wa_dek (w_wallets w ! h) = Some a"
    "storage_payload payload cur (ao \<noteq> None) (override ao (seed_of h w) w)
       (override po (pending_of h w) w) incl = Inr stored'"
    "override ao (seed_of h w) w \<noteq> None \<and> ao = None \<longrightarrow> cur = item (wa_payload (w_wallets w ! h)) ''public_key''"
    "seals P password (w_bufs w ! a) stored' env" "serialize env = Inr raw"
    "content (dk_files w3) (Path (wa_path (w_wallets w ! h))) = Some raw" "session_frame h w w3"
proof -
  obtain a where a: "wa_dek (w_wallets w ! h) = Some a" using v by (auto simp: vault_def)
  have ok: "aead_ok P" "random_ok w" using dev by (simp_all add: device_ok_def)
  obtain cur stored' where
    st: "storage_payload payload cur (ao \<noteq> None) (override ao (seed_of h w) w)
       (override po (pending_of h w) w) incl = Inr stored'"
      "override ao (seed_of h w) w \<noteq> None \<and> ao = None \<longrightarrow> cur = item (wa_payload (w_wallets w ! h)) ''public_key''"
    and s: "seals P password (w_bufs w ! a) stored' env" and w1: "w1 = w\<lparr>w_draws := Suc (w_draws w)\<rparr>"
    by (rule build_envelope_Ret [OF build v ok a])
  have "h < length (w_wallets w)" using v by (simp add: vault_def)
  then have f2: "vault_frame h w w2" using frame by (simp add: w1 vault_frame_def session_frame_def quiet_def)
  with dev have "files_ok (dk_files w2)" "quiet w2" using device_framed device_ok_def by blast+
  then obtain raw where raw: "serialize env = Inr raw"
      "content (dk_files w3) (Path (wa_path (w_wallets w2 ! h))) = Some raw" "session_frame h w2 w3"
    using persist_envelope_Ret [OF persist] by blast
  have "session_frame h w w3"
    using f2 raw(3) sf.evo_trans unfolding vault_frame_def by blast
  moreover have "wa_path (w_wallets w2 ! h) = wa_path (w_wallets w ! h)"
    using f2 by (simp add: vault_frame_def session_frame_def)
  ultimately show thesis using that [OF a st s raw(1)] raw(2) by simp
qed

lemma vault_resaved:
  assumes v: "vault P password stored h w" and dev: "device_ok P w"
    and build: "build_envelope P h payload None None True w = (Ret env, w1)"
    and frame: "h < length (w_wallets w1) \<Longrightarrow> vault_frame h w1 w2"
    and persist: "persist_envelope h env w2 = (Ret (), w3)"
    and p: "seedless payload" "material P payload (seed_of h w) (pending_of h w)" "genuine (PyDict payload)"
      "seed_of h w \<noteq> None \<Longrightarrow> item payload ''public_key'' = item (wa_payload (w_wallets w ! h)) ''public_key''"
  shows "vault P password (with_seeds payload (seed_of h w) (pending_of h w)) h (content_set h payload env w3)"
proof -
  obtain a stored' cur raw where a: "wa_dek (w_wallets w ! h) = Some a"
    and st: "storage_payload payload cur False (seed_of h w) (pending_of h w) True = Inr stored'"
      "seed_of h w \<noteq> None \<longrightarrow> cur = item (wa_payload (w_wallets w ! h)) ''public_key''"
    and s: "seals P password (w_bufs w ! a) stored' env" and raw: "serialize env = Inr raw"
      "content (dk_files w3) (Path (wa_path (w_wallets w ! h))) = Some raw" and f3: "session_frame h w w3"
    by (rule saved [OF v dev build _ persist]) (erule frame, simp add: override_def)
  have stored': "stored' = with_seeds payload (seed_of h w) (pending_of h w)"
    by (rule storage_payload_with_seeds [OF st(1) p(1,2)]) (use st(2) p(4) in auto)
  have own: "own_buffers h w" "h < length (w_wallets w)" using v by (simp_all add: vault_def)
  note f = frame_seeds [OF f3 own(1)]
  have len: "h < length (w_wallets w3)" using own(2) f3 by (simp add: session_frame_def)
  show ?thesis
    using secret_material_with_seeds [OF p(1,2)] genuine_with_seeds [OF p(3)] s [unfolded stored'] raw f(1-3)
      f(4) [OF a] a len f3
    by (simp add: vault_def session_frame_def)
qed

end
