(* ===== verification/Wallet_Keeping.thy ===== *)
theory Wallet_Keeping
  imports Wallet_Reopen
begin

text \<open>
  Every operation of a session that returns leaves a session with a vault.
\<close>

section \<open>Calls that store nothing\<close>

text \<open>\<open>settles h m\<close>: when \<open>m\<close> returns, the vault of session \<open>h\<close> is as before, and when it raises,
  the vault is as before or the session is locked.\<close>

definition shut :: "nat \<Rightarrow> world \<Rightarrow> bool" where
  "shut h w \<longleftrightarrow> wa_dek (w_wallets w ! h) = None"

definition settled :: "nat \<Rightarrow> world \<Rightarrow> 'a outcome \<Rightarrow> world \<Rightarrow> bool" where
  "settled h w r w' \<longleftrightarrow> vault_frame h w w' \<or> (\<exists>e. r = Raise e) \<and> shut h w' \<or> r = Killed"

definition settles :: "nat \<Rightarrow> ('a, world) prog \<Rightarrow> bool" where
  "settles h m \<longleftrightarrow>
     (\<forall>w r w'. h < length (w_wallets w) \<and> quiet w \<and> m w = (r, w') \<longrightarrow> settled h w r w')"

lemma settlesD: "settles h m \<Longrightarrow> m w = (Ret x, w') \<Longrightarrow> h < length (w_wallets w) \<Longrightarrow> quiet w \<Longrightarrow> vault_frame h w w'"
  by (force simp: settles_def settled_def)

lemma settles_Raise:
  "settles h m \<Longrightarrow> m w = (Raise e, w') \<Longrightarrow> h < length (w_wallets w) \<Longrightarrow> quiet w
    \<Longrightarrow> vault_frame h w w' \<or> shut h w'"
  by (force simp: settles_def settled_def)

lemma settles_evolves: "evolves (vault_frame h) m \<Longrightarrow> settles h m"
  by (auto simp: settles_def settled_def dest: evolvesD)

lemma settled_trans: "vault_frame h w w1 \<Longrightarrow> settled h w1 r w' \<Longrightarrow> settled h w r w'"
  using vf.evo_trans by (auto simp: settled_def)

lemma settles_bind:
  assumes "settles h m" and "\<And>x. settles h (f x)"
  shows "settles h (bindS m f)"
  unfolding settles_def
proof (intro allI impI, elim conjE)
  fix w r w'
  assume w: "h < length (w_wallets w)" "quiet w" and run: "bindS m f w = (r, w')"
  obtain s w1 where m: "m w = (s, w1)" by fastforce
  have s: "settled h w s w1" using assms(1) w m by (simp add: settles_def)
  show "settled h w r w'"
  proof (cases s)
    case (Ret y)
    then have v: "vault_frame h w w1" using s by (auto simp: settled_def)
    moreover have "settled h w1 r w'"
      using assms(2) [of y] v w run m Ret
      by (simp add: settles_def bindS_def vault_frame_def session_frame_def)
    ultimately show ?thesis by (rule settled_trans)
  qed (use s run m in \<open>auto simp: bindS_def settled_def\<close>)
qed

lemma settles_except:
  assumes "settles h m" and "\<And>e w. \<exists>e'. g e w = (Raise e', w)"
  shows "settles h (exceptS m g)"
  unfolding settles_def
proof (intro allI impI, elim conjE)
  fix w r w'
  assume w: "h < length (w_wallets w)" "quiet w" and run: "exceptS m g w = (r, w')"
  obtain s w1 where m: "m w = (s, w1)" by fastforce
  have s: "settled h w s w1" using assms(1) w m by (simp add: settles_def)
  show "settled h w r w'"
  proof (cases s)
    case (Raise e)
    then show ?thesis using s run m assms(2) [of e w1] by (auto simp: exceptS_def settled_def)
  qed (use s run m in \<open>auto simp: exceptS_def settled_def\<close>)
qed

lemma settles_pure:
  "settles h (returnS x)" "settles h (raiseS e)" "settles h (getS f)" "settles h (liftS r)" "settles h (guardS c e)"
  by (intro settles_evolves vf.evo_intros)+

lemma settles_cases:
  "settles h m \<Longrightarrow> settles h n \<Longrightarrow> settles h (if c then m else n)"
  "settles h m \<Longrightarrow> (\<And>x. settles h (f x)) \<Longrightarrow> settles h (case y of None \<Rightarrow> m | Some x \<Rightarrow> f x)"
  "(\<And>x y. settles h (g x y)) \<Longrightarrow> settles h (case z of (x, y) \<Rightarrow> g x y)"
  by (auto split: option.split prod.split)

lemma settles_touch: "settles h (touch h)"
  unfolding settles_def
  by (auto simp: run_touch touched_def settled_def vault_frame_def session_frame_def quiet_def shut_def
      locked_world_def locked_wallet_def split: if_splits)

lemma settles_calls:
  "settles h (get_wallet h)" "settles h monotonic_now" "settles h time_now" "settles h (read_buffer a)"
  "settles h (read_optional x)" "settles h (invalidate_capabilities h)" "settles h (new_buffer b)"
  "settles h (token_bytes n)"
  by (auto simp: settles_def settled_def vault_frame_def session_frame_def quiet_def nth_list_update)

lemma settles_syscall:
  assumes "\<And>fs. snd (op fs) = fs"
  shows "settles h (syscall op)"
  unfolding settles_def
proof (intro allI impI, elim conjE)
  fix w w' :: world and x
  assume q: "quiet w" and run: "syscall op w = (x, w')"
  have "quiet (drop_fault w)" using q by (cases "dk_faults w") (auto simp: quiet_def drop_fault_def)
  then have "always (syscall op) (\<lambda>r w'. dk_files w' = dk_files w \<and> quiet w') w"
    using q assms [of "dk_files w"]
    by (intro always_syscall) (auto split: prod.splits sum.splits)
  from alwaysD [OF this run] have d: "dk_files w' = dk_files w \<and> quiet w'" .
  have "disk_step w w'" by (rule evolvesD [OF evolves_syscall run])
  then have "session_frame h w w'"
    by (cases w; cases w') (auto simp: disk_step_def session_frame_def)
  with d show "settled h w x w'" by (simp add: settled_def vault_frame_def)
qed

lemmas settle_intros = settles_bind settles_pure settles_cases settles_touch settles_calls

lemma settles_public_key_for_secret: "settles h (public_key_for_secret P seed k)"
  unfolding public_key_for_secret_def by (intro settle_intros)

lemma settles_reads:
  "settles h (wallet_public_key P h)" "settles h (dispatch_intent h)" "settles h (pending_signing_public_key P h)"
  "settles h (ensure_not_latched h)" 
  unfolding wallet_public_key_def dispatch_intent_def pending_signing_public_key_def Let_def ensure_not_latched_def
  by (intro settle_intros settles_public_key_for_secret)+

lemma settles_prove: "settles h (prove_pending_signing_key_rotation P h d)"
  unfolding prove_pending_signing_key_rotation_def Let_def
  by (intro settle_intros settles_reads settles_public_key_for_secret)

lemma settles_authorized_intent: "settles h (authorized_intent P h b p)"
  unfolding authorized_intent_def
  by (intro settle_intros settles_reads settles_prove)

lemma settles_signer:
  "settles h (\<lambda>w. case f (w_signer w) of (Inl e, s) \<Rightarrow> (Raise (g e), w\<lparr>w_signer := s\<rparr>)
                     | (Inr c, s) \<Rightarrow> (Ret c, w\<lparr>w_signer := s\<rparr>))"
  "settles h (modifyS (\<lambda>w. w\<lparr>w_signer := k w\<rparr>))"
  "settles h (put_wallet h (\<lambda>wa. wa\<lparr>wa_capabilities := c wa\<rparr>))"
  by (auto simp: settles_def settled_def vault_frame_def session_frame_def quiet_def nth_list_update
      split: prod.splits sum.splits)

lemma settles_create_signer: "settles h (create_signer P h t)"
  unfolding create_signer_def Let_def
  by (intro settle_intros settles_reads settles_signer)

lemma settles_export: "settles h (export_container h)"
  unfolding export_container_def read_container_def
  by (intro settle_intros settles_except settles_syscall)
    (auto simp: os_nop_def os_read_bytes_def split: option.splits)

section \<open>New payloads\<close>

lemma material_cong:
  assumes "item d ''public_key'' = item e ''public_key''"
    and "item d ''pending_public_key'' = item e ''pending_public_key''"
    and "item d ''rotation_dispatch_intent'' = item e ''rotation_dispatch_intent''"
    and "pykey ''rotation_dispatch_intent'' \<in> dkeys d \<longleftrightarrow> pykey ''rotation_dispatch_intent'' \<in> dkeys e"
  shows "material P d seed pending = material P e seed pending"
  unfolding material_def intent_ok_def assms by (rule refl)

lemma item_dset: "item (dset d (pykey k) v) j = (if j = k then v else item d j)"
  by (simp add: item_def dget_none_def)

lemma item_absent: "pykey k \<notin> dkeys d \<Longrightarrow> item d k = PyNone"
  by (simp add: item_def dget_none_def dkeys_iff_dget split: option.split)

lemma genuine_item:
  assumes "genuine (PyDict d)"
  shows "genuine (item d k)"
proof (cases "dget d (pykey k)")
  case (Some v)
  then have "(pykey k, v) \<in> set d" by (rule dget_Some_mem)
  then show ?thesis using assms Some by (auto simp: item_def dget_none_def list_all_iff)
qed (simp add: item_def dget_none_def)

lemma dindex_Inr: "dindex d (pykey k) = Inr v \<Longrightarrow> v = item d k"
  by (auto simp: dindex_def item_def dget_none_def split: option.splits)

lemma carried_payload_Inr:
  assumes run: "carried_payload current (seed \<noteq> None) (pending \<noteq> None) d = Inr updated"
    and d: "set SIGNING_FIELDS \<inter> dkeys d = {}" "genuine (PyDict d)"
    and current: "material P current seed pending" "genuine (PyDict current)"
  shows "material P updated seed pending" "seedless updated" "genuine (PyDict updated)"
    "seed \<noteq> None \<Longrightarrow> item updated ''public_key'' = item current ''public_key''"
proof -
  let ?has = "pykey ''rotation_dispatch_intent'' \<in> dkeys current"
  define p1 where "p1 = (if seed \<noteq> None then dset d (pykey ''public_key'') (item current ''public_key'') else d)"
  define p2 where "p2 = (if pending \<noteq> None
      then dset p1 (pykey ''pending_public_key'') (item current ''pending_public_key'') else p1)"
  have u: "updated = (if ?has
      then dset p2 (pykey ''rotation_dispatch_intent'') (item current ''rotation_dispatch_intent'') else p2)"
    using run
    by (auto simp: carried_payload_def p1_def p2_def res_simps dest!: dindex_Inr split: if_splits)
  have absent: "item d ''public_key'' = PyNone" "item d ''pending_public_key'' = PyNone"
      "item d ''rotation_dispatch_intent'' = PyNone"
    using d(1) by (auto simp: SIGNING_FIELDS_def intro!: item_absent)
  show "seedless updated"
    using d(1) by (simp add: u p1_def p2_def seedless_def SIGNING_FIELDS_def)
  show "genuine (PyDict updated)"
    unfolding u p1_def p2_def using d(2) current(2)
    by (auto intro!: genuine_dset genuine_item simp del: genuine.simps(2))
  show pk: "item updated ''public_key'' = item current ''public_key''" if "seed \<noteq> None"
    using that by (simp add: u p1_def p2_def item_dset)
  show "material P updated seed pending"
    using current(1) absent d(1)
    by (subst material_cong [of _ current])
      (auto simp: u p1_def p2_def item_dset material_def SIGNING_FIELDS_def item_absent split: option.splits)
qed

lemma touch_frame: "touch h w = (Ret (), w') \<Longrightarrow> h < length (w_wallets w) \<Longrightarrow> vault_frame h w w'"
  by (auto simp: run_touch touched_def vault_frame_def session_frame_def quiet_def split: if_splits)

lemma update_payload_Ret:
  assumes "update_payload P h (PyDict d) w = (Ret (), w')"
  obtains updated env w1 w2 w3 where "set SIGNING_FIELDS \<inter> dkeys d = {}"
    "touch h w = (Ret (), w1)"
    "carried_payload (wa_payload (w_wallets w1 ! h)) (seed_of h w1 \<noteq> None) (pending_of h w1 \<noteq> None) d
      = Inr updated"
    "build_envelope P h updated None None True w1 = (Ret env, w2)"
    "persist_envelope h env w2 = (Ret (), w3)"
    "invalidate_capabilities h (content_set h updated env w3) = (Ret (), w')"
  using assms
  by (auto simp: update_payload_def prog_simps seed_of_def pending_of_def
      simp del: run_invalidate_capabilities split: if_splits)

lemma vault_material:
  assumes "vault P password stored h w"
  shows "material P (wa_payload (w_wallets w ! h)) (seed_of h w) (pending_of h w)"
    "seedless (wa_payload (w_wallets w ! h))" "genuine (PyDict (wa_payload (w_wallets w ! h)))"
proof -
  have sm: "secret_material P stored = Inr (wa_payload (w_wallets w ! h), seed_of h w, pending_of h w)"
    and g: "genuine (PyDict stored)" using assms by (simp_all add: vault_def)
  note m = secret_material_sound [OF sm]
  show "material P (wa_payload (w_wallets w ! h)) (seed_of h w) (pending_of h w)"
    "seedless (wa_payload (w_wallets w ! h))" by (rule m(2), rule m(5))
  show "genuine (PyDict (wa_payload (w_wallets w ! h)))"
    unfolding m(1) by (intro genuine_dpop g)
qed

lemma invalidate_frame:
  "invalidate_capabilities h w = (Ret (), w') \<Longrightarrow> h < length (w_wallets w) \<Longrightarrow> vault_frame h w w'"
  by (auto simp: vault_frame_def session_frame_def quiet_def)

text \<open>A store of a payload that fits the seeds, with harmless steps around it.\<close>

lemma resave_keeps:
  assumes v: "vault P password stored h w" and dev: "device_ok P w" and f: "vault_frame h w w1"
    and build: "build_envelope P h u None None True w1 = (Ret env, w2)" 
    and f2: "h < length (w_wallets w2) \<Longrightarrow> vault_frame h w2 w3"
    and persist: "persist_envelope h env w3 = (Ret (), w4)"
    and f4: "h < length (w_wallets w4) \<Longrightarrow> vault_frame h (content_set h u env w4) w'"
    and u: "material P u (seed_of h w) (pending_of h w)" "seedless u" "genuine (PyDict u)"
      "seed_of h w \<noteq> None \<Longrightarrow> item u ''public_key'' = item (wa_payload (w_wallets w ! h)) ''public_key''"
  shows "\<exists>stored'. vault P password stored' h w'"
proof -
  have v1: "vault P password stored h w1" "device_ok P w1"
    using v dev f vault_framed device_framed by blast+
  have f1: "session_frame h w w1" and own: "own_buffers h w" using f v by (simp_all add: vault_frame_def vault_def)
  note e = frame_seeds [OF f1 own]
  have "wa_payload (w_wallets w1 ! h) = wa_payload (w_wallets w ! h)" using f1 by (simp add: session_frame_def)
  then have v4: "vault P password (with_seeds u (seed_of h w1) (pending_of h w1)) h (content_set h u env w4)"
    using u e by (intro vault_resaved [OF v1 build f2 persist]) simp_all
  then have "h < length (w_wallets w4)" by (simp add: vault_def)
  from vault_framed [OF v4 f4 [OF this]] show ?thesis by blast
qed

lemma update_keeps_vault:
  assumes v: "vault P password stored h w" and dev: "device_ok P w" and d: "genuine (PyDict d)"
    and run: "update_payload P h (PyDict d) w = (Ret (), w')"
  shows "\<exists>stored'. vault P password stored' h w'"
proof -
  from run obtain updated env w1 w2 w3 where d1: "set SIGNING_FIELDS \<inter> dkeys d = {}"
    and t: "touch h w = (Ret (), w1)"
    and c: "carried_payload (wa_payload (w_wallets w1 ! h)) (seed_of h w1 \<noteq> None) (pending_of h w1 \<noteq> None) d
      = Inr updated"
    and b: "build_envelope P h updated None None True w1 = (Ret env, w2)"
      "persist_envelope h env w2 = (Ret (), w3)"
      "invalidate_capabilities h (content_set h updated env w3) = (Ret (), w')"
    by (rule update_payload_Ret)
  have f: "vault_frame h w w1" using v by (intro touch_frame [OF t]) (simp add: vault_def)
  have own: "own_buffers h w" using v by (simp add: vault_def)
  have s1: "session_frame h w w1" using f by (simp add: vault_frame_def)
  note e = frame_seeds [OF s1 own]
  have p: "wa_payload (w_wallets w1 ! h) = wa_payload (w_wallets w ! h)" using s1 by (simp add: session_frame_def)
  note u = carried_payload_Inr [OF c [unfolded e p] d1 d vault_material(1,3) [OF v]]
  show ?thesis
    by (rule resave_keeps [OF v dev f b(1) vf.evo_refl b(2) _ u]) (rule invalidate_frame [OF b(3)], simp)
qed

section \<open>Intents\<close>

lemma public_key_for_secret_Ret:
  "public_key_for_secret P seed k w = (Ret x, w') \<longleftrightarrow>
     w' = w \<and> k = PyBytes x \<and> (\<exists>a. seed = Some a \<and> pair_ok P (w_bufs w ! a) k)"
  by (cases seed; cases k)
    (auto simp: public_key_for_secret_def prog_simps res_simps raise_if_Inr_iff pair_ok_def is_key_bytes_def
      exceptE_def KEY_LENGTH_def split: sum.splits)

lemma rotation_step_Ret:
  "rotation_step f w = (Ret x, w') \<longleftrightarrow> (\<exists>s. f (w_rotation w) = (Inr x, s) \<and> w' = w\<lparr>w_rotation := s\<rparr>)"
  by (auto simp: rotation_step_def split: prod.splits sum.splits)

lemma rotation_frame: "vault_frame h w (w\<lparr>w_rotation := s\<rparr>)"
  by (simp add: vault_frame_def session_frame_def quiet_def)

text \<open>Dropping the intent, and storing one.\<close>

lemma material_intent_pop:
  assumes "material P p seed pending" and "seedless p" and "genuine (PyDict p)"
  defines "u \<equiv> dpop p (pykey ''rotation_dispatch_intent'')"
  shows "material P u seed pending" "seedless u" "genuine (PyDict u)"
    "item u ''public_key'' = item p ''public_key''"
proof -
  have i: "item u ''public_key'' = item p ''public_key''" "item u ''pending_public_key'' = item p ''pending_public_key''"
    by (simp_all add: u_def item_def dget_none_def)
  show "item u ''public_key'' = item p ''public_key''" by (rule i)
  show "material P u seed pending"
    using assms(1) unfolding material_def i by (simp add: u_def split: option.splits)
  show "seedless u" "genuine (PyDict u)" using assms(2) genuine_dpop [OF assms(3)] by (simp_all add: u_def seedless_def)
qed

lemma material_intent_set:
  assumes "material P p seed pending" and "seedless p" and "genuine (PyDict p)" and "pending \<noteq> None"
    and "valid_intent i" and "PyBytes (ri_predecessor_owner_public_key i) = item p ''public_key''"
    and "PyBytes (ri_successor_owner_public_key i) = item p ''pending_public_key''"
  defines "u \<equiv> dset p (pykey ''rotation_dispatch_intent'') (PyDict (intent_to_payload i))"
  shows "material P u seed pending" "seedless u" "genuine (PyDict u)"
    "item u ''public_key'' = item p ''public_key''"
proof -
  have i: "item u ''public_key'' = item p ''public_key''" "item u ''pending_public_key'' = item p ''pending_public_key''"
    by (simp_all add: u_def item_dset)
  show "item u ''public_key'' = item p ''public_key''" by (rule i)
  have "intent_ok u"
    using intent_round_trip [OF assms(5)] assms(6,7) i by (simp add: intent_ok_def u_def item_dset)
  with assms(1,4) show "material P u seed pending"
    unfolding material_def i by (auto split: option.splits)
  have "genuine (PyDict (intent_to_payload i))"
    by (simp add: intent_to_payload_def split: option.split)
  with assms(2,3) show "seedless u" "genuine (PyDict u)"
    using genuine_dset by (simp_all add: u_def seedless_def)
qed

lemma resolve_Ret:
  assumes "resolve_rotation_rejection P h (Some r) w = (Ret (), w')"
  obtains w1 s1 env w2 w3 s2 where "touch h w = (Ret (), w1)"
    "build_envelope P h (dpop (wa_payload (w_wallets w1 ! h)) (pykey ''rotation_dispatch_intent''))
       None None True (w1\<lparr>w_rotation := s1\<rparr>) = (Ret env, w2)"
    "persist_envelope h env w2 = (Ret (), w3)"
    "w' = (snd (invalidate_capabilities h (content_set h
        (dpop (wa_payload (w_wallets w1 ! h)) (pykey ''rotation_dispatch_intent'')) env w3)))\<lparr>w_rotation := s2\<rparr>"
  using assms
  by (auto simp: resolve_rotation_rejection_def stored_intent_def Let_def prog_simps public_key_for_secret_Ret
      rotation_step_Ret simp del: run_invalidate_capabilities split: if_splits)

lemma resolve_stores:
  assumes v: "vault P password stored h w" and dev: "device_ok P w" and t: "touch h w = (Ret (), w1)"
    and b: "build_envelope P h (dpop (wa_payload (w_wallets w1 ! h)) (pykey ''rotation_dispatch_intent''))
       None None True (w1\<lparr>w_rotation := s1\<rparr>) = (Ret env, w2)"
    and p: "persist_envelope h env w2 = (Ret (), w3)"
    and w': "w' = (snd (invalidate_capabilities h (content_set h
        (dpop (wa_payload (w_wallets w1 ! h)) (pykey ''rotation_dispatch_intent'')) env w3)))\<lparr>w_rotation := s2\<rparr>"
  shows "\<exists>stored'. vault P password stored' h w'"
proof -
  have f: "vault_frame h w w1" using v by (intro touch_frame [OF t]) (simp add: vault_def)
  have w1: "wa_payload (w_wallets w1 ! h) = wa_payload (w_wallets w ! h)"
    using f by (simp add: vault_frame_def session_frame_def)
  note m = material_intent_pop [OF vault_material [OF v]]
  show ?thesis
    by (rule resave_keeps [OF v dev vf.evo_trans [OF f rotation_frame] b [unfolded w1] vf.evo_refl p _ m])
      (simp add: w' w1, rule vf.evo_trans [OF invalidate_frame rotation_frame], simp_all)
qed

lemma resolve_keeps_vault:
  assumes v: "vault P password stored h w" and dev: "device_ok P w"
    and run: "resolve_rotation_rejection P h (Some r) w = (Ret (), w')"
  shows "\<exists>stored'. vault P password stored' h w'"
  using run by (rule resolve_Ret) (rule resolve_stores [OF v dev])

lemma frame_payload:
  "vault_frame h w w' \<Longrightarrow> wa_payload (w_wallets w' ! h) = wa_payload (w_wallets w ! h)"
  "vault_frame h w w' \<Longrightarrow> w_pending_secrets w' h = w_pending_secrets w h"
  "vault_frame h w w' \<Longrightarrow> length (w_wallets w') = length (w_wallets w)"
  "vault_frame h w w' \<Longrightarrow> quiet w \<Longrightarrow> quiet w'"
  by (simp_all add: vault_frame_def session_frame_def)

lemma wallet_public_key_Ret:
  assumes "wallet_public_key P h w = (Ret k, w')" and "h < length (w_wallets w)"
  shows "item (wa_payload (w_wallets w ! h)) ''public_key'' = PyBytes k"
  using assms touch_frame [of h w, THEN frame_payload(1)]
  by (auto simp: wallet_public_key_def prog_simps public_key_for_secret_Ret)

lemma pending_public_key_Ret:
  assumes "pending_signing_public_key P h w = (Ret (Some k), w')" and "h < length (w_wallets w)"
  shows "item (wa_payload (w_wallets w ! h)) ''pending_public_key'' = PyBytes k"
    "w_pending_secrets w h \<noteq> None"
  using assms touch_frame [of h w, THEN frame_payload(1)] touch_frame [of h w, THEN frame_payload(2)]
  by (auto simp: pending_signing_public_key_def Let_def prog_simps public_key_for_secret_Ret split: if_splits)

lemma authorized_intent_Ret:
  assumes run: "authorized_intent P h b p w = (Ret i, w')" and w: "h < length (w_wallets w)" "quiet w"
  shows "valid_intent i" "w_pending_secrets w h \<noteq> None"
    "PyBytes (ri_predecessor_owner_public_key i) = item (wa_payload (w_wallets w ! h)) ''public_key''"
    "PyBytes (ri_successor_owner_public_key i) = item (wa_payload (w_wallets w ! h)) ''pending_public_key''"
proof -
  from run obtain d w1 w2 w3 k q n a s e env where
    r: "prove_pending_signing_key_rotation P h (Some d) (w\<lparr>w_ticks := Suc (w_ticks w)\<rparr>) = (Ret (), w1)"
      "wallet_public_key P h w1 = (Ret k, w2)" "pending_signing_public_key P h w2 = (Ret (Some q), w3)"
    and i: "make_intent n (PyBytes k) (PyBytes q) a s e env = Inr i"
    by (auto simp: authorized_intent_def prog_simps split: option.splits if_splits)
  have f0: "vault_frame h w (w\<lparr>w_ticks := Suc (w_ticks w)\<rparr>)"
    by (simp add: vault_frame_def session_frame_def quiet_def)
  have f1: "vault_frame h w w1"
    using w by (intro vf.evo_trans [OF f0] settlesD [OF settles_prove r(1)]) (simp_all add: quiet_def)
  note w1 = frame_payload [OF f1]
  have f2: "vault_frame h w w2"
    using w w1(3,4) by (intro vf.evo_trans [OF f1] settlesD [OF settles_reads(1) r(2)]) simp_all
  note w2 = frame_payload [OF f2]
  note k = wallet_public_key_Ret [OF r(2)] pending_public_key_Ret [OF r(3)]
  from i have "valid_intent i" "ri_predecessor_owner_public_key i = k" "ri_successor_owner_public_key i = q"
    by (simp_all add: make_intent_Inr_iff)
  then show "valid_intent i" "w_pending_secrets w h \<noteq> None"
    "PyBytes (ri_predecessor_owner_public_key i) = item (wa_payload (w_wallets w ! h)) ''public_key''"
    "PyBytes (ri_successor_owner_public_key i) = item (wa_payload (w_wallets w ! h)) ''pending_public_key''"
    using k w w1 w2 by simp_all
qed

lemma latch_Ret:
  assumes "latch_rotation P h bundle publication w = (Ret x, w')"
  obtains b p i w1 w2 w3 w4 env w5 s where "touch h w = (Ret (), w1)"
    "authorized_intent P h b p w1 = (Ret i, w2)" "invalidate_capabilities h w2 = (Ret (), w3)"
    "build_envelope P h (dset (wa_payload (w_wallets w3 ! h)) (pykey ''rotation_dispatch_intent'')
       (PyDict (intent_to_payload i))) None None True w3 = (Ret env, w4)"
    "persist_envelope h env w4 = (Ret (), w5)"
    "w' = (content_set h (dset (wa_payload (w_wallets w3 ! h)) (pykey ''rotation_dispatch_intent'')
       (PyDict (intent_to_payload i))) env w5)\<lparr>w_rotation := s\<rparr>"
  using assms
  by (auto simp: latch_rotation_def Let_def prog_simps ensure_not_latched_def rotation_step_Ret
      simp del: run_invalidate_capabilities split: option.splits if_splits)

lemma latch_stores:
  assumes v: "vault P password stored h w" and dev: "device_ok P w" and t: "touch h w = (Ret (), w1)"
    and a: "authorized_intent P h b p w1 = (Ret i, w2)" and inv: "invalidate_capabilities h w2 = (Ret (), w3)"
    and u: "u = dset (wa_payload (w_wallets w3 ! h)) (pykey ''rotation_dispatch_intent'')
       (PyDict (intent_to_payload i))"
    and build: "build_envelope P h u None None True w3 = (Ret env, w4)"
    and p: "persist_envelope h env w4 = (Ret (), w5)"
    and w': "w' = (content_set h u env w5)\<lparr>w_rotation := s\<rparr>"
  shows "\<exists>stored'. vault P password stored' h w'"
proof -
  have w: "h < length (w_wallets w)" "quiet w" using v dev by (simp_all add: vault_def device_ok_def)
  have f1: "vault_frame h w w1" by (rule touch_frame [OF t w(1)])
  note w1 = frame_payload [OF f1]
  have h1: "h < length (w_wallets w1)" "quiet w1" using w w1 by simp_all
  note i = authorized_intent_Ret [OF a h1, unfolded w1]
  have f2: "vault_frame h w w2" by (rule vf.evo_trans [OF f1 settlesD [OF settles_authorized_intent a h1]])
  have f3: "vault_frame h w w3"
    using frame_payload(3) [OF f2] w by (intro vf.evo_trans [OF f2 invalidate_frame [OF inv]]) simp
  have pend: "pending_of h w \<noteq> None" using i(2) by (simp add: pending_of_def)
  note m = material_intent_set [OF vault_material [OF v] pend i(1,3,4)]
  note w3 = frame_payload(1) [OF f3]
  show ?thesis
    by (rule resave_keeps [OF v dev f3 build [unfolded u w3] vf.evo_refl p _ m])
      (simp add: w' u w3, rule rotation_frame)
qed

lemma latch_keeps_vault:
  assumes v: "vault P password stored h w" and dev: "device_ok P w"
    and run: "latch_rotation P h bundle publication w = (Ret x, w')"
  shows "\<exists>stored'. vault P password stored' h w'"
  using run by (rule latch_Ret) (rule latch_stores [OF v dev _ _ _ refl])

lemma bind_Ret:
  assumes "bind_legacy_environment P h environment (map_option (\<lambda>r _ _. liftS r) answer) w = (Ret x, w')"
  obtains e i w1 w2 w3 w4 w5 w6 w7 env where "environment = PyStr e" "valid_registry_environment environment"
    "touch h w = (Ret (), w1)" "dispatch_intent h w1 = (Ret (Some i), w2)" "touch h w2 = (Ret (), w3)"
    "dispatch_intent h w3 = (Ret (Some i), w4)"
    "build_envelope P h (dset (wa_payload (w_wallets w4 ! h)) (pykey ''rotation_dispatch_intent'')
       (PyDict (intent_to_payload (i\<lparr>ri_environment := Some e\<rparr>)))) None None True w4 = (Ret env, w5)"
    "invalidate_capabilities h w5 = (Ret (), w6)" "persist_envelope h env w6 = (Ret (), w7)"
    "w' = content_set h (dset (wa_payload (w_wallets w4 ! h)) (pykey ''rotation_dispatch_intent'')
       (PyDict (intent_to_payload (i\<lparr>ri_environment := Some e\<rparr>)))) env w7"
proof -
  from assms obtain w1 found w2 where t: "touch h w = (Ret (), w1)" "dispatch_intent h w1 = (Ret found, w2)"
    by (auto simp: bind_legacy_environment_def prog_simps)
  with assms obtain i r where i: "found = Some i" "answer = Some r"
    by (cases found; cases answer) (auto simp: bind_legacy_environment_def prog_simps)
  with assms t have "valid_registry_environment environment"
    by (auto simp: bind_legacy_environment_def prog_simps split: if_splits)
  moreover from this obtain e where e: "environment = PyStr e" using valid_environment_str by blast
  ultimately show thesis
    using assms t i that
    by (auto simp: bind_legacy_environment_def Let_def prog_simps simp del: run_invalidate_capabilities
        split: if_splits)
qed

lemma dispatch_intent_Ret:
  assumes "dispatch_intent h w = (Ret (Some i), w')" and "h < length (w_wallets w)"
  shows "intent_from_payload (item (wa_payload (w_wallets w ! h)) ''rotation_dispatch_intent'') = Inr i"
    "pykey ''rotation_dispatch_intent'' \<in> dkeys (wa_payload (w_wallets w ! h))"
  using assms touch_frame [of h w, THEN frame_payload(1)]
  by (auto simp: dispatch_intent_def prog_simps item_def dget_none_def dkeys_iff_dget split: option.splits)

lemma material_latched:
  assumes "material P d seed pending" and "pykey ''rotation_dispatch_intent'' \<in> dkeys d"
    and "intent_from_payload (item d ''rotation_dispatch_intent'') = Inr i"
  shows "pending \<noteq> None" "valid_intent i" "PyBytes (ri_predecessor_owner_public_key i) = item d ''public_key''"
    "PyBytes (ri_successor_owner_public_key i) = item d ''pending_public_key''"
  using assms intent_from_payload_sound [OF assms(3)]
  by (auto simp: material_def intent_ok_def split: option.splits)

lemma bind_keeps_vault:
  assumes v: "vault P password stored h w" and dev: "device_ok P w"
    and run: "bind_legacy_environment P h environment (map_option (\<lambda>r _ _. liftS r) answer) w = (Ret x, w')"
  shows "\<exists>stored'. vault P password stored' h w'"
proof -
  let ?set = "\<lambda>w i. dset (wa_payload (w_wallets w ! h)) (pykey ''rotation_dispatch_intent'')
       (PyDict (intent_to_payload i))"
  from run obtain e i w1 w2 w3 w4 w5 w6 w7 env where e: "environment = PyStr e" "valid_registry_environment environment"
    and r: "touch h w = (Ret (), w1)" "dispatch_intent h w1 = (Ret (Some i), w2)" "touch h w2 = (Ret (), w3)"
      "dispatch_intent h w3 = (Ret (Some i), w4)"
    and build: "build_envelope P h (?set w4 (i\<lparr>ri_environment := Some e\<rparr>)) None None True w4 = (Ret env, w5)"
    and inv: "invalidate_capabilities h w5 = (Ret (), w6)" and p: "persist_envelope h env w6 = (Ret (), w7)"
    and w': "w' = content_set h (?set w4 (i\<lparr>ri_environment := Some e\<rparr>)) env w7"
    by (rule bind_Ret)
  have w: "h < length (w_wallets w)" "quiet w" using v dev by (simp_all add: vault_def device_ok_def)
  have f1: "vault_frame h w w1" by (rule touch_frame [OF r(1) w(1)])
  have h1: "h < length (w_wallets w1)" "quiet w1" using frame_payload [OF f1] w by simp_all
  have f2: "vault_frame h w w2" by (rule vf.evo_trans [OF f1 settlesD [OF settles_reads(2) r(2) h1]])
  have h2: "h < length (w_wallets w2)" "quiet w2" using frame_payload [OF f2] w by simp_all
  have f3: "vault_frame h w w3" by (rule vf.evo_trans [OF f2 touch_frame [OF r(3) h2(1)]])
  have h3: "h < length (w_wallets w3)" "quiet w3" using frame_payload [OF f3] w by simp_all
  have f4: "vault_frame h w w4" by (rule vf.evo_trans [OF f3 settlesD [OF settles_reads(2) r(4) h3]])
  note w4 = frame_payload(1) [OF f4]
  note di = dispatch_intent_Ret [OF r(2) h1(1), unfolded frame_payload(1) [OF f1]]
  note m = material_latched [OF vault_material(1) [OF v] di(2,1)]
  let ?b = "i\<lparr>ri_environment := Some e\<rparr>"
  have b: "valid_intent ?b" "PyBytes (ri_predecessor_owner_public_key ?b) = item (wa_payload (w_wallets w ! h)) ''public_key''"
      "PyBytes (ri_successor_owner_public_key ?b) = item (wa_payload (w_wallets w ! h)) ''pending_public_key''"
    using m(2-4) e by (simp_all add: valid_intent_def)
  note u = material_intent_set [OF vault_material [OF v] m(1) b]
  show ?thesis
    by (rule resave_keeps [OF v dev f4 build [unfolded w4] invalidate_frame [OF inv] p _ u])
      (simp_all add: w' w4 vf.evo_refl)
qed

section \<open>Ending a rotation\<close>

text \<open>Without the pending seed, only the active seed is stored.\<close>

lemma storage_payload_promoted:
  assumes "storage_payload u cur ov (Some s) pending False = Inr stored" and "seedless u"
    and "pair_ok P s (item u ''public_key'')" and "pykey ''pending_public_key'' \<notin> dkeys u"
    and "\<not> ov \<longrightarrow> cur = item u ''public_key''"
  shows "stored = with_seeds u (Some s) None"
proof -
  let ?q = "dset u (pykey ''private_seed'') (PyBytes s)"
  obtain k where k: "item u ''public_key'' = PyBytes k" using assms(3) pair_ok_item by blast
  then have "dset ?q (pykey ''public_key'') (PyBytes k) = ?q" by (intro dset_item_bytes) (simp add: item_dset)
  moreover have "dpop (dpop ?q (pykey ''pending_private_seed'')) (pykey ''pending_public_key'') = ?q"
    using assms(2,4) by (simp add: dpop_absent seedless_def)
  ultimately show ?thesis
    using assms(1,5) k by (cases ov) (simp_all add: storage_payload_def with_seeds_def Let_def)
qed

text \<open>The world after a store that ends a rotation: one seed stays, and the buffer of the other
  is wiped.\<close>

definition ended :: "nat \<Rightarrow> pydict \<Rightarrow> pydict \<Rightarrow> nat \<Rightarrow> nat \<Rightarrow> world \<Rightarrow> world \<Rightarrow> bool" where
  "ended h u env stays dropped w w' \<longleftrightarrow>
     dk_files w' = dk_files w \<and> length (w_wallets w') = length (w_wallets w)
     \<and> wa_path (w_wallets w' ! h) = wa_path (w_wallets w ! h)
     \<and> wa_dek (w_wallets w' ! h) = wa_dek (w_wallets w ! h)
     \<and> wa_payload (w_wallets w' ! h) = u \<and> wa_envelope (w_wallets w' ! h) = env
     \<and> w_wallet_secrets w' h = Some stays \<and> w_pending_secrets w' h = None
     \<and> w_bufs w' = (w_bufs w)[dropped := zero_bytes (length (w_bufs w ! dropped))]"

lemma vault_ended:
  assumes v: "vault P password stored h w" and f: "session_frame h w w3"
    and dek: "wa_dek (w_wallets w ! h) = Some a" "a \<noteq> dropped"
    and seals: "seals P password (w_bufs w ! a) (with_seeds u (Some (w_bufs w ! stays)) None) env"
    and raw: "serialize env = Inr raw" "content (dk_files w3) (Path (wa_path (w_wallets w ! h))) = Some raw"
    and u: "seedless u" "genuine (PyDict u)" "material P u (Some (w_bufs w ! stays)) None"
    and stays: "Some stays \<in> {w_wallet_secrets w h, w_pending_secrets w h}" "stays \<noteq> dropped"
    and e: "ended h u env stays dropped w3 w'"
  shows "vault P password (with_seeds u (Some (w_bufs w ! stays)) None) h w'"
proof -
  have own: "own_buffers h w" "h < length (w_wallets w)" using v by (simp_all add: vault_def)
  have k: "stays < length (w_bufs w)" "a < length (w_bufs w)" "a \<noteq> stays"
    using own(1) stays(1) dek(1) unfolding own_buffers_iff by (auto split: option.splits)
  obtain bs where bs: "w_bufs w3 = w_bufs w @ bs" using f by (auto simp: session_frame_def)
  have b: "w_bufs w' ! stays = w_bufs w ! stays" "w_bufs w' ! a = w_bufs w ! a"
      "length (w_bufs w) \<le> length (w_bufs w')"
    using k stays(2) dek(2) e by (simp_all add: ended_def bs nth_append)
  show ?thesis
    using secret_material_with_seeds [OF u(1,3)] genuine_with_seeds [OF u(2)] seals raw b k dek(1) e f own(2)
    by (auto simp: vault_def ended_def session_frame_def seed_of_def pending_of_def own_buffers_iff)
qed

lemma cancel_Ret:
  assumes "cancel_signing_key_rotation P h w = (Ret (), w')"
  obtains w1 where "touch h w = (Ret (), w1)" "w_pending_secrets w1 h = None" "w' = w1"
  | w1 a env w2 w3 where "touch h w = (Ret (), w1)" "w_pending_secrets w1 h = Some a"
    "pykey ''rotation_dispatch_intent'' \<notin> dkeys (wa_payload (w_wallets w1 ! h))"
    "build_envelope P h (dpop (wa_payload (w_wallets w1 ! h)) (pykey ''pending_public_key''))
       None None False w1 = (Ret env, w2)"
    "persist_envelope h env w2 = (Ret (), w3)"
    "w' = snd (invalidate_capabilities h (snd (wipe_buffer a (snd (set_pending h None
        (content_set h (dpop (wa_payload (w_wallets w1 ! h)) (pykey ''pending_public_key'')) env w3))))))"
proof -
  from assms obtain w1 where t: "touch h w = (Ret (), w1)"
    by (auto simp: cancel_signing_key_rotation_def prog_simps)
  show thesis
  proof (cases "w_pending_secrets w1 h")
    case None
    with assms t show thesis
      by (intro that(1) [OF t None])
        (auto simp: cancel_signing_key_rotation_def ensure_not_latched_def prog_simps split: if_splits)
  next
    case (Some a)
    with assms t that(2) [OF t Some] show thesis
      by (auto simp: cancel_signing_key_rotation_def ensure_not_latched_def Let_def prog_simps
          split: if_splits)
  qed
qed

lemma material_drop_pending:
  assumes "material P p (Some s) (Some q)" and "seedless p" and "genuine (PyDict p)"
    and "pykey ''rotation_dispatch_intent'' \<notin> dkeys p"
  defines "u \<equiv> dpop p (pykey ''pending_public_key'')"
  shows "material P u (Some s) None" "seedless u" "genuine (PyDict u)"
    "item u ''public_key'' = item p ''public_key''" "pair_ok P s (item u ''public_key'')"
    "pykey ''pending_public_key'' \<notin> dkeys u"
proof -
  have i: "item u ''public_key'' = item p ''public_key''" "item u ''pending_public_key'' = PyNone"
    by (simp_all add: u_def item_def dget_none_def)
  show "item u ''public_key'' = item p ''public_key''" by (rule i)
  show "material P u (Some s) None" "pair_ok P s (item u ''public_key'')"
    using assms(1,4) i by (simp_all add: material_def) (simp add: u_def)
  show "seedless u" "genuine (PyDict u)" "pykey ''pending_public_key'' \<notin> dkeys u"
    using assms(2) genuine_dpop [OF assms(3)] by (simp_all add: u_def seedless_def)
qed

lemma cancel_keeps_vault:
  assumes v: "vault P password stored h w" and dev: "device_ok P w"
    and run: "cancel_signing_key_rotation P h w = (Ret (), w')"
  shows "\<exists>stored'. vault P password stored' h w'"
  using run
proof (cases rule: cancel_Ret)
  case (1 w1)
  then have "vault_frame h w w'" using v touch_frame by (simp add: vault_def)
  then show ?thesis using v vault_framed by blast
next
  case (2 w1 a env w2 w3)
  let ?u = "dpop (wa_payload (w_wallets w1 ! h)) (pykey ''pending_public_key'')"
  have f: "vault_frame h w w1" using v by (intro touch_frame [OF 2(1)]) (simp add: vault_def)
  have v1: "vault P password stored h w1" "device_ok P w1"
    using v dev f vault_framed device_framed by blast+
  have len: "h < length (w_wallets w1)" and own: "own_buffers h w1" using v1(1) by (simp_all add: vault_def)
  have q: "pending_of h w1 = Some (w_bufs w1 ! a)" using 2(2) by (simp add: pending_of_def)
  obtain b where b: "w_wallet_secrets w1 h = Some b"
    using vault_material(1) [OF v1(1)] q by (cases "w_wallet_secrets w1 h") (auto simp: material_def seed_of_def)
  then have sd: "seed_of h w1 = Some (w_bufs w1 ! b)" by (simp add: seed_of_def)
  note m = material_drop_pending [OF vault_material [OF v1(1), unfolded sd q] 2(3)]
  obtain d stored' cur raw where dek: "wa_dek (w_wallets w1 ! h) = Some d"
    and st: "storage_payload ?u cur False (Some (w_bufs w1 ! b)) (Some (w_bufs w1 ! a)) False = Inr stored'"
      "cur = item (wa_payload (w_wallets w1 ! h)) ''public_key''"
    and s: "seals P password (w_bufs w1 ! d) stored' env" and raw: "serialize env = Inr raw"
      "content (dk_files w3) (Path (wa_path (w_wallets w1 ! h))) = Some raw" and f3: "session_frame h w1 w3"
    by (rule saved [OF v1 2(4) _ 2(5)]) (rule vf.evo_refl, simp add: override_def sd q)
  have stored': "stored' = with_seeds ?u (Some (w_bufs w1 ! b)) None"
    by (rule storage_payload_promoted [OF st(1) m(2,5,6)]) (simp add: st(2) m(4))
  have ne: "d \<noteq> a" "b \<noteq> a" "h < length (w_wallets w3)"
    using own dek b 2(2) len f3 by (auto simp: own_buffers_iff session_frame_def)
  have "ended h ?u env b a w3 w'"
    using ne(3) b f3 by (simp add: 2(6) ended_def session_frame_def)
  from vault_ended [OF v1(1) f3 dek ne(1) s [unfolded stored'] raw m(2,3,1) _ ne(2) this]
  have "vault P password (with_seeds ?u (Some (w_bufs w1 ! b)) None) h w'" using b by simp
  then show ?thesis by (rule exI)
qed

end
