(* ===== verification/Wallet_Promotion.thy ===== *)
theory Wallet_Promotion
  imports Wallet_Keeping
begin

text \<open>
  The operations that change the keys of a session keep its vault: promotion and preparation
  of a successor, and a new password.
\<close>

section \<open>Promotion\<close>

definition promoted_payload :: "pydict \<Rightarrow> bytes \<Rightarrow> pydict" where
  "promoted_payload p successor =
     dpop (dpop (dset p (pykey ''public_key'') (PyBytes successor)) (pykey ''pending_public_key''))
       (pykey ''rotation_dispatch_intent'')"

lemma material_promoted:
  assumes "pair_ok P s (PyBytes k)" and "seedless p" and "genuine (PyDict p)"
  defines "u \<equiv> promoted_payload p k"
  shows "material P u (Some s) None" "seedless u" "genuine (PyDict u)"
    "pair_ok P s (item u ''public_key'')" "pykey ''pending_public_key'' \<notin> dkeys u"
proof -
  have i: "item u ''public_key'' = PyBytes k" "item u ''pending_public_key'' = PyNone"
    by (simp_all add: u_def promoted_payload_def item_def dget_none_def)
  show "material P u (Some s) None" "pair_ok P s (item u ''public_key'')"
    using assms(1) i by (simp_all add: material_def) (simp add: u_def promoted_payload_def)
  show "seedless u" "pykey ''pending_public_key'' \<notin> dkeys u"
    using assms(2) by (simp_all add: u_def promoted_payload_def seedless_def)
  show "genuine (PyDict u)"
    unfolding u_def promoted_payload_def by (intro genuine_dpop genuine_dset assms(3)) simp
qed

lemma finalize_Ret:
  assumes "finalize_signing_key_rotation P h (Some c) w = (Ret k, w')"
  obtains intent w1 active pending env w2 w3 s where "touch h w = (Ret (), w1)"
    "intent_from_payload (item (wa_payload (w_wallets w1 ! h)) ''rotation_dispatch_intent'') = Inr intent"
    "confirmation_matches_intent c intent" "confirmation_is_latched c intent (w_rotation w1)"
    "k = rc_successor_owner_public_key c" "intent_keys_agree (w_wallets w1 ! h) intent"
    "w_wallet_secrets w1 h = Some active" "w_pending_secrets w1 h = Some pending"
    "pair_ok P (w_bufs w1 ! pending) (PyBytes k)"
    "item (wa_payload (w_wallets w1 ! h)) ''pending_public_key'' = PyBytes k"
    "build_envelope P h (promoted_payload (wa_payload (w_wallets w1 ! h)) k) None (Some pending) False
       (snd (invalidate_capabilities h w1)) = (Ret env, w2)"
    "persist_envelope h env w2 = (Ret (), w3)"
    "w' = (snd (wipe_option (Some active) (content_set h (promoted_payload (wa_payload (w_wallets w1 ! h)) k) env
       (snd (set_pending h None (snd (set_secret h (Some pending) w3)))))))\<lparr>w_rotation := s\<rparr>"
  using assms
  by (auto simp: finalize_signing_key_rotation_def stored_intent_def promoted_payload_def Let_def prog_simps
      public_key_for_secret_Ret rotation_step_Ret split: if_splits)

lemma finalize_stores:
  assumes v: "vault P password stored h w" and dev: "device_ok P w" and t: "touch h w = (Ret (), w1)"
    and seeds: "w_wallet_secrets w1 h = Some active" "w_pending_secrets w1 h = Some pending"
      "pair_ok P (w_bufs w1 ! pending) (PyBytes k)"
    and build: "build_envelope P h (promoted_payload (wa_payload (w_wallets w1 ! h)) k) None (Some pending) False
       (snd (invalidate_capabilities h w1)) = (Ret env, w2)"
    and persist: "persist_envelope h env w2 = (Ret (), w3)"
    and w': "w' = (snd (wipe_option (Some active)
       (content_set h (promoted_payload (wa_payload (w_wallets w1 ! h)) k) env
       (snd (set_pending h None (snd (set_secret h (Some pending) w3)))))))\<lparr>w_rotation := s\<rparr>"
  shows "\<exists>stored'. vault P password stored' h w'"
    "seed_of h w' = pending_of h w" "pending_of h w' = None"
    "item (wa_payload (w_wallets w' ! h)) ''public_key'' = PyBytes k"
    "pykey ''rotation_dispatch_intent'' \<notin> dkeys (wa_payload (w_wallets w' ! h))"
proof -
  define wi where "wi = snd (invalidate_capabilities h w1)"
  let ?u = "promoted_payload (wa_payload (w_wallets w1 ! h)) k"
  have h: "h < length (w_wallets w)" using v by (simp add: vault_def)
  have f1: "vault_frame h w w1" by (rule touch_frame [OF t h])
  have "vault_frame h w1 wi"
    using frame_payload(3) [OF f1] h by (intro invalidate_frame) (simp_all add: wi_def)
  with f1 have f: "vault_frame h w wi" by (rule vf.evo_trans)
  have vi: "vault P password stored h wi" "device_ok P wi"
    using v dev f vault_framed device_framed by blast+
  have own: "own_buffers h wi" "h < length (w_wallets wi)" using vi(1) by (simp_all add: vault_def)
  have wi: "w_bufs wi = w_bufs w1" "w_wallet_secrets wi h = Some active" "w_pending_secrets wi h = Some pending"
      "wa_payload (w_wallets wi ! h) = wa_payload (w_wallets w1 ! h)"
    using seeds frame_payload(3) [OF f1] h by (simp_all add: wi_def)
  have ov: "override (Some pending) (seed_of h wi) wi = Some (w_bufs wi ! pending)"
      "override None (pending_of h wi) wi = Some (w_bufs wi ! pending)"
    using wi(3) by (simp_all add: override_def pending_of_def)
  note m = material_promoted [OF seeds(3) [folded wi(1)] vault_material(2,3) [OF vi(1), unfolded wi(4)]]
  obtain d stored' cur raw where dek: "wa_dek (w_wallets wi ! h) = Some d"
    and st: "storage_payload ?u cur True (Some (w_bufs wi ! pending)) (Some (w_bufs wi ! pending)) False = Inr stored'"
    and sl: "seals P password (w_bufs wi ! d) stored' env" and raw: "serialize env = Inr raw"
      "content (dk_files w3) (Path (wa_path (w_wallets wi ! h))) = Some raw" and f3: "session_frame h wi w3"
    by (rule saved [OF vi build [folded wi_def] _ persist]) (rule vf.evo_refl, simp add: ov)
  have stored': "stored' = with_seeds ?u (Some (w_bufs wi ! pending)) None"
    by (rule storage_payload_promoted [OF st m(2,4,5)]) simp
  have ne: "d \<noteq> active" "pending \<noteq> active" "h < length (w_wallets w3)"
    using own dek wi f3 by (auto simp: own_buffers_iff session_frame_def)
  have e: "ended h ?u env pending active w3 w'"
    using ne(3) f3 by (simp add: w' ended_def session_frame_def wiped_def)
  from vault_ended [OF vi(1) f3 dek ne(1) sl [unfolded stored'] raw m(2,3,1) _ ne(2) e]
  have v': "vault P password (with_seeds ?u (Some (w_bufs wi ! pending)) None) h w'" using wi(3) by simp
  then show "\<exists>stored'. vault P password stored' h w'" by (rule exI)
  have "secret_material P (with_seeds ?u (Some (w_bufs wi ! pending)) None) = Inr (?u, Some (w_bufs wi ! pending), None)"
    by (rule secret_material_with_seeds [OF m(2,1)])
  with v' e show "seed_of h w' = pending_of h w" "pending_of h w' = None"
    "item (wa_payload (w_wallets w' ! h)) ''public_key'' = PyBytes k"
    "pykey ''rotation_dispatch_intent'' \<notin> dkeys (wa_payload (w_wallets w' ! h))"
    using frame_seeds(3) [of h w wi] f v ov(2)
    by (auto simp: vault_def vault_frame_def ended_def override_def promoted_payload_def item_def dget_none_def)
qed

lemma finalize_keeps_vault:
  assumes v: "vault P password stored h w" and dev: "device_ok P w"
    and run: "finalize_signing_key_rotation P h (Some c) w = (Ret k, w')"
  shows "\<exists>stored'. vault P password stored' h w'"
    "seed_of h w' = pending_of h w" "pending_of h w' = None"
    "item (wa_payload (w_wallets w' ! h)) ''public_key'' = PyBytes k"
    "pykey ''rotation_dispatch_intent'' \<notin> dkeys (wa_payload (w_wallets w' ! h))"
proof -
  from run obtain w1 active pending env w2 w3 s where facts: "touch h w = (Ret (), w1)"
      "w_wallet_secrets w1 h = Some active" "w_pending_secrets w1 h = Some pending"
      "pair_ok P (w_bufs w1 ! pending) (PyBytes k)"
      "build_envelope P h (promoted_payload (wa_payload (w_wallets w1 ! h)) k) None (Some pending) False
         (snd (invalidate_capabilities h w1)) = (Ret env, w2)"
      "persist_envelope h env w2 = (Ret (), w3)"
      "w' = (snd (wipe_option (Some active)
         (content_set h (promoted_payload (wa_payload (w_wallets w1 ! h)) k) env
         (snd (set_pending h None (snd (set_secret h (Some pending) w3)))))))\<lparr>w_rotation := s\<rparr>"
    by (rule finalize_Ret)
  note stored = finalize_stores [OF v dev facts]
  show "\<exists>stored'. vault P password stored' h w'" "seed_of h w' = pending_of h w" "pending_of h w' = None"
    "item (wa_payload (w_wallets w' ! h)) ''public_key'' = PyBytes k"
    "pykey ''rotation_dispatch_intent'' \<notin> dkeys (wa_payload (w_wallets w' ! h))"
    by (rule stored)+
qed

section \<open>Preparation\<close>

lemma new_seed_Ret:
  assumes "new_seed w = (Ret n, w')"
  obtains x where "n = length (w_bufs w)" "length x = 32"
    "w' = w\<lparr>w_bufs := w_bufs w @ [x], w_draws := Suc (w_draws w)\<rparr>"
  using assms by (auto simp: new_seed_def prog_simps generate_seed_def raise_if_Inr_iff KEY_LENGTH_def
      split: if_splits)

lemma prepare_Ret:
  assumes "prepare_signing_key_rotation P h w = (Ret k, w')"
  obtains w1 where "touch h w = (Ret (), w1)" "pending_signing_public_key P h w1 = (Ret (Some k), w')"
  | w1 active n w2 env w3 w4 where "touch h w = (Ret (), w1)" "w_pending_secrets w1 h = None"
    "pykey ''rotation_dispatch_intent'' \<notin> dkeys (wa_payload (w_wallets w1 ! h))"
    "w_wallet_secrets w1 h = Some active" "new_seed w1 = (Ret n, w2)"
    "public_key_from_seed P (w_bufs w2 ! n) = Inr k"
    "PyBytes k \<noteq> item (wa_payload (w_wallets w2 ! h)) ''public_key''"
    "build_envelope P h (dset (wa_payload (w_wallets w2 ! h)) (pykey ''pending_public_key'') (PyBytes k))
       (Some n) None True w2 = (Ret env, w3)"
    "persist_envelope h env w3 = (Ret (), w4)"
    "w' = snd (invalidate_capabilities h (content_set h
        (dset (wa_payload (w_wallets w2 ! h)) (pykey ''pending_public_key'') (PyBytes k)) env
        (snd (set_pending h (Some n) w4))))"
proof -
  from assms obtain w1 where t: "touch h w = (Ret (), w1)"
    by (auto simp: prepare_signing_key_rotation_def prog_simps)
  show thesis
  proof (cases "w_pending_secrets w1 h")
    case None
    with assms t that(2) [OF t None] show thesis
      by (auto simp: prepare_signing_key_rotation_def ensure_not_latched_def stage_successor_def Let_def prog_simps
          exceptE_def res_simps split: if_splits sum.splits)
  next
    case (Some a)
    with assms t that(1) [OF t] show thesis
      by (auto simp: prepare_signing_key_rotation_def ensure_not_latched_def prog_simps
          split: if_splits option.splits)
  qed
qed

lemma material_staged:
  assumes "material P p (Some s) None" and "seedless p" and "genuine (PyDict p)"
    and "pykey ''rotation_dispatch_intent'' \<notin> dkeys p"
    and "pair_ok P q (PyBytes k)" and "PyBytes k \<noteq> item p ''public_key''"
  defines "u \<equiv> dset p (pykey ''pending_public_key'') (PyBytes k)"
  shows "material P u (Some s) (Some q)" "seedless u" "genuine (PyDict u)"
    "item u ''public_key'' = item p ''public_key''"
proof -
  have i: "item u ''public_key'' = item p ''public_key''" "item u ''pending_public_key'' = PyBytes k"
    by (simp_all add: u_def item_dset)
  show "item u ''public_key'' = item p ''public_key''" by (rule i)
  show "material P u (Some s) (Some q)" using assms(1,4-6) i by (simp add: material_def) (simp add: u_def)
  show "seedless u" "genuine (PyDict u)"
    using assms(2) genuine_dset [OF assms(3)] by (simp_all add: u_def seedless_def)
qed

lemma staged_key_length:
  assumes "storage_payload (dset p (pykey ''pending_public_key'') (PyBytes k)) cur False (Some s) (Some q) True
      = Inr stored"
  shows "length k = 32"
  using assms by (auto simp: storage_payload_def Let_def raise_if_Inr_iff is_key_bytes_def item_dset)

text \<open>The world after a successor in buffer \<open>n\<close> was stored.\<close>

definition staged_world :: "nat \<Rightarrow> pydict \<Rightarrow> pydict \<Rightarrow> nat \<Rightarrow> world \<Rightarrow> world \<Rightarrow> bool" where
  "staged_world h u env n w w' \<longleftrightarrow>
     dk_files w' = dk_files w \<and> length (w_wallets w') = length (w_wallets w)
     \<and> wa_path (w_wallets w' ! h) = wa_path (w_wallets w ! h)
     \<and> wa_dek (w_wallets w' ! h) = wa_dek (w_wallets w ! h)
     \<and> wa_payload (w_wallets w' ! h) = u \<and> wa_envelope (w_wallets w' ! h) = env
     \<and> w_wallet_secrets w' h = w_wallet_secrets w h \<and> w_pending_secrets w' h = Some n
     \<and> w_bufs w' = w_bufs w"

lemma vault_staged:
  assumes v: "vault P password stored h w" and f: "session_frame h w w4"
    and dek: "wa_dek (w_wallets w ! h) = Some d" and active: "w_wallet_secrets w h = Some active"
    and n: "n < length (w_bufs w)" "n \<noteq> d" "n \<noteq> active"
    and seals: "seals P password (w_bufs w ! d)
        (with_seeds u (Some (w_bufs w ! active)) (Some (w_bufs w ! n))) env"
    and raw: "serialize env = Inr raw" "content (dk_files w4) (Path (wa_path (w_wallets w ! h))) = Some raw"
    and u: "seedless u" "genuine (PyDict u)" "material P u (Some (w_bufs w ! active)) (Some (w_bufs w ! n))"
    and e: "staged_world h u env n w4 w'"
  shows "vault P password (with_seeds u (Some (w_bufs w ! active)) (Some (w_bufs w ! n))) h w'"
proof -
  have own: "own_buffers h w" "h < length (w_wallets w)" using v by (simp_all add: vault_def)
  have k: "active < length (w_bufs w)" "d < length (w_bufs w)" "d \<noteq> active"
    using own(1) dek active unfolding own_buffers_iff by auto
  obtain bs where bs: "w_bufs w4 = w_bufs w @ bs" using f by (auto simp: session_frame_def)
  have b: "w_bufs w' ! active = w_bufs w ! active" "w_bufs w' ! d = w_bufs w ! d" "w_bufs w' ! n = w_bufs w ! n"
      "length (w_bufs w) \<le> length (w_bufs w')"
    using k n(1) e by (simp_all add: staged_world_def bs nth_append)
  show ?thesis
    using secret_material_with_seeds [OF u(1,3)] genuine_with_seeds [OF u(2)] seals raw b k n dek active e f own(2)
    by (auto simp: vault_def staged_world_def session_frame_def seed_of_def pending_of_def own_buffers_iff)
qed

lemma prepare_keeps_vault:
  assumes v: "vault P password stored h w" and dev: "device_ok P w"
    and run: "prepare_signing_key_rotation P h w = (Ret k, w')"
  shows "\<exists>stored'. vault P password stored' h w'"
  using run
proof (cases rule: prepare_Ret)
  case (1 w1)
  have w: "h < length (w_wallets w)" "quiet w" using v dev by (simp_all add: vault_def device_ok_def)
  have f1: "vault_frame h w w1" by (rule touch_frame [OF 1(1) w(1)])
  with w have "vault_frame h w1 w'"
    by (intro settlesD [OF settles_reads(3) 1(2)]) (simp_all add: frame_payload)
  then show ?thesis using vault_framed [OF v] vf.evo_trans [OF f1] by blast
next
  case (2 w1 active n w2 env w3 w4)
  let ?u = "dset (wa_payload (w_wallets w2 ! h)) (pykey ''pending_public_key'') (PyBytes k)"
  have h: "h < length (w_wallets w)" using v by (simp add: vault_def)
  obtain x where x: "n = length (w_bufs w1)" "length x = 32"
      "w2 = w1\<lparr>w_bufs := w_bufs w1 @ [x], w_draws := Suc (w_draws w1)\<rparr>"
    by (rule new_seed_Ret [OF 2(5)])
  have f1: "vault_frame h w w1" by (rule touch_frame [OF 2(1) h])
  have f2: "vault_frame h w1 w2" by (simp add: x(3) vault_frame_def session_frame_def quiet_def)
  have v1: "vault P password stored h w1" using v f1 vault_framed by blast
  have v2: "vault P password stored h w2" "device_ok P w2"
    using v1 dev f1 f2 vault_framed device_framed by blast+
  have own: "own_buffers h w1" "own_buffers h w2" "h < length (w_wallets w2)"
    using v1 v2 by (simp_all add: vault_def)
  have w2: "w_wallet_secrets w2 h = Some active" "w_pending_secrets w2 h = None" "w_bufs w2 ! n = x"
      "active < length (w_bufs w1)" "n < length (w_bufs w2)"
    using 2(2,4) own(1) by (auto simp: x own_buffers_iff)
  have sd: "seed_of h w2 = Some (w_bufs w2 ! active)" "pending_of h w2 = None"
    using w2 by (simp_all add: seed_of_def pending_of_def)
  obtain d stored' cur raw where dek: "wa_dek (w_wallets w2 ! h) = Some d"
    and st: "storage_payload ?u cur False (Some (w_bufs w2 ! active)) (Some x) True = Inr stored'"
      "cur = item (wa_payload (w_wallets w2 ! h)) ''public_key''"
    and s: "seals P password (w_bufs w2 ! d) stored' env" and raw: "serialize env = Inr raw"
      "content (dk_files w4) (Path (wa_path (w_wallets w2 ! h))) = Some raw" and f4: "session_frame h w2 w4"
    by (rule saved [OF v2 2(8) _ 2(9)]) (rule vf.evo_refl, simp add: override_def sd w2(3))
  have pair: "pair_ok P x (PyBytes k)"
    using 2(6) staged_key_length [OF st(1)] x(2) by (simp add: w2(3) pair_ok_def is_key_bytes_def)
  have "pykey ''rotation_dispatch_intent'' \<notin> dkeys (wa_payload (w_wallets w2 ! h))"
    using 2(3) by (simp add: x(3))
  note m = material_staged [OF vault_material [OF v2(1), unfolded sd] this pair 2(7)]
  have stored': "stored' = with_seeds ?u (Some (w_bufs w2 ! active)) (Some x)"
    by (rule storage_payload_with_seeds [OF st(1) m(2,1)]) (simp add: st(2) m(4))
  have ne: "n \<noteq> d" "n \<noteq> active" using own(1) dek w2(4) by (auto simp: x own_buffers_iff)
  have "staged_world h ?u env n w4 w'"
    using own(3) f4 by (simp add: 2(10) staged_world_def session_frame_def)
  from vault_staged [OF v2(1) f4 dek w2(1,5) ne s [unfolded stored', folded w2(3)] raw m(2,3,1) [folded w2(3)] this]
  show ?thesis by (rule exI)
qed

section \<open>A new password\<close>

definition envelope_set :: "nat \<Rightarrow> pydict \<Rightarrow> world \<Rightarrow> world" where
  "envelope_set h env w = w\<lparr>w_wallets := (w_wallets w)[h := (w_wallets w ! h)\<lparr>wa_envelope := env\<rparr>]\<rparr>"

lemma change_password_Ret:
  assumes "change_password P h (PyStr pw) confirmation w = (Ret (), w')"
  obtains w1 salt kek dek w2 wrapped w3 w4 where "touch h w = (Ret (), w1)"
    "MIN_PASSWORD_LENGTH \<le> length pw" "salt = w_random w1 (w_draws w1) SALT_LENGTH"
    "derive_kek P pw salt (w1\<lparr>w_draws := Suc (w_draws w1)\<rparr>) = (Ret kek, w2)"
    "wa_dek (w_wallets w2 ! h) = Some dek"
    "wrap_dek P (w_bufs w2 ! kek) (w_bufs w2 ! dek) (kdf_header salt) CURRENT_FORMAT_VERSION w2 = (Ret wrapped, w3)"
    "persist_envelope h (make_envelope (kdf_header salt) (sealed_part wrapped)
       (sub_dict (wa_envelope (w_wallets w3 ! h)) ''payload'')) (snd (wipe_buffer kek w3)) = (Ret (), w4)"
    "w' = envelope_set h (make_envelope (kdf_header salt) (sealed_part wrapped)
       (sub_dict (wa_envelope (w_wallets w3 ! h)) ''payload'')) w4"
  using assms
  by (auto simp: change_password_def Let_def prog_simps validate_password_def raise_if_Inr_iff envelope_set_def
      split: option.splits)

lemma change_password_seals:
  assumes v: "vault P password stored h w" and dev: "device_ok P w"
    and run: "change_password P h (PyStr pw) confirmation w = (Ret (), w')"
  obtains w1 dek env raw w4 where "vault P password stored h w1" "wa_dek (w_wallets w1 ! h) = Some dek"
    "seals P pw (w_bufs w1 ! dek) stored env" "serialize env = Inr raw"
    "content (dk_files w4) (Path (wa_path (w_wallets w1 ! h))) = Some raw" "session_frame h w1 w4"
    "w' = envelope_set h env w4"
proof -
  from run obtain w1 salt kek dek w2 wrapped w3 w4 where t: "touch h w = (Ret (), w1)"
    and salt: "salt = w_random w1 (w_draws w1) SALT_LENGTH"
    and r: "derive_kek P pw salt (w1\<lparr>w_draws := Suc (w_draws w1)\<rparr>) = (Ret kek, w2)"
    "wa_dek (w_wallets w2 ! h) = Some dek"
    "wrap_dek P (w_bufs w2 ! kek) (w_bufs w2 ! dek) (kdf_header salt) CURRENT_FORMAT_VERSION w2 = (Ret wrapped, w3)"
    "persist_envelope h (make_envelope (kdf_header salt) (sealed_part wrapped)
       (sub_dict (wa_envelope (w_wallets w3 ! h)) ''payload'')) (snd (wipe_buffer kek w3)) = (Ret (), w4)"
    and w': "w' = envelope_set h (make_envelope (kdf_header salt) (sealed_part wrapped)
       (sub_dict (wa_envelope (w_wallets w3 ! h)) ''payload'')) w4"
    by (rule change_password_Ret)
  let ?w1 = "w1\<lparr>w_draws := Suc (w_draws w1)\<rparr>"
  have h: "h < length (w_wallets w)" using v by (simp add: vault_def)
  have f1: "vault_frame h w w1" by (rule touch_frame [OF t h])
  have v1: "vault P password stored h w1" "device_ok P w1"
    using v dev f1 vault_framed device_framed by blast+
  obtain secret k where pw: "utf8_encode pw = Some secret" "argon2id P secret salt = Some k"
    by (rule derive_kek_cases [where password = pw and P = P and salt = salt and w = ?w1]) (use r(1) in auto)
  have rnd: "random_ok w1" and aead: "aead_ok P" and arg: "argon2_ok P" and q: "files_ok (dk_files w1)" "quiet w1"
    using v1(2) by (simp_all add: device_ok_def)
  have salt_len: "length salt = SALT_LENGTH" using rnd by (simp add: salt random_ok_def)
  have k: "length k = 32" using arg pw salt_len by (simp add: argon2_ok_def SALT_LENGTH_def) (metis option.inject)
  have w2: "kek = length (w_bufs w1) + 1"
      "w2 = ?w1\<lparr>w_bufs := w_bufs w1 @ [zero_bytes (length secret), k]\<rparr>"
    using r(1) run_derive_kek [OF pw, of ?w1] by auto
  have d: "wa_dek (w_wallets w1 ! h) = Some dek" "dek < length (w_bufs w1)"
    using r(2) v1(1) by (auto simp: w2 vault_def own_buffers_iff)
  have bufs: "w_bufs w2 ! kek = k" "w_bufs w2 ! dek = w_bufs w1 ! dek" "random_ok w2"
    using d(2) rnd by (simp_all add: w2 nth_append random_ok_def)
  obtain u where u: "sealed_part wrapped = sealed_dict u" "sealed_lengths u" "wraps P pw (w_bufs w1 ! dek) salt u"
      "w3 = w2\<lparr>w_draws := Suc (w_draws w2)\<rparr>"
    by (rule wrap_dek_wraps [OF r(3) [unfolded bufs] aead bufs(3) k pw])
  have w3: "w_wallets w3 = w_wallets w1" "dk_files w3 = dk_files w1" "quiet (snd (wipe_buffer kek w3))"
    using q(2) by (simp_all add: u(4) w2 quiet_def)
  obtain salt0 u0 p where form: "has_form (wa_envelope (w_wallets w1 ! h)) salt0 u0 p"
      and dek: "length (w_bufs w1 ! dek) = KEY_LENGTH" and op: "opens P (w_bufs w1 ! dek) stored p"
    using v1(1) d(1) by (auto simp: vault_def seals_iff)
  let ?env = "make_envelope (kdf_header salt) (sealed_dict u) (sub_dict (wa_envelope (w_wallets w1 ! h)) ''payload'')"
  have s: "seals P pw (w_bufs w1 ! dek) stored ?env"
    unfolding seals_iff using form_rewrap [OF form u(2) salt_len] dek u(3) op by blast
  have fk: "files_ok (dk_files (snd (wipe_buffer kek w3)))" using q(1) w3(2) by simp
  obtain raw where raw: "serialize ?env = Inr raw"
      "content (dk_files w4) (Path (wa_path (w_wallets (snd (wipe_buffer kek w3)) ! h))) = Some raw"
      "session_frame h (snd (wipe_buffer kek w3)) w4"
    by (rule persist_envelope_Ret [OF r(4) [unfolded u(1) w3(1)] fk w3(3)])
  have "session_frame h w1 (snd (wipe_buffer kek w3))"
    by (simp add: session_frame_def u(4) w2 list_update_append)
  from sf.evo_trans [OF this raw(3)] raw(2) w' show thesis
    by (intro that [OF v1(1) d(1) s raw(1)]) (simp_all add: u(1) w3(1))
qed

lemma change_password_keeps_vault:
  assumes v: "vault P password stored h w" and dev: "device_ok P w"
    and run: "change_password P h (PyStr pw) confirmation w = (Ret (), w')"
  shows "vault P pw stored h w'"
proof -
  obtain w1 dek env raw w4 where v1: "vault P password stored h w1" "wa_dek (w_wallets w1 ! h) = Some dek"
    and s: "seals P pw (w_bufs w1 ! dek) stored env" "serialize env = Inr raw"
      "content (dk_files w4) (Path (wa_path (w_wallets w1 ! h))) = Some raw"
    and f: "session_frame h w1 w4" and w': "w' = envelope_set h env w4"
    by (rule change_password_seals [OF v dev run])
  have own: "own_buffers h w1" "h < length (w_wallets w1)" using v1(1) by (simp_all add: vault_def)
  note e = frame_seeds [OF f own(1)]
  have h: "h < length (w_wallets w4)" using f own(2) by (simp add: session_frame_def)
  then have "seed_of h w' = seed_of h w4" "pending_of h w' = pending_of h w4" "own_buffers h w' = own_buffers h w4"
    by (simp_all add: w' envelope_set_def seed_of_def pending_of_def own_buffers_def)
  then show ?thesis
    using v1 s e e(4) [OF v1(2)] f h by (auto simp: vault_def w' envelope_set_def session_frame_def)
qed

end
