(* ===== verification/Wallet_Failures.thy ===== *)
theory Wallet_Failures
  imports Wallet_Promotion
begin

text \<open>
  Calls that raise.  The device stays as the theorems assume it, whatever a
  call does short of dying; and a call that raises leaves a session whose file
  reopens to it, or a locked session.
\<close>

section \<open>What lasts\<close>

definition lasts :: "('s \<Rightarrow> bool) \<Rightarrow> ('a, 's) prog \<Rightarrow> bool" where
  "lasts I m \<longleftrightarrow> (\<forall>w r w'. I w \<and> m w = (r, w') \<and> r \<noteq> Killed \<longrightarrow> I w')"

lemma lastsD: "lasts I m \<Longrightarrow> I w \<Longrightarrow> m w = (r, w') \<Longrightarrow> r \<noteq> Killed \<Longrightarrow> I w'"
  by (auto simp: lasts_def)

lemma lasts_pure:
  "lasts I (returnS x)" "lasts I (raiseS e)" "lasts I (getS f)" "lasts I (liftS r)" "lasts I (guardS c e)"
  by (auto simp: lasts_def liftS_def guardS_def raiseS_def split: sum.splits if_splits)

lemma lasts_bind:
  assumes "lasts I m" and "\<And>x. lasts I (f x)"
  shows "lasts I (bindS m f)"
  unfolding lasts_def
proof (intro allI impI, elim conjE)
  fix w r w'
  assume w: "I w" and run: "bindS m f w = (r, w')" and r: "r \<noteq> Killed"
  obtain s w1 where m: "m w = (s, w1)" by fastforce
  show "I w'"
  proof (cases s)
    case (Ret x)
    then have "f x w1 = (r, w')" using run m by (simp add: bindS_def)
    then show ?thesis using lastsD [OF assms(1) w m] lastsD [OF assms(2) _ _ r] Ret by simp
  qed (use run m r lastsD [OF assms(1) w m] in \<open>auto simp: bindS_def\<close>)
qed

lemma lasts_except:
  assumes "lasts I m" and "\<And>e. lasts I (g e)"
  shows "lasts I (exceptS m g)"
  unfolding lasts_def
proof (intro allI impI, elim conjE)
  fix w r w'
  assume w: "I w" and run: "exceptS m g w = (r, w')" and r: "r \<noteq> Killed"
  obtain s w1 where m: "m w = (s, w1)" by fastforce
  show "I w'"
  proof (cases s)
    case (Raise e)
    then have "g e w1 = (r, w')" using run m by (simp add: exceptS_def)
    then show ?thesis using lastsD [OF assms(1) w m] lastsD [OF assms(2) _ _ r] Raise by simp
  qed (use run m r lastsD [OF assms(1) w m] in \<open>auto simp: exceptS_def\<close>)
qed

lemma lasts_finally:
  assumes "lasts I m" and "lasts I f"
  shows "lasts I (finallyS m f)"
  unfolding lasts_def
proof (intro allI impI, elim conjE)
  fix w r w'
  assume w: "I w" and run: "finallyS m f w = (r, w')" and r: "r \<noteq> Killed"
  obtain s w1 where m: "m w = (s, w1)" by fastforce
  obtain t w2 where f: "f w1 = (t, w2)" by fastforce
  show "I w'"
    using run m f r lastsD [OF assms(1) w m] lastsD [OF assms(2) _ f]
    by (cases s; cases t) (auto simp: finallyS_def bindS_def)
qed

lemma lasts_cases:
  "lasts I m \<Longrightarrow> lasts I n \<Longrightarrow> lasts I (if c then m else n)"
  "lasts I m \<Longrightarrow> (\<And>x. lasts I (f x)) \<Longrightarrow> lasts I (case y of None \<Rightarrow> m | Some x \<Rightarrow> f x)"
  "(\<And>x y. lasts I (g x y)) \<Longrightarrow> lasts I (case z of (x, y) \<Rightarrow> g x y)"
  by (auto split: option.split prod.split)

section \<open>The device lasts\<close>

lemma device_fields:
  "device_ok P w \<Longrightarrow> dk_files w' = dk_files w \<Longrightarrow> dk_faults w' = dk_faults w \<Longrightarrow> w_random w' = w_random w
    \<Longrightarrow> device_ok P w'"
  by (simp add: device_ok_def random_ok_def quiet_def)

lemma lasts_device_calls:
  "lasts (device_ok P) (get_wallet h)" "lasts (device_ok P) (put_wallet h f)"
  "lasts (device_ok P) (set_secret h a)" "lasts (device_ok P) (set_pending h a)"
  "lasts (device_ok P) monotonic_now" "lasts (device_ok P) time_now" "lasts (device_ok P) (read_buffer i)"
  "lasts (device_ok P) (new_buffer b)" "lasts (device_ok P) (wipe_buffer i)" "lasts (device_ok P) (wipe_option a)"
  "lasts (device_ok P) (token_bytes n)" "lasts (device_ok P) (invalidate_capabilities h)"
  "lasts (device_ok P) (read_optional a)" "lasts (device_ok P) (set_content h d e)"
  "lasts (device_ok P) (modifyS (\<lambda>w. w\<lparr>w_rotation := k w\<rparr>))"
  "lasts (device_ok P) (modifyS (\<lambda>w. w\<lparr>w_signer := l w\<rparr>))"
  by (auto simp: lasts_def content_set_def elim!: device_fields)

lemma lasts_rotation_step: "lasts (device_ok P) (rotation_step f)"
  by (auto simp: lasts_def rotation_step_def elim!: device_fields split: prod.splits sum.splits)

lemma lasts_lock: "lasts (device_ok P) (wallet_lock h)"
  unfolding wallet_lock_def by (intro lasts_bind lasts_pure lasts_device_calls)

lemmas last_intros = lasts_pure lasts_bind lasts_except lasts_finally lasts_cases lasts_device_calls
  lasts_rotation_step lasts_lock

lemma lasts_touch: "lasts (device_ok P) (touch h)"
  unfolding touch_def check_inactivity_def require_unlocked_def Let_def by (intro last_intros)

lemma lasts_syscall:
  assumes "\<And>fs. files_ok fs \<Longrightarrow> files_ok (snd (op fs))"
  shows "lasts (device_ok P) (syscall op)"
  unfolding lasts_def
proof (intro allI impI, elim conjE)
  fix w w' :: world and r
  assume d: "device_ok P w" and run: "syscall op w = (r, w')" and r: "r \<noteq> Killed"
  have "files_ok (dk_files w') \<and> (r \<noteq> Killed \<longrightarrow> quiet w')"
    using d by (intro keepsD [OF keeps_syscall [of files_ok op] _ run]) (simp_all add: assms device_ok_def)
  moreover have "w_random w' = w_random w"
    using evolvesD [OF evolves_syscall run] by (cases w; cases w') (auto simp: disk_step_def)
  ultimately show "device_ok P w'" using d r by (simp add: device_ok_def random_ok_def)
qed

lemma lasts_atomic_write: "lasts (device_ok P) (atomic_write (Path p) data replace)"
  unfolding lasts_def
proof (intro allI impI, elim conjE)
  fix w w' :: world and r
  assume d: "device_ok P w" and run: "atomic_write (Path p) data replace w = (r, w')"
  have "disk_step w w'" by (rule evolvesD [OF evolves_atomic_write run])
  then have s: "quiet w \<longrightarrow> quiet w'" "w_random w' = w_random w"
    by (cases w; cases w'; auto simp: disk_step_def quiet_def list_all_iff dest: in_set_dropD)+
  have "files_ok (dk_files w')"
    using alwaysD [OF atomic_write_outcome [OF _ _ refl] run] d
    by (simp add: device_ok_def write_outcome_def old_or_new_def)
  then show "device_ok P w'" using d s by (simp add: device_ok_def random_ok_def)
qed

lemmas device_intros = last_intros lasts_touch lasts_atomic_write

lemma lasts_reads:
  "lasts (device_ok P) (syscall os_nop)" "lasts (device_ok P) (syscall (os_read_bytes p))"
  "lasts (device_ok P) (syscall (os_unlink p))"
  by (rule lasts_syscall, auto simp: os_nop_def os_read_bytes_def os_unlink_def files_ok_def split: option.splits)+

lemma lasts_append: "lasts (device_ok P) (modifyS (\<lambda>w. w\<lparr>w_wallets := k w\<rparr>))"
  by (auto simp: lasts_def elim!: device_fields)

lemma lasts_container:
  "lasts (device_ok P) (derive_kek Q password salt)" "lasts (device_ok P) (wrap_dek Q kek dek kdf version)"
  "lasts (device_ok P) (make_payload Q dek d version)" "lasts (device_ok P) (read_container path)"
  "lasts (device_ok P) (wallet_init Q path a d env m)" "lasts (device_ok P) new_seed"
  unfolding derive_kek_def wrap_dek_def seal_def make_payload_def read_container_def wallet_init_def
    optional_buffer_def new_seed_def Let_def
  by (intro device_intros lasts_reads lasts_append)+

lemma lasts_build_v2: "lasts (device_ok P) (build_v2_envelope Q password dek kdf d)"
  unfolding build_v2_envelope_def by (intro device_intros lasts_container)

lemma lasts_store:
  "lasts (device_ok P) (persist_envelope h env)" "lasts (device_ok P) (build_envelope Q h d po ao incl)"
  unfolding persist_envelope_def build_envelope_def require_unlocked_def
  by (intro device_intros lasts_container)+

lemma lasts_key_reads:
  "lasts (device_ok P) (public_key_for_secret Q seed k)" "lasts (device_ok P) (dispatch_intent h)"
  "lasts (device_ok P) (ensure_not_latched h)" "lasts (device_ok P) (stored_intent h)"
  unfolding public_key_for_secret_def dispatch_intent_def ensure_not_latched_def stored_intent_def Let_def
  by (intro device_intros)+

lemma lasts_keys:
  "lasts (device_ok P) (wallet_public_key Q h)" "lasts (device_ok P) (pending_signing_public_key Q h)"
  "lasts (device_ok P) (prove_pending_signing_key_rotation Q h d)"
  unfolding wallet_public_key_def pending_signing_public_key_def prove_pending_signing_key_rotation_def Let_def
  by (intro device_intros lasts_key_reads)+

lemma lasts_signer:
  "lasts (device_ok P) (\<lambda>w. case f (w_signer w) of (Inl e, s) \<Rightarrow> (Raise (g e), w\<lparr>w_signer := s\<rparr>)
                     | (Inr c, s) \<Rightarrow> (Ret c, w\<lparr>w_signer := s\<rparr>))"
  by (auto simp: lasts_def elim!: device_fields split: prod.splits sum.splits)

lemma lasts_pyval:
  "(\<And>d. lasts I (f d)) \<Longrightarrow> lasts I (case v of PyDict d \<Rightarrow> f d | _ \<Rightarrow> raiseS e)"
  by (cases v) (simp_all add: lasts_pure)

lemmas call_intros = device_intros lasts_container lasts_store lasts_key_reads lasts_keys lasts_signer lasts_reads

lemma lasts_calls:
  "lasts (device_ok P) (update_payload P h v)" "lasts (device_ok P) (export_container h)"
  "lasts (device_ok P) (change_password P h v c)" "lasts (device_ok P) (create_signer P h t)"
  unfolding update_payload_def export_container_def change_password_def create_signer_def Let_def
  by (intro call_intros lasts_pyval)+

lemma lasts_rotation_calls:
  "lasts (device_ok P) (prepare_signing_key_rotation P h)" "lasts (device_ok P) (cancel_signing_key_rotation P h)"
  "lasts (device_ok P) (authorized_intent P h b p)"
  "lasts (device_ok P) (finalize_signing_key_rotation P h x)" "lasts (device_ok P) (resolve_rotation_rejection P h y)"
  unfolding prepare_signing_key_rotation_def stage_successor_def cancel_signing_key_rotation_def authorized_intent_def
    finalize_signing_key_rotation_def resolve_rotation_rejection_def Let_def
  by (intro call_intros)+

lemma lasts_bind_legacy:
  "lasts (device_ok P) (bind_legacy_environment P h e (map_option (\<lambda>r _ _. liftS r) answer))"
  unfolding bind_legacy_environment_def Let_def
  by (cases answer; simp only: option.map prod.case option.case; intro call_intros)

lemma lasts_latch: "lasts (device_ok P) (latch_rotation P h b p)"
  unfolding latch_rotation_def Let_def by (intro call_intros lasts_rotation_calls)

lemma lasts_call: "lasts (device_ok P) (run_call P h c)"
  by (cases c) (simp_all, (intro call_intros lasts_calls lasts_rotation_calls lasts_bind_legacy lasts_latch)+)

lemma lasts_create_storage: "lasts (device_ok P) (create_storage P path password confirmation payload minutes)"
  unfolding create_storage_def wallet_or_storage_def ignore_os_error_def
  by (intro call_intros lasts_pyval lasts_build_v2)

lemma lasts_create:
  "lasts (device_ok P) (wallet_create P path password confirmation payload minutes)"
  "lasts (device_ok P) (create_with_generated_key P path password confirmation minutes)"
  unfolding wallet_create_def create_with_generated_key_def
  by (intro call_intros lasts_pyval lasts_create_storage)+

section \<open>Failures\<close>

text \<open>A session that is locked or whose file reopens to it; a session that can go on.\<close>

definition sound :: "prims \<Rightarrow> pystr \<Rightarrow> nat \<Rightarrow> world \<Rightarrow> bool" where
  "sound P password h w \<longleftrightarrow> shut h w \<or> (\<exists>stored. vault P password stored h w)"

definition stands :: "prims \<Rightarrow> pystr \<Rightarrow> nat \<Rightarrow> world \<Rightarrow> bool" where
  "stands P password h w \<longleftrightarrow> (\<exists>stored. vault P password stored h w) \<and> device_ok P w"

text \<open>\<open>fails P password h m w\<close>: when \<open>m\<close> raises in \<open>w\<close>, the session is sound afterwards, except
  after an exception of no class that the code handles.  In \<open>unfit\<close> the session of \<open>w\<close> need not
  stand.\<close>

definition unfit :: "prims \<Rightarrow> pystr \<Rightarrow> nat \<Rightarrow> ('a, world) prog \<Rightarrow> world \<Rightarrow> bool" where
  "unfit P password h m w \<longleftrightarrow>
     (\<forall>e w'. m w = (Raise e, w') \<and> e \<noteq> PyException \<longrightarrow> sound P password h w')"

definition fails :: "prims \<Rightarrow> pystr \<Rightarrow> nat \<Rightarrow> ('a, world) prog \<Rightarrow> world \<Rightarrow> bool" where
  "fails P password h m w \<longleftrightarrow> (stands P password h w \<longrightarrow> unfit P password h m w)"

lemma stands_framed: "stands P password h w \<Longrightarrow> vault_frame h w w' \<Longrightarrow> stands P password h w'"
  using vault_framed device_framed by (fastforce simp: stands_def)

lemma standsD: "stands P password h w \<Longrightarrow> h < length (w_wallets w) \<and> quiet w"
  by (auto simp: stands_def vault_def device_ok_def)

lemma fails_settles: "settles h m \<Longrightarrow> fails P password h m w"
  using settles_Raise [of h m w] standsD [of P password h w] vault_framed
  by (fastforce simp: fails_def unfit_def sound_def stands_def)

lemma unfit_bind:
  assumes "unfit P password h m w" and "\<And>x w1. m w = (Ret x, w1) \<Longrightarrow> unfit P password h (f x) w1"
  shows "unfit P password h (bindS m f) w"
  unfolding unfit_def
proof (intro allI impI, elim conjE)
  fix e w'
  assume run: "bindS m f w = (Raise e, w')" and e: "e \<noteq> PyException"
  then consider "m w = (Raise e, w')" | x w1 where "m w = (Ret x, w1)" "f x w1 = (Raise e, w')"
    by (auto simp: bindS_def split: prod.splits outcome.splits)
  then show "sound P password h w'"
    using e assms by cases (auto simp: unfit_def)
qed

lemma fails_then:
  assumes "settles h m" and "\<And>x w1. m w = (Ret x, w1) \<Longrightarrow> fails P password h (f x) w1"
  shows "fails P password h (bindS m f) w"
  unfolding fails_def
proof
  assume s: "stands P password h w"
  show "unfit P password h (bindS m f) w"
  proof (rule unfit_bind)
    show "unfit P password h m w" using fails_settles [OF assms(1)] s by (simp add: fails_def)
    fix x w1 assume x: "m w = (Ret x, w1)"
    have "stands P password h w1" using settlesD [OF assms(1) x] standsD [OF s] stands_framed [OF s] by blast
    then show "unfit P password h (f x) w1" using assms(2) [OF x] by (simp add: fails_def)
  qed
qed

lemma unfit_total: "(\<And>e w'. m w \<noteq> (Raise e, w')) \<Longrightarrow> unfit P password h m w"
  by (simp add: unfit_def)

lemma fails_cases:
  "(c \<Longrightarrow> fails P password h m w) \<Longrightarrow> (\<not> c \<Longrightarrow> fails P password h n w) \<Longrightarrow> fails P password h (if c then m else n) w"
  "(y = None \<Longrightarrow> fails P password h m w) \<Longrightarrow> (\<And>x. y = Some x \<Longrightarrow> fails P password h (f x) w)
    \<Longrightarrow> fails P password h (case y of None \<Rightarrow> m | Some x \<Rightarrow> f x) w"
  "(\<And>x y. z = (x, y) \<Longrightarrow> fails P password h (g x y) w) \<Longrightarrow> fails P password h (case z of (x, y) \<Rightarrow> g x y) w"
  by (auto split: option.split prod.split)

text \<open>A write that fails leaves the file, or locks the session.\<close>

lemma vault_unwritten:
  assumes "vault P password stored h w" and "session_frame h w w'"
    and "content (dk_files w') (Path (wa_path (w_wallets w ! h))) = content (dk_files w) (Path (wa_path (w_wallets w ! h)))"
  shows "vault P password stored h w'"
  using assms frame_seeds [OF assms(2)] unfolding vault_def by (auto simp: session_frame_def)

lemma lock_returns: "wallet_lock h w \<noteq> (Raise e, w')"
  by (simp add: wallet_lock_def bindS_def)

lemma persist_fails:
  assumes "stands P password h w" and "persist_envelope h env w = (Raise e, w')" and "e \<noteq> PyException"
  shows "sound P password h w'"
proof -
  let ?p = "Path (wa_path (w_wallets w ! h))"
  obtain stored where v: "vault P password stored h w" and d: "files_ok (dk_files w)" "quiet w"
    using assms(1) by (auto simp: stands_def device_ok_def)
  obtain w1 where inner: "bindS (liftS (serialize env)) (\<lambda>raw. atomic_write ?p raw True) w = (Raise e, w1)"
    and w': "thenS (if e = StorageOutcomeUnknown then wallet_lock h else returnS ()) (raiseS e) w1 = (Raise e, w')"
    using assms(2) by (auto simp: persist_envelope_def bindS_def exceptS_def lock_returns
        split: prod.splits outcome.splits if_splits)
  consider "w1 = w" | raw where "atomic_write ?p raw True w = (Raise e, w1)"
    using inner by (cases "serialize env") (auto simp: bindS_def)
  then have "session_frame h w w1 \<and> (e \<noteq> StorageOutcomeUnknown \<longrightarrow> content (dk_files w1) ?p = content (dk_files w) ?p)"
  proof cases
    case (2 raw)
    have "disk_step w w1" by (rule evolvesD [OF evolves_atomic_write 2])
    then have "session_frame h w w1" by (cases w; cases w1) (auto simp: disk_step_def session_frame_def)
    then show ?thesis
      using alwaysD [OF atomic_write_outcome [OF d refl] 2] assms(3) by (auto simp: write_outcome_def)
  qed (simp add: session_frame_def)
  moreover have "h < length (w_wallets w1)"
    using calculation v by (simp add: session_frame_def vault_def)
  ultimately show ?thesis
    using w' vault_unwritten [OF v]
    by (auto simp: bindS_def sound_def shut_def locked_world_def locked_wallet_def split: if_splits)
qed

lemma fails_store:
  assumes "\<And>w1. persist_envelope h env w = (Ret (), w1) \<Longrightarrow> stands P password h w \<Longrightarrow> unfit P password h (k ()) w1"
  shows "fails P password h (bindS (persist_envelope h env) k) w"
  unfolding fails_def
  using assms persist_fails by (intro impI unfit_bind) (auto simp: unfit_def)

lemma settles_make_payload: "settles h (make_payload P dek d version)"
  unfolding make_payload_def Let_def
  by (intro settle_intros settles_except) (auto simp: raiseS_def)

lemma settles_build: "settles h (build_envelope P h d po ao incl)"
  unfolding build_envelope_def require_unlocked_def
  by (intro settle_intros settles_make_payload)

lemmas fail_intros = fails_then settle_intros settles_reads settles_public_key_for_secret settles_build fails_cases

lemma fails_pure: "fails P password h (raiseS e) w" "fails P password h (guardS c e) w" "fails P password h (returnS x) w"
  by (intro fails_settles settles_pure)+

lemma update_fails: "fails P password h (update_payload P h v) w"
proof (cases "\<exists>d. v = PyDict d")
  case True
  then obtain d where d: "v = PyDict d" by blast
  show ?thesis
    unfolding update_payload_def d pyval.case
    by (intro fail_intros fails_store unfit_total) (simp add: bindS_def)
next
  case False
  then show ?thesis
    unfolding update_payload_def by (cases v; simp) (intro fail_intros fails_pure)+
qed

lemma cancel_fails: "fails P password h (cancel_signing_key_rotation P h) w"
  unfolding cancel_signing_key_rotation_def Let_def
  by (intro fail_intros fails_store fails_pure unfit_total) (simp add: bindS_def)

lemma bind_fails:
  "fails P password h (bind_legacy_environment P h e (map_option (\<lambda>r _ _. liftS r) answer)) w"
  unfolding bind_legacy_environment_def Let_def
  by (cases answer; simp only: option.map prod.case option.case;
      intro fail_intros fails_store fails_pure unfit_total settles_except; simp add: bindS_def raiseS_def)

text \<open>The key-encryption key of a password change lives in a buffer of its own.\<close>

definition rewrap :: "prims \<Rightarrow> nat \<Rightarrow> pystr \<Rightarrow> bytes \<Rightarrow> (pydict \<times> bytes \<times> bytes, world) prog" where
  "rewrap P h pw salt =
     bindS (derive_kek P pw salt) (\<lambda>kek.
     finallyS
       (bindS (get_wallet h) (\<lambda>wa.
        (case wa_dek wa of
           None \<Rightarrow> raiseS WalletLockedError
         | Some dek \<Rightarrow>
             bindS (read_buffer kek) (\<lambda>kek_bytes.
             bindS (read_buffer dek) (\<lambda>key.
             wrap_dek P kek_bytes key (kdf_header salt) CURRENT_FORMAT_VERSION)))))
       (wipe_buffer kek))"

lemma wrap_dek_cases:
  obtains (returned) x where "wrap_dek P kek dek kdf version w = (Ret x, w\<lparr>w_draws := Suc (w_draws w)\<rparr>)"
    | (failed) e w' where "wrap_dek P kek dek kdf version w = (Raise e, w')" "\<exists>n. w' = w\<lparr>w_draws := n\<rparr>"
proof (cases "wrap_aad kdf version")
  case (Inl e)
  then have "wrap_dek P kek dek kdf version w = (Raise e, w)" by (simp add: wrap_dek_def bindS_def)
  then show ?thesis by (rule failed) (rule exI [of _ "w_draws w"], simp)
next
  case (Inr aad)
  then show ?thesis
    using returned failed
    by (cases "aead_encrypt P kek (w_random w (w_draws w) NONCE_LENGTH) aad dek")
      (auto simp: wrap_dek_def bindS_def seal_def)
qed

lemma frame_draws: "vault_frame h w (w\<lparr>w_draws := n, w_bufs := w_bufs w @ bs\<rparr>)"
  by (simp add: vault_frame_def session_frame_def quiet_def)

lemma frame_buffers: "vault_frame h w (w\<lparr>w_bufs := w_bufs w @ bs\<rparr>)"
  by (simp add: vault_frame_def session_frame_def quiet_def)

lemma rewrap_frame:
  assumes run: "rewrap P h pw salt w = (r, w')"
  shows "vault_frame h w w'"
proof (cases "\<exists>secret kek. utf8_encode pw = Some secret \<and> argon2id P secret salt = Some kek")
  case False
  then show ?thesis
    using run vf.evo_refl [of h w] frame_buffers [of h w]
    by (cases "utf8_encode pw") (auto simp: rewrap_def derive_kek_def bindS_def exceptS_def finallyS_def
        nth_append list_update_append)
next
  case True
  then obtain secret kek where k: "utf8_encode pw = Some secret" "argon2id P secret salt = Some kek" by blast
  let ?w = "w\<lparr>w_bufs := w_bufs w @ [zero_bytes (length secret), kek]\<rparr>"
  note d = run_derive_kek [OF k, of w]
  show ?thesis
  proof (cases "wa_dek (w_wallets w ! h)")
    case None
    then show ?thesis
      using run d frame_buffers [of h w]
      by (auto simp: rewrap_def bindS_def finallyS_def list_update_append)
  next
    case (Some dek)
    then show ?thesis
      using run d frame_draws [of h w]
      by (cases rule: wrap_dek_cases [of P kek "w_bufs ?w ! dek" "kdf_header salt" CURRENT_FORMAT_VERSION ?w])
        (auto simp: rewrap_def bindS_def finallyS_def list_update_append nth_append)
  qed
qed

lemma settles_rewrap: "settles h (rewrap P h pw salt)"
  by (auto simp: settles_def settled_def dest: rewrap_frame)

lemma change_password_split:
  "change_password P h v confirmation =
     thenS (touch h)
     (bindS (liftS (validate_password v (Some confirmation))) (\<lambda>pw.
      bindS (token_bytes SALT_LENGTH) (\<lambda>salt.
      bindS (rewrap P h pw salt) (\<lambda>wrapped.
      bindS (get_wallet h) (\<lambda>wa.
      let envelope = make_envelope (kdf_header salt) (sealed_part wrapped)
                       (sub_dict (wa_envelope wa) ''payload'')
      in thenS (persist_envelope h envelope)
           (put_wallet h (\<lambda>wa. wa\<lparr>wa_envelope := envelope\<rparr>)))))))"
  by (simp add: change_password_def rewrap_def bindS_assoc)

lemma change_password_fails: "fails P password h (change_password P h v confirmation) w"
  unfolding change_password_split Let_def
  by (intro fail_intros fails_store settles_rewrap unfit_total) simp

section \<open>Failures of the rotation\<close>

text \<open>After the file is written, only the bookkeeping of the latch can raise.\<close>

lemma unfit_rotation:
  assumes "\<And>s. sound P password h (w\<lparr>w_rotation := s\<rparr>)" and "\<And>x s. unfit P password h (k x) (w\<lparr>w_rotation := s\<rparr>)"
  shows "unfit P password h (bindS (rotation_step f) k) w"
  using assms
  by (intro unfit_bind) (auto simp: unfit_def rotation_step_def split: prod.splits sum.splits)

lemma unfit_here: "(\<And>e w'. m w = (Raise e, w') \<Longrightarrow> w' = w) \<Longrightarrow> sound P password h w \<Longrightarrow> unfit P password h m w"
  by (auto simp: unfit_def)

lemma unfit_pure:
  "sound P password h w \<Longrightarrow> unfit P password h (guardS c e) w" "sound P password h w \<Longrightarrow> unfit P password h (liftS r) w"
  "unfit P password h (returnS x) w"
  by (auto simp: unfit_def guardS_def raiseS_def liftS_def split: if_splits sum.splits)

lemma standing: "(stands P password h w \<Longrightarrow> fails P password h m w) \<Longrightarrow> fails P password h m w"
  by (auto simp: fails_def)

lemma ensure_not_latched_Ret: "ensure_not_latched h w = (Ret x, w') \<Longrightarrow> w' = w"
  by (auto simp: ensure_not_latched_def prog_simps split: if_splits)

lemma latch_tail:
  assumes s: "stands P password h w" and t: "touch h w = (Ret (), w1)"
    and a: "authorized_intent P h b p w1 = (Ret i, w2)" and inv: "invalidate_capabilities h w2 = (Ret (), w3)"
    and u: "u = dset (wa_payload (w_wallets w3 ! h)) (pykey ''rotation_dispatch_intent'')
       (PyDict (intent_to_payload i))"
    and build: "build_envelope P h u None None True w3 = (Ret env, w4)"
    and p: "persist_envelope h env w4 = (Ret (), w5)"
  shows "unfit P password h (thenS (set_content h u env) (bindS (rotation_step f) (\<lambda>x. thenS (guardS (c x) e) (liftS r)))) w5"
proof -
  have ok: "sound P password h ((content_set h u env w5)\<lparr>w_rotation := s\<rparr>)" for s
    using assms latch_stores [OF _ _ t a inv u build p refl] by (fastforce simp: stands_def sound_def)
  have "unfit P password h (bindS (rotation_step f) (\<lambda>x. thenS (guardS (c x) e) (liftS r))) (content_set h u env w5)"
    by (rule unfit_rotation [OF ok]) (intro unfit_bind unfit_pure, auto intro: ok split: if_splits)
  then show ?thesis by (simp add: unfit_def bindS_def)
qed

lemma latch_fails: "fails P password h (latch_rotation P h bundle publication) w"
proof (cases "\<exists>b p. bundle = Some b \<and> publication = Some p")
  case True
  then obtain b p where bp: "bundle = Some b" "publication = Some p" by blast
  show ?thesis
  proof (rule standing)
    assume s: "stands P password h w"
    show "fails P password h (latch_rotation P h bundle publication) w"
      unfolding latch_rotation_def bp prod.case option.case Let_def
      by ((rule fails_store | rule fail_intros settles_authorized_intent)+)
        (auto intro!: latch_tail [OF s] dest!: ensure_not_latched_Ret simp: liftS_Ret
          simp del: run_invalidate_capabilities split: if_splits)
  qed
next
  case False
  then show ?thesis
    unfolding latch_rotation_def
    by (cases "bundle"; cases "publication"; simp) (intro fail_intros fails_pure)+
qed

lemma settles_stored_intent: "settles h (stored_intent h)"
  unfolding stored_intent_def Let_def by (intro settle_intros)

lemma stored_intent_Ret: "stored_intent h w = (Ret i, w') \<Longrightarrow> w' = w"
  by (auto simp: stored_intent_def Let_def prog_simps split: if_splits)

lemma finalize_tail:
  assumes s: "stands P password h w" and t: "touch h w = (Ret (), w1)"
    and seeds: "w_wallet_secrets w1 h = Some active" "w_pending_secrets w1 h = Some pending"
      "pair_ok P (w_bufs w1 ! pending) (PyBytes k)"
    and build: "build_envelope P h (promoted_payload (wa_payload (w_wallets w1 ! h)) k) None (Some pending) False
       (snd (invalidate_capabilities h w1)) = (Ret env, w2)"
    and persist: "persist_envelope h env w2 = (Ret (), w3)"
  shows "unfit P password h
    (thenS (set_secret h (Some pending))
    (thenS (set_pending h None)
    (thenS (set_content h (promoted_payload (wa_payload (w_wallets w1 ! h)) k) env)
    (thenS (wipe_option (Some active))
    (bindS (rotation_step f) (\<lambda>x. thenS (guardS (c x) e) (returnS r))))))) w3"
proof -
  let ?w = "snd (wipe_option (Some active) (content_set h (promoted_payload (wa_payload (w_wallets w1 ! h)) k) env
       (snd (set_pending h None (snd (set_secret h (Some pending) w3))))))"
  have ok: "sound P password h (?w\<lparr>w_rotation := s\<rparr>)" for s
    using s finalize_stores(1) [OF _ _ t seeds build persist refl] by (fastforce simp: stands_def sound_def)
  have "unfit P password h (bindS (rotation_step f) (\<lambda>x. thenS (guardS (c x) e) (returnS r))) ?w"
    by (rule unfit_rotation [OF ok]) (intro unfit_bind unfit_pure ok)
  then show ?thesis by (simp add: unfit_def bindS_def)
qed

lemma finalize_fails: "fails P password h (finalize_signing_key_rotation P h confirmation) w"
proof (cases confirmation)
  case None
  then show ?thesis
    unfolding finalize_signing_key_rotation_def by simp (intro fail_intros fails_pure)
next
  case (Some c)
  show ?thesis
  proof (rule standing)
    assume s: "stands P password h w"
    show "fails P password h (finalize_signing_key_rotation P h confirmation) w"
      unfolding finalize_signing_key_rotation_def Some option.case Let_def promoted_payload_def [symmetric]
      by ((rule fails_store | rule fail_intros settles_stored_intent)+)
        (auto intro!: finalize_tail [OF s] dest!: stored_intent_Ret simp: public_key_for_secret_Ret split: if_splits)
  qed
qed

lemma settles_rotation_step: "settles h (rotation_step f)"
  by (auto simp: settles_def settled_def rotation_step_def rotation_frame split: prod.splits sum.splits)

lemma sound_rotation: "sound P password h w \<Longrightarrow> sound P password h (w\<lparr>w_rotation := s\<rparr>)"
  by (auto simp: sound_def shut_def intro: vault_framed [OF _ rotation_frame])

lemma fails_guarded:
  assumes "fails P password h m w" and "\<And>w1. sound P password h w1 \<Longrightarrow> sound P password h (t w1)"
    and "\<And>x w1. m w = (Ret x, w1) \<Longrightarrow> stands P password h w \<Longrightarrow> unfit P password h (f x) w1"
  shows "fails P password h (bindS (exceptS m (\<lambda>e. thenS (modifyS t) (raiseS e))) f) w"
  unfolding fails_def
proof
  assume s: "stands P password h w"
  show "unfit P password h (bindS (exceptS m (\<lambda>e. thenS (modifyS t) (raiseS e))) f) w"
  proof (rule unfit_bind)
    show "unfit P password h (exceptS m (\<lambda>e. thenS (modifyS t) (raiseS e))) w"
      using assms(1,2) s
      by (auto simp: fails_def unfit_def exceptS_def bindS_def split: prod.splits outcome.splits)
  next
    fix x w1 assume "exceptS m (\<lambda>e. thenS (modifyS t) (raiseS e)) w = (Ret x, w1)"
    then have "m w = (Ret x, w1)" by (auto simp: exceptS_def bindS_def split: prod.splits outcome.splits)
    then show "unfit P password h (f x) w1" using s by (rule assms(3))
  qed
qed

lemma resolve_tail:
  assumes s: "stands P password h w" and t: "touch h w = (Ret (), w1)"
    and b: "build_envelope P h (dpop (wa_payload (w_wallets w1 ! h)) (pykey ''rotation_dispatch_intent''))
       None None True (w1\<lparr>w_rotation := s1\<rparr>) = (Ret env, w2)"
    and p: "persist_envelope h env w2 = (Ret (), w3)"
  shows "unfit P password h
    (thenS (set_content h (dpop (wa_payload (w_wallets w1 ! h)) (pykey ''rotation_dispatch_intent'')) env)
    (thenS (invalidate_capabilities h) (bindS (rotation_step f) (\<lambda>_. returnS r)))) w3"
proof -
  let ?w = "snd (invalidate_capabilities h (content_set h
        (dpop (wa_payload (w_wallets w1 ! h)) (pykey ''rotation_dispatch_intent'')) env w3))"
  have ok: "sound P password h (?w\<lparr>w_rotation := s\<rparr>)" for s
    using s resolve_stores [OF _ _ t b p refl] by (fastforce simp: stands_def sound_def)
  have "unfit P password h (bindS (rotation_step f) (\<lambda>_. returnS r)) ?w"
    by (rule unfit_rotation [OF ok]) (intro unfit_pure)
  then show ?thesis by (simp add: unfit_def bindS_def)
qed

lemma resolve_fails: "fails P password h (resolve_rotation_rejection P h rejection) w"
proof (cases rejection)
  case None
  then show ?thesis
    unfolding resolve_rotation_rejection_def by simp (intro fail_intros fails_pure)
next
  case (Some r)
  have stored: "fails P password h (bindS (build_envelope P h u None None True) (\<lambda>envelope.
      thenS (persist_envelope h envelope) (returnS envelope))) w" for u w
    by (rule fails_then [OF settles_build], rule fails_store, rule unfit_pure)
  show ?thesis
  proof (rule standing)
    assume s: "stands P password h w"
    show "fails P password h (resolve_rotation_rejection P h rejection) w"
      unfolding resolve_rotation_rejection_def Some option.case Let_def
      by ((rule fails_guarded stored sound_rotation | assumption
            | rule fail_intros settles_stored_intent settles_rotation_step)+)
        (auto intro!: resolve_tail [OF s] dest!: stored_intent_Ret
          simp: public_key_for_secret_Ret rotation_step_Ret bindS_Ret liftS_Ret split: if_splits prod.splits)
  qed
qed

text \<open>The buffer of a new seed is none of the session's while the seed is staged.\<close>

definition away :: "nat \<Rightarrow> nat \<Rightarrow> world \<Rightarrow> bool" where
  "away h n w \<longleftrightarrow>
     wa_dek (w_wallets w ! h) \<noteq> Some n \<and> w_wallet_secrets w h \<noteq> Some n \<and> w_pending_secrets w h \<noteq> Some n"

lemma lasts_away_calls:
  "lasts (away h n) (get_wallet h)" "lasts (away h n) (read_buffer i)" "lasts (away h n) (read_optional a)"
  "lasts (away h n) (token_bytes k)"
  by (auto simp: lasts_def away_def)

lemma lasts_away_write: "lasts (away h n) (atomic_write p data replace)"
  unfolding lasts_def
proof (intro allI impI, elim conjE)
  fix w w' :: world and r
  assume a: "away h n w" and run: "atomic_write p data replace w = (r, w')"
  have "disk_step w w'" by (rule evolvesD [OF evolves_atomic_write run])
  then show "away h n w'" using a by (cases w; cases w') (auto simp: disk_step_def away_def)
qed

lemma lasts_away_lock: "lasts (away h n) (wallet_lock h)"
  unfolding lasts_def
proof (intro allI impI, elim conjE)
  fix w w' r
  assume a: "away h n w" and run: "wallet_lock h w = (r, w')"
  show "away h n w'"
  proof (cases "h < length (w_wallets w)")
    case True
    then show ?thesis using run by (auto simp: away_def locked_world_def locked_wallet_def)
  next
    case False
    then have "w_wallets w' = w_wallets w"
      using run by (auto simp: wallet_lock_def bindS_def not_less list_update_beyond)
    then show ?thesis using run a by (auto simp: away_def wallet_lock_def bindS_def)
  qed
qed

lemma lasts_away_stage: "lasts (away h n) (stage_successor P h m)"
  unfolding stage_successor_def build_envelope_def persist_envelope_def require_unlocked_def make_payload_def Let_def
  by (intro lasts_pure lasts_bind lasts_except lasts_cases lasts_away_calls lasts_away_write lasts_away_lock)

lemma stage_fails: "fails P password h (stage_successor P h n) w"
  unfolding stage_successor_def Let_def
  by ((rule fails_store | rule fail_intros)+) (rule unfit_pure)

lemma sound_wiped:
  assumes "sound P password h w" and "away h n w"
  shows "sound P password h (w\<lparr>w_bufs := (w_bufs w)[n := b]\<rparr>)"
proof (cases "shut h w")
  case False
  then obtain stored where "vault P password stored h w" using assms(1) by (auto simp: sound_def)
  then have "vault P password stored h (w\<lparr>w_bufs := (w_bufs w)[n := b]\<rparr>)"
    using assms(2) by (auto simp: vault_def away_def own_buffers_def seed_of_def pending_of_def nth_list_update
        split: option.splits)
  then show ?thesis by (auto simp: sound_def)
qed (simp add: sound_def shut_def)

lemma stage_guarded:
  assumes "away h n w"
  shows "fails P password h (exceptS (stage_successor P h n) (\<lambda>e. thenS (wipe_buffer n) (raiseS e))) w"
  unfolding fails_def unfit_def
proof (intro impI allI, elim conjE)
  fix e w'
  assume s: "stands P password h w" and e: "e \<noteq> PyException"
    and run: "exceptS (stage_successor P h n) (\<lambda>e. thenS (wipe_buffer n) (raiseS e)) w = (Raise e, w')"
  then obtain w1 where w1: "stage_successor P h n w = (Raise e, w1)"
    and w': "w' = w1\<lparr>w_bufs := (w_bufs w1)[n := zero_bytes (length (w_bufs w1 ! n))]\<rparr>"
    by (auto simp: exceptS_def bindS_def split: prod.splits outcome.splits)
  have "sound P password h w1" using stage_fails s w1 e by (auto simp: fails_def unfit_def)
  then show "sound P password h w'" unfolding w' using lastsD [OF lasts_away_stage assms w1] by (auto intro: sound_wiped)
qed

lemma new_seed_away:
  assumes "stands P password h w" and "new_seed w = (Ret n, w')"
  shows "away h n w'"
  using assms by (auto simp: stands_def vault_def own_buffers_iff away_def elim!: new_seed_Ret)

lemma settles_new_seed: "settles h new_seed"
  unfolding new_seed_def by (intro settle_intros)

lemma prepare_fails: "fails P password h (prepare_signing_key_rotation P h) w"
proof -
  have stage: "fails P password h (bindS new_seed (\<lambda>n. bindS
      (exceptS (stage_successor P h n) (\<lambda>e. thenS (wipe_buffer n) (raiseS e))) (k n))) w"
    if "\<And>n x w e w'. k n x w \<noteq> (Raise e, w')" for k :: "nat \<Rightarrow> bytes \<times> pydict \<times> pydict \<Rightarrow> (bytes, world) prog" and w
    unfolding fails_def
  proof (intro impI unfit_bind)
    assume s: "stands P password h w"
    show "unfit P password h new_seed w" using fails_settles [OF settles_new_seed] s by (simp add: fails_def)
    fix n w1 assume n: "new_seed w = (Ret n, w1)"
    have "stands P password h w1" using settlesD [OF settles_new_seed n] standsD [OF s] stands_framed [OF s] by blast
    then show "unfit P password h (exceptS (stage_successor P h n) (\<lambda>e. thenS (wipe_buffer n) (raiseS e))) w1"
      using stage_guarded [OF new_seed_away [OF s n]] by (simp add: fails_def)
  qed (use that in \<open>simp add: unfit_def\<close>)
  show ?thesis
    unfolding prepare_signing_key_rotation_def
    by ((rule stage | rule fail_intros fails_pure)+) (auto simp: bindS_def split: prod.splits)
qed

lemma fails_done: "fails P password h m w \<Longrightarrow> fails P password h (bindS m (\<lambda>_. returnS ())) w"
  unfolding fails_def by (intro impI unfit_bind unfit_pure) simp

text \<open>Every call.\<close>

lemma calls_fail: "fails P password h (run_call P h c) w"
  by (cases c)
    (simp_all add: update_fails change_password_fails cancel_fails resolve_fails fails_done prepare_fails latch_fails
      bind_fails finalize_fails fails_settles settles_reads settles_create_signer settles_export settles_prove)

end
