(* ===== verification/Wallet_Creation.thy ===== *)
theory Wallet_Creation
  imports Wallet_Reopen
begin

text \<open>
  Creating a wallet succeeds: the headers and associated data that the
  container writes are JSON without lone surrogates, so that on a device
  without faults every step of \<^verbatim>\<open>_create_storage\<close> returns.
\<close>

section \<open>Text that has an UTF-8 encoding\<close>

definition scalar_text :: "pystr \<Rightarrow> bool" where
  "scalar_text s \<longleftrightarrow> (\<forall>c \<in> set s. c < 0x110000 \<and> \<not> is_surrogate c)"

lemma scalar_text_Nil [simp]: "scalar_text []"
  and scalar_text_Cons: "scalar_text (c # s) \<longleftrightarrow> c < 0x110000 \<and> \<not> is_surrogate c \<and> scalar_text s"
  and scalar_text_append [simp]: "scalar_text (s @ t) \<longleftrightarrow> scalar_text s \<and> scalar_text t"
  by (auto simp: scalar_text_def)

lemma scalar_text_ascii: "(\<And>c. c \<in> set s \<Longrightarrow> c < 256) \<Longrightarrow> scalar_text s"
  by (fastforce simp: scalar_text_def is_surrogate_def)

lemma scalar_text_low [simp]: "c < 256 \<Longrightarrow> scalar_text (c # s) = scalar_text s"
  by (simp add: scalar_text_Cons is_surrogate_def)

lemma scalar_text_str_of [simp]: "scalar_text (str_of s)"
  by (rule scalar_text_ascii) (auto simp: str_of_def)

lemma scalar_text_show_nat: "scalar_text (show_nat n)"
  using show_nat_digits [of n]
  by (intro scalar_text_ascii) (auto simp: list_all_iff is_digit_def)

lemma scalar_text_escape: "c < 0x110000 \<Longrightarrow> \<not> is_surrogate c \<Longrightarrow> scalar_text (json_escape c)"
  by (cases "c < 256")
    (auto intro!: scalar_text_ascii simp: json_escape_def hex_digit_def scalar_text_Cons [of c]
      split: if_splits)

lemma scalar_text_json_string: "scalar_text s \<Longrightarrow> scalar_text (json_string s)"
proof (induction s)
  case (Cons c s)
  then show ?case using scalar_text_escape [of c] by (simp add: json_string_def scalar_text_Cons [of c])
qed (simp add: json_string_def)

lemma scalar_text_join: "list_all scalar_text xs \<Longrightarrow> scalar_text (join_comma xs)"
  by (induction xs rule: join_comma.induct) simp_all

fun clean :: "pyval \<Rightarrow> bool" where
  "clean (PyStr s) = scalar_text s"
| "clean (PyFloat t) = scalar_text t"
| "clean (PyList xs) = list_all clean xs"
| "clean (PyDict d) = list_all (\<lambda>kv. clean (fst kv) \<and> clean (snd kv)) d"
| "clean _ = True"

lemma mapE_list_all:
  assumes "mapE f xs = Inr ys" and "\<And>x y. x \<in> set xs \<Longrightarrow> f x = Inr y \<Longrightarrow> Q y"
  shows "list_all Q ys"
proof (unfold list_all_iff, rule)
  fix y assume "y \<in> set ys"
  then obtain x where "x \<in> set xs" "f x = Inr y"
    using assms(1) by (force simp: mapE_Inr_iff list_all2_conv_all_nth in_set_conv_nth)
  then show "Q y" by (rule assms(2))
qed

lemma scalar_text_dumps: "json_dumps v = Inr t \<Longrightarrow> clean v \<Longrightarrow> scalar_text t"
proof (induction v arbitrary: t rule: json_dumps.induct)
  case (3 i)
  then show ?case using scalar_text_show_nat by (auto simp: raise_if_Inr_iff show_int_def)
next
  case (6 xs)
  then obtain ts where ts: "mapE json_dumps xs = Inr ts" "t = 91 # join_comma ts @ [93]"
    by (auto simp: res_simps)
  have "list_all scalar_text ts"
    using 6 by (intro mapE_list_all [OF ts(1)]) (auto simp: list_all_iff)
  then show ?case using scalar_text_join ts(2) by simp
next
  case (7 d)
  then obtain items where items: "mapE (\<lambda>kv. bindE (json_dumps (snd kv)) (\<lambda>t.
      (case fst kv of PyStr k \<Rightarrow> Inr (k, json_string k @ 58 # t) | _ \<Rightarrow> Inl PyTypeError))) d = Inr items"
    "t = 123 # join_comma (map snd (sort_key fst items)) @ [125]"
    by (auto simp: res_simps)
  have "list_all (\<lambda>kt. scalar_text (snd kt)) items"
  proof (rule mapE_list_all [OF items(1)])
    fix kv y assume kv: "kv \<in> set d" and y: "bindE (json_dumps (snd kv)) (\<lambda>t.
      (case fst kv of PyStr k \<Rightarrow> Inr (k, json_string k @ 58 # t) | _ \<Rightarrow> Inl PyTypeError)) = Inr y"
    then obtain k u where k: "fst kv = PyStr k" "json_dumps (snd kv) = Inr u" "y = (k, json_string k @ 58 # u)"
      by (cases "fst kv") (auto simp: res_simps)
    have "clean (fst kv)" "clean (snd kv)" using 7(3) kv by (auto simp: list_all_iff)
    then show "scalar_text (snd y)"
      using 7(1) [OF kv k(2)] k by (simp add: scalar_text_json_string)
  qed
  then have "list_all scalar_text (map snd (sort_key fst items))" by (auto simp: list_all_iff)
  then show ?case using scalar_text_join items(2) by simp
qed (auto simp: raise_if_Inr_iff scalar_text_json_string)

lemma canonical_json_total:
  assumes "json_plain v" and "clean v"
  obtains b where "canonical_json v = Inr b"
proof -
  have t: "json_dumps v = Inr (dtext v)" by (rule json_dumps_plain [OF assms(1)])
  obtain b where "utf8_encode (dtext v) = Some b"
    using utf8_encode_total scalar_text_dumps [OF t assms(2)] unfolding scalar_text_def by blast
  with t have "canonical_json v = Inr b" unfolding canonical_json_Inr by blast
  then show thesis by (rule that)
qed

section \<open>Headers\<close>

lemma scalar_text_b64 [simp]: "scalar_text (b64_encode b)"
  using b64_encode_ascii [of b] by (intro scalar_text_ascii) fastforce

lemma clean_headers [simp]:
  "clean (PyDict (kdf_header salt))" "clean (PyDict (aead_info nonce))"
  "clean (PyDict (sealed_part (aead_info nonce, ciphertext, tag)))"
  by (simp_all add: kdf_header_def aead_info_def sealed_part_def)

lemma aead_info_plain: "json_plain (PyDict (aead_info nonce))"
  by (simp add: aead_info_def)

lemma wrap_aad_total: obtains aad where "wrap_aad (kdf_header salt) CURRENT_FORMAT_VERSION = Inr aad"
proof -
  have "json_plain (PyDict [(pykey ''format'', pykey FORMAT),
      (pykey ''version'', PyInt CURRENT_FORMAT_VERSION), (pykey ''kdf'', PyDict (kdf_header salt))])"
    by (rule aad_plain [OF kdf_plain]) simp_all
  then obtain b where "wrap_aad (kdf_header salt) CURRENT_FORMAT_VERSION = Inr b"
    unfolding wrap_aad_def by (rule canonical_json_total) (use clean_headers(1) in simp)
  then show thesis by (rule that)
qed

lemma payload_aad_total: obtains aad where "payload_aad (aead_info nonce) CURRENT_FORMAT_VERSION = Inr aad"
proof -
  have "json_plain (PyDict [(pykey ''format'', pykey FORMAT),
      (pykey ''version'', PyInt CURRENT_FORMAT_VERSION), (pykey ''payload'', PyDict (aead_info nonce))])"
    by (rule aad_plain [OF aead_info_plain]) simp_all
  then obtain b where "payload_aad (aead_info nonce) CURRENT_FORMAT_VERSION = Inr b"
    unfolding payload_aad_def by (rule canonical_json_total) (use clean_headers(2) in simp)
  then show thesis by (rule that)
qed

lemma serialize_total:
  obtains raw where "serialize (make_envelope (kdf_header salt)
    (sealed_part (aead_info n1, c1, t1)) (sealed_part (aead_info n2, c2, t2))) = Inr raw"
proof -
  let ?env = "make_envelope (kdf_header salt)
    (sealed_part (aead_info n1, c1, t1)) (sealed_part (aead_info n2, c2, t2))"
  have "json_plain (PyDict ?env)" by (rule envelope_plain [OF kdf_plain sealed_part_plain sealed_part_plain])
  then obtain b where "serialize ?env = Inr b"
    unfolding serialize_def by (rule canonical_json_total) (use clean_headers in \<open>simp add: make_envelope_def\<close>)
  then show thesis by (rule that)
qed

section \<open>Every step returns\<close>

lemma run_wrap_dek:
  assumes "aead_ok P" and "random_ok w" and "length kek = 32"
  shows "\<exists>n c t. wrap_dek P kek dek (kdf_header salt) CURRENT_FORMAT_VERSION w =
    (Ret (aead_info n, c, t), w\<lparr>w_draws := Suc (w_draws w)\<rparr>)"
proof -
  obtain aad where aad: "wrap_aad (kdf_header salt) CURRENT_FORMAT_VERSION = Inr aad"
    by (rule wrap_aad_total)
  have "length (w_random w (w_draws w) NONCE_LENGTH) = 24"
    using assms(2) by (simp add: random_ok_def NONCE_LENGTH_def)
  then obtain c t where "aead_encrypt P kek (w_random w (w_draws w) NONCE_LENGTH) aad dek = Some (c, t)"
    using assms(1,3) unfolding aead_ok_def by meson
  then show ?thesis using aad by (auto simp: wrap_dek_def bindS_def seal_def)
qed

lemma run_make_payload:
  assumes "aead_ok P" and "random_ok w" and "length dek = 32"
    and "bindE (encode_value (PyDict payload)) canonical_json = Inr encoded"
  shows "\<exists>n c t. make_payload P dek payload CURRENT_FORMAT_VERSION w =
    (Ret (aead_info n, c, t), w\<lparr>w_draws := Suc (w_draws w)\<rparr>)"
proof -
  define nonce where "nonce = w_random w (w_draws w) NONCE_LENGTH"
  have len: "length nonce = NONCE_LENGTH" using assms(2) by (simp add: nonce_def random_ok_def)
  obtain aad where aad: "payload_aad (aead_info nonce) CURRENT_FORMAT_VERSION = Inr aad"
    by (rule payload_aad_total)
  obtain c t where "aead_encrypt P dek nonce aad encoded = Some (c, t)"
    using assms(1,3) len unfolding aead_ok_def NONCE_LENGTH_def by meson
  then show ?thesis
    using assms(4) aad len
    by (auto simp: make_payload_def bindS_def Let_def exceptS_def aead_info_items
        b64_decode_encode_value simp flip: nonce_def)
qed

lemma run_build_v2_envelope:
  assumes ok: "aead_ok P" "argon2_ok P" "random_ok w" and len: "length dek = 32" "length salt = SALT_LENGTH"
    and pw: "utf8_encode password = Some secret"
    and enc: "bindE (encode_value (PyDict payload)) canonical_json = Inr encoded"
  shows "\<exists>env raw w'. build_v2_envelope P password dek (kdf_header salt) payload w = (Ret env, w')
    \<and> serialize env = Inr raw"
proof -
  obtain kek where kek: "argon2id P secret salt = Some kek" "length kek = 32"
    using ok(2) len(2) unfolding argon2_ok_def SALT_LENGTH_def by metis
  define w1 where "w1 = w\<lparr>w_bufs := w_bufs w @ [zero_bytes (length secret), kek]\<rparr>"
  have r: "random_ok w1" using ok(3) by (simp add: w1_def random_ok_def)
  obtain n1 c1 t1 where wrap: "wrap_dek P kek dek (kdf_header salt) CURRENT_FORMAT_VERSION w1 =
      (Ret (aead_info n1, c1, t1), w1\<lparr>w_draws := Suc (w_draws w1)\<rparr>)"
    using run_wrap_dek [OF ok(1) r kek(2)] by blast
  define w2 where "w2 = w1\<lparr>w_draws := Suc (w_draws w1),
    w_bufs := (w_bufs w1)[Suc (length (w_bufs w)) := zero_bytes (length kek)]\<rparr>"
  have r2: "random_ok w2" using r by (simp add: w2_def random_ok_def)
  obtain n2 c2 t2 where make: "make_payload P dek payload CURRENT_FORMAT_VERSION w2 =
      (Ret (aead_info n2, c2, t2), w2\<lparr>w_draws := Suc (w_draws w2)\<rparr>)"
    using run_make_payload [OF ok(1) r2 len(1) enc] by blast
  have "b64_decode (dget_none (kdf_header salt) (pykey ''salt'')) (Some SALT_LENGTH) = Inr salt"
    using len(2) by (simp add: kdf_items b64_decode_encode_value)
  moreover have "w_bufs w1 ! Suc (length (w_bufs w)) = kek" by (simp add: w1_def nth_append)
  ultimately have "build_v2_envelope P password dek (kdf_header salt) payload w =
      (Ret (make_envelope (kdf_header salt) (sealed_part (aead_info n1, c1, t1))
         (sealed_part (aead_info n2, c2, t2))), w2\<lparr>w_draws := Suc (w_draws w2)\<rparr>)"
    using run_derive_kek [OF pw kek(1), of w] wrap make
    by (simp add: build_v2_envelope_def bindS_def finallyS_def w2_def flip: w1_def)
  then show ?thesis using serialize_total by metis
qed

text \<open>Without faults a new path gets a wallet, whatever valid payload and password are given.\<close>

lemma create_storage_returns:
  assumes ok: "aead_ok P" "argon2_ok P" "random_ok w" and faults: "dk_faults w = []"
    and new: "fs_names (dk_files w) (Path path) = None"
    and pw: "MIN_PASSWORD_LENGTH \<le> length password" "utf8_encode password = Some secret"
      "confirmation = PyNone \<or> confirmation = PyStr password" and m: "1 \<le> m" "m \<le> 15"
    and d: "bindE (encode_value (PyDict d)) canonical_json = Inr encoded"
      "secret_material P d = Inr parts"
  shows "\<exists>w'. create_storage P path (PyStr password) confirmation (PyDict d) (PyInt m) w =
    (Ret (length (w_wallets w)), w')"
proof -
  let ?key = "w_random w (w_draws w) KEY_LENGTH" and ?salt = "w_random w (Suc (w_draws w)) SALT_LENGTH"
  let ?w = "w\<lparr>w_bufs := w_bufs w @ [?key], w_draws := Suc (Suc (w_draws w))\<rparr>"
  have len: "random_ok ?w" "length ?key = 32" "length ?salt = SALT_LENGTH"
    using ok(3) by (simp_all add: random_ok_def KEY_LENGTH_def)
  obtain env raw w1 where build: "build_v2_envelope P password ?key (kdf_header ?salt) d ?w = (Ret env, w1)"
      "serialize env = Inr raw"
    using run_build_v2_envelope [OF ok(1,2) len pw(2) d(1)] by blast
  have w1: "dk_faults w1 = []" "dk_files w1 = dk_files w" "w_wallets w1 = w_wallets w"
    using build_v2_envelope_Ret(2) [OF build(1) ok(1,2) len kdf_plain refl] faults by auto
  obtain w2 where store: "atomic_write (Path path) raw False w1 = (Ret (), w2)"
    using run_atomic_write [OF w1(1), of False path raw] w1(2) new by auto
  have "w_wallets w2 = w_wallets w"
    using evolvesD [OF evolves_atomic_write store] w1(3) by (cases w1; cases w2) (auto simp: disk_step_def)
  moreover obtain rest seed pending where "secret_material P d = Inr (rest, seed, pending)"
    using d(2) by (cases parts) auto
  ultimately obtain w' where "wallet_init P path (length (w_bufs w)) d env m w2 = (Ret (length (w_wallets w)), w')"
    using run_wallet_init [of P d rest seed pending path "length (w_bufs w)" env m w2] by auto
  then show ?thesis
    using pw m build store
    by (auto simp: create_storage_def bindS_def exceptS_def validate_password_def validate_inactivity_def)
qed

text \<open>The payload of a wallet with a generated key.\<close>

abbreviation key_payload :: "bytes \<Rightarrow> bytes \<Rightarrow> pydict" where
  "key_payload seed key \<equiv> [(pykey ''private_seed'', PyBytes seed), (pykey ''public_key'', PyBytes key)]"

lemma key_payload_material:
  assumes "length seed = 32" and "length key = 32" and "public_key_from_seed P seed = Inr key"
  shows "secret_material P (key_payload seed key) = Inr ([(pykey ''public_key'', PyBytes key)], Some seed, None)"
  using assms
  by (intro secret_material_complete)
    (simp_all add: dpop_def material_def pair_ok_def item_def dget_none_def is_key_bytes_def dkeys_def
      optional_bytes_def)

lemma key_payload_encodes:
  "\<exists>encoded. bindE (encode_value (PyDict (key_payload seed key))) canonical_json = Inr encoded"
proof -
  have ok: "payload_ok (PyDict (key_payload seed key))" by simp
  obtain e where e: "encode_value (PyDict (key_payload seed key)) = Inr e" using encode_value_ok [OF ok] by blast
  have "json_plain e \<and> clean e"
    using e unfolding encode_value_dict [OF ok]
    by (auto simp: tagged_def split: if_splits)
  then show ?thesis using e by (auto elim: canonical_json_total)
qed

lemma create_with_generated_key_returns:
  assumes ok: "aead_ok P" "argon2_ok P" "ed25519_ok P" "random_ok w" "w_approved_csrng w"
    and faults: "dk_faults w = []" and new: "fs_names (dk_files w) (Path path) = None"
    and pw: "MIN_PASSWORD_LENGTH \<le> length password" "utf8_encode password = Some secret"
      "confirmation = PyNone \<or> confirmation = PyStr password" and m: "1 \<le> m" "m \<le> 15"
  shows "\<exists>w'. create_with_generated_key P path (PyStr password) confirmation (PyInt m) w =
    (Ret (length (w_wallets w)), w')"
proof -
  define seed where "seed = w_random w (w_draws w) KEY_LENGTH"
  define w1 where "w1 = w\<lparr>w_draws := Suc (w_draws w), w_bufs := w_bufs w @ [seed]\<rparr>"
  have len: "length seed = 32" using ok(4) by (simp add: seed_def random_ok_def KEY_LENGTH_def)
  have seed: "new_seed w = (Ret (length (w_bufs w)), w1)"
    using ok(5) len by (simp add: new_seed_def bindS_def generate_seed_def w1_def flip: seed_def)
  obtain key where key: "public_key_from_seed P seed = Inr key" "length key = 32"
    using ok(3) len unfolding ed25519_ok_def public_key_from_seed_def by fastforce
  have w1: "random_ok w1" "dk_faults w1 = []" "fs_names (dk_files w1) (Path path) = None"
    "w_wallets w1 = w_wallets w"
    using ok(4) faults new by (simp_all add: w1_def random_ok_def)
  obtain encoded where "bindE (encode_value (PyDict (key_payload seed key))) canonical_json = Inr encoded"
    using key_payload_encodes by blast
  from create_storage_returns [OF ok(1,2) w1(1,2,3) pw m this key_payload_material [OF len key(2,1)]]
  obtain w2 where "create_storage P path (PyStr password) confirmation (PyDict (key_payload seed key)) (PyInt m) w1 =
      (Ret (length (w_wallets w)), w2)"
    unfolding w1(4) by blast
  then show ?thesis
    using seed key by (simp add: create_with_generated_key_def bindS_def finallyS_def w1_def nth_append)
qed

section \<open>The size of a container\<close>

text \<open>A bound on the length of the JSON text of a value.\<close>

fun weight :: "pyval \<Rightarrow> nat" where
  "weight (PyBool b) = 5"
| "weight (PyInt i) = length (show_int i)"
| "weight (PyFloat t) = length t"
| "weight (PyStr s) = 6 * length s + 2"
| "weight (PyList xs) = 2 + sum_list (map (\<lambda>x. weight x + 1) xs)"
| "weight (PyDict d) = 2 + sum_list (map (\<lambda>kv. weight (fst kv) + weight (snd kv) + 2) d)"
| "weight _ = 4"

lemma length_escaped: "length (concat (map json_escape s)) \<le> 6 * length s"
  by (induction s) (auto simp: json_escape_def)

lemma length_json_string: "length (json_string s) \<le> 6 * length s + 2"
  using length_escaped [of s] by (simp add: json_string_def)

lemma length_join_comma: "length (join_comma xs) \<le> sum_list (map (\<lambda>x. length x + 1) xs)"
  by (induction xs rule: join_comma.induct) simp_all

lemma mapE_sum:
  assumes "mapE f xs = Inr ys" and "\<And>x y. x \<in> set xs \<Longrightarrow> f x = Inr y \<Longrightarrow> (g y :: nat) \<le> k x"
  shows "sum_list (map g ys) \<le> sum_list (map k xs)"
proof -
  have "length ys = length xs" and "\<And>i. i < length xs \<Longrightarrow> g (ys ! i) \<le> k (xs ! i)"
    using assms by (auto simp: mapE_Inr_iff list_all2_conv_all_nth)
  then show ?thesis
    by (simp add: sum_list_sum_nth) (intro sum_mono, simp)
qed

lemma sum_list_sort_key: "sum_list (map (g :: 'b \<Rightarrow> nat) (sort_key f xs)) = sum_list (map g xs)"
  by (metis mset_map mset_sort sum_mset_sum_list)

lemma length_dumps: "json_dumps v = Inr t \<Longrightarrow> length t \<le> weight v"
proof (induction v arbitrary: t rule: json_dumps.induct)
  case (6 xs)
  then obtain ts where ts: "mapE json_dumps xs = Inr ts" "t = 91 # join_comma ts @ [93]"
    by (auto simp: res_simps)
  have "sum_list (map (\<lambda>x. length x + 1) ts) \<le> sum_list (map (\<lambda>x. weight x + 1) xs)"
    using 6 by (intro mapE_sum [OF ts(1)]) simp
  then show ?case using length_join_comma [of ts] ts(2) by simp
next
  case (7 d)
  then obtain items where items: "mapE (\<lambda>kv. bindE (json_dumps (snd kv)) (\<lambda>t.
      (case fst kv of PyStr k \<Rightarrow> Inr (k, json_string k @ 58 # t) | _ \<Rightarrow> Inl PyTypeError))) d = Inr items"
    "t = 123 # join_comma (map snd (sort_key fst items)) @ [125]"
    by (auto simp: res_simps)
  have "sum_list (map (\<lambda>kt. length (snd kt) + 1) items)
      \<le> sum_list (map (\<lambda>kv. weight (fst kv) + weight (snd kv) + 2) d)"
  proof (rule mapE_sum [OF items(1)])
    fix kv y assume kv: "kv \<in> set d" and y: "bindE (json_dumps (snd kv)) (\<lambda>t.
      (case fst kv of PyStr k \<Rightarrow> Inr (k, json_string k @ 58 # t) | _ \<Rightarrow> Inl PyTypeError)) = Inr y"
    then obtain k u where k: "fst kv = PyStr k" "json_dumps (snd kv) = Inr u" "y = (k, json_string k @ 58 # u)"
      by (cases "fst kv") (auto simp: res_simps)
    then show "length (snd y) + 1 \<le> weight (fst kv) + weight (snd kv) + 2"
      using 7(1) [OF kv k(2)] length_json_string [of k] by simp
  qed
  moreover have "sum_list (map (\<lambda>x. length x + 1) (map snd (sort_key fst items))) =
      sum_list (map (\<lambda>kt. length (snd kt) + 1) items)"
    using sum_list_sort_key [of "\<lambda>kt. length (snd kt) + 1" fst items] by (simp add: comp_def)
  ultimately show ?case
    using length_join_comma [of "map snd (sort_key fst items)"] items(2) by simp
qed (auto simp: raise_if_Inr_iff intro: order_trans [OF length_json_string])

lemma length_utf8: "utf8_encode s = Some b \<Longrightarrow> length b \<le> 4 * length s"
  by (induction s arbitrary: b) (fastforce simp: utf8_encode_char_def split: option.splits if_splits)+

lemma length_canonical_json: "canonical_json v = Inr b \<Longrightarrow> length b \<le> 4 * weight v"
  using length_dumps length_utf8 by (fastforce simp: canonical_json_Inr)

lemma length_b64: "length (b64_encode b) = 4 * ((length b + 2) div 3)"
  by (induction b rule: b64_encode.induct) (simp_all, presburger)

lemma weight_key [simp]: "weight (pykey s) = 6 * length s + 2"
  by simp

lemma weight_numbers:
  "weight (PyInt (int KDF_MEMORY_KIB)) \<le> 5" "weight (PyInt (int KDF_TIME_COST)) \<le> 1"
  "weight (PyInt (int KDF_PARALLELISM)) \<le> 1" "weight (PyInt CURRENT_FORMAT_VERSION) \<le> 1"
  using show_nat_small [of "KDF_MEMORY_KIB" 4] show_nat_small [of "KDF_TIME_COST" 0]
    show_nat_small [of "KDF_PARALLELISM" 0] show_nat_small [of 2 0]
  by (simp_all add: show_int_def format_constants)

text \<open>The headers take less than four kilobytes, so that the ciphertexts decide the size.\<close>

lemma weight_sealed:
  assumes "sealed_lengths u"
  shows "weight (PyDict (sealed_dict u)) \<le> 720 + 8 * length (fst (snd u))"
  using assms
  by (cases u) (simp add: sealed_lengths_def sealed_dict_def sealed_part_def aead_info_def length_b64
      format_constants)

lemma weight_envelope:
  "weight (PyDict (make_envelope a b c)) \<le> 500 + weight (PyDict a) + weight (PyDict b) + weight (PyDict c)"
  using weight_numbers(4) by (simp add: make_envelope_def FORMAT_def)

lemma length_container:
  assumes form: "has_form env salt u v" and raw: "serialize env = Inr raw"
  shows "length raw \<le> 20000 + 32 * (length (fst (snd u)) + length (fst (snd v)))"
proof -
  let ?env = "make_envelope (kdf_header salt) (sealed_dict u) (sealed_dict v)"
  have "json_plain (PyDict ?env)" "json_plain (PyDict env)" "norm_dict ?env = norm_dict env"
    using form make_envelope_form [of salt u v] by (simp_all only: has_form_def)
  then have "canonical_json (PyDict ?env) = canonical_json (PyDict env)"
    by (intro canonical_json_cong) (simp_all only: norm_value_PyDict)
  then have "length raw \<le> 4 * weight (PyDict ?env)"
    using raw by (intro length_canonical_json) (simp add: serialize_def)
  moreover have "weight (PyDict (kdf_header salt)) \<le> 1000"
    using weight_numbers form
    by (simp add: kdf_header_def length_b64 has_form_def format_constants del: weight.simps(2))
  moreover have "weight (PyDict (sealed_dict u)) \<le> 720 + 8 * length (fst (snd u))"
    "weight (PyDict (sealed_dict v)) \<le> 720 + 8 * length (fst (snd v))"
    using form by (intro weight_sealed, simp add: has_form_def)+
  moreover note weight_envelope [of "kdf_header salt" "sealed_dict u" "sealed_dict v"]
  ultimately show ?thesis by (simp del: weight.simps)
qed

end
