(* ===== verification/Vault_Properties.thy ===== *)
theory Vault_Properties
  imports Wallet_Failures Wallet_Creation Wallet_Properties
begin

text \<open>
  The life of a wallet: sessions are created and changed by calls, and at
  every point the file reopens to the session.
\<close>

section \<open>The depth of a stored payload\<close>

lemma nesting_enc_dict:
  assumes "payload_ok (PyDict d)"
  shows "nesting (enc (PyDict d)) \<le> n \<longleftrightarrow> 2 \<le> n \<and> (\<forall>kv \<in> set d. nesting (enc (snd kv)) + 3 \<le> n)"
proof -
  let ?item = "\<lambda>kv. PyList [fst kv, enc (snd kv)]"
  have "nesting (?item kv) = Suc (nesting (enc (snd kv)))" if "kv \<in> set d" for kv
    by (rule payload_ok_entry [OF assms that]) simp
  then have "nesting (PyList (map ?item (sort_key entry_key d))) =
      Suc (Max (insert 0 ((\<lambda>kv. Suc (nesting (enc (snd kv)))) ` set d)))"
    by (simp add: image_image cong: image_cong)
  moreover have "Max (insert 0 ((\<lambda>kv. Suc (nesting (enc (snd kv)))) ` set d)) \<le> k \<longleftrightarrow>
      (\<forall>kv \<in> set d. Suc (nesting (enc (snd kv))) \<le> k)" for k
    by (subst Max_le_iff) auto
  ultimately show ?thesis
    unfolding encode_value_dict [OF assms]
    by (cases n; cases "n - 1") (auto simp: tagged_def)
qed

lemma nesting_seed: "v = optional_bytes b \<Longrightarrow> nesting (enc v) \<le> 1"
  by (cases b) (simp_all add: optional_bytes_def tagged_def)

text \<open>The seeds make a payload at most four levels deep.\<close>

lemma nesting_stored:
  assumes "payload_ok (PyDict stored)" and "secret_material P stored = Inr (rest, seed, pending)"
  shows "nesting (enc (PyDict stored)) \<le> max 4 (nesting (enc (PyDict rest)))"
proof -
  note m = secret_material_sound [OF assms(2)]
  have dist: "distinct (map fst stored)" using assms(1) by simp
  have rest: "set rest = {kv \<in> set stored. fst kv \<noteq> pykey ''private_seed'' \<and> fst kv \<noteq> pykey ''pending_private_seed''}"
    unfolding m(1) by (auto simp: dpop_def)
  have "payload_ok (PyDict rest)"
    using assms(1) by (auto simp: m(1) dpop_def list_all_iff distinct_map_filter)
  note r = nesting_enc_dict [OF this, of "nesting (enc (PyDict rest))"]
  have "nesting (enc (snd kv)) + 3 \<le> max 4 (nesting (enc (PyDict rest)))" if kv: "kv \<in> set stored" for kv
  proof (cases "kv \<in> set rest")
    case False
    have "dget_none stored (fst kv) = snd kv"
      using map_of_is_SomeI [OF dist, of "fst kv" "snd kv"] kv by (simp add: dget_none_def dget_def)
    then have "snd kv = optional_bytes seed \<or> snd kv = optional_bytes pending"
      using False kv m(3,4) by (auto simp: rest item_def)
    then show ?thesis using nesting_seed by fastforce
  qed (use r in auto)
  then show ?thesis unfolding nesting_enc_dict [OF assms(1)] by simp
qed

section \<open>Sessions\<close>

text \<open>The password after a call, and the calls that a Python program can make: a mapping that it
  passes has different keys.\<close>

fun password_after :: "session_call \<Rightarrow> pystr \<Rightarrow> pystr" where
  "password_after (ChangePassword (PyStr s) c) password = s"
| "password_after c password = password"

fun genuine_call :: "session_call \<Rightarrow> bool" where
  "genuine_call (UpdatePayload v) = genuine v"
| "genuine_call c = True"

text \<open>\<open>sessions P password h w\<close>: the session \<open>h\<close> was made by one of the constructors on a device
  that no other process interferes with, and then changed by calls; \<open>password\<close> is the
  last password that was set.  A call may fail with any exception that the package knows, and
  the session goes on unless the failure locked it.  Between calls anything may happen that
  leaves the session and its file alone.\<close>

inductive sessions :: "prims \<Rightarrow> pystr \<Rightarrow> nat \<Rightarrow> world \<Rightarrow> bool" for P where
  created: "device_ok P w \<Longrightarrow> genuine (PyDict d)
    \<Longrightarrow> wallet_create P path (PyStr password) confirmation (PyDict d) minutes w = (Ret h, w')
    \<Longrightarrow> sessions P password h w'"
| generated: "device_ok P w
    \<Longrightarrow> create_with_generated_key P path (PyStr password) confirmation minutes w = (Ret h, w')
    \<Longrightarrow> sessions P password h w'"
| called: "sessions P password h w \<Longrightarrow> genuine_call c
    \<Longrightarrow> run_call P h c w = (Ret (), w') \<Longrightarrow> sessions P (password_after c password) h w'"
| failed: "sessions P password h w \<Longrightarrow> run_call P h c w = (Raise e, w') \<Longrightarrow> e \<noteq> PyException
    \<Longrightarrow> wa_dek (w_wallets w' ! h) \<noteq> None \<Longrightarrow> sessions P password h w'"
| elapsed: "sessions P password h w \<Longrightarrow> session_frame h w w'
    \<Longrightarrow> content (dk_files w') (Path (wa_path (w_wallets w ! h))) = content (dk_files w) (Path (wa_path (w_wallets w ! h)))
    \<Longrightarrow> device_ok P w' \<Longrightarrow> sessions P password h w'"

lemma settles_keep:
  assumes "settles h m" and "vault P password stored h w" and "device_ok P w"
    and "bindS m (\<lambda>_. returnS ()) w = (Ret (), w')"
  shows "\<exists>stored'. vault P password stored' h w'"
proof -
  obtain x where "m w = (Ret x, w')" using assms(4) by (auto simp: bindS_Ret)
  then have "vault_frame h w w'"
    using assms(2,3) by (intro settlesD [OF assms(1)]) (simp_all add: vault_def device_ok_def)
  then show ?thesis using vault_framed [OF assms(2)] by blast
qed

lemma call_arguments:
  "update_payload P h v w = (Ret (), w') \<Longrightarrow> \<exists>d. v = PyDict d"
  "change_password P h v confirmation w = (Ret (), w')
    \<Longrightarrow> \<exists>s. v = PyStr s \<and> MIN_PASSWORD_LENGTH \<le> length s"
  "finalize_signing_key_rotation P h x w = (Ret k, w') \<Longrightarrow> x \<noteq> None"
  "resolve_rotation_rejection P h y w = (Ret (), w') \<Longrightarrow> y \<noteq> None"
proof -
  show "update_payload P h v w = (Ret (), w') \<Longrightarrow> \<exists>d. v = PyDict d"
    by (cases v) (auto simp: update_payload_def prog_simps)
  show "change_password P h v confirmation w = (Ret (), w')
      \<Longrightarrow> \<exists>s. v = PyStr s \<and> MIN_PASSWORD_LENGTH \<le> length s"
    by (cases v) (auto simp: change_password_def validate_password_def raise_if_Inr_iff prog_simps)
  show "finalize_signing_key_rotation P h x w = (Ret k, w') \<Longrightarrow> x \<noteq> None"
    by (cases x) (auto simp: finalize_signing_key_rotation_def prog_simps)
  show "resolve_rotation_rejection P h y w = (Ret (), w') \<Longrightarrow> y \<noteq> None"
    by (cases y) (auto simp: resolve_rotation_rejection_def prog_simps)
qed

lemma calls_keep_vault:
  assumes v: "vault P password stored h w" and dev: "device_ok P w" and c: "genuine_call c"
    and run: "run_call P h c w = (Ret (), w')"
  shows "\<exists>stored'. vault P (password_after c password) stored' h w'"
proof (cases c)
  case (UpdatePayload x)
  with run call_arguments(1) obtain d where "x = PyDict d" by fastforce
  then show ?thesis using update_keeps_vault [OF v dev] UpdatePayload c run by simp
next
  case (ChangePassword p q)
  with run call_arguments(2) obtain s where "p = PyStr s" by fastforce
  then show ?thesis using change_password_keeps_vault [OF v dev] ChangePassword run by auto
next
  case PrepareRotation
  then show ?thesis using prepare_keeps_vault [OF v dev] run by (auto simp: bindS_Ret)
next
  case (LatchRotation b p)
  then show ?thesis using latch_keeps_vault [OF v dev] run by (auto simp: bindS_Ret)
next
  case (BindLegacy e answer)
  then show ?thesis using bind_keeps_vault [OF v dev] run by (auto simp: bindS_Ret)
next
  case (FinalizeRotation x)
  then obtain k where k: "finalize_signing_key_rotation P h x w = (Ret k, w')"
    using run by (auto simp: bindS_Ret)
  then obtain y where "x = Some y" using call_arguments(3) by blast
  then show ?thesis using finalize_keeps_vault(1) [OF v dev] k FinalizeRotation by simp
next
  case (ResolveRejection r)
  then obtain y where "r = Some y" using run call_arguments(4) by fastforce
  then show ?thesis using resolve_keeps_vault [OF v dev] ResolveRejection run by simp
next
  case CancelRotation
  then show ?thesis using cancel_keeps_vault [OF v dev] run by simp
next
  case (ProveRotation d)
  with run have "prove_pending_signing_key_rotation P h d w = (Ret (), w')" by simp
  then show ?thesis using settles_keep [OF settles_prove v dev] ProveRotation by (simp add: bindS_Ret)
next
  case ExportContainer
  then show ?thesis using settles_keep [OF settles_export v dev] run by simp
next
  case PublicKey
  then show ?thesis using settles_keep [OF settles_reads(1) v dev] run by simp
next
  case (CreateSigner t)
  then show ?thesis using settles_keep [OF settles_create_signer v dev] run by simp
next
  case DispatchIntent
  then show ?thesis using settles_keep [OF settles_reads(2) v dev] run by simp
next
  case PendingPublicKey
  then show ?thesis using settles_keep [OF settles_reads(3) v dev] run by simp
qed

text \<open>The buffers of a new session are new.\<close>

lemma wallet_init_addresses:
  assumes "wallet_init P path a stored env m w = (Ret h, w')" and "n \<le> a" and "n \<le> length (w_bufs w)"
  shows "\<forall>i < n. wa_dek (w_wallets w' ! h) \<noteq> Some i \<and> w_wallet_secrets w' h \<noteq> Some i
    \<and> w_pending_secrets w' h \<noteq> Some i"
  using assms
  by (auto simp: wallet_init_def prog_simps optional_buffer_def Let_def nth_append split: option.splits)

lemma create_storage_addresses:
  assumes run: "create_storage P path (PyStr password) confirmation (PyDict d) minutes w = (Ret h, w')"
    and ok: "aead_ok P" "argon2_ok P" "random_ok w"
  shows "\<forall>i < length (w_bufs w). wa_dek (w_wallets w' ! h) \<noteq> Some i \<and> w_wallet_secrets w' h \<noteq> Some i
    \<and> w_pending_secrets w' h \<noteq> Some i"
proof -
  let ?key = "w_random w (w_draws w) KEY_LENGTH" and ?salt = "w_random w (Suc (w_draws w)) SALT_LENGTH"
  let ?w = "w\<lparr>w_bufs := w_bufs w @ [?key], w_draws := Suc (Suc (w_draws w))\<rparr>"
  from run obtain env raw w1 w2 m where
    build: "build_v2_envelope P password ?key (kdf_header ?salt) d ?w = (Ret env, w1)"
    and store: "atomic_write (Path path) raw False w1 = (Ret (), w2)"
    and init: "wallet_init P path (length (w_bufs w)) d env m w2 = (Ret h, w')"
    by (rule create_storage_Ret)
  have len: "random_ok ?w" "length ?key = 32" "length ?salt = SALT_LENGTH"
    using ok(3) by (simp_all add: random_ok_def KEY_LENGTH_def)
  have "length (w_bufs w) \<le> length (w_bufs w1)"
    using build_v2_envelope_Ret(2) [OF build ok(1,2) len kdf_plain refl] by auto
  moreover have "w_bufs w2 = w_bufs w1"
    using evolvesD [OF evolves_atomic_write store] by (cases w1; cases w2) (auto simp: disk_step_def)
  ultimately show ?thesis by (intro wallet_init_addresses [OF init]) simp_all
qed

lemma vault_wiped:
  assumes "vault P password stored h w"
    and "wa_dek (w_wallets w ! h) \<noteq> Some i" "w_wallet_secrets w h \<noteq> Some i" "w_pending_secrets w h \<noteq> Some i"
  shows "vault P password stored h (w\<lparr>w_bufs := (w_bufs w)[i := b]\<rparr>)"
  using assms
  by (auto simp: vault_def own_buffers_def seed_of_def pending_of_def nth_list_update split: option.splits)

lemma generated_vault:
  assumes dev: "device_ok P w"
    and run: "create_with_generated_key P path (PyStr password) confirmation minutes w = (Ret h, w')"
  shows "\<exists>seed key. vault P password (key_payload seed key) h w'"
proof -
  obtain seed w1 b k w2 where new: "new_seed w = (Ret seed, w1)"
    and create: "create_storage P path (PyStr password) confirmation
      (PyDict (key_payload b k)) minutes w1 = (Ret h, w2)"
    and w': "w' = w2\<lparr>w_bufs := (w_bufs w2)[seed := zero_bytes (length (w_bufs w2 ! seed))]\<rparr>"
    using run by (auto simp: create_with_generated_key_def prog_simps)
  have w1: "device_ok P w1" "seed < length (w_bufs w1)"
    using new dev by (auto simp: device_ok_def random_ok_def quiet_def elim!: new_seed_Ret)
  have "vault P password (key_payload b k) h w2"
    using w1(1) by (intro create_storage_vault [OF create]) (simp_all add: device_ok_def)
  then show ?thesis
    using create_storage_addresses [OF create] w1 unfolding w'
    by (intro exI vault_wiped) (auto simp: device_ok_def)
qed

lemma create_storage_password:
  "create_storage P path (PyStr password) confirmation payload minutes w = (Ret h, w')
    \<Longrightarrow> MIN_PASSWORD_LENGTH \<le> length password"
  by (auto simp: create_storage_def prog_simps validate_password_def raise_if_Inr_iff)

lemma sessions_stand:
  "sessions P password h w \<Longrightarrow> stands P password h w \<and> MIN_PASSWORD_LENGTH \<le> length password"
proof (induction rule: sessions.induct)
  case (created w d path password confirmation minutes h w')
  then have run: "create_storage P path (PyStr password) confirmation (PyDict d) minutes w = (Ret h, w')"
    by (simp add: wallet_create_def split: if_splits)
  have "vault P password d h w'"
    using created(1,2) by (intro create_storage_vault [OF run]) (simp_all add: device_ok_def)
  then show ?case
    using create_storage_password [OF run] lastsD [OF lasts_create(1) created(1,3)] by (auto simp: stands_def)
next
  case (generated w path password confirmation minutes h w')
  then have "MIN_PASSWORD_LENGTH \<le> length password"
    by (auto simp: create_with_generated_key_def prog_simps dest!: create_storage_password)
  then show ?case
    using generated_vault [OF generated] lastsD [OF lasts_create(2) generated] by (auto simp: stands_def)
next
  case (called password h w c w')
  then obtain stored where v: "vault P password stored h w" and dev: "device_ok P w"
    and len: "MIN_PASSWORD_LENGTH \<le> length password"
    by (auto simp: stands_def)
  have "MIN_PASSWORD_LENGTH \<le> length (password_after c password)"
  proof (cases c)
    case (ChangePassword p q)
    then show ?thesis using called(3) call_arguments(2) [of P h p q w w'] by auto
  qed (use len in simp_all)
  then show ?case
    using calls_keep_vault [OF v dev called(2,3)] lastsD [OF lasts_call dev called(3)] by (simp add: stands_def)
next
  case (failed password h w c e w')
  then have "sound P password h w'" using calls_fail by (auto simp: fails_def unfit_def)
  moreover have "device_ok P w'"
    using failed(2,5) lastsD [OF lasts_call _ failed(2)] by (simp add: stands_def)
  ultimately show ?case using failed by (auto simp: sound_def shut_def stands_def)
next
  case (elapsed password h w w')
  then obtain stored where "vault P password stored h w" by (auto simp: stands_def)
  from vault_unwritten [OF this elapsed(2,3)] show ?case using elapsed(4,5) by (auto simp: stands_def)
qed

lemma sessions_vault:
  "sessions P password h w \<Longrightarrow> (\<exists>stored. vault P password stored h w) \<and> MIN_PASSWORD_LENGTH \<le> length password"
  using sessions_stand by (auto simp: stands_def)

section \<open>A wallet of the reference primitives\<close>

definition demo_password :: pystr where
  "demo_password = replicate 16 97"

lemma demo_password_ok: "MIN_PASSWORD_LENGTH \<le> length demo_password" "\<exists>b. utf8_encode demo_password = Some b"
  using utf8_encode_total [of demo_password]
  by (simp_all add: demo_password_def MIN_PASSWORD_LENGTH_def is_surrogate_def)

lemma demo_world_device:
  "random_ok (demo_world now)" "files_ok (dk_files (demo_world now))" "dk_faults (demo_world now) = []"
  "w_approved_csrng (demo_world now)" "fs_names (dk_files (demo_world now)) p = None"
  by (simp_all add: demo_world_def random_ok_def files_ok_def)

lemma demo_device: "device_ok demo_prims (demo_world now)"
  using demo_world_device by (simp add: device_ok_def quiet_def)

lemma demo_wallet:
  obtains w where "create_with_generated_key demo_prims [97] (PyStr demo_password) PyNone (PyInt 5) (demo_world 0)
    = (Ret 1, w)"
proof -
  obtain b where "utf8_encode demo_password = Some b" using demo_password_ok(2) by blast
  from create_with_generated_key_returns [OF demo_aead_ok demo_argon2_ok demo_ed25519_ok demo_world_device(1,4,3,5)
      demo_password_ok(1) this, of PyNone 5 "[97]" 0]
  show thesis using that by auto
qed

lemma key_payload_parts:
  assumes "vault P password (key_payload seed key) h w"
  shows "length seed = 32" "length key = 32" "wa_payload (w_wallets w ! h) = [(pykey ''public_key'', PyBytes key)]"
    "seed_of h w = Some seed"
proof -
  have "secret_material P (key_payload seed key) = Inr (wa_payload (w_wallets w ! h), seed_of h w, pending_of h w)"
    using assms by (simp only: vault_def)
  note m = secret_material_sound [OF this]
  show rest: "wa_payload (w_wallets w ! h) = [(pykey ''public_key'', PyBytes key)]"
    using m(1) by (simp add: dpop_def)
  show s: "seed_of h w = Some seed"
    using m(3) by (auto simp: item_def dget_none_def optional_bytes_def split: option.splits)
  show "length seed = 32" "length key = 32"
    using m(2) unfolding s rest
    by (auto simp: material_def pair_ok_def item_def dget_none_def is_key_bytes_def)
qed

lemma key_payload_pair:
  assumes "vault P password (key_payload seed key) h w"
  shows "public_key_from_seed P seed = Inr key"
proof -
  have "secret_material P (key_payload seed key) = Inr (wa_payload (w_wallets w ! h), seed_of h w, pending_of h w)"
    using assms by (simp only: vault_def)
  from secret_material_sound(2) [OF this] show ?thesis
    by (simp add: key_payload_parts [OF assms] material_def pair_ok_def item_def dget_none_def)
qed

text \<open>The container of a generated key is small.\<close>

lemma demo_size:
  assumes v: "vault demo_prims password (key_payload seed key) h w"
  shows "length (the (content (dk_files w) (Path (wa_path (w_wallets w ! h))))) \<le> MAX_CONTAINER_BYTES"
proof -
  let ?env = "wa_envelope (w_wallets w ! h)"
  obtain a raw where env: "seals demo_prims password (w_bufs w ! a) (key_payload seed key) ?env"
      "serialize ?env = Inr raw" "content (dk_files w) (Path (wa_path (w_wallets w ! h))) = Some raw"
    using v unfolding vault_def by blast
  have ok: "payload_ok (PyDict (key_payload seed key))" by simp
  have "weight (enc (PyDict (key_payload seed key))) \<le> 3000"
    using key_payload_parts(1,2) [OF v] unfolding encode_value_dict [OF ok]
    by (simp add: tagged_def length_b64)
  moreover obtain salt u x encoded where s: "has_form ?env salt u x" "fst (snd u) = w_bufs w ! a" "fst (snd x) = encoded"
      "length (w_bufs w ! a) = 32" "canonical_json (enc (PyDict (key_payload seed key))) = Inr encoded"
    using env(1) encode_value_ok [OF ok] by (auto simp: seals_def demo_prims_def KEY_LENGTH_def split: if_splits)
  ultimately have "length encoded \<le> 12000" using length_canonical_json by fastforce
  then show ?thesis
    using length_container [OF s(1) env(2)] s(2,3,4) env(3) by (simp add: MAX_CONTAINER_BYTES_def)
qed

section \<open>Reopening\<close>

text \<open>
  C3. Whatever was done with a session, its wallet file reopens to it.  Take a
  session that was created and then changed by any sequence of calls
  (payload updates, password changes, every step of a key rotation), each of
  which returned or failed with an exception of the package or the system
  without locking the session, and any later process that finds the file as
  the session left it, on a device without faults.  If the file is not larger than the limit of the
  reader and the payload not deeper than the interpreter's recursion limit,
  then opening it with the last password returns a session with the same
  payload, the same signing seed and the same pending seed.  (Mappings are
  compared in the order of their keys, which Python's equality ignores.)
\<close>

theorem session_reopens:
  assumes "sessions P password h w" and "path = wa_path (w_wallets w ! h)"
    and "content (dk_files v) (Path path) = content (dk_files w) (Path path)" and "dk_faults v = []"
    and "length (the (content (dk_files w) (Path path))) \<le> MAX_CONTAINER_BYTES"
    and "max 4 (nesting (enc (PyDict (wa_payload (w_wallets w ! h))))) \<le> w_recursion_limit v"
    and "1 \<le> m" and "m \<le> 15"
  shows "\<exists>v'. wallet_open P path (PyStr password) (PyInt m) v = (Ret (length (w_wallets v)), v')
    \<and> wa_payload (w_wallets v' ! length (w_wallets v)) = norm_dict (wa_payload (w_wallets w ! h))
    \<and> seed_of (length (w_wallets v)) v' = seed_of h w
    \<and> pending_of (length (w_wallets v)) v' = pending_of h w"
proof -
  obtain stored a raw where v: "vault P password stored h w" and pw: "MIN_PASSWORD_LENGTH \<le> length password"
    and env: "seals P password (w_bufs w ! a) stored (wa_envelope (w_wallets w ! h))"
      "serialize (wa_envelope (w_wallets w ! h)) = Inr raw" "content (dk_files w) (Path path) = Some raw"
    using sessions_vault [OF assms(1)] unfolding vault_def assms(2) by blast
  have stored: "genuine (PyDict stored)"
    "secret_material P stored = Inr (wa_payload (w_wallets w ! h), seed_of h w, pending_of h w)"
    using v by (simp_all only: vault_def)
  have "nesting (enc (PyDict stored)) \<le> w_recursion_limit v" "2 \<le> w_recursion_limit v"
    using nesting_stored [OF stored_payload_ok [OF env(1) stored(1)] stored(2)] assms(6) by linarith+
  then show ?thesis
    using run_wallet_open [OF assms(4) _ env(2) _ env(1) stored(1) _ _ stored(2) pw assms(7,8), of path]
      assms(3,5) env(3)
    by auto
qed

theorem session_reopens_witness:
  "\<exists>w v'. sessions demo_prims demo_password 1 w
     \<and> wallet_open demo_prims (wa_path (w_wallets w ! 1)) (PyStr demo_password) (PyInt 5)
         ((demo_world 0)\<lparr>dk_files := dk_files w\<rparr>) = (Ret 1, v')
     \<and> seed_of 1 v' = seed_of 1 w \<and> seed_of 1 w \<noteq> None"
proof -
  obtain w where run: "create_with_generated_key demo_prims [97] (PyStr demo_password) PyNone (PyInt 5)
      (demo_world 0) = (Ret 1, w)"
    by (rule demo_wallet)
  have s: "sessions demo_prims demo_password 1 w" by (rule sessions.generated [OF demo_device run])
  obtain seed key where v: "vault demo_prims demo_password (key_payload seed key) 1 w"
    using generated_vault [OF demo_device run] by blast
  have "nesting (enc (PyDict (wa_payload (w_wallets w ! 1)))) \<le> 4"
    unfolding key_payload_parts(3) [OF v] by (simp add: nesting_enc_dict tagged_def)
  then have "\<exists>v'. wallet_open demo_prims (wa_path (w_wallets w ! 1)) (PyStr demo_password) (PyInt 5)
      ((demo_world 0)\<lparr>dk_files := dk_files w\<rparr>) = (Ret 1, v') \<and> seed_of 1 v' = seed_of 1 w"
    using session_reopens [OF s refl, of "(demo_world 0)\<lparr>dk_files := dk_files w\<rparr>" 5] demo_size [OF v]
    by (auto simp: demo_world_def)
  then show ?thesis using s key_payload_parts(4) [OF v] by auto
qed

section \<open>Creating\<close>

text \<open>
  C40. Creating a wallet makes progress.  On a device without faults, with an
  approved random source, an unused path and a password that the policy accepts,
  \<^verbatim>\<open>create_with_generated_key\<close> returns a session.  Its seed is 32 bytes long, its
  payload is the public key of that seed, and it is the start of a run of calls after
  each of which the file reopens.
\<close>

theorem generated_wallet_succeeds:
  assumes "aead_ok P" and "argon2_ok P" and "ed25519_ok P" and "random_ok w" and "w_approved_csrng w"
    and "files_ok (dk_files w)" and "dk_faults w = []" and "fs_names (dk_files w) (Path path) = None"
    and "MIN_PASSWORD_LENGTH \<le> length password" and "utf8_encode password \<noteq> None"
    and "1 \<le> m" and "m \<le> 15"
  shows "\<exists>w' seed key.
    create_with_generated_key P path (PyStr password) (PyStr password) (PyInt m) w
      = (Ret (length (w_wallets w)), w')
    \<and> sessions P password (length (w_wallets w)) w'
    \<and> length seed = 32 \<and> public_key_from_seed P seed = Inr key
    \<and> seed_of (length (w_wallets w)) w' = Some seed
    \<and> wa_payload (w_wallets w' ! length (w_wallets w)) = [(pykey ''public_key'', PyBytes key)]"
proof -
  obtain secret where "utf8_encode password = Some secret" using assms(10) by blast
  from create_with_generated_key_returns [OF assms(1-5,7,8,9) this _ assms(11,12), of "PyStr password"]
  obtain w' where run: "create_with_generated_key P path (PyStr password) (PyStr password) (PyInt m) w
      = (Ret (length (w_wallets w)), w')" by blast
  have dev: "device_ok P w" using assms by (simp add: device_ok_def quiet_def)
  obtain seed key where v: "vault P password (key_payload seed key) (length (w_wallets w)) w'"
    using generated_vault [OF dev run] by blast
  note parts = key_payload_parts [OF v]
  moreover have "public_key_from_seed P seed = Inr key" by (rule key_payload_pair [OF v])
  ultimately show ?thesis using run sessions.generated [OF dev run] by blast
qed

theorem generated_wallet_succeeds_witness:
  "\<exists>w'. create_with_generated_key demo_prims [97] (PyStr demo_password) (PyStr demo_password) (PyInt 5)
      (demo_world 0) = (Ret 1, w')
    \<and> sessions demo_prims demo_password 1 w' \<and> seed_of 1 w' \<noteq> None"
  using generated_wallet_succeeds [OF demo_aead_ok demo_argon2_ok demo_ed25519_ok
      demo_world_device(1) [of 0] demo_world_device(4,2,3,5) demo_password_ok(1), where path = "[97]" and m = 5] demo_password_ok(2)
  by auto

end
