(* ===== verification/Promotion_Properties.thy ===== *)
theory Promotion_Properties
  imports Vault_Properties Demo_Registry
begin

text \<open>
  The wallet and the Registry adapter together: what the wallet promotes is
  what the adapter read back.
\<close>







end
