(* ===== verification/Py_Datetime.thy ===== *)
theory Py_Datetime
  imports Py_Json
begin

text \<open>
  \<^verbatim>\<open>datetime.fromisoformat\<close> of CPython 3.12, as far as its callers look at the result:
  whether the text is accepted, and whether the value then carries a time zone.  The
  parser reads the UTF-8 text from left to right; the end of the text reads as a NUL
  character, \<open>peek\<close>, and the part before the zone may read on past its own end, so a
  part is given by the rest of the text and its length.
\<close>

definition peek :: "pystr \<Rightarrow> nat" where
  "peek s = (case s of [] \<Rightarrow> 0 | c # r \<Rightarrow> c)"

definition parse_digits :: "nat \<Rightarrow> pystr \<Rightarrow> (nat \<times> pystr) option" where
  "parse_digits n s =
     (if n \<le> length s \<and> list_all is_digit (take n s) then Some (digits_value (take n s), drop n s)
      else None)"

section \<open>Dates\<close>

definition is_leap :: "nat \<Rightarrow> bool" where
  "is_leap y \<longleftrightarrow> y mod 4 = 0 \<and> (y mod 100 \<noteq> 0 \<or> y mod 400 = 0)"

definition days_in_month :: "nat \<Rightarrow> nat \<Rightarrow> nat" where
  "days_in_month y m =
     (if m = 2 \<and> is_leap y then 29 else [31, 28, 31, 30, 31, 30, 31, 31, 30, 31, 30, 31] ! (m - 1))"

definition valid_ymd :: "nat \<Rightarrow> nat \<Rightarrow> nat \<Rightarrow> bool" where
  "valid_ymd y m d \<longleftrightarrow>
     1 \<le> y \<and> y \<le> 9999 \<and> 1 \<le> m \<and> m \<le> 12 \<and> 1 \<le> d \<and> d \<le> days_in_month y m"

text \<open>The ordinal of 1 January; day 1 is 1 January of the year 1, a Monday.\<close>

definition year_start :: "nat \<Rightarrow> nat" where
  "year_start y = 365 * (y - 1) + (y - 1) div 4 - (y - 1) div 100 + (y - 1) div 400 + 1"

definition MAX_ORDINAL :: int where
  "MAX_ORDINAL = 3652059"

definition week_one_monday :: "nat \<Rightarrow> int" where
  "week_one_monday y =
     (let first = year_start y; weekday = (first + 6) mod 7
      in int first - int weekday + (if 3 < weekday then 7 else 0))"

definition valid_isoweek :: "nat \<Rightarrow> nat \<Rightarrow> nat \<Rightarrow> bool" where
  "valid_isoweek y w d \<longleftrightarrow>
     1 \<le> y \<and> y \<le> 9999 \<and> 1 \<le> d \<and> d \<le> 7
     \<and> (1 \<le> w \<and> w \<le> 52
        \<or> w = 53 \<and> (year_start y mod 7 = 4 \<or> year_start y mod 7 = 3 \<and> is_leap y))
     \<and> (let day = week_one_monday y + 7 * (int w - 1) + (int d - 1)
        in 1 \<le> day \<and> day \<le> MAX_ORDINAL)"

text \<open>\<open>parse_isoformat_date n s\<close>: \<open>s\<close> starts with a valid date of \<open>n\<close> characters.\<close>

definition parse_week_date :: "nat \<Rightarrow> bool \<Rightarrow> nat \<Rightarrow> nat \<Rightarrow> pystr \<Rightarrow> bool" where
  "parse_week_date n separated pos y s =
     (case parse_digits 2 s of
        None \<Rightarrow> False
      | Some (w, r) \<Rightarrow>
          if pos + 2 < n then
            (if separated \<and> peek r \<noteq> 45 then False
             else
               (case parse_digits 1 (if separated then tl r else r) of
                  None \<Rightarrow> False
                | Some (d, _) \<Rightarrow> valid_isoweek y w d))
          else valid_isoweek y w 1)"

definition parse_month_date :: "bool \<Rightarrow> nat \<Rightarrow> pystr \<Rightarrow> bool" where
  "parse_month_date separated y s =
     (case parse_digits 2 s of
        None \<Rightarrow> False
      | Some (m, r) \<Rightarrow>
          if separated \<and> peek r \<noteq> 45 then False
          else
            (case parse_digits 2 (if separated then tl r else r) of
               None \<Rightarrow> False
             | Some (d, _) \<Rightarrow> valid_ymd y m d))"

definition parse_isoformat_date :: "nat \<Rightarrow> pystr \<Rightarrow> bool" where
  "parse_isoformat_date n s =
     (case parse_digits 4 s of
        None \<Rightarrow> False
      | Some (y, r) \<Rightarrow>
          let separated = (peek r = 45);
              rest = (if separated then tl r else r)
          in if peek rest = 87
             then parse_week_date n separated (if separated then 6 else 5) y (tl rest)
             else parse_month_date separated y rest)"

text \<open>The length of the date: the formats \<^verbatim>\<open>YYYY-MM-DD\<close>, \<^verbatim>\<open>YYYYMMDD\<close>,
  \<^verbatim>\<open>YYYY-Www[-D]\<close> and \<^verbatim>\<open>YYYYWww[D]\<close>.\<close>

definition find_datetime_separator :: "pystr \<Rightarrow> nat option" where
  "find_datetime_separator s =
     (let n = length s in
      if n = 7 then Some 7
      else if s ! 4 = 45 then
        (if s ! 5 \<noteq> 87 then Some 10
         else if 8 < n \<and> s ! 8 = 45 then
           (if n = 9 then None else if 10 < n \<and> is_digit (s ! 10) then Some 8 else Some 10)
         else Some 8)
      else if s ! 4 = 87 then
        (let k = 7 + length (takeWhile is_digit (drop 7 s))
         in Some (if k < 9 then k else if even k then 7 else 8))
      else Some 8)"

section \<open>Times\<close>

text \<open>The components of a time or of an offset: hours, minutes and seconds as far as they
  are given, the microseconds, and whether text follows.\<close>

type_synonym clock = "nat list \<times> nat \<times> bool"

definition parse_fraction :: "nat list \<Rightarrow> nat \<Rightarrow> pystr \<Rightarrow> clock option" where
  "parse_fraction vs n s =
     (case parse_digits (min n 6) s of
        None \<Rightarrow> None
      | Some (us, r) \<Rightarrow> Some (vs, us * 10 ^ (6 - min n 6), peek (dropWhile is_digit r) \<noteq> 0))"

fun parse_clock :: "nat \<Rightarrow> bool \<Rightarrow> nat \<Rightarrow> pystr \<Rightarrow> clock option" where
  "parse_clock more separated n s =
     (case parse_digits 2 s of
        None \<Rightarrow> None
      | Some (v, r) \<Rightarrow>
          let c = peek r;
              colons = (if more = 2 then c = 58 else separated)
          in if n \<le> 3 then Some ([v], 0, c \<noteq> 0)
             else if colons \<and> c = 58 then
               (case more of
                  0 \<Rightarrow> parse_fraction [v] (n - 3) (tl r)
                | Suc m \<Rightarrow> map_option (\<lambda>(vs, t). (v # vs, t)) (parse_clock m colons (n - 3) (tl r)))
             else if c = 46 \<or> c = 44 then parse_fraction [v] (n - 3) (tl r)
             else if \<not> colons then
               (case more of
                  0 \<Rightarrow> parse_fraction [v] (n - 2) r
                | Suc m \<Rightarrow> map_option (\<lambda>(vs, t). (v # vs, t)) (parse_clock m colons (n - 2) r))
             else None)"

declare parse_clock.simps [simp del]

definition parse_hh_mm_ss_ff :: "nat \<Rightarrow> pystr \<Rightarrow> clock option" where
  "parse_hh_mm_ss_ff n s = parse_clock 2 True n s"

definition component :: "nat list \<Rightarrow> nat \<Rightarrow> nat" where
  "component vs i = (if i < length vs then vs ! i else 0)"

definition valid_time :: "nat list \<Rightarrow> bool" where
  "valid_time vs \<longleftrightarrow> component vs 0 < 24 \<and> component vs 1 < 60 \<and> component vs 2 < 60"

text \<open>An offset is less than a day.\<close>

definition valid_offset :: "nat list \<Rightarrow> nat \<Rightarrow> bool" where
  "valid_offset vs us \<longleftrightarrow>
     (let seconds = 3600 * component vs 0 + 60 * component vs 1 + component vs 2
      in seconds = 0 \<or> seconds * 1000000 + us < 86400 * 1000000)"

text \<open>The time and the zone: \<open>None\<close> where the text is malformed, and otherwise whether
  there is a zone.\<close>

definition parse_isoformat_time :: "pystr \<Rightarrow> bool option" where
  "parse_isoformat_time t =
     (let n = length (takeWhile (\<lambda>c. c \<notin> {43, 45, 90}) t);
          zone = drop n t
      in case parse_hh_mm_ss_ff n t of
           None \<Rightarrow> None
         | Some (vs, us, more) \<Rightarrow>
             if \<not> valid_time vs then None
             else if zone = [] then (if more then None else Some False)
             else if peek zone = 90 then (if peek (tl zone) = 0 then Some True else None)
             else
               (case parse_hh_mm_ss_ff (length (tl zone)) (tl zone) of
                  None \<Rightarrow> None
                | Some (zs, zus, rest) \<Rightarrow>
                    if \<not> rest \<and> valid_offset zs zus then Some True else None))"

text \<open>\<^verbatim>\<open>datetime.fromisoformat(s)\<close>: the result is \<^verbatim>\<open>tzinfo is not None\<close>.  Only the separator
  may be a surrogate.\<close>

definition fromisoformat :: "pystr \<Rightarrow> bool res" where
  "fromisoformat s =
     raise_if (length s < 7) PyValueError
     (case find_datetime_separator s of
        None \<Rightarrow> Inl PyValueError
      | Some k \<Rightarrow>
          raise_if (\<not> parse_isoformat_date k s) PyValueError
          (if length s \<le> k then Inr False
           else
             (case utf8_encode (drop (Suc k) s) of
                None \<Rightarrow> Inl PyValueError
              | Some t \<Rightarrow>
                  (case parse_isoformat_time (map unat t) of
                     None \<Rightarrow> Inl PyValueError
                   | Some aware \<Rightarrow> Inr aware))))"

end
