(* ===== verification/Acceptance_Receipt.thy ===== *)
theory Acceptance_Receipt
  imports Py_Datetime Py_Hash
begin

text \<open>
  The receipt of the security acceptance gate, \<^verbatim>\<open>scripts/security_acceptance.py\<close>: the
  reviewed constants and \<^verbatim>\<open>validate_receipt\<close>, which every receipt passes before it is
  written.  A regular expression of the source is a predicate on texts here.
\<close>

section \<open>Constants\<close>

definition RECEIPT_SCHEMA :: pystr where
  "RECEIPT_SCHEMA = str_of ''decent-wallet-security-acceptance-receipt-v1''"

definition ANDROID_OPTIONAL_CASE :: pystr where
  "ANDROID_OPTIONAL_CASE = str_of (''org.decentwallet.wallet.android.AndroidDirectDhtRegistryInteropTest''
     @ ''::readsHistoryPublishesAndFreshReadsAgainstPythonRegistryPeer'')"

text \<open>The frozen set has one element.\<close>

definition ANDROID_OPTIONAL_SKIPS :: "pystr list" where
  "ANDROID_OPTIONAL_SKIPS = [ANDROID_OPTIONAL_CASE]"

definition OPTIONAL_SKIPS :: "pystr list" where
  "OPTIONAL_SKIPS = map str_of
     [''tests.test_android_lan_host_harness::test_device_driver_archives_consumed_owned_helper_before_launch'',
      ''tests.test_portable_latch::test_actual_kotlin_authored_ciphertext_through_python_public_reader[kotlin-bound.dw-False]'',
      ''tests.test_portable_latch::test_actual_kotlin_authored_ciphertext_through_python_public_reader[kotlin-legacy.dw-True]'',
      ''tests.test_portable_latch::test_large_positive_integer_real_encrypted_public_readers[kotlin]'']"

definition OPTIONAL_PASSED_CASES :: "pystr list" where
  "OPTIONAL_PASSED_CASES = map str_of
     [''tests.test_portable_latch::test_concrete_transport_has_explicit_environment_configuration'']"

definition PYTHON_OPTIONAL_CASES :: "pystr list" where
  "PYTHON_OPTIONAL_CASES = OPTIONAL_SKIPS @ OPTIONAL_PASSED_CASES"

text \<open>\<^verbatim>\<open>hashlib.sha256(name.encode("utf-8")).hexdigest()[:12]\<close>; the names are ASCII.\<close>

definition case_digest :: "pystr \<Rightarrow> pystr" where
  "case_digest name = take 12 (bytes_hex (sha256 (the (utf8_encode name))))"

definition optional_case_state :: "string \<Rightarrow> pystr \<Rightarrow> pystr" where
  "optional_case_state status digest = str_of (''optional-case-'' @ status @ ''-'') @ digest"

definition live_peer_state :: "string \<Rightarrow> pystr \<Rightarrow> pystr" where
  "live_peer_state status digest = str_of (''optional-live-peer-case-'' @ status @ ''-'') @ digest"

section \<open>Checks\<close>

abbreviation gate_fail :: "string \<Rightarrow> 'a res" where
  "gate_fail message \<equiv> Inl (ReceiptValidationError message)"

abbreviation fail_if :: "bool \<Rightarrow> string \<Rightarrow> 'a res \<Rightarrow> 'a res" where
  "fail_if c message k \<equiv> raise_if c (ReceiptValidationError message) k"

text \<open>\<^verbatim>\<open>value[key]\<close> after \<open>exact_keys\<close> has found the key.\<close>

abbreviation entry :: "pydict \<Rightarrow> string \<Rightarrow> pyval" where
  "entry d k \<equiv> dget_none d (pykey k)"

definition exact_keys :: "pyval \<Rightarrow> string list \<Rightarrow> string \<Rightarrow> pydict res" where
  "exact_keys value expected field =
     (case value of
        PyDict d \<Rightarrow>
          fail_if (\<not> list_all is_PyStr (map fst d)) (field @ '' must be an object'')
          (fail_if (\<not> set (map fst d) \<subseteq> set (map pykey expected)) (field @ '' contains an unapproved field'')
          (fail_if (\<not> set (map pykey expected) \<subseteq> set (map fst d)) (field @ '' is missing a required field'')
          (Inr d)))
      | _ \<Rightarrow> gate_fail (field @ '' must be an object''))"

definition is_lower_hex :: "nat \<Rightarrow> bool" where
  "is_lower_hex c \<longleftrightarrow> is_digit c \<or> 97 \<le> c \<and> c \<le> 102"

text \<open>\<^verbatim>\<open>[0-9a-f]{n}\<close>.\<close>

definition hex_text :: "nat \<Rightarrow> pystr \<Rightarrow> bool" where
  "hex_text n s \<longleftrightarrow> length s = n \<and> list_all is_lower_hex s"

definition is_digest :: "pyval \<Rightarrow> bool" where
  "is_digest value = (case value of PyStr s \<Rightarrow> hex_text 64 s | _ \<Rightarrow> False)"

definition is_lower_alnum :: "nat \<Rightarrow> bool" where
  "is_lower_alnum c \<longleftrightarrow> is_digit c \<or> 97 \<le> c \<and> c \<le> 122"

definition is_alnum :: "nat \<Rightarrow> bool" where
  "is_alnum c \<longleftrightarrow> is_lower_alnum c \<or> 65 \<le> c \<and> c \<le> 90"

text \<open>\<^verbatim>\<open>[a-z0-9][a-z0-9-]{0,79}\<close>.\<close>

definition slug :: "pystr \<Rightarrow> bool" where
  "slug s =
     (case s of
        [] \<Rightarrow> False
      | c # r \<Rightarrow> is_lower_alnum c \<and> length r \<le> 79 \<and> list_all (\<lambda>c. is_lower_alnum c \<or> c = 45) r)"

text \<open>\<^verbatim>\<open>[A-Za-z0-9_.-]{1,n}\<close>.\<close>

definition plain_name :: "nat \<Rightarrow> pystr \<Rightarrow> bool" where
  "plain_name n s \<longleftrightarrow>
     1 \<le> length s \<and> length s \<le> n \<and> list_all (\<lambda>c. is_alnum c \<or> c \<in> {95, 46, 45}) s"

text \<open>\<^verbatim>\<open>[0-9]+\.[0-9]+\.[0-9]+(?:[A-Za-z0-9.+-]*)?\<close>: two groups of digits end at
  their dots, and the third starts with a digit.\<close>

definition dotted_digits :: "pystr \<Rightarrow> pystr option" where
  "dotted_digits s =
     (case dropWhile is_digit s of
        c # r \<Rightarrow> if takeWhile is_digit s \<noteq> [] \<and> c = 46 then Some r else None
      | [] \<Rightarrow> None)"

definition version_text :: "pystr \<Rightarrow> bool" where
  "version_text s =
     (case Option.bind (dotted_digits s) dotted_digits of
        Some (c # r) \<Rightarrow> is_digit c \<and> list_all (\<lambda>c. is_alnum c \<or> c \<in> {46, 43, 45}) r
      | _ \<Rightarrow> False)"

definition text_entry :: "(pystr \<Rightarrow> bool) \<Rightarrow> pyval \<Rightarrow> bool" where
  "text_entry ok value = (case value of PyStr s \<Rightarrow> ok s | _ \<Rightarrow> False)"

section \<open>The metadata of a receipt\<close>

text \<open>\<^verbatim>\<open>text.replace("Z", "+00:00")\<close>.\<close>

definition replace_zulu :: "pystr \<Rightarrow> pystr" where
  "replace_zulu s = concat (map (\<lambda>c. if c = 90 then str_of ''+00:00'' else [c]) s)"

definition check_timestamp :: "pyval \<Rightarrow> unit res" where
  "check_timestamp value =
     (case value of
        PyStr s \<Rightarrow>
          bindE
            (exceptE (fromisoformat (replace_zulu s))
               (\<lambda>e. if e = PyValueError then gate_fail ''receipt timestamp is invalid'' else Inl e))
            (\<lambda>aware. fail_if (\<not> aware) ''receipt timestamp requires a timezone'' (Inr ()))
      | _ \<Rightarrow> gate_fail ''receipt timestamp is invalid'')"

text \<open>The three profiles.\<close>

definition PROFILES :: "string list" where
  "PROFILES = [''core'', ''android-jvm'', ''full'']"

definition check_environment :: "pyval \<Rightarrow> pyval \<Rightarrow> unit res" where
  "check_environment profile value =
     bindE (exact_keys value [''python'', ''platform'', ''implementation'', ''android_test_artifacts'']
              ''environment'') (\<lambda>environment.
     fail_if (\<not> text_entry version_text (entry environment ''python''))
       ''receipt Python version metadata is invalid''
     (fail_if (\<not> text_entry (plain_name 160) (entry environment ''platform''))
       ''receipt platform metadata is invalid''
     (fail_if (\<not> text_entry (plain_name 32) (entry environment ''implementation''))
       ''receipt implementation metadata is invalid''
     (case entry environment ''android_test_artifacts'' of
        PyBool b \<Rightarrow>
          fail_if (b \<noteq> (profile \<noteq> pykey ''core''))
            ''receipt Android-artifact metadata disagrees with its profile'' (Inr ())
      | _ \<Rightarrow> gate_fail ''receipt Android-artifact metadata is invalid''))))"

section \<open>Suites\<close>

text \<open>\<^verbatim>\<open>f"suite[{index}]"\<close> and \<^verbatim>\<open>f"artifact[{index}]"\<close>.\<close>

definition indexed :: "string \<Rightarrow> nat \<Rightarrow> string" where
  "indexed field index = field @ ''['' @ map char_of (show_nat index) @ '']''"

text \<open>The elements of a list of texts, where it is one.\<close>

definition text_list :: "pyval \<Rightarrow> pystr list option" where
  "text_list value =
     (case value of
        PyList xs \<Rightarrow>
          if list_all is_PyStr xs then Some (map (\<lambda>v. case v of PyStr s \<Rightarrow> s | _ \<Rightarrow> []) xs) else None
      | _ \<Rightarrow> None)"

definition check_transitions :: "nat \<Rightarrow> pyval \<Rightarrow> pystr list res" where
  "check_transitions index value =
     (case text_list value of
        None \<Rightarrow> gate_fail (indexed ''suite'' index @ '' state transitions are invalid'')
      | Some states \<Rightarrow>
          fail_if (states = [] \<or> \<not> list_all slug states \<or> \<not> distinct states)
            (indexed ''suite'' index @ '' state transitions are invalid'') (Inr states))"

definition check_count :: "nat \<Rightarrow> pyval \<Rightarrow> int res" where
  "check_count index value =
     (case value of
        PyInt n \<Rightarrow> fail_if (n < 0) (indexed ''suite'' index @ '' counts are invalid'') (Inr n)
      | _ \<Rightarrow> gate_fail (indexed ''suite'' index @ '' counts are invalid''))"

text \<open>A match of \<^verbatim>\<open>optional-case-(passed|skipped)-([0-9a-f]{12})\<close>, the second group first.\<close>

definition disclosure :: "pystr \<Rightarrow> (pystr \<times> string) option" where
  "disclosure state =
     (case strip_prefix ''optional-case-passed-'' state of
        Some digest \<Rightarrow> if hex_text 12 digest then Some (digest, ''passed'') else None
      | None \<Rightarrow>
          (case strip_prefix ''optional-case-skipped-'' state of
             Some digest \<Rightarrow> if hex_text 12 digest then Some (digest, ''skipped'') else None
           | None \<Rightarrow> None))"

text \<open>The dictionary of the disclosed outcomes.  The code collects it from a set, in no
  particular order; where a digest has both outcomes, one of the two states is missing from
  the dictionary whatever the order, and the comparison that follows fails.\<close>

fun collect :: "('k \<times> 'v) list \<Rightarrow> ('k \<times> 'v) list" where
  "collect [] = []"
| "collect ((k, v) # ps) = (if k \<in> set (map fst ps) then collect ps else (k, v) # collect ps)"

definition disclosed_outcomes :: "pystr list \<Rightarrow> (pystr \<times> string) list" where
  "disclosed_outcomes states = collect (List.map_filter disclosure states)"

definition check_python_suite :: "pystr list \<Rightarrow> int \<Rightarrow> int \<Rightarrow> unit res" where
  "check_python_suite states tests skipped =
     (let expected = map case_digest PYTHON_OPTIONAL_CASES;
          disclosed = disclosed_outcomes states
      in
      fail_if (str_of ''mandatory-cases-passed'' \<notin> set states)
        ''Python receipt is missing the mandatory-pass transition''
      (fail_if
        (set states - {str_of ''mandatory-cases-passed''}
           \<noteq> set (map (\<lambda>(digest, status). optional_case_state status digest) disclosed)
         \<or> set (map fst disclosed) \<noteq> set expected)
        ''Python receipt has unexpected optional-case transitions''
      (fail_if
        (list_ex (\<lambda>name. map_of disclosed (case_digest name) = Some ''skipped''
                    \<and> name \<notin> set PYTHON_OPTIONAL_CASES) PYTHON_OPTIONAL_CASES)
        ''Python receipt optional-case status is inconsistent''
      (fail_if (skipped \<noteq> 0) ''Python receipt suite counts may not include accepted optional skips''
      (fail_if (tests < 1) ''Python receipt mandatory-case count is invalid'' (Inr ()))))))"

definition check_android_suite :: "pystr list \<Rightarrow> int \<Rightarrow> int \<Rightarrow> unit res" where
  "check_android_suite states tests skipped =
     (let digest = case_digest ANDROID_OPTIONAL_CASE;
          outcomes = filter (\<lambda>s. s \<in> set states) [live_peer_state ''passed'' digest, live_peer_state ''skipped'' digest]
      in
      fail_if (str_of ''android-jvm-cases-passed'' \<notin> set states)
        ''Android receipt is missing the mandatory-pass transition''
      (fail_if
        (length states \<noteq> 2
         \<or> list_ex (\<lambda>s. s \<noteq> str_of ''android-jvm-cases-passed'' \<and> s \<notin> set outcomes) states
         \<or> length outcomes \<noteq> 1
         \<or> skipped \<noteq> (if live_peer_state ''skipped'' digest \<in> set outcomes then 1 else 0)
         \<or> tests < 1)
        ''Android receipt live-peer disclosure or mandatory-case counts are invalid'' (Inr ())))"

definition check_registry_suite :: "pystr list \<Rightarrow> int \<Rightarrow> unit res" where
  "check_registry_suite states skipped =
     fail_if (skipped \<noteq> 0) ''Registry integration suite skipped a mandatory test''
     (fail_if (set states \<noteq> {str_of ''mandatory-cases-passed'', str_of ''receipt-emitted''})
        ''Registry receipt has unexpected state transitions'' (Inr ()))"

definition check_known_suite :: "pystr \<Rightarrow> pystr list \<Rightarrow> int \<Rightarrow> int \<Rightarrow> unit res" where
  "check_known_suite suite_id states tests skipped =
     (if suite_id = str_of ''python-security-matrix'' then check_python_suite states tests skipped
      else if suite_id = str_of ''android-wallet-jvm-security'' then
        check_android_suite states tests skipped
      else if suite_id = str_of ''local-registry-integration'' then
        check_registry_suite states skipped
      else gate_fail ''receipt contains an unrecognized test suite'')"

definition optional_skip_allowed :: "pystr \<Rightarrow> pystr list \<Rightarrow> int \<Rightarrow> bool" where
  "optional_skip_allowed suite_id states skipped \<longleftrightarrow>
     suite_id = str_of ''android-wallet-jvm-security'' \<and> skipped = 1
     \<and> list_ex (\<lambda>s. strip_prefix ''optional-live-peer-case-skipped-'' s \<noteq> None) states"

text \<open>One round of the loop over the suites; the result is the identifier.\<close>

definition check_suite :: "nat \<Rightarrow> pystr list \<Rightarrow> pyval \<Rightarrow> pystr res" where
  "check_suite index seen raw_suite =
     bindE (exact_keys raw_suite
              [''id'', ''status'', ''tests'', ''failures'', ''errors'', ''skipped'', ''state_transitions'']
              (indexed ''suite'' index)) (\<lambda>suite.
     (case entry suite ''id'' of
        PyStr suite_id \<Rightarrow>
          fail_if (\<not> slug suite_id) (indexed ''suite'' index @ '' identifier is invalid'')
          (fail_if (suite_id \<in> set seen) ''receipt contains duplicate suite identifiers''
          (bindE (check_transitions index (entry suite ''state_transitions'')) (\<lambda>states.
           bindE (check_count index (entry suite ''tests'')) (\<lambda>tests.
           bindE (check_count index (entry suite ''failures'')) (\<lambda>failures.
           bindE (check_count index (entry suite ''errors'')) (\<lambda>errors.
           bindE (check_count index (entry suite ''skipped'')) (\<lambda>skipped.
           fail_if (tests < 1 \<or> tests < failures + errors + skipped)
             (indexed ''suite'' index @ '' counts are inconsistent'')
           (fail_if
             (entry suite ''status'' \<noteq> pykey ''passed'' \<or> failures \<noteq> 0 \<or> errors \<noteq> 0
              \<or> skipped \<noteq> 0 \<and> \<not> optional_skip_allowed suite_id states skipped)
             (indexed ''suite'' index @ '' did not pass without unapproved skips'')
           (bindE (check_known_suite suite_id states tests skipped) (\<lambda>_. Inr suite_id))))))))))
      | _ \<Rightarrow> gate_fail (indexed ''suite'' index @ '' identifier is invalid'')))"

fun check_suites :: "nat \<Rightarrow> pystr list \<Rightarrow> pyval list \<Rightarrow> pystr list res" where
  "check_suites index seen [] = Inr seen"
| "check_suites index seen (raw_suite # rest) =
     bindE (check_suite index seen raw_suite) (\<lambda>suite_id.
     check_suites (Suc index) (seen @ [suite_id]) rest)"

definition required_suites :: "pyval \<Rightarrow> string list" where
  "required_suites profile =
     (if profile = pykey ''core'' then [''python-security-matrix'']
      else if profile = pykey ''android-jvm'' then [''android-wallet-jvm-security'']
      else [''python-security-matrix'', ''android-wallet-jvm-security'', ''local-registry-integration''])"

section \<open>Artifacts\<close>

definition check_artifact :: "nat \<Rightarrow> pystr list \<Rightarrow> pyval \<Rightarrow> pystr res" where
  "check_artifact index seen raw_artifact =
     bindE (exact_keys raw_artifact [''id'', ''sha256''] (indexed ''artifact'' index)) (\<lambda>artifact.
     (case entry artifact ''id'' of
        PyStr artifact_id \<Rightarrow>
          fail_if (\<not> slug artifact_id) (indexed ''artifact'' index @ '' identifier is invalid'')
          (fail_if (\<not> is_digest (entry artifact ''sha256''))
             (indexed ''artifact'' index @ '' digest is invalid'')
          (fail_if (artifact_id \<in> set seen) ''receipt has duplicate artifact identifiers''
          (Inr artifact_id)))
      | _ \<Rightarrow> gate_fail (indexed ''artifact'' index @ '' identifier is invalid'')))"

fun check_artifacts :: "nat \<Rightarrow> pystr list \<Rightarrow> pyval list \<Rightarrow> pystr list res" where
  "check_artifacts index seen [] = Inr seen"
| "check_artifacts index seen (raw_artifact # rest) =
     bindE (check_artifact index seen raw_artifact) (\<lambda>artifact_id.
     check_artifacts (Suc index) (seen @ [artifact_id]) rest)"

definition required_artifacts :: "pyval \<Rightarrow> string list" where
  "required_artifacts profile =
     (if profile = pykey ''core'' then [''wallet-container-known-answer'']
      else if profile = pykey ''android-jvm'' then [''kotlin-bound'', ''kotlin-legacy'', ''kotlin-bignum'']
      else [''wallet-container-known-answer'', ''kotlin-bound'', ''kotlin-legacy'', ''kotlin-bignum''])"

definition allowed_artifacts :: "pyval \<Rightarrow> string list" where
  "allowed_artifacts profile =
     required_artifacts profile
     @ [''identity-owner-key-rotation-legacy-candidate-envelope'',
        ''identity-owner-key-rotation-versioned-history-candidate-envelope'']
     @ (if profile = pykey ''android-jvm'' then [''wallet-container-known-answer''] else [])"

section \<open>The receipt\<close>

definition check_suite_set :: "pyval \<Rightarrow> pyval \<Rightarrow> unit res" where
  "check_suite_set profile value =
     (case value of
        PyList raw_suites \<Rightarrow>
          fail_if (raw_suites = []) ''receipt contains no test suites''
          (bindE (check_suites 0 [] raw_suites) (\<lambda>suite_ids.
           fail_if (set suite_ids \<noteq> set (map str_of (required_suites profile)))
             ''receipt suite set does not match the selected profile'' (Inr ())))
      | _ \<Rightarrow> gate_fail ''receipt contains no test suites'')"

definition check_artifact_set :: "pyval \<Rightarrow> pyval \<Rightarrow> unit res" where
  "check_artifact_set profile value =
     (case value of
        PyList raw_artifacts \<Rightarrow>
          bindE (check_artifacts 0 [] raw_artifacts) (\<lambda>artifact_ids.
          fail_if
            (\<not> set (map str_of (required_artifacts profile)) \<subseteq> set artifact_ids
             \<or> \<not> set artifact_ids \<subseteq> set (map str_of (allowed_artifacts profile)))
            ''receipt artifact set does not match the selected profile'' (Inr ()))
      | _ \<Rightarrow> gate_fail ''receipt artifacts must be a list'')"

text \<open>The result is the argument, a dictionary.\<close>

definition validate_receipt :: "pyval \<Rightarrow> pydict res" where
  "validate_receipt value =
     bindE (exact_keys value
              [''schema'', ''created_at'', ''profile'', ''verdict'', ''commit'', ''environment'',
               ''suites'', ''artifacts''] ''receipt'') (\<lambda>receipt.
     fail_if (entry receipt ''schema'' \<noteq> PyStr RECEIPT_SCHEMA) ''receipt schema is unsupported''
     (bindE (check_timestamp (entry receipt ''created_at'')) (\<lambda>_.
      let profile = entry receipt ''profile'' in
      raise_if (\<not> hashable profile) PyTypeError
      (fail_if (profile \<notin> set (map pykey PROFILES)) ''receipt profile is invalid''
      (fail_if (entry receipt ''verdict'' \<noteq> pykey ''passed'') ''receipt verdict is not passing''
      (fail_if (\<not> text_entry (hex_text 40) (entry receipt ''commit''))
         ''receipt commit identifier is invalid''
      (bindE (check_environment profile (entry receipt ''environment'')) (\<lambda>_.
       bindE (check_suite_set profile (entry receipt ''suites'')) (\<lambda>_.
       bindE (check_artifact_set profile (entry receipt ''artifacts'')) (\<lambda>_.
       Inr receipt))))))))))"

end
