(* ===== verification/Acceptance_Report.thy ===== *)
theory Acceptance_Report
  imports Acceptance_Receipt Atomic_Write
begin

text \<open>
  The test reports of the security acceptance gate, \<^verbatim>\<open>scripts/security_acceptance.py\<close>:
  the visitor \<^verbatim>\<open>_native_report\<close>, which recomputes every declared summary from the cases
  it meets, and the comparison of the cases with the reviewed inventory.  What the gate
  asks of the machine it runs on is a record of programs over a state of any type, the
  \<open>gate_host\<close>; an XML document is the tree that \<^verbatim>\<open>ET.parse\<close> builds.
\<close>

section \<open>The host\<close>

datatype xml = Element pystr "(pystr \<times> pystr) list" "xml list"

text \<open>Files below the repository root, below the temporary directory of the run, and
  anywhere else.\<close>

datatype host_path = RootPath pystr | ScratchPath pystr | GivenPath pystr

type_synonym environ = "pystr \<rightharpoonup> pystr"

record process =
  ps_returncode :: int
  ps_stdout :: pystr

text \<open>\<open>gh_parse_xml\<close> returns \<open>None\<close> for \<^verbatim>\<open>ET.ParseError\<close> and \<open>gh_run\<close>, for a command, its
  directory, environment and time limit, returns \<open>None\<close> for \<^verbatim>\<open>TimeoutExpired\<close>.  \<open>gh_load_toml\<close>
  is \<^verbatim>\<open>tomllib.loads\<close> of a file's text, \<open>gh_glob\<close> the names in a directory that match a
  pattern, \<open>gh_provider\<close> the absolute path of the Registry checkout for the value of
  \<^verbatim>\<open>DECENT_REGISTRY_PATH\<close>, and \<open>gh_depth\<close> the nesting that \<^verbatim>\<open>json.loads\<close> supports.\<close>

record 's gate_host =
  gh_import_pytest :: "(unit, 's) prog"
  gh_read_bytes :: "host_path \<Rightarrow> (bytes, 's) prog"
  gh_parse_xml :: "host_path \<Rightarrow> (xml option, 's) prog"
  gh_load_toml :: "host_path \<Rightarrow> (pyval, 's) prog"
  gh_is_file :: "host_path \<Rightarrow> (bool, 's) prog"
  gh_size :: "host_path \<Rightarrow> (int, 's) prog"
  gh_mkdir :: "host_path \<Rightarrow> bool \<Rightarrow> (unit, 's) prog"
  gh_glob :: "host_path \<Rightarrow> string \<Rightarrow> (pystr list, 's) prog"
  gh_unlink :: "host_path \<Rightarrow> (unit, 's) prog"
  gh_run :: "pystr list \<Rightarrow> host_path \<Rightarrow> environ option \<Rightarrow> nat \<Rightarrow> (process option, 's) prog"
  gh_print :: "pystr \<Rightarrow> (unit, 's) prog"
  gh_now :: "(pystr, 's) prog"
  gh_make_scratch :: "(unit, 's) prog"
  gh_remove_scratch :: "(unit, 's) prog"
  gh_environ :: environ
  gh_executable :: pystr
  gh_python_version :: pystr
  gh_platform :: pystr
  gh_implementation :: pystr
  gh_str :: "host_path \<Rightarrow> pystr"
  gh_provider :: "pystr option \<Rightarrow> host_path"
  gh_depth :: nat

text \<open>\<^verbatim>\<open>_fail\<close> in a program, and a handler for some exceptions that calls it.\<close>

abbreviation failS :: "string \<Rightarrow> ('a, 's) prog" where
  "failS message \<equiv> raiseS (ReceiptValidationError message)"

abbreviation fail_whenS :: "bool \<Rightarrow> string \<Rightarrow> (unit, 's) prog" where
  "fail_whenS c message \<equiv> guardS c (ReceiptValidationError message)"

definition fail_on :: "(exn \<Rightarrow> bool) \<Rightarrow> string \<Rightarrow> ('a, 's) prog \<Rightarrow> ('a, 's) prog" where
  "fail_on caught message m = exceptS m (\<lambda>e. if caught e then failS message else raiseS e)"

text \<open>A loop that collects one result per element.\<close>

fun mapS :: "('a \<Rightarrow> ('b, 's) prog) \<Rightarrow> 'a list \<Rightarrow> ('b list, 's) prog" where
  "mapS f [] = returnS []"
| "mapS f (x # xs) = bindS (f x) (\<lambda>y. bindS (mapS f xs) (\<lambda>ys. returnS (y # ys)))"

section \<open>Counting the cases of a report\<close>

record suite_result =
  ss_tests :: int
  ss_failures :: int
  ss_errors :: int
  ss_skipped :: int

definition no_counts :: suite_result where
  "no_counts = \<lparr>ss_tests = 0, ss_failures = 0, ss_errors = 0, ss_skipped = 0\<rparr>"

definition add_counts :: "suite_result \<Rightarrow> suite_result \<Rightarrow> suite_result" where
  "add_counts a b =
     \<lparr>ss_tests = ss_tests a + ss_tests b, ss_failures = ss_failures a + ss_failures b,
      ss_errors = ss_errors a + ss_errors b, ss_skipped = ss_skipped a + ss_skipped b\<rparr>"

definition count_items :: "suite_result \<Rightarrow> (string \<times> int) list" where
  "count_items counts =
     [(''tests'', ss_tests counts), (''failures'', ss_failures counts),
      (''errors'', ss_errors counts), (''skipped'', ss_skipped counts)]"

text \<open>One declared count; \<^verbatim>\<open>int\<close> refuses a text of more than 4300 digits.\<close>

definition check_declared :: "bool \<Rightarrow> pystr option \<Rightarrow> int \<Rightarrow> unit res" where
  "check_declared required raw n =
     (case raw of
        None \<Rightarrow> fail_if required ''mandatory test report has invalid counts'' (Inr ())
      | Some s \<Rightarrow>
          fail_if (s = [] \<or> \<not> list_all is_digit s) ''mandatory test report has invalid counts''
          (raise_if (MAX_INT_DIGITS < length s) PyValueError
          (fail_if (int (digits_value s) \<noteq> n) ''mandatory test report summary is inconsistent''
          (Inr ()))))"

definition check_counts :: "(pystr \<times> pystr) list \<Rightarrow> suite_result \<Rightarrow> bool \<Rightarrow> unit res" where
  "check_counts attributes counts required =
     bindE (mapE (\<lambda>(key, n). check_declared required (map_of attributes (str_of key)) n)
              (count_items counts)) (\<lambda>_. Inr ())"

text \<open>The identity, the status and the reason of a case; the cases met so far, and their
  identities.\<close>

type_synonym test_case = "pystr \<times> string \<times> pystr"
type_synonym report_state = "test_case list \<times> pystr list"

fun reported_outcome :: "xml \<Rightarrow> (string \<times> pystr) option" where
  "reported_outcome (Element tag attributes children) =
     (if tag = str_of ''failure'' then Some (''failure'', [])
      else if tag = str_of ''error'' then Some (''error'', [])
      else if tag = str_of ''skipped'' then
        Some (''skipped'', (case map_of attributes (str_of ''message'') of None \<Rightarrow> [] | Some m \<Rightarrow> m))
      else None)"

definition count_case :: "string option \<Rightarrow> suite_result" where
  "count_case tag =
     \<lparr>ss_tests = 1, ss_failures = (if tag = Some ''failure'' then 1 else 0),
      ss_errors = (if tag = Some ''error'' then 1 else 0),
      ss_skipped = (if tag = Some ''skipped'' then 1 else 0)\<rparr>"

definition case_status :: "string option \<Rightarrow> string" where
  "case_status tag =
     (case tag of
        None \<Rightarrow> ''passed''
      | Some t \<Rightarrow> if t = ''skipped'' then ''skipped'' else ''failed'')"

definition visit_case ::
    "(pystr \<times> pystr) list \<Rightarrow> xml list \<Rightarrow> report_state \<Rightarrow> (suite_result \<times> report_state) res" where
  "visit_case attributes children st =
     (case (map_of attributes (str_of ''classname''), map_of attributes (str_of ''name'')) of
        (Some classname, Some name) \<Rightarrow>
          fail_if (classname = [] \<or> name = []) ''mandatory test report has invalid case identities''
          (let identity = classname @ str_of ''::'' @ name;
               outcomes = List.map_filter reported_outcome children
           in
           fail_if (identity \<in> set (snd st)) ''mandatory test report contains duplicate case identities''
           (fail_if (1 < length outcomes) ''mandatory test report contains contradictory case outcomes''
           (let tag = (case outcomes of [] \<Rightarrow> None | (t, _) # _ \<Rightarrow> Some t);
                reason = (case outcomes of [] \<Rightarrow> [] | (_, m) # _ \<Rightarrow> m)
            in Inr (count_case tag,
                    fst st @ [(identity, case_status tag, reason)], snd st @ [identity]))))
      | _ \<Rightarrow> gate_fail ''mandatory test report has invalid case identities'')"

definition is_suite_tag :: "pystr \<Rightarrow> bool" where
  "is_suite_tag tag \<longleftrightarrow> tag \<in> {str_of ''testsuite'', str_of ''testsuites''}"

text \<open>\<^verbatim>\<open>visit\<close> and its loop over the children of a node with the given tag.\<close>

fun visit :: "xml \<Rightarrow> report_state \<Rightarrow> (suite_result \<times> report_state) res"
and visit_children ::
    "pystr \<Rightarrow> xml list \<Rightarrow> suite_result \<Rightarrow> report_state \<Rightarrow> (suite_result \<times> report_state) res" where
  "visit (Element tag attributes children) st =
     fail_if (\<not> is_suite_tag tag) ''mandatory test report has an unexpected format''
     (bindE (visit_children tag children no_counts st) (\<lambda>(counts, st').
      bindE (check_counts attributes counts (tag = str_of ''testsuite'')) (\<lambda>_. Inr (counts, st'))))"
| "visit_children tag [] counts st = Inr (counts, st)"
| "visit_children tag (Element t attributes children # rest) counts st =
     (if is_suite_tag t then
        bindE (visit (Element t attributes children) st) (\<lambda>(nested, st').
        visit_children tag rest (add_counts counts nested) st')
      else if t = str_of ''testcase'' \<and> tag = str_of ''testsuite'' then
        bindE (visit_case attributes children st) (\<lambda>(one, st').
        visit_children tag rest (add_counts counts one) st')
      else if t \<in> {str_of ''properties'', str_of ''system-out'', str_of ''system-err''} then
        visit_children tag rest counts st
      else gate_fail ''mandatory test report has an unexpected format'')"

declare visit.simps [simp del] visit_children.simps [simp del]

fun visit_reports ::
    "'s gate_host \<Rightarrow> host_path list \<Rightarrow> suite_result \<Rightarrow> report_state
      \<Rightarrow> (suite_result \<times> report_state, 's) prog" where
  "visit_reports H [] totals st = returnS (totals, st)"
| "visit_reports H (path # paths) totals st =
     bindS (fail_on is_os_error ''mandatory test report is unreadable'' (gh_parse_xml H path)) (\<lambda>found.
     (case found of
        None \<Rightarrow> failS ''mandatory test report is unreadable''
      | Some document \<Rightarrow>
          bindS (liftS (visit document st)) (\<lambda>(counts, st').
          visit_reports H paths (add_counts totals counts) st')))"

definition native_report ::
    "'s gate_host \<Rightarrow> host_path list \<Rightarrow> (suite_result \<times> test_case list, 's) prog" where
  "native_report H report_paths =
     thenS (fail_whenS (report_paths = []) ''mandatory test report is missing'')
     (bindS (visit_reports H report_paths no_counts ([], [])) (\<lambda>(totals, cases, seen).
      thenS (fail_whenS (cases = []) ''mandatory test report contains no cases'')
        (returnS (totals, cases))))"

definition junit_result :: "'s gate_host \<Rightarrow> host_path list \<Rightarrow> (suite_result, 's) prog" where
  "junit_result H report_paths =
     bindS (native_report H report_paths) (\<lambda>(result, _).
     thenS (fail_whenS (ss_failures result \<noteq> 0 \<or> ss_errors result \<noteq> 0 \<or> ss_skipped result \<noteq> 0)
              ''mandatory suite failed or skipped a test'')
       (returnS result))"

definition junit_cases :: "'s gate_host \<Rightarrow> host_path list \<Rightarrow> (test_case list, 's) prog" where
  "junit_cases H report_paths = bindS (native_report H report_paths) (\<lambda>(_, cases). returnS cases)"

section \<open>The reviewed inventory\<close>

text \<open>\<^verbatim>\<open>Path.read_text\<close> translates the line ends \<^verbatim>\<open>\r\n\<close> and \<^verbatim>\<open>\r\<close>.\<close>

fun universal_newlines :: "pystr \<Rightarrow> pystr" where
  "universal_newlines [] = []"
| "universal_newlines [c] = [if c = 13 then 10 else c]"
| "universal_newlines (c # d # s) =
     (if c = 13 then 10 # universal_newlines (if d = 10 then s else d # s)
      else c # universal_newlines (d # s))"

definition read_json :: "'s gate_host \<Rightarrow> host_path \<Rightarrow> string \<Rightarrow> (pyval, 's) prog" where
  "read_json H path message =
     fail_on (\<lambda>e. is_os_error e \<or> e = PyUnicodeError \<or> e = PyJSONDecodeError) message
       (bindS (gh_read_bytes H path) (\<lambda>raw.
        liftS (case utf8_decode raw of
                 None \<Rightarrow> Inl PyUnicodeError
               | Some text \<Rightarrow> json_loads (gh_depth H) (universal_newlines text))))"

text \<open>\<^verbatim>\<open>for x in value\<close>.\<close>

definition py_iter :: "pyval \<Rightarrow> pyval list res" where
  "py_iter value =
     (case value of
        PyList xs \<Rightarrow> Inr xs
      | PyDict d \<Rightarrow> Inr (map fst d)
      | PyStr s \<Rightarrow> Inr (map (\<lambda>c. PyStr [c]) s)
      | _ \<Rightarrow> Inl PyTypeError)"

text \<open>\<^verbatim>\<open>text.split("::", 1)\<close>, where the separator occurs.\<close>

fun split_identity :: "pystr \<Rightarrow> (pystr \<times> pystr) option" where
  "split_identity [] = None"
| "split_identity (c # s) =
     (case s of
        [] \<Rightarrow> None
      | d # r \<Rightarrow>
          if c = 58 \<and> d = 58 then Some ([], r)
          else map_option (\<lambda>(a, b). (c # a, b)) (split_identity s))"

definition valid_identity :: "pystr \<Rightarrow> bool" where
  "valid_identity s =
     (case split_identity s of None \<Rightarrow> False | Some (a, b) \<Rightarrow> a \<noteq> [] \<and> b \<noteq> [])"

definition REGISTRY_JOBS :: "string list" where
  "REGISTRY_JOBS =
     [''tests/test_android_registry_peer.py'', ''tests/test_registry_transport_integration.py'',
      ''tests/test_portable_latch_registry_integration.py'']"

text \<open>The inventory of the Registry suite: of one test file, or of all of them.\<close>

definition registry_inventory :: "pyval \<Rightarrow> string option \<Rightarrow> pyval res" where
  "registry_inventory value test_file =
     bindE (exact_keys value REGISTRY_JOBS ''Registry inventory'') (\<lambda>jobs.
     (case test_file of
        Some name \<Rightarrow> Inr (entry jobs name)
      | None \<Rightarrow> bindE (mapE py_iter (map snd jobs)) (\<lambda>ids. Inr (PyList (concat ids)))))"

definition inventory_of :: "pyval \<Rightarrow> string \<Rightarrow> string option \<Rightarrow> pystr list res" where
  "inventory_of manifest suite_id test_file =
     bindE (exact_keys manifest
              [''schema'', ''python-security-matrix'', ''android-wallet-jvm-security'',
               ''local-registry-integration''] ''inventory'') (\<lambda>d.
     fail_if (entry d ''schema'' \<noteq> pykey ''decent-wallet-security-acceptance-inventory-v1'')
       ''reviewed mandatory inventory schema is invalid''
     (bindE (dindex d (pykey suite_id)) (\<lambda>value.
      bindE (if suite_id = ''local-registry-integration'' then registry_inventory value test_file
             else Inr value) (\<lambda>value.
      (case text_list value of
         None \<Rightarrow> gate_fail ''reviewed mandatory inventory has invalid identities''
       | Some ids \<Rightarrow>
           fail_if (ids = [] \<or> \<not> list_all valid_identity ids \<or> \<not> distinct ids)
             ''reviewed mandatory inventory has invalid identities'' (Inr ids))))))"

definition INVENTORY_PATH :: host_path where
  "INVENTORY_PATH = RootPath (str_of ''scripts/security-acceptance-inventory.json'')"

definition expected_inventory ::
    "'s gate_host \<Rightarrow> string \<Rightarrow> string option \<Rightarrow> (pystr list, 's) prog" where
  "expected_inventory H suite_id test_file =
     bindS (read_json H INVENTORY_PATH ''reviewed mandatory inventory is missing or unreadable'')
       (\<lambda>manifest. liftS (inventory_of manifest suite_id test_file))"

definition require_inventory ::
    "'s gate_host \<Rightarrow> string \<Rightarrow> test_case list \<Rightarrow> pystr list \<Rightarrow> string option \<Rightarrow> (unit, 's) prog" where
  "require_inventory H suite_id cases optional test_file =
     bindS (expected_inventory H suite_id test_file) (\<lambda>expected.
     fail_whenS (set expected \<inter> set optional \<noteq> {}
                 \<or> set (map fst cases) \<noteq> set expected \<union> set optional)
       ''mandatory case inventory does not match the reviewed manifest'')"

section \<open>Files and suites\<close>

definition hash_file :: "'s gate_host \<Rightarrow> host_path \<Rightarrow> (pystr, 's) prog" where
  "hash_file H path =
     bindS (fail_on is_os_error ''required acceptance artifact is unreadable'' (gh_read_bytes H path))
       (\<lambda>data. returnS (bytes_hex (sha256 data)))"

definition suite_entry :: "string \<Rightarrow> suite_result \<Rightarrow> pystr list \<Rightarrow> pyval" where
  "suite_entry suite_id result states =
     PyDict
       [(pykey ''id'', pykey suite_id), (pykey ''status'', pykey ''passed''),
        (pykey ''tests'', PyInt (ss_tests result)), (pykey ''failures'', PyInt (ss_failures result)),
        (pykey ''errors'', PyInt (ss_errors result)), (pykey ''skipped'', PyInt (ss_skipped result)),
        (pykey ''state_transitions'', PyList (map PyStr states))]"

definition suite_summary ::
    "'s gate_host \<Rightarrow> string \<Rightarrow> host_path list \<Rightarrow> test_case list \<Rightarrow> (pyval, 's) prog" where
  "suite_summary H suite_id reports cases =
     bindS (junit_result H reports) (\<lambda>result.
     thenS (fail_whenS (ss_tests result \<noteq> int (length cases)) ''mandatory report summary is inconsistent'')
       (returnS (suite_entry suite_id result
          [str_of ''mandatory-cases-passed'', str_of ''receipt-emitted''])))"

end
