(* ===== verification/Acceptance_Run.thy ===== *)
theory Acceptance_Run
  imports Acceptance_Report
begin

text \<open>
  The runs of the security acceptance gate, \<^verbatim>\<open>scripts/security_acceptance.py\<close>: the public
  test vectors, the three suites, the receipt that a run assembles, and the file it is
  written to.
\<close>

section \<open>Texts\<close>

text \<open>\<^verbatim>\<open>part in text\<close>.\<close>

fun text_in :: "pystr \<Rightarrow> pystr \<Rightarrow> bool" where
  "text_in p [] \<longleftrightarrow> p = []"
| "text_in p (c # s) \<longleftrightarrow> take (length p) (c # s) = p \<or> text_in p s"

text \<open>\<^verbatim>\<open>text.lower()\<close> as far as it can produce the letters of \<^verbatim>\<open>deselected\<close> and
  \<^verbatim>\<open>not run\<close>: no letter outside ASCII has one of them as its lower case.\<close>

definition lower_ascii :: "pystr \<Rightarrow> pystr" where
  "lower_ascii s = map (\<lambda>c. if 65 \<le> c \<and> c \<le> 90 then c + 32 else c) s"

definition is_py_space :: "nat \<Rightarrow> bool" where
  "is_py_space c \<longleftrightarrow>
     9 \<le> c \<and> c \<le> 13 \<or> 28 \<le> c \<and> c \<le> 32 \<or> 0x2000 \<le> c \<and> c \<le> 0x200A
     \<or> c \<in> {0x85, 0xA0, 0x1680, 0x2028, 0x2029, 0x202F, 0x205F, 0x3000}"

definition py_strip :: "pystr \<Rightarrow> pystr" where
  "py_strip s = rev (dropWhile is_py_space (rev (dropWhile is_py_space s)))"

text \<open>\<^verbatim>\<open>Path(text).name\<close>, \<^verbatim>\<open>Path(text).stem\<close> and \<^verbatim>\<open>text.rsplit(c, 1)[-1]\<close>.\<close>

definition after_last :: "nat \<Rightarrow> pystr \<Rightarrow> pystr" where
  "after_last c s = rev (takeWhile (\<lambda>x. x \<noteq> c) (rev s))"

definition path_name :: "pystr \<Rightarrow> pystr" where
  "path_name s = after_last 47 s"

definition path_stem :: "pystr \<Rightarrow> pystr" where
  "path_stem s =
     (let name = path_name s; extension = after_last 46 name
      in if length extension < length name then take (length name - length extension - 1) name
         else name)"

definition dashed :: "pystr \<Rightarrow> pystr" where
  "dashed s = map (\<lambda>c. if c = 95 then 45 else c) s"

text \<open>\<^verbatim>\<open>bytes.fromhex\<close> skips white space between two bytes.\<close>

fun bytes_fromhex :: "pystr \<Rightarrow> bytes option" where
  "bytes_fromhex [] = Some []"
| "bytes_fromhex [c] = (if 9 \<le> c \<and> c \<le> 13 \<or> c = 32 then Some [] else None)"
| "bytes_fromhex (c # d # s) =
     (if 9 \<le> c \<and> c \<le> 13 \<or> c = 32 then bytes_fromhex (d # s)
      else
        (case (hex_value c, hex_value d, bytes_fromhex s) of
           (Some h, Some l, Some bs) \<Rightarrow> Some (of_nat (16 * h + l) # bs)
         | _ \<Rightarrow> None))"

section \<open>Commands\<close>

definition gate_run ::
    "'s gate_host \<Rightarrow> pystr list \<Rightarrow> environ \<Rightarrow> nat \<Rightarrow> (unit, 's) prog" where
  "gate_run H command env limit =
     (let actual = (case command of
                      [] \<Rightarrow> []
                    | c # cs \<Rightarrow> (if c = str_of ''./gradlew'' then gh_str H (RootPath (str_of ''gradlew'')) else c) # cs)
      in
      bindS (fail_on is_os_error ''mandatory acceptance command could not complete''
               (gh_run H actual (RootPath []) (Some env) limit)) (\<lambda>found.
      (case found of
         None \<Rightarrow> failS ''mandatory acceptance command could not complete''
       | Some result \<Rightarrow>
           if ps_returncode result \<noteq> 0 then
             thenS (gh_print H
                      (if actual \<noteq> [] \<and> text_in (str_of ''gradlew'') (hd actual)
                       then str_of ''Android Gradle acceptance task failed.''
                       else str_of ''Python acceptance test command failed.''))
               (failS ''mandatory acceptance command failed'')
           else returnS ())))"

section \<open>Public test vectors\<close>

definition VECTORS :: "pystr list" where
  "VECTORS = map str_of
     [''tests/vectors/wallet-container-v2.json'',
      ''tests/vectors/identity-owner-key-rotation-legacy.json'',
      ''tests/vectors/identity-owner-key-rotation-versioned-history.json'',
      ''tests/vectors/wallet-v2-portable-rotation-latch.json'']"

definition artifact_entry :: "pystr \<Rightarrow> pystr \<Rightarrow> pyval" where
  "artifact_entry artifact_id digest =
     PyDict [(pykey ''id'', PyStr artifact_id), (pykey ''sha256'', PyStr digest)]"

definition container_vector :: "'s gate_host \<Rightarrow> pystr \<Rightarrow> pydict \<Rightarrow> (pyval list, 's) prog" where
  "container_vector H relative fixture =
     thenS (fail_whenS
       (dget_none fixture (pykey ''test_only'') \<noteq> PyBool True
        \<or> \<not> text_entry (text_in (str_of ''Never use with a real wallet'')) (dget_none fixture (pykey ''notice'')))
       ''wallet-container vector is not marked synthetic test-only'')
     (bindS (hash_file H (RootPath relative)) (\<lambda>digest.
      returnS [artifact_entry (str_of ''wallet-container-known-answer'') digest]))"

definition latch_vector :: "pydict \<Rightarrow> pyval list res" where
  "latch_vector fixture =
     fail_if (dget_none fixture (pykey ''identity_vector'') \<noteq> pykey ''identity-owner-key-rotation-legacy.json'')
       ''portable-latch vector references an unexpected Identity vector''
     (fail_if
       (\<not> list_all (\<lambda>field. text_entry (\<lambda>s. b64_decode_raw s \<noteq> None) (dget_none fixture (pykey field)))
            [''python_bound_container_base64'', ''legacy_unbound_container_base64'',
             ''python_bignum_container_base64''])
       ''portable-latch vector is malformed'' (Inr []))"

definition identity_vector :: "pystr \<Rightarrow> pydict \<Rightarrow> pyval list res" where
  "identity_vector relative fixture =
     (case dget_none fixture (pykey ''candidate_envelope_cbor_hex'') of
        PyStr s \<Rightarrow>
          (case bytes_fromhex s of
             None \<Rightarrow> gate_fail ''Identity candidate vector is malformed''
           | Some raw \<Rightarrow>
               Inr [artifact_entry (dashed (path_stem relative) @ str_of ''-candidate-envelope'')
                      (bytes_hex (sha256 raw))])
      | _ \<Rightarrow> gate_fail ''Identity candidate vector is malformed'')"

definition vector_artifacts :: "'s gate_host \<Rightarrow> bool \<Rightarrow> pystr \<Rightarrow> (pyval list, 's) prog" where
  "vector_artifacts H include_identity_vectors relative =
     bindS (read_json H (RootPath relative) ''required public test vector is missing or unreadable'')
       (\<lambda>value.
     (case value of
        PyDict fixture \<Rightarrow>
          if path_name relative = str_of ''wallet-container-v2.json'' then container_vector H relative fixture
          else if path_name relative = str_of ''wallet-v2-portable-rotation-latch.json'' then
            liftS (latch_vector fixture)
          else if \<not> include_identity_vectors then returnS []
          else liftS (identity_vector relative fixture)
      | _ \<Rightarrow> failS ''required public test vector is malformed''))"

definition test_only_artifacts :: "'s gate_host \<Rightarrow> bool \<Rightarrow> (pyval list, 's) prog" where
  "test_only_artifacts H include_identity_vectors =
     bindS (mapS (vector_artifacts H include_identity_vectors) VECTORS) (\<lambda>found.
     returnS (concat found))"

section \<open>Revisions\<close>

text \<open>The first package of the lock file with the name of the Registry package.\<close>

fun registry_package :: "pyval list \<Rightarrow> pydict option res" where
  "registry_package [] = Inr None"
| "registry_package (package # rest) =
     (case package of
        PyDict d \<Rightarrow>
          if dget_none d (pykey ''name'') = pykey ''decent-registry'' then Inr (Some d)
          else registry_package rest
      | _ \<Rightarrow> Inl PyAttributeError)"

definition dget_or :: "pydict \<Rightarrow> string \<Rightarrow> pyval \<Rightarrow> pyval" where
  "dget_or d k other = (case dget d (pykey k) of None \<Rightarrow> other | Some v \<Rightarrow> v)"

definition falsy :: "pyval \<Rightarrow> bool" where
  "falsy v \<longleftrightarrow>
     v \<in> {PyNone, PyBool False, PyInt 0, PyStr [], PyBytes [], PyList [], PyDict [],
          PyFloat (str_of ''0.0''), PyFloat (str_of ''-0.0'')}"

definition pinned_revision :: "pyval \<Rightarrow> pystr res" where
  "pinned_revision lock_data =
     (case lock_data of
        PyDict lock \<Rightarrow>
          bindE (py_iter (dget_or lock ''package'' (PyList []))) (\<lambda>packages.
          bindE (registry_package packages) (\<lambda>found.
          (case (case found of None \<Rightarrow> PyDict [] | Some d \<Rightarrow> dget_or d ''source'' (PyDict [])) of
             PyDict source \<Rightarrow>
               bindE
                 (if \<not> falsy (dget_none source (pykey ''rev'')) then Inr (dget_none source (pykey ''rev''))
                  else
                    (case dget_or source ''git'' (PyStr []) of
                       PyStr url \<Rightarrow> Inr (PyStr (after_last 35 url))
                     | _ \<Rightarrow> Inl PyAttributeError))
                 (\<lambda>revision.
               (case revision of
                  PyStr r \<Rightarrow>
                    fail_if (\<not> hex_text 40 r) ''uv.lock does not pin a valid Registry revision'' (Inr r)
                | _ \<Rightarrow> gate_fail ''uv.lock does not pin a valid Registry revision''))
           | _ \<Rightarrow> Inl PyAttributeError)))
      | _ \<Rightarrow> Inl PyAttributeError)"

definition git ::
    "'s gate_host \<Rightarrow> string list \<Rightarrow> host_path \<Rightarrow> string \<Rightarrow> (process, 's) prog" where
  "git H arguments directory message =
     bindS (fail_on is_os_error message
              (gh_run H (map str_of (''git'' # arguments)) directory None 10)) (\<lambda>found.
     (case found of None \<Rightarrow> failS message | Some result \<Rightarrow> returnS result))"

definition child_path :: "host_path \<Rightarrow> string \<Rightarrow> host_path" where
  "child_path path name =
     (let below = (\<lambda>p. p @ str_of (''/'' @ name))
      in case path of
           RootPath p \<Rightarrow> RootPath (below p)
         | ScratchPath p \<Rightarrow> ScratchPath (below p)
         | GivenPath p \<Rightarrow> GivenPath (below p))"

definition pinned_provider_path :: "'s gate_host \<Rightarrow> (host_path, 's) prog" where
  "pinned_provider_path H =
     (let provider = gh_provider H (gh_environ H (str_of ''DECENT_REGISTRY_PATH''));
          unidentified = ''local Registry revision could not be identified''
      in
      bindS (fail_on (\<lambda>e. is_os_error e \<or> is_value_error e) ''locked Registry revision could not be verified''
               (gh_load_toml H (RootPath (str_of ''uv.lock'')))) (\<lambda>lock_data.
      bindS (liftS (pinned_revision lock_data)) (\<lambda>revision.
      bindS (gh_is_file H (child_path provider ''pyproject.toml'')) (\<lambda>present.
      thenS (fail_whenS (\<not> present) ''full profile requires the pinned local Registry checkout'')
      (bindS (git H [''rev-parse'', ''HEAD''] provider unidentified) (\<lambda>result.
       bindS (git H [''status'', ''--porcelain'', ''--untracked-files=all''] provider unidentified) (\<lambda>status.
       thenS (fail_whenS
                (ps_returncode result \<noteq> 0 \<or> py_strip (ps_stdout result) \<noteq> revision
                 \<or> ps_returncode status \<noteq> 0 \<or> py_strip (ps_stdout status) \<noteq> [])
                ''local Registry checkout does not match the uv.lock revision'')
         (returnS provider))))))))"

definition source_commit :: "'s gate_host \<Rightarrow> (pystr, 's) prog" where
  "source_commit H =
     bindS (git H [''rev-parse'', ''HEAD''] (RootPath []) ''source revision could not be identified'')
       (\<lambda>result.
     let value = py_strip (ps_stdout result) in
     thenS (fail_whenS (ps_returncode result \<noteq> 0 \<or> \<not> hex_text 40 value)
              ''source revision could not be identified'')
       (returnS value))"

definition runtime_metadata :: "'s gate_host \<Rightarrow> bool \<Rightarrow> pyval" where
  "runtime_metadata H android =
     PyDict
       [(pykey ''python'', PyStr (gh_python_version H)),
        (pykey ''platform'', PyStr (take 160 (gh_platform H))),
        (pykey ''implementation'', PyStr (gh_implementation H)),
        (pykey ''android_test_artifacts'', PyBool android)]"

section \<open>The Python suite\<close>

definition names_with :: "string \<Rightarrow> test_case list \<Rightarrow> pystr list" where
  "names_with status cases = map fst (filter (\<lambda>(_, s, _). s = status) cases)"

definition deselected_case :: "test_case \<Rightarrow> bool" where
  "deselected_case c =
     (case c of (_, status, reason) \<Rightarrow>
        status = ''skipped''
        \<and> (text_in (str_of ''deselected'') (lower_ascii reason)
           \<or> text_in (str_of ''not run'') (lower_ascii reason)))"

definition mandatory_passing :: "pystr list \<Rightarrow> test_case list \<Rightarrow> test_case list" where
  "mandatory_passing optional cases =
     filter (\<lambda>(name, status, _). status = ''passed'' \<and> name \<notin> set optional) cases"

definition passed_counts :: "int \<Rightarrow> int \<Rightarrow> int \<Rightarrow> suite_result" where
  "passed_counts tests failures skipped =
     \<lparr>ss_tests = tests, ss_failures = failures, ss_errors = 0, ss_skipped = skipped\<rparr>"

definition python_transitions :: "pystr list \<Rightarrow> pystr list" where
  "python_transitions skipped =
     str_of ''mandatory-cases-passed''
     # map (\<lambda>name. optional_case_state (if name \<in> set skipped then ''skipped'' else ''passed'')
                     (case_digest name)) (sort PYTHON_OPTIONAL_CASES)"

definition REGISTRY_EXCLUSIONS :: "pystr list" where
  "REGISTRY_EXCLUSIONS = map str_of
     [''test_android_registry_peer.py'', ''test_remote_registry_acceptance.py'',
      ''test_podman_registry_deployment.py'']"

text \<open>The checks of the cases, in their order; \<^verbatim>\<open>failure_cases\<close> is empty afterwards.\<close>

definition python_suite :: "'s gate_host \<Rightarrow> test_case list \<Rightarrow> (pyval \<times> pystr list, 's) prog" where
  "python_suite H cases =
     (let skipped = names_with ''skipped'' cases in
      thenS (fail_whenS (\<not> set skipped \<subseteq> set OPTIONAL_SKIPS \<union> set OPTIONAL_PASSED_CASES)
               ''Python suite skipped an unapproved mandatory case'')
      (thenS (fail_whenS (\<not> set PYTHON_OPTIONAL_CASES \<subseteq> set (map fst cases))
                ''an approved environmental test was not collected'')
      (thenS (fail_whenS (names_with ''failed'' cases \<noteq> [])
                ''Python suite reported a failed mandatory case'')
      (thenS (require_inventory H ''python-security-matrix'' cases PYTHON_OPTIONAL_CASES None)
      (thenS (fail_whenS (list_ex deselected_case cases)
                ''Python suite reported unapproved deselection metadata'')
        (returnS
          (suite_entry ''python-security-matrix''
             (passed_counts (int (length (mandatory_passing PYTHON_OPTIONAL_CASES cases)))
                (int (length (remdups (names_with ''failed'' cases)))) 0)
             (python_transitions skipped),
           sort (remdups skipped))))))))"

definition python_profile ::
    "'s gate_host \<Rightarrow> pystr \<Rightarrow> environ \<Rightarrow> host_path \<Rightarrow> (pyval \<times> pystr list, 's) prog" where
  "python_profile H python env report =
     bindS (gh_glob H (RootPath (str_of ''tests'')) ''test_*.py'') (\<lambda>names.
     let test_files = sort (map (\<lambda>name. str_of ''tests/'' @ name)
                              (filter (\<lambda>name. name \<notin> set REGISTRY_EXCLUSIONS) names))
     in
     thenS (gate_run H
              (python # map str_of [''-m'', ''pytest'', ''-q'', ''--junitxml''] @ gh_str H report # test_files)
              (env(str_of ''PYTEST_ADDOPTS'' := None)) 1800)
     (bindS (junit_cases H [report]) (python_suite H)))"

section \<open>The Android suite\<close>

definition ANDROID_RESULTS :: host_path where
  "ANDROID_RESULTS = RootPath (str_of ''platforms/android-wallet/build/test-results/testDebugUnitTest'')"

definition ANDROID_COMMAND :: "pystr list" where
  "ANDROID_COMMAND = map str_of
     [''./gradlew'', ''--no-daemon'', ''--dependency-verification=strict'',
      '':platforms:android-wallet:testDebugUnitTest'', ''--rerun-tasks'']"

definition ARTIFACT_ENV :: pystr where
  "ARTIFACT_ENV = str_of ''PORTABLE_LATCH_ARTIFACT_DIR''"

definition KOTLIN_ARTIFACTS :: host_path where
  "KOTLIN_ARTIFACTS = ScratchPath (str_of ''kotlin-artifacts'')"

definition PRODUCERS :: "(string \<times> string) list" where
  "PRODUCERS =
     [(''kotlin-bound.dw'', ''actualKotlinPublicAuthoringExportsBoundAndLegacyCiphertext''),
      (''kotlin-legacy.dw'', ''actualKotlinPublicAuthoringExportsBoundAndLegacyCiphertext''),
      (''kotlin-bignum.dw'', ''largePositiveIntegerRealEncryptedPublicReadersAndWriter'')]"

definition result_file :: "pystr \<Rightarrow> host_path" where
  "result_file name =
     (case ANDROID_RESULTS of
        RootPath directory \<Rightarrow> RootPath (directory @ 47 # name)
      | path \<Rightarrow> path)"

definition produced_by :: "string \<Rightarrow> test_case \<Rightarrow> bool" where
  "produced_by test_name c =
     (case c of (name, status, _) \<Rightarrow>
        text_in (str_of ''PortableLatchTest'') name \<and> text_in (str_of test_name) name
        \<and> status = ''passed'')"

definition kotlin_artifact ::
    "'s gate_host \<Rightarrow> test_case list \<Rightarrow> string \<times> string \<Rightarrow> (pyval, 's) prog" where
  "kotlin_artifact H cases producer =
     (case producer of (filename, test_name) \<Rightarrow>
      let path = child_path KOTLIN_ARTIFACTS filename in
      bindS (gh_is_file H path) (\<lambda>present.
      bindS (if present then gh_size H path else returnS 0) (\<lambda>size.
      thenS (fail_whenS (\<not> present \<or> size = 0) ''Android tests did not produce a required Kotlin artifact'')
      (thenS (fail_whenS (\<not> list_ex (produced_by test_name) cases)
                ''Kotlin artifact producer test did not pass'')
      (bindS (hash_file H path) (\<lambda>digest.
       returnS (artifact_entry (dashed (path_stem (str_of filename))) digest)))))))"

text \<open>\<^verbatim>\<open>next(status for ...)\<close> raises \<^verbatim>\<open>StopIteration\<close> where there is no such case.\<close>

definition status_of :: "pystr \<Rightarrow> test_case list \<Rightarrow> string res" where
  "status_of name cases =
     (case map_of cases name of None \<Rightarrow> Inl PyException | Some (status, _) \<Rightarrow> Inr status)"

definition android_suite ::
    "'s gate_host \<Rightarrow> test_case list \<Rightarrow> (pyval \<times> pyval list, 's) prog" where
  "android_suite H cases =
     thenS (fail_whenS (names_with ''failed'' cases \<noteq> []) ''Android JVM suite reported a failed mandatory test'')
     (thenS (fail_whenS (\<not> set (names_with ''skipped'' cases) \<subseteq> set ANDROID_OPTIONAL_SKIPS)
               ''Android JVM suite skipped an unapproved mandatory case'')
     (thenS (fail_whenS (\<not> set ANDROID_OPTIONAL_SKIPS \<subseteq> set (map fst cases))
               ''Android live-peer optional case was not collected'')
     (thenS (require_inventory H ''android-wallet-jvm-security'' cases ANDROID_OPTIONAL_SKIPS None)
     (bindS (liftS (status_of ANDROID_OPTIONAL_CASE cases)) (\<lambda>state.
      bindS (mapS (kotlin_artifact H cases) PRODUCERS) (\<lambda>artifacts.
      returnS
        (suite_entry ''android-wallet-jvm-security''
           (passed_counts (int (length (mandatory_passing ANDROID_OPTIONAL_SKIPS cases))) 0
              (if state = ''skipped'' then 1 else 0))
           [str_of ''android-jvm-cases-passed'',
            live_peer_state state (case_digest ANDROID_OPTIONAL_CASE)],
         artifacts)))))))"

definition android_profile ::
    "'s gate_host \<Rightarrow> pystr \<Rightarrow> environ \<Rightarrow> (pyval \<times> pyval list, 's) prog" where
  "android_profile H gradle env =
     bindS (gh_is_file H (RootPath (str_of ''gradlew''))) (\<lambda>wrapper.
     thenS (fail_whenS (\<not> wrapper) ''Gradle Wrapper is required for Android JVM acceptance'')
     (thenS (gh_mkdir H KOTLIN_ARTIFACTS False)
     (thenS (gh_mkdir H ANDROID_RESULTS True)
     (bindS (gh_glob H ANDROID_RESULTS ''TEST-*.xml'') (\<lambda>old_reports.
      bindS (mapS (\<lambda>name. gh_unlink H (result_file name)) old_reports) (\<lambda>_.
      thenS (fail_whenS
               (list_ex (\<lambda>c. map_option fst (split_identity c)
                   \<noteq> Some (str_of ''org.decentwallet.wallet.android.AndroidDirectDhtRegistryInteropTest''))
                  ANDROID_OPTIONAL_SKIPS)
               ''Android optional-case allowlist is invalid'')
      (thenS (gate_run H
                (if gradle \<noteq> gh_str H (RootPath (str_of ''gradlew'')) then gradle # tl ANDROID_COMMAND
                 else ANDROID_COMMAND)
                (env(ARTIFACT_ENV \<mapsto> gh_str H KOTLIN_ARTIFACTS)) 1800)
      (bindS (gh_glob H ANDROID_RESULTS ''TEST-*.xml'') (\<lambda>reports.
       bindS (junit_cases H (map result_file (sort reports))) (android_suite H))))))))))"

section \<open>The Registry suite\<close>

definition INTEGRATION_JOBS :: "(string \<times> string option) list" where
  "INTEGRATION_JOBS =
     [(''tests/test_android_registry_peer.py'', None),
      (''tests/test_registry_transport_integration.py'', Some ''registry_integration''),
      (''tests/test_portable_latch_registry_integration.py'', Some ''registry_integration'')]"

definition registry_report :: "nat \<Rightarrow> host_path" where
  "registry_report index =
     ScratchPath (str_of ''registry-integration-'' @ show_nat index @ str_of ''.xml'')"

definition registry_jobs :: "(nat \<times> string \<times> string option) list" where
  "registry_jobs = enumerate 0 INTEGRATION_JOBS"

definition run_registry_job ::
    "'s gate_host \<Rightarrow> environ \<Rightarrow> host_path \<Rightarrow> nat \<times> string \<times> string option \<Rightarrow> (host_path, 's) prog" where
  "run_registry_job H env provider job =
     (case job of (index, test_file, marker) \<Rightarrow>
      thenS (gate_run H
               (map str_of [''uv'', ''run'', ''--locked'', ''--extra'', ''test'', ''--extra'', ''registry'',
                  ''--with-editable'']
                @ gh_str H provider
                # map str_of [''python'', ''-m'', ''pytest'', ''-q'', ''--junitxml'']
                @ gh_str H (registry_report index)
                # map str_of ((case marker of None \<Rightarrow> [] | Some m \<Rightarrow> [''-m'', m]) @ [test_file]))
               (env(str_of ''DECENT_REGISTRY_PATH'' \<mapsto> gh_str H provider)) 2400)
        (returnS (registry_report index)))"

definition check_registry_job ::
    "'s gate_host \<Rightarrow> nat \<times> string \<times> string option \<Rightarrow> (unit, 's) prog" where
  "check_registry_job H job =
     (case job of (index, test_file, _) \<Rightarrow>
      bindS (junit_cases H [registry_report index]) (\<lambda>cases.
      require_inventory H ''local-registry-integration'' cases [] (Some test_file)))"

definition registry_profile :: "'s gate_host \<Rightarrow> environ \<Rightarrow> (pyval, 's) prog" where
  "registry_profile H env =
     bindS (pinned_provider_path H) (\<lambda>provider.
     let registry_env = env(str_of ''PYTEST_ADDOPTS'' := None, str_of ''DECENT_REGISTRY_TEST_PEER'' := None,
                            str_of ''DECENT_REGISTRY_TEST_READBACK_PEER'' := None)
     in
     bindS (mapS (run_registry_job H registry_env provider) registry_jobs) (\<lambda>reports.
     bindS (junit_cases H reports) (\<lambda>cases.
     bindS (mapS (check_registry_job H) registry_jobs) (\<lambda>_.
     thenS (fail_whenS (names_with ''skipped'' cases \<noteq> []) ''Registry integration suite skipped a mandatory test'')
       (suite_summary H ''local-registry-integration'' reports cases)))))"

section \<open>The run\<close>

record gate_args =
  ga_profile :: string
  ga_android_jvm_only :: bool
  ga_receipt :: pystr
  ga_python :: "pystr option"
  ga_gradle :: "pystr option"

text \<open>\<^verbatim>\<open>text or other\<close>.\<close>

definition given_or :: "pystr option \<Rightarrow> pystr \<Rightarrow> pystr" where
  "given_or text other = (case text of None \<Rightarrow> other | Some s \<Rightarrow> if s = [] then other else s)"

definition gate_environ :: "environ \<Rightarrow> environ" where
  "gate_environ environ =
     fold (\<lambda>key env. case environ key of None \<Rightarrow> env | Some v \<Rightarrow> env(key \<mapsto> v))
       (map str_of [''ANDROID_HOME'', ''ANDROID_SDK_ROOT'', ''JAVA_HOME''])
       (environ(ARTIFACT_ENV := None, str_of ''DECENT_REGISTRY_TEST_PEER'' := None,
                str_of ''DECENT_REGISTRY_TEST_READBACK_PEER'' := None))"

definition is_known_answer :: "pyval \<Rightarrow> bool" where
  "is_known_answer artifact =
     (case artifact of PyDict d \<Rightarrow> entry d ''id'' = pykey ''wallet-container-known-answer'' | _ \<Rightarrow> False)"

definition profile_artifacts :: "string \<Rightarrow> pyval list \<Rightarrow> pyval list" where
  "profile_artifacts profile artifacts =
     (if profile = ''core'' then filter is_known_answer artifacts
      else if profile = ''android-jvm'' then filter (\<lambda>a. \<not> is_known_answer a) artifacts
      else artifacts)"

text \<open>The suites and the Kotlin artifacts of a profile, in their order.\<close>

definition run_suites ::
    "'s gate_host \<Rightarrow> gate_args \<Rightarrow> string \<Rightarrow> environ \<Rightarrow> (pyval list \<times> pyval list, 's) prog" where
  "run_suites H args profile env =
     bindS (if profile \<in> {''core'', ''full''} then
              bindS (python_profile H (given_or (ga_python args) (gh_executable H)) env
                       (ScratchPath (str_of ''python-security.xml''))) (\<lambda>(suite, _).
              returnS [suite])
            else returnS []) (\<lambda>python.
     bindS (if profile \<in> {''android-jvm'', ''full''} then
              bindS (android_profile H (given_or (ga_gradle args) (gh_str H (RootPath (str_of ''gradlew'')))) env)
                (\<lambda>(suite, kotlin). returnS ([suite], kotlin))
            else returnS ([], [])) (\<lambda>(android, kotlin).
     bindS (if profile = ''full'' then
              bindS (registry_profile H (env(ARTIFACT_ENV \<mapsto> gh_str H KOTLIN_ARTIFACTS))) (\<lambda>suite.
              returnS [suite])
            else returnS []) (\<lambda>registry.
     returnS (python @ android @ registry, kotlin))))"

text \<open>\<^verbatim>\<open>datetime.now(timezone.utc).isoformat().replace("+00:00", "Z")\<close>.\<close>

fun replace_utc :: "pystr \<Rightarrow> pystr" where
  "replace_utc [] = []"
| "replace_utc (c # s) =
     (if take 6 (c # s) = str_of ''+00:00'' then 90 # replace_utc (drop 5 s) else c # replace_utc s)"

definition make_receipt ::
    "'s gate_host \<Rightarrow> string \<Rightarrow> pystr \<Rightarrow> pystr \<Rightarrow> pyval list \<Rightarrow> pyval list \<Rightarrow> pyval" where
  "make_receipt H profile created_at commit suites artifacts =
     PyDict
       [(pykey ''schema'', PyStr RECEIPT_SCHEMA), (pykey ''created_at'', PyStr created_at),
        (pykey ''profile'', pykey profile), (pykey ''verdict'', pykey ''passed''),
        (pykey ''commit'', PyStr commit),
        (pykey ''environment'', runtime_metadata H (profile \<noteq> ''core'')),
        (pykey ''suites'', PyList suites), (pykey ''artifacts'', PyList artifacts)]"

definition run_acceptance :: "'s gate_host \<Rightarrow> gate_args \<Rightarrow> (pydict, 's) prog" where
  "run_acceptance H args =
     (let env = gate_environ (gh_environ H);
          profile = (if ga_android_jvm_only args then ''android-jvm'' else ga_profile args)
      in
      thenS (fail_on (\<lambda>e. e = PyImportError) ''locked pytest dependency is required'' (gh_import_pytest H))
      (bindS (test_only_artifacts H (profile \<noteq> ''core'')) (\<lambda>vectors.
       thenS (gh_make_scratch H)
       (finallyS
          (bindS (run_suites H args profile env) (\<lambda>(suites, kotlin).
           bindS (gh_now H) (\<lambda>now.
           bindS (source_commit H) (\<lambda>commit.
           liftS (validate_receipt
                    (make_receipt H profile (replace_utc now) commit suites
                       (profile_artifacts profile vectors @ kotlin)))))))
          (gh_remove_scratch H)))))"

section \<open>Writing the receipt\<close>

text \<open>\<^verbatim>\<open>json.dumps(value, sort_keys=True, indent=2)\<close>: the text is ASCII.\<close>

definition hex_escape :: "nat \<Rightarrow> pystr" where
  "hex_escape c =
     [92, 117, hex_digit (c div 4096), hex_digit (c div 256 mod 16), hex_digit (c div 16 mod 16),
      hex_digit (c mod 16)]"

definition ascii_escape :: "nat \<Rightarrow> pystr" where
  "ascii_escape c =
     (if c < 127 then json_escape c
      else if c < 0x10000 then hex_escape c
      else hex_escape (0xD800 + (c - 0x10000) div 0x400) @ hex_escape (0xDC00 + (c - 0x10000) mod 0x400))"

definition ascii_string :: "pystr \<Rightarrow> pystr" where
  "ascii_string s = 34 # concat (map ascii_escape s) @ [34]"

definition new_line :: "nat \<Rightarrow> pystr" where
  "new_line level = 10 # replicate (2 * level) 32"

fun join_lines :: "nat \<Rightarrow> pystr list \<Rightarrow> pystr" where
  "join_lines level [] = []"
| "join_lines level [x] = x"
| "join_lines level (x # xs) = x @ 44 # new_line level @ join_lines level xs"

definition bracketed :: "nat \<Rightarrow> nat \<Rightarrow> nat \<Rightarrow> pystr list \<Rightarrow> pystr" where
  "bracketed left right level xs =
     (if xs = [] then [left, right]
      else left # new_line (Suc level) @ join_lines (Suc level) xs @ new_line level @ [right])"

function (sequential) json_indent :: "nat \<Rightarrow> pyval \<Rightarrow> pystr res" where
  "json_indent level (PyStr s) = Inr (ascii_string s)"
| "json_indent level (PyList xs) =
     bindE (mapE (json_indent (Suc level)) xs) (\<lambda>ts. Inr (bracketed 91 93 level ts))"
| "json_indent level (PyDict d) =
     bindE (mapE (\<lambda>kv. bindE (json_indent (Suc level) (snd kv)) (\<lambda>t.
               (case fst kv of
                  PyStr k \<Rightarrow> Inr (k, ascii_string k @ [58, 32] @ t)
                | _ \<Rightarrow> Inl PyTypeError))) d)
       (\<lambda>items. Inr (bracketed 123 125 level (map snd (sort_key fst items))))"
| "json_indent level v = json_dumps v"
  by pat_completeness auto

termination json_indent
  by (relation "measure (size \<circ> snd)") (auto dest: size_snd_dict size_elem_list)

text \<open>\<^verbatim>\<open>open(path, "xb")\<close>.\<close>

definition os_create_new :: "fname \<Rightarrow> files \<Rightarrow> nat res \<times> files" where
  "os_create_new p fs =
     (if fs_names fs p \<noteq> None then (Inl PyFileExistsError, fs)
      else
        (let n = fs_next fs in
         (Inr n,
          fs\<lparr>fs_names := (fs_names fs)(p \<mapsto> n), fs_data := (fs_data fs)(n := []),
             fs_next := Suc n, fs_synced := fs_synced fs - {n}\<rparr>)))"

text \<open>The \<^verbatim>\<open>with\<close> block closes the stream; \<open>flush\<close> and \<open>close\<close> have no effect on the model.\<close>

definition fill_receipt :: "nat \<Rightarrow> bytes \<Rightarrow> (unit, 'x disk_scheme) prog" where
  "fill_receipt ino payload =
     finallyS
       (thenS (syscall (os_write ino payload))
       (thenS (syscall os_nop)
         (syscall (os_fsync ino))))
       (syscall os_nop)"

definition receipt_temporary :: "pystr \<Rightarrow> fname" where
  "receipt_temporary name = Path (46 # name @ str_of ''.tmp'')"

definition install_receipt :: "pystr \<Rightarrow> bytes \<Rightarrow> (unit, 'x disk_scheme) prog" where
  "install_receipt name payload =
     exceptS
       (bindS (syscall (os_create_new (receipt_temporary name))) (\<lambda>ino.
        thenS (fill_receipt ino payload)
          (syscall (os_replace (receipt_temporary name) (Path name)))))
       (\<lambda>e. if is_os_error e then
              thenS (ignore_os_error
                       (exceptS (syscall (os_unlink (receipt_temporary name)))
                          (\<lambda>e. if e = PyFileNotFoundError then returnS () else raiseS e)))
                (failS ''receipt could not be written safely'')
            else raiseS e)"

text \<open>The text is ASCII, so each character is one byte; creating the parent directory may
  fail.\<close>

definition write_receipt :: "pydict \<Rightarrow> pystr \<Rightarrow> (unit, 'x disk_scheme) prog" where
  "write_receipt receipt name =
     bindS (liftS (validate_receipt (PyDict receipt))) (\<lambda>valid.
     bindS (liftS (json_indent 0 (PyDict valid))) (\<lambda>text.
     thenS (syscall os_nop)
       (install_receipt name (map of_nat (text @ [10])))))"

section \<open>The command\<close>

definition gate_main ::
    "'x disk_scheme gate_host \<Rightarrow> gate_args \<Rightarrow> (int, 'x disk_scheme) prog" where
  "gate_main H args =
     bindS
       (exceptS
          (bindS (run_acceptance H args) (\<lambda>receipt.
           thenS (write_receipt receipt (ga_receipt args)) (returnS (Inr receipt))))
          (\<lambda>e. case e of ReceiptValidationError message \<Rightarrow> returnS (Inl message) | _ \<Rightarrow> raiseS e))
       (\<lambda>verdict.
     (case verdict of
        Inl message \<Rightarrow>
          thenS (gh_print H (str_of (''Security acceptance blocked: '' @ message))) (returnS 1)
      | Inr receipt \<Rightarrow>
          bindS (hash_file H (GivenPath (ga_receipt args))) (\<lambda>digest.
          thenS (gh_print H
                   (str_of ''Security acceptance passed: profile=''
                    @ (case entry receipt ''profile'' of PyStr p \<Rightarrow> p | _ \<Rightarrow> [])
                    @ str_of '' suites=''
                    @ show_nat (case entry receipt ''suites'' of PyList xs \<Rightarrow> length xs | _ \<Rightarrow> 0)
                    @ str_of '' receipt_sha256='' @ digest))
            (returnS 0))))"

end
