(* ===== verification/Spec2Isabelle.thy ===== *)
theory Spec2Isabelle
  imports Identity_Properties Signer_Properties Payload_Codec Rotation_Properties Registry_Properties
    Transport_Properties Cli_Properties
    Storage_Properties Container_Facts Promotion_Properties Wallet_Properties Acceptance_Run
begin

text \<open>
  Verification of the wallet package \<^verbatim>\<open>src/decent_wallet\<close>.
\<close>

end
